(* ===== verification/MTP_Prelude.thy ===== *)
theory MTP_Prelude
  imports Main "HOL-Library.Sublist"
begin

text \<open>
  Shared vocabulary of the development: the outcomes of a Go call (a value, an error, a
  panic), the sequencing of fallible calls over a state, Go's maps, and the functions of
  the packages \<open>strings\<close> and \<open>fmt\<close> that the repository uses. Go strings are byte
  sequences, and so are HOL's \<^typ>\<open>string\<close>s.
\<close>

named_theorems go_defs "unfoldings of the Go library operations"
named_theorems res_simps "inversion of sequenced calls"


section \<open>Outcomes of a call\<close>

text \<open>
  A Go call returns normally, returns an error, or panics. The panics the code can raise
  are kept apart by their cause.
\<close>

datatype go_panic =
    NilDeref
  | IndexOutOfRange nat nat
  | MustParseFailed string
  | PanicMsg string

datatype ('e, 'a) res = Ok 'a | Err 'e | Panic go_panic

fun res_bind :: "('e, 'a) res \<Rightarrow> ('a \<Rightarrow> ('e, 'b) res) \<Rightarrow> ('e, 'b) res" where
  "res_bind (Ok a) f = f a"
| "res_bind (Err e) f = Err e"
| "res_bind (Panic p) f = Panic p"

text \<open>
  \<open>then_try\<close> is the idiom \<open>if err := call(); err != nil { return err }\<close> over an explicit
  state: the continuation runs in the state the call left, an error or a panic ends the
  sequence in that state.
\<close>

fun then_try :: "'w \<times> ('e, 'a) res \<Rightarrow> ('w \<Rightarrow> 'a \<Rightarrow> 'w \<times> ('f, 'b) res) \<Rightarrow> ('e \<Rightarrow> 'f)
    \<Rightarrow> 'w \<times> ('f, 'b) res" where
  "then_try (w, Ok a) k wrap = k w a"
| "then_try (w, Err e) k wrap = (w, Err (wrap e))"
| "then_try (w, Panic p) k wrap = (w, Panic p)"

lemma res_bind_Ok_iff [res_simps]:
  "res_bind r f = Ok b \<longleftrightarrow> (\<exists>a. r = Ok a \<and> f a = Ok b)"
  by (cases r) auto

lemma res_bind_Panic_iff [res_simps]:
  "res_bind r f = Panic p \<longleftrightarrow> r = Panic p \<or> (\<exists>a. r = Ok a \<and> f a = Panic p)"
  by (cases r) auto

lemma res_bind_Err_iff [res_simps]:
  "res_bind r f = Err e \<longleftrightarrow> r = Err e \<or> (\<exists>a. r = Ok a \<and> f a = Err e)"
  by (cases r) auto

lemma then_try_Ok_iff [res_simps]:
  "then_try p k wrap = (w', Ok b) \<longleftrightarrow> (\<exists>w a. p = (w, Ok a) \<and> k w a = (w', Ok b))"
  by (cases "(p, k, wrap)" rule: then_try.cases) auto

lemma then_try_cases:
  obtains (ok) w a where "p = (w, Ok a)" and "then_try p k wrap = k w a"
  | (err) w e where "p = (w, Err e)" and "then_try p k wrap = (w, Err (wrap e))"
  | (panic) w x where "p = (w, Panic x)" and "then_try p k wrap = (w, Panic x)"
  by (cases "(p, k, wrap)" rule: then_try.cases) auto

lemma res_call_cases [case_names Ok Err Panic]:
  obtains (Ok) w a where "p = (w, Ok a)" | (Err) w e where "p = (w, Err e)" | (Panic) w x where "p = (w, Panic x)"
  by (cases p; cases "snd p") auto

text \<open>
  An invariant of the state that every call keeps is kept by the sequence, however it ends.
\<close>

lemma then_try_invariant:
  assumes "I (fst p)" and "\<And>w a. p = (w, Ok a) \<Longrightarrow> I (fst (k w a))"
  shows "I (fst (then_try p k wrap))"
  using assms by (cases "(p, k, wrap)" rule: then_try.cases) auto

text \<open>Indexing a slice panics out of range.\<close>

definition go_index :: "'a list \<Rightarrow> nat \<Rightarrow> ('e, 'a) res" where
  "go_index xs i =
     (if i < length xs then Ok (xs ! i) else Panic (IndexOutOfRange i (length xs)))"

lemma go_index_Ok_iff [res_simps]: "go_index xs i = Ok x \<longleftrightarrow> i < length xs \<and> x = xs ! i"
  by (auto simp: go_index_def)


section \<open>Maps\<close>

text \<open>
  A Go map is an association list read through \<^const>\<open>map_of\<close>: its length counts the
  distinct keys, and ranging over it visits each key once with the value a lookup gives.
  The order of the visit is not observable in the code, which only asks whether some
  entry satisfies a condition.
\<close>

type_synonym ('k, 'v) gomap = "('k \<times> 'v) list"

definition gm_len :: "('k, 'v) gomap \<Rightarrow> nat" where
  "gm_len m = length (remdups (map fst m))"

definition gm_exists :: "('k \<Rightarrow> 'v \<Rightarrow> bool) \<Rightarrow> ('k, 'v) gomap \<Rightarrow> bool" where
  "gm_exists P m =
     list_ex (\<lambda>k. case map_of m k of None \<Rightarrow> False | Some v \<Rightarrow> P k v) (map fst m)"

definition gm_get :: "'v \<Rightarrow> ('k, 'v) gomap \<Rightarrow> 'k \<Rightarrow> 'v" where
  \<comment> \<open>\<open>m[k]\<close>: the zero value of the element type when the key is missing\<close>
  "gm_get zero m k = (case map_of m k of None \<Rightarrow> zero | Some v \<Rightarrow> v)"

lemma gm_len_card: "gm_len m = card (dom (map_of m))"
  by (simp add: gm_len_def dom_map_of_conv_image_fst length_remdups_card_conv)

lemma gm_exists_iff: "gm_exists P m \<longleftrightarrow> (\<exists>k v. map_of m k = Some v \<and> P k v)"
proof
  assume "gm_exists P m"
  then show "\<exists>k v. map_of m k = Some v \<and> P k v"
    by (auto simp: gm_exists_def list_ex_iff split: option.splits)
next
  assume "\<exists>k v. map_of m k = Some v \<and> P k v"
  then obtain k v where kv: "map_of m k = Some v" "P k v" by blast
  from kv(1) have "k \<in> set (map fst m)"
    by (metis domI dom_map_of_conv_image_fst image_set)
  with kv show "gm_exists P m"
    unfolding gm_exists_def list_ex_iff by force
qed

text \<open>
  Two maps of the same length, one of which contains the entries of the other, are equal:
  the argument behind every \<open>len(a) != len(b)\<close> followed by a one-sided comparison.
\<close>

lemma map_of_eq_if_len_eq:
  assumes len: "gm_len a = gm_len b" and sub: "map_of b \<subseteq>\<^sub>m map_of a"
  shows "map_of a = map_of b"
proof -
  have "dom (map_of b) \<subseteq> dom (map_of a)" using sub by (rule map_le_implies_dom_le)
  moreover have "card (dom (map_of b)) = card (dom (map_of a))"
    using len by (simp add: gm_len_card)
  ultimately have "dom (map_of b) = dom (map_of a)"
    by (simp add: card_subset_eq finite_dom_map_of)
  with sub show ?thesis
    by (metis map_le_antisym map_le_def)
qed


section \<open>Lists\<close>

lemma find_append:
  "find P (xs @ ys) = (case find P xs of None \<Rightarrow> find P ys | Some x \<Rightarrow> Some x)"
  by (induction xs) auto


section \<open>Strings\<close>

definition hasPrefix :: "string \<Rightarrow> string \<Rightarrow> bool" where
  "hasPrefix s p = prefix p s"

text \<open>\<open>strings.Split\<close> for a separator of one byte; the result is never empty.\<close>

fun split_on :: "char \<Rightarrow> string \<Rightarrow> string list" where
  "split_on c [] = [[]]"
| "split_on c (x # xs) =
     (if x = c then [] # split_on c xs
      else (case split_on c xs of [] \<Rightarrow> [[x]] | y # ys \<Rightarrow> (x # y) # ys))"

text \<open>\<open>strings.Join\<close>.\<close>

fun join :: "string \<Rightarrow> string list \<Rightarrow> string" where
  "join sep [] = []"
| "join sep [x] = x"
| "join sep (x # y # ys) = x @ sep @ join sep (y # ys)"

lemma hasPrefix_append [simp]: "hasPrefix (p @ s) p"
  by (simp add: hasPrefix_def)

lemma split_on_nonempty [simp]: "split_on c s \<noteq> []"
  by (cases s) (auto split: list.splits)

lemma split_on_no_sep: "c \<notin> set s \<Longrightarrow> split_on c s = [s]"
  by (induction s) auto

lemma split_on_append: "c \<notin> set a \<Longrightarrow> split_on c (a @ c # b) = a # split_on c b"
  by (induction a) auto

lemma split_on_pieces: "x \<in> set (split_on c s) \<Longrightarrow> c \<notin> set x"
proof (induction s arbitrary: x)
  case (Cons y ys)
  then show ?case by (cases "split_on c ys") (auto split: if_splits)
qed simp

lemma length_split_on: "length (split_on c s) = Suc (length (filter (\<lambda>x. x = c) s))"
  by (induction s) (auto split: list.splits)

lemma join_split_on: "join [c] (split_on c s) = s"
proof (induction s)
  case (Cons x xs)
  then show ?case
    by (cases "split_on c xs" rule: remdups_adj.cases) auto
qed simp

lemma split_on_join:
  assumes "xs \<noteq> []" and "\<And>x. x \<in> set xs \<Longrightarrow> c \<notin> set x"
  shows "split_on c (join [c] xs) = xs"
  using assms
proof (induction "[c]" xs rule: join.induct)
  case (3 x y ys)
  then show ?case by (simp add: split_on_append)
qed (auto simp: split_on_no_sep)

lemma split_on_sep: "split_on c (a @ c # b) = split_on c a @ split_on c b"
proof (induction a)
  case (Cons x a)
  then show ?case by (cases "split_on c a") auto
qed simp

lemma split_on_append_length:
  "length (split_on c (a @ c # b)) = length (split_on c a) + length (split_on c b)"
  by (simp add: length_split_on)

end
