(* ===== verification/K8s_Types.thy ===== *)
theory K8s_Types
  imports MTP_Prelude
begin

text \<open>
  Data shared by the components: the tenant resource of \<open>pkg/api/v1/types.go\<close> and the
  interface of Kubernetes' resource quantities. \<open>resource.Quantity\<close> is code of the module
  \<open>k8s.io/apimachinery\<close>, not of the repository: its type is a type variable \<open>'q\<close>, and the
  four operations the code calls are the fields of a record that the definitions take as an
  argument.
\<close>

section \<open>Quantities\<close>

record 'q quantity_api =
  qa_parse :: "string \<Rightarrow> 'q option"      \<comment> \<open>\<open>resource.ParseQuantity\<close>; \<open>None\<close> is an error\<close>
  qa_zero :: 'q                          \<comment> \<open>the zero value \<open>Quantity{}\<close>\<close>
  qa_equal :: "'q \<Rightarrow> 'q \<Rightarrow> bool"         \<comment> \<open>\<open>Quantity.Equal\<close>\<close>
  qa_is_zero :: "'q \<Rightarrow> bool"             \<comment> \<open>\<open>Quantity.IsZero\<close>\<close>

text \<open>The documented behaviour the proofs rely on.\<close>

definition quantity_laws :: "'q quantity_api \<Rightarrow> bool" where
  "quantity_laws Q \<longleftrightarrow> (\<forall>q. qa_equal Q q q) \<and> qa_is_zero Q (qa_zero Q)"

type_synonym 'q resource_list = "(string, 'q) gomap"

definition mustParse :: "'q quantity_api \<Rightarrow> string \<Rightarrow> ('e, 'q) res" where
  \<comment> \<open>\<open>resource.MustParse\<close>\<close>
  "mustParse Q s =
     (case qa_parse Q s of None \<Rightarrow> Panic (MustParseFailed s) | Some q \<Rightarrow> Ok q)"

definition resource_of :: "'q quantity_api \<Rightarrow> 'q resource_list \<Rightarrow> string \<Rightarrow> 'q" where
  \<comment> \<open>\<open>ResourceList.Cpu()\<close>, \<open>.Memory()\<close>: the entry, or the zero quantity\<close>
  "resource_of Q rl name = gm_get (qa_zero Q) rl name"

lemma mustParse_Ok_iff [res_simps]: "mustParse Q s = Ok q \<longleftrightarrow> qa_parse Q s = Some q"
  by (auto simp: mustParse_def split: option.splits)

text \<open>
  An instance of the interface, used only to show that the laws can hold: quantities kept
  as the text they were written as.
\<close>

definition text_quantities :: "string quantity_api" where
  "text_quantities =
     \<lparr>qa_parse = (\<lambda>s. if s = [] then None else Some s), qa_zero = ''0'',
      qa_equal = (=), qa_is_zero = (\<lambda>s. s = ''0'')\<rparr>"

lemma text_quantities_laws: "quantity_laws text_quantities"
  by (simp add: quantity_laws_def text_quantities_def)


section \<open>The tenant resource\<close>

record owner_reference =
  or_apiVersion :: string
  or_kind :: string
  or_name :: string
  or_uid :: string
  or_controller :: "bool option"

record object_meta =
  om_name :: string
  om_namespace :: string
  om_uid :: string
  om_resourceVersion :: string
  om_labels :: "(string, string) gomap"
  om_annotations :: "(string, string) gomap"
  om_ownerReferences :: "owner_reference list"
  om_finalizers :: "string list"
  om_creationTimestamp :: "nat option"
  om_deletionTimestamp :: "nat option"

definition empty_meta :: object_meta where
  "empty_meta = \<lparr>om_name = [], om_namespace = [], om_uid = [], om_resourceVersion = [],
     om_labels = [], om_annotations = [], om_ownerReferences = [], om_finalizers = [],
     om_creationTimestamp = None, om_deletionTimestamp = None\<rparr>"

record tenant_spec =
  ts_name :: string
  ts_tier :: string
  ts_ownerEmail :: string
  ts_admins :: "string list"
  ts_operators :: "string list"

record condition =
  \<comment> \<open>\<open>metav1.Condition\<close>, which no code of the repository reads\<close>
  cd_type :: string
  cd_status :: string
  cd_reason :: string
  cd_message :: string

record tenant_status =
  tst_phase :: string
  tst_namespace :: string
  tst_conditions :: "condition list"

record tenant =
  t_meta :: object_meta
  t_spec :: tenant_spec
  t_status :: tenant_status

definition TierFree :: string where "TierFree = ''free''"
definition TierPro :: string where "TierPro = ''pro''"
definition TierEnterprise :: string where "TierEnterprise = ''enterprise''"

definition TenantPhaseActive :: string where "TenantPhaseActive = ''Active''"

lemmas tier_defs = TierFree_def TierPro_def TierEnterprise_def

definition empty_tenant :: tenant where
  \<comment> \<open>the zero value \<open>v1.Tenant{}\<close>\<close>
  "empty_tenant = \<lparr>t_meta = empty_meta,
     t_spec = \<lparr>ts_name = [], ts_tier = [], ts_ownerEmail = [], ts_admins = [], ts_operators = []\<rparr>,
     t_status = \<lparr>tst_phase = [], tst_namespace = [], tst_conditions = []\<rparr>\<rparr>"

definition SchemeGroupVersion :: string where
  \<comment> \<open>\<open>SchemeGroupVersion.String()\<close>: group, a slash, version\<close>
  "SchemeGroupVersion = ''multitenant.k8s-mtp.io'' @ ''/'' @ ''v1''"

end
