(* ===== verification/Store.thy ===== *)
theory Store
  imports K8s_Types "HOL-Library.Multiset"
begin

text \<open>
  The tenant store, \<open>internal/store\<close>: the tables of \<open>migrations/001_initial_schema.up.sql\<close>
  (without \<open>audit_logs\<close>, which no code touches), and one definition per method of
  \<open>Database\<close>, with the effect of its SQL statement on the tables. PostgreSQL itself is a
  parameter: how it reads a UUID and a bounded text, what time it is, in which order it returns
  rows, and which statements fail, either before they run or with the answer lost after it.
\<close>

section \<open>Tables\<close>

record tenant_row =
  tr_id :: string
  tr_name :: string
  tr_namespace :: string
  tr_tier :: string
  tr_owner_email :: string
  tr_created_at :: nat
  tr_updated_at :: nat
  tr_deleted_at :: "nat option"

record member_row =
  mr_tenant_id :: string
  mr_user_id :: string
  mr_role :: string
  mr_created_at :: nat

record db =
  db_tenants :: "tenant_row list"
  db_members :: "member_row list"
  db_seq :: nat                      \<comment> \<open>statements sent so far\<close>

datatype db_error =
    DriverError string
  | InvalidUuid string
  | ValueTooLong string
  | UniqueViolation string
  | ForeignKeyViolation string
  | NoRows

datatype fault = NotRun string | Unacked string

record pg =
  pg_uuid :: "string \<Rightarrow> string option"            \<comment> \<open>text to uuid, printed back\<close>
  pg_varchar :: "nat \<Rightarrow> string \<Rightarrow> string option"  \<comment> \<open>text to \<open>varchar(n)\<close>\<close>
  pg_now :: "nat \<Rightarrow> nat"                         \<comment> \<open>\<open>NOW()\<close> of the n-th statement\<close>
  pg_scan :: "nat \<Rightarrow> tenant_row list \<Rightarrow> tenant_row list"
  pg_scan_members :: "nat \<Rightarrow> member_row list \<Rightarrow> member_row list"
  pg_fault :: "nat \<Rightarrow> fault option"

definition pg_laws :: "pg \<Rightarrow> bool" where
  "pg_laws P \<longleftrightarrow>
     (\<forall>s u. pg_uuid P s = Some u \<longrightarrow> pg_uuid P u = Some u)
     \<and> (\<forall>n s. length s \<le> n \<longrightarrow> pg_varchar P n s = Some s)
     \<and> (\<forall>k rs. mset (pg_scan P k rs) = mset rs)
     \<and> (\<forall>k ms. mset (pg_scan_members P k ms) = mset ms)"

definition exec :: "pg \<Rightarrow> (nat \<Rightarrow> db \<Rightarrow> db \<times> (db_error, 'a) res) \<Rightarrow> db \<Rightarrow> db \<times> (db_error, 'a) res" where
  \<comment> \<open>one statement: it gets the number of the statement, for the clock and the row order\<close>
  "exec P stmt d =
     (let k = db_seq d; d' = d\<lparr>db_seq := Suc k\<rparr> in
      case pg_fault P k of
        None \<Rightarrow> stmt k d'
      | Some (NotRun e) \<Rightarrow> (d', Err (DriverError e))
      | Some (Unacked e) \<Rightarrow> (fst (stmt k d'), Err (DriverError e)))"

definition uuid_param :: "pg \<Rightarrow> string \<Rightarrow> (db_error, string) res" where
  "uuid_param P s = (case pg_uuid P s of None \<Rightarrow> Err (InvalidUuid s) | Some u \<Rightarrow> Ok u)"

definition varchar_param :: "pg \<Rightarrow> nat \<Rightarrow> string \<Rightarrow> (db_error, string) res" where
  "varchar_param P n s = (case pg_varchar P n s of None \<Rightarrow> Err (ValueTooLong s) | Some v \<Rightarrow> Ok v)"

definition with_params :: "('e, 'p) res \<Rightarrow> ('p \<Rightarrow> 'w \<Rightarrow> 'w \<times> ('e, 'a) res) \<Rightarrow> 'w \<Rightarrow> 'w \<times> ('e, 'a) res" where
  \<comment> \<open>a statement whose parameters do not convert fails without running\<close>
  "with_params r f w = (case r of Ok p \<Rightarrow> f p w | Err e \<Rightarrow> (w, Err e) | Panic x \<Rightarrow> (w, Panic x))"

definition live_row :: "string \<Rightarrow> tenant_row \<Rightarrow> bool" where
  \<comment> \<open>\<open>WHERE id = $1 AND deleted_at IS NULL\<close>\<close>
  "live_row u r \<longleftrightarrow> tr_id r = u \<and> tr_deleted_at r = None"


section \<open>Tenants\<close>

definition row_tenant :: "tenant_row \<Rightarrow> tenant" where
  \<comment> \<open>the five columns the queries scan into a new \<open>v1.Tenant\<close>\<close>
  "row_tenant r = empty_tenant\<lparr>
     t_meta := empty_meta\<lparr>om_uid := tr_id r\<rparr>,
     t_spec := (t_spec empty_tenant)\<lparr>ts_name := tr_name r, ts_tier := tr_tier r,
                                     ts_ownerEmail := tr_owner_email r\<rparr>,
     t_status := (t_status empty_tenant)\<lparr>tst_namespace := tr_namespace r\<rparr>\<rparr>"

definition tenant_params :: "pg \<Rightarrow> tenant \<Rightarrow> (db_error, string \<times> string \<times> string \<times> string \<times> string) res" where
  "tenant_params P t =
     res_bind (uuid_param P (om_uid (t_meta t))) (\<lambda>uid.
     res_bind (varchar_param P 63 (ts_name (t_spec t))) (\<lambda>name.
     res_bind (varchar_param P 63 (tst_namespace (t_status t))) (\<lambda>namespace.
     res_bind (varchar_param P 20 (ts_tier (t_spec t))) (\<lambda>tier.
     res_bind (varchar_param P 255 (ts_ownerEmail (t_spec t))) (\<lambda>email.
       Ok (uid, name, namespace, tier, email))))))"

definition insert_tenant ::
    "nat \<Rightarrow> string \<times> string \<times> string \<times> string \<times> string \<Rightarrow> db \<Rightarrow> db \<times> (db_error, nat) res" where
  \<comment> \<open>\<open>INSERT \<dots> ON CONFLICT (name) DO NOTHING RETURNING created_at\<close>\<close>
  "insert_tenant now p d =
     (let (uid, name, namespace, tier, email) = p in
      if name \<in> set (map tr_name (db_tenants d)) then (d, Err NoRows)
      else if uid \<in> set (map tr_id (db_tenants d)) then (d, Err (UniqueViolation ''tenants_pkey''))
      else if namespace \<in> set (map tr_namespace (db_tenants d)) then
        (d, Err (UniqueViolation ''tenants_namespace_key''))
      else
        (d\<lparr>db_tenants := db_tenants d @
            [\<lparr>tr_id = uid, tr_name = name, tr_namespace = namespace, tr_tier = tier,
              tr_owner_email = email, tr_created_at = now, tr_updated_at = now,
              tr_deleted_at = None\<rparr>]\<rparr>, Ok now))"

definition CreateTenant :: "pg \<Rightarrow> tenant \<Rightarrow> db \<Rightarrow> db \<times> (db_error, tenant) res" where
  \<comment> \<open>no row back (a name conflict) is not an error; on success the tenant gets the time\<close>
  "CreateTenant P t d =
     (case exec P (\<lambda>k. with_params (tenant_params P t) (insert_tenant (pg_now P k))) d of
        (d', Ok created) \<Rightarrow>
          (d', Ok (t\<lparr>t_meta := (t_meta t)\<lparr>om_creationTimestamp := Some created\<rparr>\<rparr>))
      | (d', Err NoRows) \<Rightarrow> (d', Ok t)
      | (d', Err e) \<Rightarrow> (d', Err e)
      | (d', Panic x) \<Rightarrow> (d', Panic x))"

definition select_tenant :: "(tenant_row \<Rightarrow> bool) \<Rightarrow> db \<Rightarrow> db \<times> (db_error, tenant) res" where
  "select_tenant P d =
     (d, case find (\<lambda>r. P r \<and> tr_deleted_at r = None) (db_tenants d) of
           None \<Rightarrow> Err NoRows | Some r \<Rightarrow> Ok (row_tenant r))"

definition GetTenantByID :: "pg \<Rightarrow> string \<Rightarrow> db \<Rightarrow> db \<times> (db_error, tenant option) res" where
  \<comment> \<open>no row is \<open>nil, nil\<close>\<close>
  "GetTenantByID P i d =
     (case exec P (\<lambda>k. with_params (uuid_param P i) (\<lambda>u. select_tenant (\<lambda>r. tr_id r = u))) d of
        (d', Ok t) \<Rightarrow> (d', Ok (Some t))
      | (d', Err NoRows) \<Rightarrow> (d', Ok None)
      | (d', Err e) \<Rightarrow> (d', Err e)
      | (d', Panic x) \<Rightarrow> (d', Panic x))"

definition GetTenantByName :: "pg \<Rightarrow> string \<Rightarrow> db \<Rightarrow> db \<times> (db_error, tenant) res" where
  "GetTenantByName P name d = exec P (\<lambda>k. select_tenant (\<lambda>r. tr_name r = name)) d"

definition ListTenants :: "pg \<Rightarrow> db \<Rightarrow> db \<times> (db_error, tenant list) res" where
  "ListTenants P d =
     exec P (\<lambda>k d. (d, Ok (map row_tenant
        (pg_scan P k (filter (\<lambda>r. tr_deleted_at r = None) (db_tenants d)))))) d"

definition change_rows :: "(tenant_row \<Rightarrow> bool) \<Rightarrow> (tenant_row \<Rightarrow> tenant_row) \<Rightarrow> db \<Rightarrow> db" where
  "change_rows P f d = d\<lparr>db_tenants := map (\<lambda>r. if P r then f r else r) (db_tenants d)\<rparr>"

definition update_params :: "pg \<Rightarrow> tenant \<Rightarrow> (db_error, string \<times> string \<times> string) res" where
  "update_params P t =
     res_bind (varchar_param P 20 (ts_tier (t_spec t))) (\<lambda>tier.
     res_bind (varchar_param P 255 (ts_ownerEmail (t_spec t))) (\<lambda>email.
     res_bind (uuid_param P (om_uid (t_meta t))) (\<lambda>uid. Ok (tier, email, uid))))"

definition UpdateTenant :: "pg \<Rightarrow> tenant \<Rightarrow> db \<Rightarrow> db \<times> (db_error, unit) res" where
  "UpdateTenant P t d =
     exec P (\<lambda>k. with_params (update_params P t) (\<lambda>(tier, email, uid) d.
       (change_rows (live_row uid)
          (\<lambda>r. r\<lparr>tr_tier := tier, tr_owner_email := email, tr_updated_at := pg_now P k\<rparr>) d, Ok ()))) d"

definition DeleteTenant :: "pg \<Rightarrow> string \<Rightarrow> db \<Rightarrow> db \<times> (db_error, unit) res" where
  "DeleteTenant P i d =
     exec P (\<lambda>k. with_params (uuid_param P i) (\<lambda>u d.
       (change_rows (live_row u) (\<lambda>r. r\<lparr>tr_deleted_at := Some (pg_now P k)\<rparr>) d, Ok ()))) d"

definition HardDeleteTenant :: "pg \<Rightarrow> string \<Rightarrow> db \<Rightarrow> db \<times> (db_error, unit) res" where
  \<comment> \<open>the members go with the row (\<open>ON DELETE CASCADE\<close>)\<close>
  "HardDeleteTenant P i d =
     exec P (\<lambda>k. with_params (uuid_param P i) (\<lambda>u d.
       (d\<lparr>db_tenants := filter (\<lambda>r. tr_id r \<noteq> u) (db_tenants d),
          db_members := filter (\<lambda>m. mr_tenant_id m \<noteq> u) (db_members d)\<rparr>, Ok ()))) d"


section \<open>Members\<close>

record member =
  m_UserID :: string
  m_Role :: string
  m_CreatedAt :: nat

definition member_params :: "pg \<Rightarrow> string \<Rightarrow> string \<Rightarrow> string \<Rightarrow> (db_error, string \<times> string \<times> string) res" where
  "member_params P tenantID userID role =
     res_bind (uuid_param P tenantID) (\<lambda>u.
     res_bind (varchar_param P 255 userID) (\<lambda>user.
     res_bind (varchar_param P 20 role) (\<lambda>r. Ok (u, user, r))))"

definition upsert_member :: "nat \<Rightarrow> string \<times> string \<times> string \<Rightarrow> db \<Rightarrow> db \<times> (db_error, unit) res" where
  \<comment> \<open>\<open>INSERT \<dots> ON CONFLICT (tenant_id, user_id) DO UPDATE SET ROLE = $3\<close>\<close>
  "upsert_member now p d =
     (let (u, user, role) = p in
      if (u, user) \<in> set (map (\<lambda>m. (mr_tenant_id m, mr_user_id m)) (db_members d)) then
        (d\<lparr>db_members := map (\<lambda>m. if mr_tenant_id m = u \<and> mr_user_id m = user
                                  then m\<lparr>mr_role := role\<rparr> else m) (db_members d)\<rparr>, Ok ())
      else if u \<notin> set (map tr_id (db_tenants d)) then
        (d, Err (ForeignKeyViolation ''tenant_members_tenant_id_fkey''))
      else
        (d\<lparr>db_members := db_members d @ [\<lparr>mr_tenant_id = u, mr_user_id = user, mr_role = role,
                                          mr_created_at = now\<rparr>]\<rparr>, Ok ()))"

definition AddMember :: "pg \<Rightarrow> string \<Rightarrow> string \<Rightarrow> string \<Rightarrow> db \<Rightarrow> db \<times> (db_error, unit) res" where
  "AddMember P tenantID userID role d =
     exec P (\<lambda>k. with_params (member_params P tenantID userID role) (upsert_member (pg_now P k))) d"

definition RemoveMember :: "pg \<Rightarrow> string \<Rightarrow> string \<Rightarrow> db \<Rightarrow> db \<times> (db_error, unit) res" where
  "RemoveMember P tenantID userID d =
     exec P (\<lambda>k. with_params (uuid_param P tenantID) (\<lambda>u d.
       (d\<lparr>db_members := filter (\<lambda>m. \<not> (mr_tenant_id m = u \<and> mr_user_id m = userID))
                          (db_members d)\<rparr>, Ok ()))) d"

definition ListMembers :: "pg \<Rightarrow> string \<Rightarrow> db \<Rightarrow> db \<times> (db_error, member list) res" where
  "ListMembers P tenantID d =
     exec P (\<lambda>k. with_params (uuid_param P tenantID) (\<lambda>u d.
       (d, Ok (map (\<lambda>m. \<lparr>m_UserID = mr_user_id m, m_Role = mr_role m, m_CreatedAt = mr_created_at m\<rparr>)
          (pg_scan_members P k (filter (\<lambda>m. mr_tenant_id m = u) (db_members d))))))) d"

definition GetMemberRole :: "pg \<Rightarrow> string \<Rightarrow> string \<Rightarrow> db \<Rightarrow> db \<times> (db_error, string) res" where
  "GetMemberRole P tenantID userID d =
     exec P (\<lambda>k. with_params (uuid_param P tenantID) (\<lambda>u d.
       (d, case find (\<lambda>m. mr_tenant_id m = u \<and> mr_user_id m = userID) (db_members d) of
             None \<Rightarrow> Err NoRows | Some m \<Rightarrow> Ok (mr_role m)))) d"

end
