(* ===== verification/Handlers.thy ===== *)
theory Handlers
  imports Store
begin

text \<open>
  The HTTP handlers of the API server, \<open>internal/handlers\<close>: one definition per handler, from the
  request and the database to the new database and the response. Decoding a JSON body, printing a
  time and making a UUID are code of Go's library or of a module; a record of functions stands for
  them.
\<close>

section \<open>Requests and responses\<close>

record http_request =
  hr_method :: string
  hr_path :: "string list"          \<comment> \<open>the segments, decoded\<close>
  hr_body :: string
  hr_authorization :: string
  hr_remoteAddr :: string

record tenant_response =
  tp_ID :: string
  tp_Name :: string
  tp_Namespace :: string
  tp_Tier :: string
  tp_OwnerEmail :: string

record member_response =
  mp_UserID :: string
  mp_Role :: string
  mp_CreatedAt :: string

datatype body =
    NoBody
  | ErrorJson string                \<comment> \<open>the text \<open>{"error": "..."}\<close>\<close>
  | ErrorText string
  | TenantBody tenant_response
  | TenantsBody "tenant_response list"
  | MemberBody member_response
  | MembersBody "member_response list"
  | HealthBody string

record response =
  rs_status :: nat
  rs_contentType :: string
  rs_retryAfter :: "string option"
  rs_body :: body

datatype http_result = Reply response | Aborted go_panic

record create_tenant_request =
  ct_Name :: string
  ct_Tier :: string
  ct_OwnerEmail :: string

record update_tenant_request =
  ut_Tier :: "string option"
  ut_OwnerEmail :: "string option"

record add_member_request =
  am_UserID :: string
  am_Role :: string

record http_env =
  he_create :: "string \<Rightarrow> create_tenant_request option"  \<comment> \<open>\<open>json.Decoder.Decode\<close>\<close>
  he_update :: "string \<Rightarrow> update_tenant_request option"
  he_addMember :: "string \<Rightarrow> add_member_request option"
  he_uuid :: "nat \<Rightarrow> string"                         \<comment> \<open>\<open>uuid.New\<close>, by statements sent so far\<close>
  he_rfc3339 :: "nat \<Rightarrow> string"                      \<comment> \<open>\<open>Time.Format\<close>\<close>

definition json_reply :: "nat \<Rightarrow> body \<Rightarrow> http_result" where
  "json_reply status b =
     Reply \<lparr>rs_status = status, rs_contentType = ''application/json'', rs_retryAfter = None, rs_body = b\<rparr>"

definition http_error :: "string \<Rightarrow> nat \<Rightarrow> http_result" where
  \<comment> \<open>\<open>http.Error\<close> replaces the content type\<close>
  "http_error msg status =
     Reply \<lparr>rs_status = status, rs_contentType = ''text/plain; charset=utf-8'', rs_retryAfter = None,
            rs_body = ErrorJson msg\<rparr>"

definition or_500 :: "db \<times> (db_error, 'a) res \<Rightarrow> string \<Rightarrow> (db \<Rightarrow> 'a \<Rightarrow> db \<times> http_result) \<Rightarrow> db \<times> http_result" where
  \<comment> \<open>\<open>if err != nil { http.Error(w, msg, http.StatusInternalServerError); return }\<close>\<close>
  "or_500 p msg k =
     (case p of
        (d, Ok a) \<Rightarrow> k d a
      | (d, Err e) \<Rightarrow> (d, http_error msg 500)
      | (d, Panic x) \<Rightarrow> (d, Aborted x))"

definition tenant_response_of :: "tenant \<Rightarrow> tenant_response" where
  "tenant_response_of t =
     \<lparr>tp_ID = om_uid (t_meta t), tp_Name = ts_name (t_spec t), tp_Namespace = tst_namespace (t_status t),
      tp_Tier = ts_tier (t_spec t), tp_OwnerEmail = ts_ownerEmail (t_spec t)\<rparr>"


section \<open>Tenants\<close>

definition handleListTenants :: "pg \<Rightarrow> db \<Rightarrow> db \<times> http_result" where
  "handleListTenants P d =
     or_500 (ListTenants P d) ''error listing the tenants'' (\<lambda>d list.
       (d, json_reply 200 (TenantsBody (map tenant_response_of list))))"

definition new_tenant :: "create_tenant_request \<Rightarrow> string \<Rightarrow> tenant" where
  "new_tenant req uid = empty_tenant\<lparr>
     t_meta := empty_meta\<lparr>om_uid := uid\<rparr>,
     t_spec := (t_spec empty_tenant)\<lparr>ts_name := ct_Name req, ts_tier := ct_Tier req,
                                     ts_ownerEmail := ct_OwnerEmail req\<rparr>,
     t_status := (t_status empty_tenant)\<lparr>tst_namespace := ''tenant-'' @ ct_Name req\<rparr>\<rparr>"

definition handleCreateTenant :: "http_env \<Rightarrow> pg \<Rightarrow> string \<Rightarrow> db \<Rightarrow> db \<times> http_result" where
  "handleCreateTenant E P data d =
     (case he_create E data of
        None \<Rightarrow> (d, http_error ''error decoding the request body'' 400)
      | Some req \<Rightarrow>
          if ct_Name req = [] then (d, http_error ''tenant name is required'' 400)
          else if ct_Tier req \<noteq> ''free'' \<and> ct_Tier req \<noteq> ''pro'' \<and> ct_Tier req \<noteq> ''enterprise'' then
            (d, http_error ''invalid tier'' 400)
          else if ct_OwnerEmail req = [] then (d, http_error ''owner email is required'' 400)
          else
            or_500 (CreateTenant P (new_tenant req (he_uuid E (db_seq d))) d) ''error creating tenant'' (\<lambda>d t.
              (d, json_reply 201 (TenantBody (tenant_response_of t)))))"

definition handleGetTenant :: "pg \<Rightarrow> string \<Rightarrow> db \<Rightarrow> db \<times> http_result" where
  "handleGetTenant P i d =
     or_500 (GetTenantByID P i d) ''error getting the tenant'' (\<lambda>d get.
       case get of
         None \<Rightarrow> (d, http_error ''tenant is not found'' 404)
       | Some t \<Rightarrow> (d, json_reply 200 (TenantBody (tenant_response_of t))))"

definition apply_update :: "update_tenant_request \<Rightarrow> tenant \<Rightarrow> tenant" where
  "apply_update req t =
     (let t = (case ut_Tier req of None \<Rightarrow> t
               | Some tier \<Rightarrow> t\<lparr>t_spec := (t_spec t)\<lparr>ts_tier := tier\<rparr>\<rparr>) in
      case ut_OwnerEmail req of None \<Rightarrow> t
      | Some email \<Rightarrow> t\<lparr>t_spec := (t_spec t)\<lparr>ts_ownerEmail := email\<rparr>\<rparr>)"

definition handleUpdateTenant :: "http_env \<Rightarrow> pg \<Rightarrow> string \<Rightarrow> string \<Rightarrow> db \<Rightarrow> db \<times> http_result" where
  "handleUpdateTenant E P i data d =
     or_500 (GetTenantByID P i d) ''error getting the tenant'' (\<lambda>d get.
       case get of
         None \<Rightarrow> (d, http_error ''tenant is not found'' 404)
       | Some t \<Rightarrow>
           (case he_update E data of
              None \<Rightarrow> (d, http_error ''error decoding the updating request'' 400)
            | Some req \<Rightarrow>
                or_500 (UpdateTenant P (apply_update req t) d) ''error updating the tenant'' (\<lambda>d _.
                  (d, json_reply 200 (TenantBody (tenant_response_of (apply_update req t)))))))"

definition handleDeleteTenant :: "pg \<Rightarrow> string \<Rightarrow> db \<Rightarrow> db \<times> http_result" where
  "handleDeleteTenant P i d =
     or_500 (DeleteTenant P i d) ''error deleting the tenant'' (\<lambda>d _. (d, json_reply 204 NoBody))"


section \<open>Members\<close>

definition handleAddMember :: "http_env \<Rightarrow> pg \<Rightarrow> string \<Rightarrow> string \<Rightarrow> db \<Rightarrow> db \<times> http_result" where
  "handleAddMember E P i data d =
     or_500 (GetTenantByID P i d) ''error getting the tenant'' (\<lambda>d get.
       case get of
         None \<Rightarrow> (d, http_error ''tenant is not found'' 404)
       | Some t \<Rightarrow>
           (case he_addMember E data of
              None \<Rightarrow> (d, http_error ''error decoding the add member request'' 400)
            | Some req \<Rightarrow>
                if am_Role req \<noteq> ''admin'' \<and> am_Role req \<noteq> ''operator'' then
                  (d, http_error ''member has the wrong role'' 400)
                else
                  or_500 (AddMember P i (am_UserID req) (am_Role req) d) ''error adding the member'' (\<lambda>d _.
                    (d, json_reply 201 (MemberBody \<lparr>mp_UserID = am_UserID req, mp_Role = am_Role req,
                                                     mp_CreatedAt = []\<rparr>)))))"

definition handleRemoveMember :: "pg \<Rightarrow> string \<Rightarrow> string \<Rightarrow> db \<Rightarrow> db \<times> http_result" where
  "handleRemoveMember P i userID d =
     or_500 (RemoveMember P i userID d) ''error removing the member'' (\<lambda>d _. (d, json_reply 204 NoBody))"

definition handleListMembers :: "http_env \<Rightarrow> pg \<Rightarrow> string \<Rightarrow> db \<Rightarrow> db \<times> http_result" where
  "handleListMembers E P i d =
     or_500 (ListMembers P i d) ''error getting the members'' (\<lambda>d members.
       (d, json_reply 200 (MembersBody (map (\<lambda>m. \<lparr>mp_UserID = m_UserID m, mp_Role = m_Role m,
              mp_CreatedAt = he_rfc3339 E (m_CreatedAt m)\<rparr>) members))))"

end
