(* ===== verification/Rate_Limit.thy ===== *)
theory Rate_Limit
  imports Handlers Complex_Main
begin

text \<open>
  The rate limiter, \<open>internal/middleware/ratelimit.go\<close>: a token bucket per key. Numbers of type
  \<open>float64\<close> are reals, and every operation is followed by a rounding function \<open>rnd\<close>, a parameter;
  results on the arithmetic itself take it to be exact. Times are nanoseconds of the clock, which
  is read twice: when a bucket is made and when it is filled.
\<close>

section \<open>Buckets\<close>

record bucket =
  bk_tokens :: real
  bk_lastRefill :: int

record limiter =
  rl_rate :: real
  rl_burst :: int

definition NewRateLimiter :: "(real \<Rightarrow> real) \<Rightarrow> int \<Rightarrow> int \<Rightarrow> limiter" where
  \<comment> \<open>requests per minute and burst, from the configuration\<close>
  "NewRateLimiter rnd perMinute burst = \<lparr>rl_rate = rnd (rnd (of_int perMinute) / 60), rl_burst = burst\<rparr>"

definition seconds :: "(real \<Rightarrow> real) \<Rightarrow> int \<Rightarrow> real" where
  \<comment> \<open>\<open>Duration.Seconds\<close>: whole seconds plus the fraction; Go's division truncates\<close>
  "seconds rnd ns =
     (let sec = sgn ns * (\<bar>ns\<bar> div 1000000000); nsec = sgn ns * (\<bar>ns\<bar> mod 1000000000) in
      rnd (rnd (of_int sec) + rnd (rnd (of_int nsec) / 1000000000)))"

definition refill :: "(real \<Rightarrow> real) \<Rightarrow> limiter \<Rightarrow> int \<Rightarrow> bucket \<Rightarrow> real" where
  "refill rnd L now b =
     (let tokens = rnd (bk_tokens b + rnd (seconds rnd (now - bk_lastRefill b) * rl_rate L)) in
      if tokens > rnd (of_int (rl_burst L)) then rnd (of_int (rl_burst L)) else tokens)"

definition consume :: "(real \<Rightarrow> real) \<Rightarrow> limiter \<Rightarrow> int \<Rightarrow> bucket \<Rightarrow> bucket \<times> bool" where
  "consume rnd L now b =
     (let tokens = rnd (refill rnd L now b - 1) in
      (\<lparr>bk_tokens = tokens, bk_lastRefill = now\<rparr>, tokens \<ge> 0))"

definition new_bucket :: "(real \<Rightarrow> real) \<Rightarrow> limiter \<Rightarrow> int \<Rightarrow> bucket" where
  "new_bucket rnd L created = \<lparr>bk_tokens = rnd (of_int (rl_burst L)), bk_lastRefill = created\<rparr>"

type_synonym buckets = "string \<rightharpoonup> bucket"

definition take_token ::
    "(real \<Rightarrow> real) \<Rightarrow> limiter \<Rightarrow> string \<Rightarrow> int \<Rightarrow> int \<Rightarrow> buckets \<Rightarrow> buckets \<times> bool" where
  \<comment> \<open>the section under the mutex; \<open>created\<close> and \<open>now\<close> are the two readings of the clock\<close>
  "take_token rnd L key created now bs =
     (let b = (case bs key of None \<Rightarrow> new_bucket rnd L created | Some b \<Rightarrow> b);
          (b', allowed) = consume rnd L now b in
      (bs(key \<mapsto> b'), allowed))"

type_synonym req_context = "string option"  \<comment> \<open>the user of a request's context, if it has one\<close>

definition UserFromContext :: "req_context \<Rightarrow> string" where
  "UserFromContext ctx = (case ctx of None \<Rightarrow> [] | Some user \<Rightarrow> user)"

definition limit_key :: "req_context \<Rightarrow> http_request \<Rightarrow> string" where
  \<comment> \<open>the user of the context, or the remote address\<close>
  "limit_key ctx r = (let key = UserFromContext ctx in if key = [] then hr_remoteAddr r else key)"

definition too_many :: "(real \<Rightarrow> real) \<Rightarrow> (real \<Rightarrow> string) \<Rightarrow> limiter \<Rightarrow> http_result" where
  \<comment> \<open>\<open>fmt.Sprintf("%.0f", math.Ceil(1.0/rl.rate))\<close>; \<open>show_float\<close> prints a float without fraction\<close>
  "too_many rnd show_float L =
     Reply \<lparr>rs_status = 429, rs_contentType = ''text/plain; charset=utf-8'',
            rs_retryAfter = Some (if rl_rate L = 0 then ''+Inf'' else show_float (of_int \<lceil>rnd (1 / rl_rate L)\<rceil>)),
            rs_body = ErrorText ''too many requests, no more tokens''\<rparr>"


section \<open>A bucket of its own for every key\<close>

text \<open>
  The contract of a table of independent objects: an operation on one key changes only that
  key's object, as if it were alone.
\<close>

locale keyed =
  fixes step :: "'k \<Rightarrow> 'i \<Rightarrow> ('k \<rightharpoonup> 'o) \<Rightarrow> ('k \<rightharpoonup> 'o) \<times> 'r"
    and one :: "'i \<Rightarrow> 'o option \<Rightarrow> 'o \<times> 'r"
  assumes step_one: "step k i m = (m(k \<mapsto> fst (one i (m k))), snd (one i (m k)))"
begin

fun run :: "('k \<times> 'i) list \<Rightarrow> ('k \<rightharpoonup> 'o) \<Rightarrow> ('k \<times> 'r) list" where
  "run [] m = []"
| "run ((k, i) # xs) m = (k, snd (step k i m)) # run xs (fst (step k i m))"

lemma run_same_object:
  "m k = m' k \<Longrightarrow> filter (\<lambda>p. fst p = k) (run xs m) = run (filter (\<lambda>p. fst p = k) xs) m'"
proof (induction xs arbitrary: m m')
  case (Cons x xs)
  obtain j i where x: "x = (j, i)" by (cases x)
  show ?case
  proof (cases "j = k")
    case True
    have "fst (step k i m) k = fst (step k i m') k" "snd (step k i m) = snd (step k i m')"
      by (simp_all add: step_one Cons.prems)
    then show ?thesis using Cons.IH [of "fst (step k i m)" "fst (step k i m')"] by (simp add: x True)
  next
    case False
    then have "fst (step j i m) k = m' k" by (simp add: step_one Cons.prems)
    then show ?thesis using Cons.IH [of "fst (step j i m)" m'] by (simp add: x False)
  qed
qed simp

end

definition take_one ::
    "(real \<Rightarrow> real) \<Rightarrow> limiter \<Rightarrow> int \<times> int \<Rightarrow> bucket option \<Rightarrow> bucket \<times> bool" where
  "take_one rnd L clock b =
     consume rnd L (snd clock) (case b of None \<Rightarrow> new_bucket rnd L (fst clock) | Some b \<Rightarrow> b)"

definition limiter_step ::
    "(real \<Rightarrow> real) \<Rightarrow> limiter \<Rightarrow> string \<Rightarrow> int \<times> int \<Rightarrow> buckets \<Rightarrow> buckets \<times> bool" where
  "limiter_step rnd L key clock = take_token rnd L key (fst clock) (snd clock)"

interpretation rl: keyed "limiter_step rnd L" "take_one rnd L" for rnd L
  by unfold_locales (simp add: limiter_step_def take_token_def take_one_def Let_def split: prod.splits)

fun limiter_run ::
    "(real \<Rightarrow> real) \<Rightarrow> limiter \<Rightarrow> (string \<times> int \<times> int) list \<Rightarrow> buckets \<Rightarrow> (string \<times> bool) list" where
  \<comment> \<open>the decisions on a sequence of requests, each with its key and the two readings of the clock\<close>
  "limiter_run rnd L [] bs = []"
| "limiter_run rnd L ((key, clock) # rs) bs =
     (key, snd (limiter_step rnd L key clock bs)) # limiter_run rnd L rs (fst (limiter_step rnd L key clock bs))"

lemma limiter_run_run: "limiter_run rnd L rs bs = rl.run rnd L rs bs"
  by (induction rs arbitrary: bs) auto

text \<open>
  C22: keys do not affect each other: in any interleaving the decisions on the requests of one key
  are those of a limiter that sees only these requests.
\<close>

theorem limiter_keys_independent:
  "filter (\<lambda>p. fst p = key) (limiter_run rnd L rs bs) =
     limiter_run rnd L (filter (\<lambda>p. fst p = key) rs) bs"
  unfolding limiter_run_run by (rule rl.run_same_object) (rule refl)


section \<open>How much a key gets\<close>

definition exact :: "real \<Rightarrow> real" where
  "exact x = x"

lemma seconds_exact: "seconds exact ns = of_int ns / 1000000000"
proof -
  define q r where "q = \<bar>ns\<bar> div 1000000000" and "r = \<bar>ns\<bar> mod 1000000000"
  have "\<bar>ns\<bar> = 1000000000 * q + r" by (simp add: q_def r_def)
  then have "ns = sgn ns * (1000000000 * q + r)" by (metis mult_sgn_abs)
  then have "(of_int ns :: real) = of_int (sgn ns * (1000000000 * q + r))" by (rule arg_cong)
  also have "\<dots> = 1000000000 * of_int (sgn ns * q) + of_int (sgn ns * r)"
    by (simp add: distrib_left)
  finally have "of_int ns / 1000000000 = (of_int (sgn ns * q) + of_int (sgn ns * r) / 1000000000 :: real)"
    by simp
  then show ?thesis
    by (simp only: seconds_def Let_def exact_def q_def r_def)
qed

text \<open>The requests of one key, by the times at which they are filled.\<close>

fun decisions :: "(real \<Rightarrow> real) \<Rightarrow> limiter \<Rightarrow> int list \<Rightarrow> bucket \<Rightarrow> bool list" where
  "decisions rnd L [] b = []"
| "decisions rnd L (now # ts) b = snd (consume rnd L now b) # decisions rnd L ts (fst (consume rnd L now b))"

lemma limiter_run_one_key:
  assumes "bs key = Some b"
  shows "map snd (limiter_run rnd L (map (Pair key) cs) bs) = decisions rnd L (map snd cs) b"
  using assms
proof (induction cs arbitrary: bs b)
  case (Cons x cs)
  obtain c now where x: "x = (c, now)" by (cases x)
  have "fst (limiter_step rnd L key (c, now) bs) key = Some (fst (consume rnd L now b))"
    "snd (limiter_step rnd L key (c, now) bs) = snd (consume rnd L now b)"
    using Cons.prems by (simp_all add: limiter_step_def take_token_def Let_def split: prod.splits)
  then show ?case using Cons.IH [of "fst (limiter_step rnd L key (c, now) bs)" "fst (consume rnd L now b)"] by (simp add: x)
qed simp

lemma consume_exact:
  "bk_tokens (fst (consume exact L now b)) =
     min (of_int (rl_burst L)) (bk_tokens b + of_int (now - bk_lastRefill b) / 1000000000 * rl_rate L) - 1"
  "bk_lastRefill (fst (consume exact L now b)) = now"
  "snd (consume exact L now b) \<longleftrightarrow> bk_tokens (fst (consume exact L now b)) \<ge> 0"
  by (auto simp: consume_def refill_def seconds_exact exact_def Let_def min_def)

lemma allowed_bound:
  assumes "0 \<le> rl_rate L" "sorted (bk_lastRefill b # ts)" "\<forall>t\<in>set ts. t \<le> e" "bk_lastRefill b \<le> e"
  shows "real (length (filter (\<lambda>a. a) (decisions exact L ts b)))
    \<le> max 0 (bk_tokens b + of_int (e - bk_lastRefill b) / 1000000000 * rl_rate L)"
  using assms(2-4)
proof (induction ts arbitrary: b)
  case (Cons t ts)
  define b' where "b' = fst (consume exact L t b)"
  have last: "bk_lastRefill b' = t" by (simp add: b'_def consume_exact)
  have "real (length (filter (\<lambda>a. a) (decisions exact L ts b')))
      \<le> max 0 (bk_tokens b' + of_int (e - bk_lastRefill b') / 1000000000 * rl_rate L)"
    using Cons.prems by (intro Cons.IH) (auto simp: last)
  then have ih: "real (length (filter (\<lambda>a. a) (decisions exact L ts b')))
      \<le> max 0 (bk_tokens b' + of_int (e - t) / 1000000000 * rl_rate L)"
    by (simp add: last)
  have split: "of_int (e - bk_lastRefill b) / 1000000000 * rl_rate L
      = of_int (t - bk_lastRefill b) / 1000000000 * rl_rate L + of_int (e - t) / 1000000000 * rl_rate L"
    by (simp add: field_simps)
  have tok: "bk_tokens b' \<le> bk_tokens b + of_int (t - bk_lastRefill b) / 1000000000 * rl_rate L - 1"
    by (simp add: b'_def consume_exact)
  have nonneg: "0 \<le> of_int (e - t) / 1000000000 * rl_rate L"
    using Cons.prems assms(1) by simp
  show ?case
  proof (cases "snd (consume exact L t b)")
    case True
    then have "0 \<le> bk_tokens b'" by (simp add: b'_def consume_exact(3))
    then show ?thesis using ih tok nonneg True unfolding split by (simp add: b'_def [symmetric] max_def split: if_splits)
  next
    case False
    then show ?thesis using ih tok unfolding split by (simp add: b'_def [symmetric] max_def split: if_splits)
  qed
qed simp

text \<open>
  C23: in exact arithmetic, the requests of a key that are admitted between the filling of its
  bucket and any later time are at most the burst plus the rate times the time elapsed.
\<close>

theorem limiter_throughput:
  assumes "0 \<le> rl_rate L" "bk_tokens b \<le> of_int (rl_burst L)" "0 \<le> rl_burst L"
    "sorted (bk_lastRefill b # map snd cs)" "\<forall>c\<in>set cs. snd c \<le> e" "bk_lastRefill b \<le> e" "bs key = Some b"
  shows "real (length (filter snd (limiter_run exact L (map (Pair key) cs) bs)))
    \<le> of_int (rl_burst L) + of_int (e - bk_lastRefill b) / 1000000000 * rl_rate L"
proof -
  have "length (filter snd xs) = length (filter (\<lambda>a. a) (map snd xs))" for xs :: "(string \<times> bool) list"
    by (induction xs) auto
  then have "real (length (filter snd (limiter_run exact L (map (Pair key) cs) bs)))
      = real (length (filter (\<lambda>a. a) (decisions exact L (map snd cs) b)))"
    by (simp only: limiter_run_one_key [of bs key b, OF assms(7)])
  also have "\<dots> \<le> max 0 (bk_tokens b + of_int (e - bk_lastRefill b) / 1000000000 * rl_rate L)"
    by (rule allowed_bound) (use assms in auto)
  also have "\<dots> \<le> of_int (rl_burst L) + of_int (e - bk_lastRefill b) / 1000000000 * rl_rate L"
    using assms(1-3,6) by simp
  finally show ?thesis .
qed

definition demo_limiter :: limiter where
  \<comment> \<open>one token per second, burst one\<close>
  "demo_limiter = \<lparr>rl_rate = 1, rl_burst = 1\<rparr>"

theorem limiter_throughput_witness:
  "real (length (filter snd (limiter_run exact demo_limiter
      (map (Pair ''k'') [(0, 0), (0, 0), (0, 2000000000)]) [''k'' \<mapsto> \<lparr>bk_tokens = 1, bk_lastRefill = 0\<rparr>]))) \<le> 1 + 2"
  using limiter_throughput [of demo_limiter "\<lparr>bk_tokens = 1, bk_lastRefill = 0\<rparr>"
      "[(0, 0), (0, 0), (0, 2000000000)]" 2000000000 "[''k'' \<mapsto> \<lparr>bk_tokens = 1, bk_lastRefill = 0\<rparr>]" "''k''"]
  by (simp add: demo_limiter_def)

text \<open>
  A denied request is charged like an admitted one: once a key has been denied, it stays
  denied for as long as its requests come closer together than one token takes to arrive.
\<close>

theorem limiter_starves:
  assumes "0 < rl_rate L" "bs key = Some b" "bk_tokens b < 0"
    "\<forall>i<length cs. 0 \<le> snd (cs ! i) - (bk_lastRefill b # map snd cs) ! i
       \<and> of_int (snd (cs ! i) - (bk_lastRefill b # map snd cs) ! i) / 1000000000 * rl_rate L \<le> 1"
  shows "\<forall>p\<in>set (limiter_run exact L (map (Pair key) cs) bs). \<not> snd p"
proof -
  have denied: "\<forall>a\<in>set (decisions exact L ts b). \<not> a"
    if "bk_tokens b < 0" "\<forall>i<length ts. of_int (ts ! i - (bk_lastRefill b # ts) ! i) / 1000000000 * rl_rate L \<le> 1"
    for ts and b :: bucket
    using that
  proof (induction ts arbitrary: b)
    case (Cons t ts)
    define b' where "b' = fst (consume exact L t b)"
    have "of_int (t - bk_lastRefill b) / 1000000000 * rl_rate L \<le> 1"
      using Cons.prems(2) by force
    then have neg: "bk_tokens b' < 0"
      using Cons.prems(1) by (simp add: b'_def consume_exact min_def)
    moreover have "\<forall>i<length ts. of_int (ts ! i - (bk_lastRefill b' # ts) ! i) / 1000000000 * rl_rate L \<le> 1"
      using Cons.prems(2) by (auto simp: b'_def consume_exact(2))
    ultimately have "\<forall>a\<in>set (decisions exact L ts b'). \<not> a" by (rule Cons.IH)
    then show ?case using neg by (simp add: b'_def consume_exact(3))
  qed simp
  have "\<forall>a\<in>set (decisions exact L (map snd cs) b). \<not> a"
    using assms(3,4) by (intro denied) auto
  then have "\<forall>a\<in>set (map snd (limiter_run exact L (map (Pair key) cs) bs)). \<not> a"
    by (simp only: limiter_run_one_key [of bs key b, OF assms(2)])
  then show ?thesis by simp
qed

theorem limiter_starves_witness:
  "\<not> snd (limiter_run exact demo_limiter (map (Pair ''k'') [(0, 500000000), (0, 1500000000)])
      [''k'' \<mapsto> \<lparr>bk_tokens = - 1, bk_lastRefill = 0\<rparr>] ! 1)"
  (is "\<not> snd (limiter_run exact _ (map _ ?cs) ?bs ! 1)")
proof -
  have "\<forall>p\<in>set (limiter_run exact demo_limiter (map (Pair ''k'') ?cs) ?bs). \<not> snd p"
    by (rule limiter_starves [where b = "\<lparr>bk_tokens = - 1, bk_lastRefill = 0\<rparr>"])
      (auto simp: demo_limiter_def less_Suc_eq)
  then show ?thesis by simp
qed

text \<open>
  So \<open>Retry-After\<close> promises too much: after three requests at once on a bucket of one token, the
  client that waits the advertised second is denied again.
\<close>

lemma retry_after_too_short:
  "map snd (limiter_run exact demo_limiter (map (Pair ''k'') [(0, 0), (0, 0), (0, 0), (0, 1000000000)])
      [''k'' \<mapsto> \<lparr>bk_tokens = 1, bk_lastRefill = 0\<rparr>]) = [True, False, False, False]"
  by (simp add: limiter_step_def take_token_def consume_def refill_def seconds_exact exact_def Let_def
      demo_limiter_def split: prod.splits)

end
