(* ===== verification/Go_Text.thy ===== *)
theory Go_Text
  imports MTP_Prelude
begin

text \<open>
  The text functions of Go's standard library that the configuration, the rate limiter and
  the command line use: \<open>strings.TrimSpace\<close>, \<open>strings.SplitN(s, sep, 2)\<close>,
  \<open>strconv.Atoi\<close>, \<open>strconv.ParseBool\<close>, decimal printing, and the line scanner of \<open>bufio\<close>.
\<close>

section \<open>Numbers\<close>

definition digits :: "(char \<times> nat) list" where
  "digits = [(CHR ''0'', 0), (CHR ''1'', 1), (CHR ''2'', 2), (CHR ''3'', 3), (CHR ''4'', 4),
             (CHR ''5'', 5), (CHR ''6'', 6), (CHR ''7'', 7), (CHR ''8'', 8), (CHR ''9'', 9)]"

definition digit_value :: "char \<Rightarrow> nat option" where
  "digit_value c = map_of digits c"

definition digit_char :: "nat \<Rightarrow> char" where
  "digit_char n = fst (digits ! n)"

definition parse_digits :: "string \<Rightarrow> nat option" where
  "parse_digits ds =
     fold (\<lambda>c acc. case acc of None \<Rightarrow> None
        | Some n \<Rightarrow> map_option (\<lambda>d. 10 * n + d) (digit_value c)) ds (Some 0)"

text \<open>
  \<open>strconv.Atoi\<close>: an optional sign, at least one digit, nothing else, and a value that an
  \<open>int\<close> of 64 bits holds.
\<close>

definition atoi :: "string \<Rightarrow> int option" where
  "atoi s =
     (let (neg, ds) = (case s of [] \<Rightarrow> (False, [])
        | c # r \<Rightarrow> if c = CHR ''-'' then (True, r)
                   else if c = CHR ''+'' then (False, r) else (False, s))
      in if ds = [] then None
         else (case parse_digits ds of
            None \<Rightarrow> None
          | Some n \<Rightarrow>
            (let v = (if neg then - int n else int n) in
             if - (2 ^ 63) \<le> v \<and> v < 2 ^ 63 then Some v else None)))"

text \<open>\<open>strconv.ParseBool\<close>.\<close>

definition parseBool :: "string \<Rightarrow> bool option" where
  "parseBool s =
     (if s \<in> set [''1'', ''t'', ''T'', ''true'', ''TRUE'', ''True''] then Some True
      else if s \<in> set [''0'', ''f'', ''F'', ''false'', ''FALSE'', ''False''] then Some False
      else None)"

text \<open>Decimal printing (the verb \<open>%d\<close>).\<close>

fun nat_text :: "nat \<Rightarrow> string" where
  "nat_text n = (if n < 10 then [digit_char n] else nat_text (n div 10) @ [digit_char (n mod 10)])"

declare nat_text.simps [simp del]

definition int_text :: "int \<Rightarrow> string" where
  "int_text i = (if i < 0 then CHR ''-'' # nat_text (nat (- i)) else nat_text (nat i))"

lemma digit_cases: "n < 10 \<Longrightarrow> n \<in> {0, 1, 2, 3, 4, 5, 6, 7, 8, 9::nat}"
  by auto

lemma digit_value_char [simp]: "n < 10 \<Longrightarrow> digit_value (digit_char n) = Some n"
  by (drule digit_cases) (auto simp: digit_value_def digit_char_def digits_def)

lemma digit_char_not_sign [simp]:
  "n < 10 \<Longrightarrow> digit_char n \<noteq> CHR ''-''" "n < 10 \<Longrightarrow> digit_char n \<noteq> CHR ''+''"
  by (drule digit_cases, auto simp: digit_char_def digits_def)+

lemma nat_text_chars: "c \<in> set (nat_text n) \<Longrightarrow> \<exists>d < 10. c = digit_char d"
proof (induction n rule: nat_text.induct)
  case (1 n)
  show ?case
  proof (cases "n < 10")
    case True
    with 1 show ?thesis by (subst (asm) nat_text.simps) auto
  next
    case False
    with 1 have "c \<in> set (nat_text (n div 10)) \<or> c = digit_char (n mod 10)"
      by (subst (asm) (2) nat_text.simps) auto
    with "1.IH" False show ?thesis by (auto intro: exI [of _ "n mod 10"])
  qed
qed

lemma nat_text_nonempty [simp]: "nat_text n \<noteq> []"
  by (subst nat_text.simps) simp

lemma parse_digits_snoc:
  "parse_digits (ds @ [c]) =
     (case parse_digits ds of None \<Rightarrow> None
      | Some n \<Rightarrow> map_option (\<lambda>d. 10 * n + d) (digit_value c))"
  by (simp add: parse_digits_def)

lemma parse_nat_text [simp]: "parse_digits (nat_text n) = Some n"
proof (induction n rule: nat_text.induct)
  case (1 n)
  show ?case
  proof (cases "n < 10")
    case True
    then show ?thesis by (subst nat_text.simps) (simp add: parse_digits_def)
  next
    case False
    with 1 show ?thesis by (subst nat_text.simps) (simp add: parse_digits_snoc)
  qed
qed

lemma nat_text_hd: "\<exists>d < 10. \<exists>r. nat_text n = digit_char d # r"
proof (cases "nat_text n")
  case (Cons c r)
  then show ?thesis using nat_text_chars [of c n] by auto
qed simp

text \<open>Printing an \<open>int\<close> and reading it back.\<close>

lemma atoi_int_text:
  assumes "- (2 ^ 63) \<le> i" and "i < 2 ^ 63"
  shows "atoi (int_text i) = Some i"
proof (cases "i < 0")
  case True
  with assms show ?thesis by (simp add: atoi_def int_text_def Let_def)
next
  case False
  obtain d r where d: "d < 10" and nt: "nat_text (nat i) = digit_char d # r"
    using nat_text_hd by blast
  have p: "parse_digits (digit_char d # r) = Some (nat i)"
    by (simp flip: nt)
  show ?thesis
    using False assms d by (simp add: atoi_def int_text_def nt p Let_def)
qed

lemma atoi_range: "atoi s = Some i \<Longrightarrow> - (2 ^ 63) \<le> i \<and> i < 2 ^ 63"
  by (auto simp: atoi_def Let_def split: prod.splits option.splits if_splits)


section \<open>White space\<close>

text \<open>
  The white space of \<open>unicode.IsSpace\<close> as UTF-8 byte sequences.
\<close>

definition space_seqs :: "string list" where
  "space_seqs =
     [[CHR 0x20], [CHR 0x09], [CHR 0x0A], [CHR 0x0B], [CHR 0x0C], [CHR 0x0D],
      [CHR 0xC2, CHR 0x85], [CHR 0xC2, CHR 0xA0], [CHR 0xE1, CHR 0x9A, CHR 0x80],
      [CHR 0xE2, CHR 0x80, CHR 0x80], [CHR 0xE2, CHR 0x80, CHR 0x81],
      [CHR 0xE2, CHR 0x80, CHR 0x82], [CHR 0xE2, CHR 0x80, CHR 0x83],
      [CHR 0xE2, CHR 0x80, CHR 0x84], [CHR 0xE2, CHR 0x80, CHR 0x85],
      [CHR 0xE2, CHR 0x80, CHR 0x86], [CHR 0xE2, CHR 0x80, CHR 0x87],
      [CHR 0xE2, CHR 0x80, CHR 0x88], [CHR 0xE2, CHR 0x80, CHR 0x89],
      [CHR 0xE2, CHR 0x80, CHR 0x8A], [CHR 0xE2, CHR 0x80, CHR 0xA8],
      [CHR 0xE2, CHR 0x80, CHR 0xA9], [CHR 0xE2, CHR 0x80, CHR 0xAF],
      [CHR 0xE2, CHR 0x81, CHR 0x9F], [CHR 0xE3, CHR 0x80, CHR 0x80]]"

function trim_with :: "string list \<Rightarrow> string \<Rightarrow> string" where
  "trim_with seqs s =
     (case find (\<lambda>p. p \<noteq> [] \<and> prefix p s) seqs of
        None \<Rightarrow> s
      | Some p \<Rightarrow> trim_with seqs (drop (length p) s))"
  by pat_completeness auto
termination
  by (relation "measure (\<lambda>(seqs, s). length s)")
    (auto simp: find_Some_iff prefix_def)

declare trim_with.simps [simp del]

definition trimSpace :: "string \<Rightarrow> string" where
  "trimSpace s = rev (trim_with (map rev space_seqs) (rev (trim_with space_seqs s)))"

lemma trim_with_suffix: "suffix (trim_with seqs s) s"
proof (induction seqs s rule: trim_with.induct)
  case (1 seqs s)
  show ?case
  proof (cases "find (\<lambda>p. p \<noteq> [] \<and> prefix p s) seqs")
    case None
    then show ?thesis by (subst trim_with.simps) simp
  next
    case (Some p)
    then have "suffix (trim_with seqs (drop (length p) s)) (drop (length p) s)"
      by (rule 1)
    with Some show ?thesis
      by (subst trim_with.simps) (auto intro: suffix_order.trans suffix_drop)
  qed
qed

lemma trim_with_id: "\<forall>p \<in> set seqs. p \<noteq> [] \<longrightarrow> \<not> prefix p s \<Longrightarrow> trim_with seqs s = s"
proof -
  assume "\<forall>p \<in> set seqs. p \<noteq> [] \<longrightarrow> \<not> prefix p s"
  then have "find (\<lambda>p. p \<noteq> [] \<and> prefix p s) seqs = None" by (auto simp: find_None_iff)
  then show ?thesis by (subst trim_with.simps) simp
qed

lemma trim_with_done: "p \<in> set seqs \<Longrightarrow> p \<noteq> [] \<Longrightarrow> \<not> prefix p (trim_with seqs s)"
proof (induction seqs s rule: trim_with.induct)
  case (1 seqs s)
  show ?case
  proof (cases "find (\<lambda>p. p \<noteq> [] \<and> prefix p s) seqs")
    case None
    then have "trim_with seqs s = s" by (subst trim_with.simps) simp
    with None "1.prems" show ?thesis by (auto simp: find_None_iff)
  next
    case (Some q)
    from "1.IH" [OF Some "1.prems"] Some show ?thesis
      by (subst trim_with.simps) simp
  qed
qed

lemma trim_with_idem [simp]: "trim_with seqs (trim_with seqs s) = trim_with seqs s"
  by (rule trim_with_id) (blast dest: trim_with_done)


section \<open>Lines\<close>

text \<open>\<open>strings.SplitN(s, sep, 2)\<close>: the pieces around the first separator.\<close>

fun split2 :: "char \<Rightarrow> string \<Rightarrow> string list" where
  "split2 c s =
     (if c \<in> set s then [takeWhile (\<lambda>x. x \<noteq> c) s, tl (dropWhile (\<lambda>x. x \<noteq> c) s)] else [s])"

lemma split2_append [simp]: "c \<notin> set a \<Longrightarrow> split2 c (a @ c # b) = [a, b]"
proof -
  assume c: "c \<notin> set a"
  then have "takeWhile (\<lambda>x. x \<noteq> c) (a @ c # b) = a"
    by (subst takeWhile_append2) auto
  moreover from c have "dropWhile (\<lambda>x. x \<noteq> c) (a @ c # b) = c # b"
    by (subst dropWhile_append2) auto
  ultimately show ?thesis by simp
qed

declare split2.simps [simp del]

text \<open>
  \<open>bufio.Scanner\<close> with its default split function: the lines without their line feed and
  without one carriage return before it; an empty last line is not reported.
\<close>

definition drop_cr :: "string \<Rightarrow> string" where
  "drop_cr s = (if s \<noteq> [] \<and> last s = CHR 0x0D then butlast s else s)"

definition raw_lines :: "string \<Rightarrow> string list" where
  "raw_lines s = (let ls = split_on CHR 0x0A s in if last ls = [] then butlast ls else ls)"

definition max_token :: nat where
  \<comment> \<open>\<open>bufio.MaxScanTokenSize\<close>: a line must end inside a full buffer of this size\<close>
  "max_token = 65536"

lemma raw_lines_Nil [simp]: "raw_lines [] = []"
  by (simp add: raw_lines_def)

lemma raw_lines_append [simp]:
  "CHR 0x0A \<notin> set a \<Longrightarrow> raw_lines (a @ CHR 0x0A # b) = a # raw_lines b"
  by (simp add: raw_lines_def split_on_append Let_def)

end
