(* ===== verification/Config.thy ===== *)
theory Config
  imports Go_Text
begin

text \<open>
  The configuration, \<open>internal/config/config.go\<close>: \<open>Load\<close> with its three sources (a JSON
  file, an \<open>.env\<close> file, the environment), the overrides, and the validation that fills the
  defaults. The host (file system and environment) and the JSON decoder are parameters.
\<close>

section \<open>Data\<close>

record tier_defaults =
  td_cpu :: string
  td_memory :: string

record config =
  cfg_ListenAddr :: string
  cfg_DBURL :: string
  cfg_LogLevel :: string
  cfg_LogFormat :: string
  cfg_DBMaxOpenConns :: int
  cfg_DBMaxIdleConns :: int
  cfg_DBConnMaxLifetime :: string
  cfg_TenantEgressPolicy :: string
  cfg_PlatformAccessLabel :: string
  cfg_Free :: tier_defaults
  cfg_Pro :: tier_defaults
  cfg_Enterprise :: tier_defaults
  cfg_WebhookImage :: string
  cfg_DexIssuerURL :: string
  cfg_DexClientID :: string
  cfg_AuthEnabled :: bool
  cfg_RateRequestsPerMinute :: int
  cfg_RateBurst :: int

definition empty_config :: config where
  "empty_config = \<lparr>cfg_ListenAddr = [], cfg_DBURL = [], cfg_LogLevel = [], cfg_LogFormat = [],
     cfg_DBMaxOpenConns = 0, cfg_DBMaxIdleConns = 0, cfg_DBConnMaxLifetime = [],
     cfg_TenantEgressPolicy = [], cfg_PlatformAccessLabel = [],
     cfg_Free = \<lparr>td_cpu = [], td_memory = []\<rparr>, cfg_Pro = \<lparr>td_cpu = [], td_memory = []\<rparr>,
     cfg_Enterprise = \<lparr>td_cpu = [], td_memory = []\<rparr>,
     cfg_WebhookImage = [], cfg_DexIssuerURL = [], cfg_DexClientID = [], cfg_AuthEnabled = False,
     cfg_RateRequestsPerMinute = 0, cfg_RateBurst = 0\<rparr>"

datatype config_error =
    StatFailed string             \<comment> \<open>\<open>problem loading config file\<close>\<close>
  | ReadFailed string             \<comment> \<open>\<open>reading config file\<close>, \<open>reading .env file\<close>\<close>
  | ParseFailed                   \<comment> \<open>\<open>parsing config\<close>\<close>
  | LineMalformed string          \<comment> \<open>\<open>line %s is malformed\<close>\<close>
  | KeyMalformed string           \<comment> \<open>\<open>K8S_MTP_... is malformed\<close>\<close>
  | ScanFailed                    \<comment> \<open>\<open>scanning .env\<close>\<close>
  | CloseFailed
  | ProblemWith config_error      \<comment> \<open>\<open>problem with config: %w\<close>\<close>
  | ListenAddrEmpty
  | DBURLEmpty
  | InvalidLogFormat string
  | InvalidLogLevel string

text \<open>
  The host: \<open>os.Stat\<close>, \<open>os.ReadFile\<close> and \<open>os.Open\<close> by name (\<open>None\<close> is an error), whether
  reading or closing the opened file fails, \<open>os.Getenv\<close>, and \<open>json.Unmarshal\<close> into a
  \<open>Config\<close>.
\<close>

record host =
  h_stat :: "string \<Rightarrow> bool"
  h_read :: "string \<Rightarrow> string option"
  h_open :: "string \<Rightarrow> string option"
  h_read_error :: bool
  h_close_error :: bool
  h_getenv :: "string \<Rightarrow> string"
  h_json :: "string \<Rightarrow> config option"


section \<open>Sources\<close>

definition fileParse :: "host \<Rightarrow> string \<Rightarrow> (config_error, config) res" where
  "fileParse h file =
     (case h_read h file of
        None \<Rightarrow> Err (ReadFailed file)
      | Some data \<Rightarrow>
        (case h_json h data of None \<Rightarrow> Err ParseFailed | Some cfg \<Rightarrow> Ok cfg))"

definition env_atoi :: "string \<Rightarrow> string \<Rightarrow> (config_error, int) res" where
  "env_atoi key value =
     (case atoi value of None \<Rightarrow> Err (KeyMalformed key) | Some v \<Rightarrow> Ok v)"

definition env_assign :: "string \<Rightarrow> string \<Rightarrow> config \<Rightarrow> (config_error, config) res" where
  \<comment> \<open>the switch over the key in \<open>envParse\<close>; an unknown key is ignored\<close>
  "env_assign key value cfg =
     (if key = ''K8S_MTP_LISTEN_ADDR'' then Ok (cfg\<lparr>cfg_ListenAddr := value\<rparr>)
      else if key = ''K8S_MTP_DB_URL'' then Ok (cfg\<lparr>cfg_DBURL := value\<rparr>)
      else if key = ''K8S_MTP_LOG_LEVEL'' then Ok (cfg\<lparr>cfg_LogLevel := value\<rparr>)
      else if key = ''K8S_MTP_DB_OPEN_CONNS'' then
        res_bind (env_atoi key value) (\<lambda>v. Ok (cfg\<lparr>cfg_DBMaxOpenConns := v\<rparr>))
      else if key = ''K8S_MTP_DB_IDLE_CONNS'' then
        res_bind (env_atoi key value) (\<lambda>v. Ok (cfg\<lparr>cfg_DBMaxIdleConns := v\<rparr>))
      else if key = ''K8S_MTP_DB_CONN_MAX_LIFETIME'' then Ok (cfg\<lparr>cfg_DBConnMaxLifetime := value\<rparr>)
      else if key = ''K8S_MTP_TENANT_EGRESS_POLICY'' then Ok (cfg\<lparr>cfg_TenantEgressPolicy := value\<rparr>)
      else if key = ''K8S_MTP_PLATFORM_ACCESS_LABEL'' then Ok (cfg\<lparr>cfg_PlatformAccessLabel := value\<rparr>)
      else if key = ''K8S_MTP_DEX_CLIENT_ID'' then Ok (cfg\<lparr>cfg_DexClientID := value\<rparr>)
      else if key = ''K8S_MTP_DEX_ISSUER_URL'' then Ok (cfg\<lparr>cfg_DexIssuerURL := value\<rparr>)
      else if key = ''K8S_MTP_AUTH_ENABLED'' then
        (case parseBool value of None \<Rightarrow> Err (KeyMalformed key)
         | Some v \<Rightarrow> Ok (cfg\<lparr>cfg_AuthEnabled := v\<rparr>))
      else if key = ''K8S_MTP_RATE_REQUESTS_PER_MINUTE'' then
        res_bind (env_atoi key value) (\<lambda>v. Ok (cfg\<lparr>cfg_RateRequestsPerMinute := v\<rparr>))
      else if key = ''K8S_MTP_RATE_BURST'' then
        res_bind (env_atoi key value) (\<lambda>v. Ok (cfg\<lparr>cfg_RateBurst := v\<rparr>))
      else Ok cfg)"

definition env_line :: "string \<Rightarrow> config \<Rightarrow> (config_error, config) res" where
  "env_line line cfg =
     (if line = [] then Ok cfg
      else if hasPrefix line ''#'' then Ok cfg
      else (case split2 CHR ''='' line of
              [k, v] \<Rightarrow> env_assign (trimSpace k) (trimSpace v) cfg
            | _ \<Rightarrow> Err (LineMalformed line)))"

fun env_lines :: "string list \<Rightarrow> config \<Rightarrow> (config_error, config) res" where
  \<comment> \<open>the scanner stops at a line that does not fit its buffer\<close>
  "env_lines [] cfg = Ok cfg"
| "env_lines (l # ls) cfg =
     (if max_token \<le> length l then Err ScanFailed
      else res_bind (env_line (drop_cr l) cfg) (env_lines ls))"

definition envParse :: "host \<Rightarrow> (config_error, config) res" where
  "envParse h =
     (case h_open h ''.env'' of
        None \<Rightarrow> Err (ReadFailed ''.env'')
      | Some data \<Rightarrow>
        res_bind (env_lines (raw_lines data) empty_config) (\<lambda>cfg.
          if h_read_error h then Err ScanFailed
          else if h_close_error h then Err CloseFailed
          else Ok cfg))"


section \<open>Overrides and validation\<close>

text \<open>
  \<open>overrideCfg\<close> is one conditional per variable, in this order: if the variable is set, its
  text is assigned (after a conversion that panics where it fails).
\<close>

definition set_int :: "string \<Rightarrow> (int \<Rightarrow> config \<Rightarrow> config) \<Rightarrow> string \<Rightarrow> config
    \<Rightarrow> (config_error, config) res" where
  "set_int name upd value cfg =
     (case atoi value of
        None \<Rightarrow> Panic (PanicMsg (''conversion of env variable '' @ name))
      | Some v \<Rightarrow> Ok (upd v cfg))"

definition set_bool :: "string \<Rightarrow> (bool \<Rightarrow> config \<Rightarrow> config) \<Rightarrow> string \<Rightarrow> config
    \<Rightarrow> (config_error, config) res" where
  "set_bool name upd value cfg =
     (case parseBool value of
        None \<Rightarrow> Panic (PanicMsg (''conversion of env variable '' @ name))
      | Some v \<Rightarrow> Ok (upd v cfg))"

definition overrides :: "(string \<times> (string \<Rightarrow> config \<Rightarrow> (config_error, config) res)) list" where
  "overrides =
     [(''K8S_MTP_LISTEN_ADDR'', \<lambda>v c. Ok (c\<lparr>cfg_ListenAddr := v\<rparr>)),
      (''K8S_MTP_DB_URL'', \<lambda>v c. Ok (c\<lparr>cfg_DBURL := v\<rparr>)),
      (''K8S_MTP_LOG_LEVEL'', \<lambda>v c. Ok (c\<lparr>cfg_LogLevel := v\<rparr>)),
      (''K8S_MTP_LOG_FORMAT'', \<lambda>v c. Ok (c\<lparr>cfg_LogFormat := v\<rparr>)),
      (''K8S_MTP_DB_OPEN_CONNS'',
        set_int ''K8S_MTP_DB_OPEN_CONNS'' (\<lambda>v c. c\<lparr>cfg_DBMaxOpenConns := v\<rparr>)),
      (''K8S_MTP_DB_IDLE_CONNS'',
        set_int ''K8S_MTP_DB_IDLE_CONNS'' (\<lambda>v c. c\<lparr>cfg_DBMaxIdleConns := v\<rparr>)),
      (''K8S_MTP_DB_CONN_MAX_LIFETIME'', \<lambda>v c. Ok (c\<lparr>cfg_DBConnMaxLifetime := v\<rparr>)),
      (''K8S_MTP_TENANT_EGRESS_POLICY'', \<lambda>v c. Ok (c\<lparr>cfg_TenantEgressPolicy := v\<rparr>)),
      (''K8S_MTP_PLATFORM_ACCESS_LABEL'', \<lambda>v c. Ok (c\<lparr>cfg_PlatformAccessLabel := v\<rparr>)),
      (''K8S_MTP_WEBHOOK_IMAGE'', \<lambda>v c. Ok (c\<lparr>cfg_WebhookImage := v\<rparr>)),
      (''K8S_MTP_DEX_ISSUER_URL'', \<lambda>v c. Ok (c\<lparr>cfg_DexIssuerURL := v\<rparr>)),
      (''K8S_MTP_DEX_CLIENT_ID'', \<lambda>v c. Ok (c\<lparr>cfg_DexClientID := v\<rparr>)),
      (''K8S_MTP_AUTH_ENABLED'',
        set_bool ''K8S_MTP_AUTH_ENABLED'' (\<lambda>v c. c\<lparr>cfg_AuthEnabled := v\<rparr>)),
      (''K8S_MTP_RATE_REQUESTS_PER_MINUTE'',
        set_int ''K8S_MTP_RATE_REQUESTS_PER_MINUTE'' (\<lambda>v c. c\<lparr>cfg_RateRequestsPerMinute := v\<rparr>)),
      (''K8S_MTP_RATE_BURST'',
        set_int ''K8S_MTP_RATE_BURST'' (\<lambda>v c. c\<lparr>cfg_RateBurst := v\<rparr>))]"

fun apply_overrides :: "host \<Rightarrow> (string \<times> (string \<Rightarrow> config \<Rightarrow> (config_error, config) res)) list
    \<Rightarrow> config \<Rightarrow> (config_error, config) res" where
  "apply_overrides h [] cfg = Ok cfg"
| "apply_overrides h ((name, assign) # rest) cfg =
     res_bind (if h_getenv h name \<noteq> [] then assign (h_getenv h name) cfg else Ok cfg)
       (apply_overrides h rest)"

definition overrideCfg :: "host \<Rightarrow> config \<Rightarrow> (config_error, config) res" where
  "overrideCfg h cfg = apply_overrides h overrides cfg"

definition default_str :: "string \<Rightarrow> string \<Rightarrow> string" where
  "default_str d v = (if v = [] then d else v)"

definition default_int :: "int \<Rightarrow> int \<Rightarrow> int" where
  "default_int d v = (if v = 0 then d else v)"

definition default_tier :: "string \<Rightarrow> string \<Rightarrow> tier_defaults \<Rightarrow> tier_defaults" where
  "default_tier cpu mem td =
     \<lparr>td_cpu = default_str cpu (td_cpu td), td_memory = default_str mem (td_memory td)\<rparr>"

definition fill_defaults :: "config \<Rightarrow> config" where
  \<comment> \<open>the second half of \<open>validateCfg\<close>\<close>
  "fill_defaults cfg = cfg\<lparr>
     cfg_DBMaxOpenConns := default_int 10 (cfg_DBMaxOpenConns cfg),
     cfg_DBMaxIdleConns := default_int 5 (cfg_DBMaxIdleConns cfg),
     cfg_DBConnMaxLifetime := default_str ''1h'' (cfg_DBConnMaxLifetime cfg),
     cfg_TenantEgressPolicy := default_str ''internal-only'' (cfg_TenantEgressPolicy cfg),
     cfg_PlatformAccessLabel :=
       default_str ''k8s-mtp.io/tenant-access'' (cfg_PlatformAccessLabel cfg),
     cfg_Free := default_tier ''100m'' ''128Mi'' (cfg_Free cfg),
     cfg_Pro := default_tier ''200m'' ''256Mi'' (cfg_Pro cfg),
     cfg_Enterprise := default_tier ''500m'' ''512Mi'' (cfg_Enterprise cfg),
     cfg_WebhookImage := default_str ''k8s-mtp-webhook:latest'' (cfg_WebhookImage cfg),
     cfg_DexClientID := default_str ''k8s-mtp'' (cfg_DexClientID cfg),
     cfg_RateRequestsPerMinute := default_int 60 (cfg_RateRequestsPerMinute cfg),
     cfg_RateBurst := default_int 10 (cfg_RateBurst cfg)\<rparr>"

definition valid_levels :: "(string, bool) gomap" where
  "valid_levels = [(''debug'', True), (''info'', True), (''warn'', True), (''error'', True)]"

definition validateCfg :: "config \<Rightarrow> (config_error, config) res" where
  "validateCfg c0 =
     (if cfg_ListenAddr c0 = [] then Err ListenAddrEmpty
      else if cfg_DBURL c0 = [] then Err DBURLEmpty
      else
        (let cfg = c0\<lparr>cfg_LogFormat := default_str ''console'' (cfg_LogFormat c0)\<rparr> in
         if cfg_LogFormat cfg \<noteq> ''json'' \<and> cfg_LogFormat cfg \<noteq> ''console'' then
           Err (InvalidLogFormat (cfg_LogFormat cfg))
         else if \<not> gm_get False valid_levels (cfg_LogLevel cfg) then
           Err (InvalidLogLevel (cfg_LogLevel cfg))
         else Ok (fill_defaults cfg)))"

text \<open>
  \<open>Load\<close> keeps one variable \<open>err\<close>, which each \<open>os.Stat\<close> in the chain of conditions
  assigns. The model returns the configuration and the content of \<open>err\<close> after the chain.
\<close>

definition stat_err :: "host \<Rightarrow> string \<Rightarrow> config_error option" where
  "stat_err h file = (if h_stat h file then None else Some (StatFailed file))"

definition pick_source ::
    "host \<Rightarrow> (config_error, config \<times> config_error option) res" where
  "pick_source h =
     (let with_err = (\<lambda>r. case r of Ok cfg \<Rightarrow> Ok (cfg, None)
                        | Err e \<Rightarrow> Ok (empty_config, Some e) | Panic p \<Rightarrow> Panic p);
          err = stat_err h ''config.json'' in
      if err = None then with_err (fileParse h ''config.json'')
      else
        (let err = stat_err h ''.env'' in
         if err = None then with_err (envParse h)
         else Ok (empty_config, err)))"

definition Load :: "host \<Rightarrow> string \<Rightarrow> (config_error, config) res" where
  "Load h configFile =
     res_bind
       (if configFile \<noteq> [] then
          (case stat_err h configFile of
             Some e \<Rightarrow> Err e
           | None \<Rightarrow> (case fileParse h configFile of
               Ok cfg \<Rightarrow> Ok (cfg, None)
             | Err e \<Rightarrow> Ok (empty_config, Some e) | Panic p \<Rightarrow> Panic p))
        else pick_source h)
       (\<lambda>(cfg, err).
          case err of
            Some e \<Rightarrow> Err (ProblemWith e)
          | None \<Rightarrow> res_bind (overrideCfg h cfg) validateCfg)"


section \<open>Log levels\<close>

datatype slog_level = LevelDebug | LevelInfo | LevelWarn | LevelError

definition to_lower_ascii :: "char \<Rightarrow> char" where
  \<comment> \<open>\<open>strings.ToLower\<close> on the bytes that matter: no other rune maps to a letter of the
     level names\<close>
  "to_lower_ascii c =
     (if 65 \<le> (of_char c :: nat) \<and> (of_char c :: nat) \<le> 90 then char_of ((of_char c :: nat) + 32) else c)"

definition slogLevel :: "config \<Rightarrow> slog_level" where
  "slogLevel cfg =
     (let l = map to_lower_ascii (cfg_LogLevel cfg) in
      if l = ''debug'' then LevelDebug
      else if l = ''warn'' then LevelWarn
      else if l = ''error'' then LevelError
      else LevelInfo)"

datatype handler_kind = JSONHandler | TextHandler

record slog_handler =
  sh_kind :: handler_kind
  sh_level :: slog_level
  sh_group :: string

definition Handler :: "config \<Rightarrow> slog_handler" where
  "Handler cfg =
     \<lparr>sh_kind = (if cfg_LogFormat cfg = ''json'' then JSONHandler else TextHandler),
      sh_level = slogLevel cfg, sh_group = ''app''\<rparr>"

text \<open>
  The levels of \<open>log/slog\<close> are ordered integers (-4, 0, 4, 8); the type gets that order.
\<close>

fun slog_number :: "slog_level \<Rightarrow> int" where
  "slog_number LevelDebug = -4"
| "slog_number LevelInfo = 0"
| "slog_number LevelWarn = 4"
| "slog_number LevelError = 8"

lemma slog_number_inj: "slog_number a = slog_number b \<Longrightarrow> a = b"
  by (cases a; cases b) auto

instantiation slog_level :: linorder
begin

definition less_eq_slog_level :: "slog_level \<Rightarrow> slog_level \<Rightarrow> bool" where
  "less_eq_slog_level a b \<longleftrightarrow> slog_number a \<le> slog_number b"

definition less_slog_level :: "slog_level \<Rightarrow> slog_level \<Rightarrow> bool" where
  "less_slog_level a b \<longleftrightarrow> slog_number a < slog_number b"

instance
  by standard (auto simp: less_eq_slog_level_def less_slog_level_def intro: slog_number_inj)

end


section \<open>Validation\<close>

lemma default_str_simps [simp]:
  "default_str d v \<noteq> [] \<longleftrightarrow> d \<noteq> [] \<or> v \<noteq> []" "v \<noteq> [] \<Longrightarrow> default_str d v = v"
  by (auto simp: default_str_def)

lemma default_int_simps [simp]:
  "d \<noteq> 0 \<Longrightarrow> default_int d v \<noteq> 0" "v \<noteq> 0 \<Longrightarrow> default_int d v = v"
  by (auto simp: default_int_def)

lemma known_level_iff:
  "gm_get False valid_levels l \<longleftrightarrow> l \<in> {''debug'', ''info'', ''warn'', ''error''}"
  by (auto simp: gm_get_def valid_levels_def)

text \<open>The fields the defaults leave alone, and those they fill.\<close>

lemma fill_defaults_kept [simp]:
  "cfg_ListenAddr (fill_defaults c) = cfg_ListenAddr c"
  "cfg_DBURL (fill_defaults c) = cfg_DBURL c"
  "cfg_LogLevel (fill_defaults c) = cfg_LogLevel c"
  "cfg_LogFormat (fill_defaults c) = cfg_LogFormat c"
  "cfg_DexIssuerURL (fill_defaults c) = cfg_DexIssuerURL c"
  "cfg_AuthEnabled (fill_defaults c) = cfg_AuthEnabled c"
  by (simp_all add: fill_defaults_def)

definition defaults_filled :: "config \<Rightarrow> bool" where
  "defaults_filled c \<longleftrightarrow>
     cfg_DBMaxOpenConns c \<noteq> 0 \<and> cfg_DBMaxIdleConns c \<noteq> 0 \<and> cfg_DBConnMaxLifetime c \<noteq> []
     \<and> cfg_TenantEgressPolicy c \<noteq> [] \<and> cfg_PlatformAccessLabel c \<noteq> []
     \<and> list_all (\<lambda>t. td_cpu t \<noteq> [] \<and> td_memory t \<noteq> []) [cfg_Free c, cfg_Pro c, cfg_Enterprise c]
     \<and> cfg_WebhookImage c \<noteq> [] \<and> cfg_DexClientID c \<noteq> []
     \<and> cfg_RateRequestsPerMinute c \<noteq> 0 \<and> cfg_RateBurst c \<noteq> 0"

lemma fill_defaults_filled [simp]: "defaults_filled (fill_defaults c)"
  by (simp add: fill_defaults_def defaults_filled_def default_tier_def)

lemma default_tier_id: "td_cpu t \<noteq> [] \<Longrightarrow> td_memory t \<noteq> [] \<Longrightarrow> default_tier a b t = t"
  by (simp add: default_tier_def)

lemma fill_defaults_id: "defaults_filled c \<Longrightarrow> fill_defaults c = c"
  by (cases c) (simp add: fill_defaults_def defaults_filled_def default_tier_id)

text \<open>What a configuration accepted by \<open>validateCfg\<close> satisfies.\<close>

definition valid_config :: "config \<Rightarrow> bool" where
  "valid_config c \<longleftrightarrow>
     cfg_ListenAddr c \<noteq> [] \<and> cfg_DBURL c \<noteq> []
     \<and> cfg_LogFormat c \<in> {''json'', ''console''}
     \<and> cfg_LogLevel c \<in> {''debug'', ''info'', ''warn'', ''error''}
     \<and> defaults_filled c"

definition acceptable_config :: "config \<Rightarrow> bool" where
  "acceptable_config c \<longleftrightarrow>
     cfg_ListenAddr c \<noteq> [] \<and> cfg_DBURL c \<noteq> []
     \<and> cfg_LogFormat c \<in> {[], ''json'', ''console''}
     \<and> cfg_LogLevel c \<in> {''debug'', ''info'', ''warn'', ''error''}"

definition with_format :: "config \<Rightarrow> config" where
  "with_format c = c\<lparr>cfg_LogFormat := default_str ''console'' (cfg_LogFormat c)\<rparr>"

lemma validateCfg_accepts:
  "acceptable_config c \<Longrightarrow> validateCfg c = Ok (fill_defaults (with_format c))"
  unfolding acceptable_config_def validateCfg_def with_format_def Let_def known_level_iff
  by (elim conjE insertE) (simp_all add: default_str_def)

lemma validateCfg_rejects: "\<not> acceptable_config c \<Longrightarrow> \<exists>e. validateCfg c = Err e"
  unfolding acceptable_config_def validateCfg_def Let_def known_level_iff
  by (auto simp: default_str_def)

lemma accepted_valid: "acceptable_config c \<Longrightarrow> valid_config (fill_defaults (with_format c))"
  unfolding acceptable_config_def valid_config_def
  by (auto simp: with_format_def default_str_def)

lemma valid_acceptable: "valid_config c \<Longrightarrow> acceptable_config c"
  by (auto simp: valid_config_def acceptable_config_def)

lemma with_format_id: "valid_config c \<Longrightarrow> with_format c = c"
  by (cases c) (auto simp: with_format_def valid_config_def)

lemma validateCfg_id: "valid_config c \<Longrightarrow> validateCfg c = Ok c"
  by (simp add: validateCfg_accepts valid_acceptable with_format_id fill_defaults_id
        valid_config_def)

lemma validateCfg_valid: "validateCfg c0 = Ok c \<Longrightarrow> valid_config c"
  using validateCfg_accepts [of c0] accepted_valid [of c0] validateCfg_rejects [of c0]
  by (cases "acceptable_config c0") auto

lemma accepted_config:
  "fill_defaults (with_format c0) =
     \<lparr>cfg_ListenAddr = cfg_ListenAddr c0, cfg_DBURL = cfg_DBURL c0, cfg_LogLevel = cfg_LogLevel c0,
      cfg_LogFormat = default_str ''console'' (cfg_LogFormat c0),
      cfg_DBMaxOpenConns = default_int 10 (cfg_DBMaxOpenConns c0),
      cfg_DBMaxIdleConns = default_int 5 (cfg_DBMaxIdleConns c0),
      cfg_DBConnMaxLifetime = default_str ''1h'' (cfg_DBConnMaxLifetime c0),
      cfg_TenantEgressPolicy = default_str ''internal-only'' (cfg_TenantEgressPolicy c0),
      cfg_PlatformAccessLabel = default_str ''k8s-mtp.io/tenant-access'' (cfg_PlatformAccessLabel c0),
      cfg_Free = default_tier ''100m'' ''128Mi'' (cfg_Free c0),
      cfg_Pro = default_tier ''200m'' ''256Mi'' (cfg_Pro c0),
      cfg_Enterprise = default_tier ''500m'' ''512Mi'' (cfg_Enterprise c0),
      cfg_WebhookImage = default_str ''k8s-mtp-webhook:latest'' (cfg_WebhookImage c0),
      cfg_DexIssuerURL = cfg_DexIssuerURL c0,
      cfg_DexClientID = default_str ''k8s-mtp'' (cfg_DexClientID c0),
      cfg_AuthEnabled = cfg_AuthEnabled c0,
      cfg_RateRequestsPerMinute = default_int 60 (cfg_RateRequestsPerMinute c0),
      cfg_RateBurst = default_int 10 (cfg_RateBurst c0)\<rparr>"
  by (cases c0) (simp add: fill_defaults_def with_format_def)

text \<open>
  C31: \<open>validateCfg\<close> never panics; it succeeds exactly if the address and the database URL are
  given and the log format and level are known. Its result is then the given configuration in
  which every empty text or zero number that has a default got it, and all else is as given;
  that is a valid configuration, and validating it again changes nothing.
\<close>

theorem validateCfg_correct:
  "let text = (\<lambda>d s. if s = [] then d else s);
       number = (\<lambda>d n :: int. if n = 0 then d else n);
       limits = (\<lambda>cpu mem td. \<lparr>td_cpu = text cpu (td_cpu td), td_memory = text mem (td_memory td)\<rparr>);
       c = \<lparr>cfg_ListenAddr = cfg_ListenAddr c0,
            cfg_DBURL = cfg_DBURL c0,
            cfg_LogLevel = cfg_LogLevel c0,
            cfg_LogFormat = text ''console'' (cfg_LogFormat c0),
            cfg_DBMaxOpenConns = number 10 (cfg_DBMaxOpenConns c0),
            cfg_DBMaxIdleConns = number 5 (cfg_DBMaxIdleConns c0),
            cfg_DBConnMaxLifetime = text ''1h'' (cfg_DBConnMaxLifetime c0),
            cfg_TenantEgressPolicy = text ''internal-only'' (cfg_TenantEgressPolicy c0),
            cfg_PlatformAccessLabel = text ''k8s-mtp.io/tenant-access'' (cfg_PlatformAccessLabel c0),
            cfg_Free = limits ''100m'' ''128Mi'' (cfg_Free c0),
            cfg_Pro = limits ''200m'' ''256Mi'' (cfg_Pro c0),
            cfg_Enterprise = limits ''500m'' ''512Mi'' (cfg_Enterprise c0),
            cfg_WebhookImage = text ''k8s-mtp-webhook:latest'' (cfg_WebhookImage c0),
            cfg_DexIssuerURL = cfg_DexIssuerURL c0,
            cfg_DexClientID = text ''k8s-mtp'' (cfg_DexClientID c0),
            cfg_AuthEnabled = cfg_AuthEnabled c0,
            cfg_RateRequestsPerMinute = number 60 (cfg_RateRequestsPerMinute c0),
            cfg_RateBurst = number 10 (cfg_RateBurst c0)\<rparr>
   in if cfg_ListenAddr c0 \<noteq> [] \<and> cfg_DBURL c0 \<noteq> [] \<and> cfg_LogFormat c0 \<in> {[], ''json'', ''console''}
         \<and> cfg_LogLevel c0 \<in> {''debug'', ''info'', ''warn'', ''error''}
      then validateCfg c0 = Ok c \<and> valid_config c \<and> validateCfg c = Ok c
      else \<exists>e. validateCfg c0 = Err e"
proof (cases "acceptable_config c0")
  case True
  let ?c = "fill_defaults (with_format c0)"
  have "valid_config ?c" using True by (rule accepted_valid)
  then have "validateCfg c0 = Ok ?c \<and> valid_config ?c \<and> validateCfg ?c = Ok ?c"
    using validateCfg_accepts [OF True] validateCfg_id by simp
  with True show ?thesis
    unfolding Let_def default_str_def [symmetric] default_int_def [symmetric] default_tier_def [symmetric]
      accepted_config [symmetric] acceptable_config_def [symmetric] by (simp only: if_True)
next
  case False
  with validateCfg_rejects [OF this] show ?thesis
    unfolding Let_def acceptable_config_def [symmetric] by (simp only: if_False)
qed

lemma Load_valid: "Load h f = Ok c \<Longrightarrow> valid_config c"
  by (auto simp: Load_def res_simps dest: validateCfg_valid split: option.splits)

text \<open>
  A configuration that \<open>Load\<close> returns is valid, and its log level is the one it names:
  the comparison ignores case only on paper, since \<open>Load\<close> rejects the capitals.
\<close>

theorem Load_result_valid:
  assumes "Load h f = Ok c"
  shows "valid_config c
    \<and> slogLevel c = the (map_of [(''debug'', LevelDebug), (''info'', LevelInfo),
                                 (''warn'', LevelWarn), (''error'', LevelError)] (cfg_LogLevel c))"
proof -
  from assms have v: "valid_config c" by (rule Load_valid)
  then have "cfg_LogLevel c \<in> {''debug'', ''info'', ''warn'', ''error''}"
    by (simp add: valid_config_def)
  then show ?thesis using v by (auto simp: slogLevel_def to_lower_ascii_def)
qed

definition sample_host :: host where
  "sample_host = \<lparr>h_stat = (\<lambda>f. f = ''config.json''), h_read = (\<lambda>f. Some f), h_open = (\<lambda>f. None),
     h_read_error = False, h_close_error = False,
     h_getenv = (\<lambda>n. if n = ''K8S_MTP_LOG_LEVEL'' then ''warn''
                     else if n = ''K8S_MTP_RATE_BURST'' then ''7'' else []),
     h_json = (\<lambda>_. Some (empty_config\<lparr>cfg_ListenAddr := '':8080'', cfg_DBURL := ''db'',
        cfg_LogLevel := ''debug''\<rparr>))\<rparr>"

lemma sample_overrides:
  "overrideCfg sample_host c = Ok (c\<lparr>cfg_LogLevel := ''warn'', cfg_RateBurst := 7\<rparr>)"
  by (simp add: overrideCfg_def overrides_def sample_host_def set_int_def atoi_def
        parse_digits_def digit_value_def digits_def)

lemma sample_Load:
  "Load sample_host [] = Ok (fill_defaults (with_format
     (empty_config\<lparr>cfg_ListenAddr := '':8080'', cfg_DBURL := ''db'', cfg_LogLevel := ''warn'',
        cfg_RateBurst := 7\<rparr>)))"
proof -
  have "pick_source sample_host = Ok (empty_config\<lparr>cfg_ListenAddr := '':8080'',
          cfg_DBURL := ''db'', cfg_LogLevel := ''debug''\<rparr>, None)"
    by (simp add: pick_source_def stat_err_def fileParse_def sample_host_def)
  then show ?thesis
    by (simp add: Load_def sample_overrides validateCfg_accepts acceptable_config_def
          empty_config_def)
qed

theorem Load_result_valid_witness:
  "\<exists>c. Load sample_host [] = Ok c \<and> valid_config c \<and> slogLevel c = LevelWarn"
  using Load_result_valid [OF sample_Load] sample_Load
  by (simp add: with_format_def)


section \<open>Sources and precedence\<close>

text \<open>
  With no file argument, no \<open>config.json\<close> and no \<open>.env\<close>, \<open>Load\<close> fails whatever the
  environment holds: the last branch of the chain sets an empty configuration, but the
  error of the \<open>os.Stat\<close> before it is still in \<open>err\<close>.
\<close>

theorem Load_without_files_fails:
  assumes "\<not> h_stat h ''config.json''" and "\<not> h_stat h ''.env''"
  shows "Load h [] = Err (ProblemWith (StatFailed ''.env''))"
  using assms by (simp add: Load_def pick_source_def stat_err_def)

theorem Load_without_files_fails_witness:
  "Load (sample_host\<lparr>h_stat := (\<lambda>_. False)\<rparr>) [] = Err (ProblemWith (StatFailed ''.env''))"
  by (rule Load_without_files_fails) simp_all

text \<open>
  The text settings and their variables. A later conditional of \<open>overrideCfg\<close> leaves the
  field of an earlier one alone.
\<close>

definition text_settings :: "(string \<times> (config \<Rightarrow> string)) list" where
  "text_settings =
     [(''K8S_MTP_LISTEN_ADDR'', cfg_ListenAddr), (''K8S_MTP_DB_URL'', cfg_DBURL),
      (''K8S_MTP_LOG_LEVEL'', cfg_LogLevel), (''K8S_MTP_LOG_FORMAT'', cfg_LogFormat),
      (''K8S_MTP_DB_CONN_MAX_LIFETIME'', cfg_DBConnMaxLifetime),
      (''K8S_MTP_TENANT_EGRESS_POLICY'', cfg_TenantEgressPolicy),
      (''K8S_MTP_PLATFORM_ACCESS_LABEL'', cfg_PlatformAccessLabel),
      (''K8S_MTP_WEBHOOK_IMAGE'', cfg_WebhookImage), (''K8S_MTP_DEX_ISSUER_URL'', cfg_DexIssuerURL),
      (''K8S_MTP_DEX_CLIENT_ID'', cfg_DexClientID)]"

definition keeps :: "(config \<Rightarrow> 'x) \<Rightarrow> (string \<Rightarrow> config \<Rightarrow> (config_error, config) res) \<Rightarrow> bool" where
  "keeps f assign \<longleftrightarrow> (\<forall>v c c'. assign v c = Ok c' \<longrightarrow> f c' = f c)"

lemma keeps_intros [intro]:
  "(\<And>v c. f (upd v c) = f c) \<Longrightarrow> keeps f (\<lambda>v c. Ok (upd v c))"
  "(\<And>v c. f (upd' v c) = f c) \<Longrightarrow> keeps f (set_int n upd')"
  "(\<And>v c. f (upd'' v c) = f c) \<Longrightarrow> keeps f (set_bool n upd'')"
  by (auto simp: keeps_def set_int_def set_bool_def split: option.splits)

lemma apply_overrides_keeps:
  assumes "apply_overrides h es c = Ok c'" and "list_all (\<lambda>(n, a). keeps f a) es"
  shows "f c' = f c"
  using assms
proof (induction h es c rule: apply_overrides.induct)
  case (2 h n a rest c)
  then show ?case
    by (auto simp: res_simps keeps_def split: if_splits)
qed simp

lemma apply_overrides_wins:
  assumes run: "apply_overrides h (pre @ (n, a) # post) c = Ok c'"
    and set: "h_getenv h n \<noteq> []" "\<And>v c c''. a v c = Ok c'' \<Longrightarrow> f c'' = v"
    and post: "list_all (\<lambda>(n, a). keeps f a) post"
  shows "f c' = h_getenv h n"
  using run
proof (induction pre arbitrary: c)
  case Nil
  then obtain c1 where "a (h_getenv h n) c = Ok c1" "apply_overrides h post c1 = Ok c'"
    using set(1) by (auto simp: res_simps)
  then show ?case using set(2) apply_overrides_keeps [OF _ post] by metis
next
  case (Cons e pre)
  then show ?case by (cases e) (auto simp: res_simps)
qed

lemma overrideCfg_wins_at:
  assumes "overrideCfg h c0 = Ok c" and "h_getenv h (fst (overrides ! i)) \<noteq> []"
    and "i < length overrides"
    and "\<And>v c c'. snd (overrides ! i) v c = Ok c' \<Longrightarrow> f c' = v"
    and "list_all (\<lambda>(n, a). keeps f a) (drop (Suc i) overrides)"
  shows "f c = h_getenv h (fst (overrides ! i))"
proof -
  have "overrides = take i overrides @ (fst (overrides ! i), snd (overrides ! i)) # drop (Suc i) overrides"
    using assms(3) by (simp add: id_take_nth_drop [symmetric])
  with assms(1) have "apply_overrides h (take i overrides @ (fst (overrides ! i), snd (overrides ! i))
      # drop (Suc i) overrides) c0 = Ok c"
    by (simp add: overrideCfg_def)
  then show ?thesis using assms(2,4,5) by (rule apply_overrides_wins)
qed

lemma overrideCfg_text:
  assumes "overrideCfg h c0 = Ok c" and "(n, f) \<in> set text_settings" and "h_getenv h n \<noteq> []"
  shows "f c = h_getenv h n"
proof -
  note at = overrideCfg_wins_at [OF assms(1), of _ f]
  have pos: "i < length overrides \<Longrightarrow> fst (overrides ! i) = n \<Longrightarrow>
      (\<And>v c c'. snd (overrides ! i) v c = Ok c' \<Longrightarrow> f c' = v) \<Longrightarrow>
      list_all (\<lambda>(n, a). keeps f a) (drop (Suc i) overrides) \<Longrightarrow> ?thesis" for i
    using at [of i] assms(3) by auto
  from assms(2) show ?thesis
    unfolding text_settings_def
    apply (simp add: text_settings_def)
    apply (elim disjE conjE)
    subgoal by (rule pos [of 0]) (auto simp: overrides_def)
    subgoal by (rule pos [of 1]) (auto simp: overrides_def)
    subgoal by (rule pos [of 2]) (auto simp: overrides_def)
    subgoal by (rule pos [of 3]) (auto simp: overrides_def)
    subgoal by (rule pos [of 6]) (auto simp: overrides_def)
    subgoal by (rule pos [of 7]) (auto simp: overrides_def)
    subgoal by (rule pos [of 8]) (auto simp: overrides_def)
    subgoal by (rule pos [of 9]) (auto simp: overrides_def)
    subgoal by (rule pos [of 10]) (auto simp: overrides_def)
    subgoal by (rule pos [of 11]) (auto simp: overrides_def)
    done
qed

lemma validateCfg_keeps_text:
  assumes "validateCfg c0 = Ok c" and "(n, f) \<in> set text_settings" and "f c0 \<noteq> []"
  shows "f c = f c0"
proof -
  have "acceptable_config c0" using assms(1) validateCfg_rejects [of c0] by force
  with assms(1) have "c = fill_defaults (with_format c0)"
    by (simp add: validateCfg_accepts)
  with assms(2,3) show ?thesis
    by (auto simp: text_settings_def with_format_def fill_defaults_def)
qed

text \<open>
  C32: the environment wins: in a configuration that \<open>Load\<close> returns, every text setting
  whose variable is set has the value of the variable, whichever source the rest came from.
\<close>

theorem Load_environment_wins:
  assumes "Load h file = Ok c" and "(n, f) \<in> set text_settings" and "h_getenv h n \<noteq> []"
  shows "f c = h_getenv h n"
proof -
  from assms(1) obtain c0 c1 where "overrideCfg h c0 = Ok c1" and c: "validateCfg c1 = Ok c"
    by (auto simp: Load_def res_simps split: option.splits)
  then have "f c1 = h_getenv h n" using assms(2,3) by (blast intro: overrideCfg_text)
  with c assms(2,3) show ?thesis by (metis validateCfg_keeps_text)
qed

theorem Load_environment_wins_witness:
  "\<exists>c. Load sample_host [] = Ok c \<and> cfg_LogLevel c = ''warn''"
  using Load_environment_wins [OF sample_Load, of "''K8S_MTP_LOG_LEVEL''" cfg_LogLevel] sample_Load
  by (simp add: text_settings_def sample_host_def with_format_def)

end
