(* ===== verification/Auth.thy ===== *)
theory Auth
  imports Handlers Config "HOL-Library.Word"
begin

text \<open>
  Authentication, \<open>internal/middleware/auth.go\<close>: the keys fetched from Dex when the server starts,
  with \<open>base64.RawURLEncoding\<close> of Go's library written out, and the middleware. Parsing and
  verifying a token is code of the module \<open>golang-jwt\<close>: a parameter.
\<close>

unbundle bit_operations_syntax

section \<open>Base64, URL alphabet, no padding\<close>

definition b64_value :: "char \<Rightarrow> nat option" where
  "b64_value c =
     (let n = (of_char c :: nat) in
      if 65 \<le> n \<and> n \<le> 90 then Some (n - 65)
      else if 97 \<le> n \<and> n \<le> 122 then Some (n - 71)
      else if 48 \<le> n \<and> n \<le> 57 then Some (n + 4)
      else if n = 45 then Some 62
      else if n = 95 then Some 63
      else None)"

fun b64_values :: "string \<Rightarrow> nat list option" where
  \<comment> \<open>carriage returns and line feeds are skipped, any other foreign character is an error\<close>
  "b64_values [] = Some []"
| "b64_values (c # cs) =
     (if c = CHR 0x0D \<or> c = CHR 0x0A then b64_values cs
      else case b64_value c of
             None \<Rightarrow> None
           | Some v \<Rightarrow> map_option ((#) v) (b64_values cs))"

fun b64_groups :: "nat list \<Rightarrow> nat list option" where
  \<comment> \<open>bits left over in the last group are ignored, a single character is an error\<close>
  "b64_groups [] = Some []"
| "b64_groups [a] = None"
| "b64_groups [a, b] = Some [a * 4 + b div 16]"
| "b64_groups [a, b, c] = Some [a * 4 + b div 16, (b mod 16) * 16 + c div 4]"
| "b64_groups (a # b # c # d # r) =
     map_option (\<lambda>bs. (a * 4 + b div 16) # ((b mod 16) * 16 + c div 4) # ((c mod 4) * 64 + d) # bs)
       (b64_groups r)"

definition RawURLEncoding_DecodeString :: "string \<Rightarrow> nat list option" where
  "RawURLEncoding_DecodeString s =
     (case b64_values s of None \<Rightarrow> None | Some vs \<Rightarrow> b64_groups vs)"


section \<open>Keys\<close>

record jwk =
  jwk_KTY :: string
  jwk_KID :: string
  jwk_N :: string
  jwk_E :: string

record rsa_key =
  rsa_N :: nat
  rsa_E :: "64 word"     \<comment> \<open>an \<open>int\<close>\<close>

definition big_endian :: "nat list \<Rightarrow> nat" where
  \<comment> \<open>\<open>big.Int.SetBytes\<close>\<close>
  "big_endian bs = foldl (\<lambda>n b. n * 256 + b) 0 bs"

definition exponent :: "nat list \<Rightarrow> 64 word" where
  \<comment> \<open>\<open>ei = ei<<8 | int(b)\<close>\<close>
  "exponent e = foldl (\<lambda>ei b. push_bit 8 ei OR of_nat b) 0 e"

definition publicKey :: "jwk \<Rightarrow> rsa_key option" where
  "publicKey j =
     (case RawURLEncoding_DecodeString (jwk_N j) of
        None \<Rightarrow> None
      | Some n \<Rightarrow>
        (case RawURLEncoding_DecodeString (jwk_E j) of
           None \<Rightarrow> None
         | Some e \<Rightarrow> Some \<lparr>rsa_N = big_endian n, rsa_E = exponent e\<rparr>))"


section \<open>The middleware\<close>

record auth =
  au_IssuerURL :: string
  au_ClientID :: string
  au_Enabled :: bool
  au_keySet :: "string \<rightharpoonup> rsa_key"

record auth_env =
  ae_get :: "string \<Rightarrow> (nat \<times> string) option"       \<comment> \<open>\<open>http.Get\<close>: status and body\<close>
  ae_jwks :: "string \<Rightarrow> jwk list option"            \<comment> \<open>\<open>json.Decoder.Decode\<close>\<close>
  ae_parse :: "(string \<Rightarrow> rsa_key option) \<Rightarrow> string \<Rightarrow> string \<Rightarrow> string \<Rightarrow> string option option"
    \<comment> \<open>\<open>jwt.Parse\<close>: key lookup, issuer, audience, token; an accepted token has a subject or none\<close>

definition NewAuthMiddleware :: "auth_env \<Rightarrow> config \<Rightarrow> auth option" where
  "NewAuthMiddleware X cfg =
     (case ae_get X (cfg_DexIssuerURL cfg @ ''/.well-known/jwks.json'') of
        None \<Rightarrow> None
      | Some (status, data) \<Rightarrow>
          if status \<noteq> 200 then None
          else (case ae_jwks X data of
                  None \<Rightarrow> None
                | Some keys \<Rightarrow>
                    Some \<lparr>au_IssuerURL = cfg_DexIssuerURL cfg, au_ClientID = cfg_DexClientID cfg,
                          au_Enabled = cfg_AuthEnabled cfg,
                          au_keySet = foldl (\<lambda>ks key. case publicKey key of
                              None \<Rightarrow> ks | Some pk \<Rightarrow> ks(jwk_KID key \<mapsto> pk)) Map.empty keys\<rparr>))"

definition cut_bearer :: "string \<Rightarrow> string" where
  \<comment> \<open>\<open>strings.CutPrefix\<close>, whose second result is ignored\<close>
  "cut_bearer s = (if hasPrefix s ''Bearer '' then drop 7 s else s)"

definition authenticate :: "auth_env \<Rightarrow> auth \<Rightarrow> http_request \<Rightarrow> string option" where
  \<comment> \<open>the user put into the context, or no access\<close>
  "authenticate X A r =
     (if \<not> au_Enabled A then Some ''anonymous''
      else case ae_parse X (au_keySet A) (au_IssuerURL A) (au_ClientID A) (cut_bearer (hr_authorization r)) of
             None \<Rightarrow> None
           | Some sub \<Rightarrow> Some (case sub of None \<Rightarrow> [] | Some u \<Rightarrow> u))"

definition Auth ::
    "auth_env \<Rightarrow> auth \<Rightarrow> (string option \<Rightarrow> http_request \<Rightarrow> 'w \<Rightarrow> 'w \<times> http_result)
       \<Rightarrow> string option \<Rightarrow> http_request \<Rightarrow> 'w \<Rightarrow> 'w \<times> http_result" where
  \<comment> \<open>the option is the user of the request's context; the handler is called with a new one\<close>
  "Auth X A next ctx r w =
     (case authenticate X A r of
        None \<Rightarrow> (w, http_error ''unauthorized'' 401)
      | Some sub \<Rightarrow> next (Some sub) r w)"


section \<open>Keys survive their encoding\<close>

text \<open>The encoder of RFC 7648, section 5, without padding.\<close>

definition b64_char :: "nat \<Rightarrow> char" where
  "b64_char v = char_of (if v < 26 then v + 65 else if v < 52 then v + 71 else if v < 62 then v - 4
     else if v = 62 then 45 else (95 :: nat))"

fun b64_sextets :: "nat list \<Rightarrow> nat list" where
  "b64_sextets [] = []"
| "b64_sextets [x] = [x div 4, (x mod 4) * 16]"
| "b64_sextets [x, y] = [x div 4, (x mod 4) * 16 + y div 16, (y mod 16) * 4]"
| "b64_sextets (x # y # z # r) =
     [x div 4, (x mod 4) * 16 + y div 16, (y mod 16) * 4 + z div 64, z mod 64] @ b64_sextets r"

definition b64_encode :: "nat list \<Rightarrow> string" where
  "b64_encode bs = map b64_char (b64_sextets bs)"

lemma b64_value_char: "v < 64 \<Longrightarrow> b64_value (b64_char v) = Some v"
  by (auto simp: b64_value_def b64_char_def Let_def)

lemma b64_char_no_newline: "v < 64 \<Longrightarrow> b64_char v \<noteq> CHR 0x0D \<and> b64_char v \<noteq> CHR 0x0A"
  using b64_value_char [of v] by (auto simp: b64_value_def)

lemma b64_values_map: "\<forall>v\<in>set vs. v < 64 \<Longrightarrow> b64_values (map b64_char vs) = Some vs"
  by (induction vs) (auto simp: b64_value_char dest: b64_char_no_newline)

lemma sextet_small:
  fixes x y z :: nat
  assumes "x < 256" "y < 256" "z < 256"
  shows "x div 4 < 64" "(x mod 4) * 16 + y div 16 < 64" "(y mod 16) * 4 + z div 64 < 64"
    "(x mod 4) * 16 < 64" "(y mod 16) * 4 < 64"
proof -
  have "x div 4 < 64" "y div 16 < 16" "z div 64 < 4" using assms by auto
  moreover have "x mod 4 < 4" "y mod 16 < 16" by auto
  ultimately show "x div 4 < 64" "(x mod 4) * 16 + y div 16 < 64" "(y mod 16) * 4 + z div 64 < 64"
    "(x mod 4) * 16 < 64" "(y mod 16) * 4 < 64"
    by linarith+
qed

lemma pack_unpack:
  fixes q r n :: nat
  assumes "r < n"
  shows "(q * n + r) div n = q" "(q * n + r) mod n = r"
  using assms by auto

lemma sextet_join:
  fixes x y z :: nat
  assumes "y < 256" "z < 256"
  shows "x div 4 * 4 + ((x mod 4) * 16 + y div 16) div 16 = x"
    "((x mod 4) * 16 + y div 16) mod 16 * 16 + ((y mod 16) * 4 + z div 64) div 4 = y"
    "((y mod 16) * 4 + z div 64) mod 4 * 64 + z mod 64 = z"
proof -
  have small: "y div 16 < 16" "z div 64 < 4" using assms by auto
  show "x div 4 * 4 + ((x mod 4) * 16 + y div 16) div 16 = x"
    by (simp only: pack_unpack [OF small(1)] div_mult_mod_eq)
  show "((x mod 4) * 16 + y div 16) mod 16 * 16 + ((y mod 16) * 4 + z div 64) div 4 = y"
    by (simp only: pack_unpack [OF small(1)] pack_unpack [OF small(2)] div_mult_mod_eq)
  show "((y mod 16) * 4 + z div 64) mod 4 * 64 + z mod 64 = z"
    by (simp only: pack_unpack [OF small(2)] div_mult_mod_eq)
qed

lemma b64_sextets_small: "\<forall>b\<in>set bs. b < 256 \<Longrightarrow> \<forall>v\<in>set (b64_sextets bs). v < 64"
proof (induction bs rule: b64_sextets.induct)
  case (2 x)
  then show ?case using sextet_small [of x 0 0] by simp
next
  case (3 x y)
  then show ?case using sextet_small [of x y 0] by simp
next
  case (4 x y z r)
  then show ?case using sextet_small [of x y z] by simp
qed simp

lemma b64_groups_sextets: "\<forall>b\<in>set bs. b < 256 \<Longrightarrow> b64_groups (b64_sextets bs) = Some bs"
proof (induction bs rule: b64_sextets.induct)
  case (2 x)
  then show ?case using sextet_join(1) [of 0 0 x] by simp
next
  case (3 x y)
  then show ?case using sextet_join(1) [of y 0 x] sextet_join(2) [of y 0] by simp
next
  case (4 x y z r)
  then show ?case using sextet_join(1) [of y z x] sextet_join(2,3) [of y z] by (simp only: b64_sextets.simps append.simps b64_groups.simps) simp
qed simp

lemma decode_encode:
  "\<forall>b\<in>set bs. b < 256 \<Longrightarrow> RawURLEncoding_DecodeString (b64_encode bs) = Some bs"
  by (simp add: RawURLEncoding_DecodeString_def b64_encode_def b64_values_map b64_sextets_small b64_groups_sextets)

text \<open>The exponent loop is arithmetic modulo \<open>2 ^ 64\<close>.\<close>

lemma shift_or_byte:
  fixes w :: "64 word"
  assumes "b < 256"
  shows "push_bit 8 w OR of_nat b = w * 256 + of_nat b"
proof -
  have "(of_nat b :: 64 word) = take_bit 8 (of_nat b)"
    using assms by (simp add: take_bit_of_nat take_bit_nat_eq_self)
  then have "\<not> bit (push_bit 8 w) n \<or> \<not> bit (of_nat b :: 64 word) n" for n
    by (metis bit_push_bit_iff bit_take_bit_iff not_le)
  then have "push_bit 8 w + of_nat b = push_bit 8 w OR of_nat b" by (rule disjunctive_add)
  then show ?thesis by (simp add: push_bit_eq_mult)
qed

lemma exponent_big_endian:
  assumes "\<forall>b\<in>set e. b < 256"
  shows "exponent e = of_nat (big_endian e)"
proof -
  have "foldl (\<lambda>ei b. push_bit 8 ei OR of_nat b) (of_nat n) e = (of_nat (foldl (\<lambda>n b. n * 256 + b) n e) :: 64 word)" for n
    using assms
  proof (induction e arbitrary: n)
    case (Cons b e)
    then have "push_bit 8 (of_nat n :: 64 word) OR of_nat b = of_nat (n * 256 + b)"
      by (simp add: shift_or_byte)
    moreover have "\<forall>b\<in>set e. b < 256" using Cons.prems by simp
    ultimately show ?case using Cons.IH by (simp only: foldl_Cons)
  qed simp
  from this [of 0] show ?thesis by (simp add: exponent_def big_endian_def)
qed

lemma big_endian_bound:
  assumes "\<forall>b\<in>set e. b < 256"
  shows "big_endian e < 256 ^ length e"
proof -
  have "foldl (\<lambda>n b. n * 256 + b) n e < (n + 1) * 256 ^ length e" for n
    using assms
  proof (induction e arbitrary: n)
    case (Cons b e)
    have "foldl (\<lambda>n b. n * 256 + b) (n * 256 + b) e < (n * 256 + b + 1) * 256 ^ length e"
      using Cons by simp
    also have "\<dots> \<le> ((n + 1) * 256) * 256 ^ length e"
      using Cons.prems by (intro mult_right_mono) auto
    finally show ?case by (simp only: foldl_Cons length_Cons power_Suc mult.assoc)
  qed simp
  from this [of 0] show ?thesis by (simp add: big_endian_def)
qed

text \<open>
  C35: a key set entry encoded as RFC 7518 prescribes is read back: the modulus exactly, the
  exponent exactly if it has at most seven bytes and modulo \<open>2 ^ 64\<close> otherwise.
\<close>

theorem publicKey_roundtrip:
  assumes "\<forall>b\<in>set n. b < 256" "\<forall>b\<in>set e. b < 256"
  shows "publicKey \<lparr>jwk_KTY = kty, jwk_KID = kid, jwk_N = b64_encode n, jwk_E = b64_encode e\<rparr>
      = Some \<lparr>rsa_N = big_endian n, rsa_E = of_nat (big_endian e)\<rparr>
    \<and> (length e \<le> 7 \<longrightarrow> sint (of_nat (big_endian e) :: 64 word) = int (big_endian e))"
proof -
  have "sint (of_nat (big_endian e) :: 64 word) = int (big_endian e)" if "length e \<le> 7"
  proof -
    have "(256::nat) ^ length e \<le> 256 ^ 7" using that by (intro power_increasing) auto
    with big_endian_bound [OF assms(2)] have "big_endian e < 2 ^ 56" by simp
    then show ?thesis by (simp add: signed_of_nat signed_take_bit_int_eq_self)
  qed
  then show ?thesis
    by (simp add: publicKey_def decode_encode assms exponent_big_endian)
qed

theorem publicKey_roundtrip_witness:
  "publicKey \<lparr>jwk_KTY = ''RSA'', jwk_KID = ''k1'', jwk_N = b64_encode [200, 1, 255], jwk_E = b64_encode [1, 0, 1]\<rparr>
   = Some \<lparr>rsa_N = 13107711, rsa_E = 65537\<rparr>"
  using publicKey_roundtrip [of "[200, 1, 255]" "[1, 0, 1]" "''RSA''" "''k1''"] by (simp add: big_endian_def)

end
