(* ===== verification/Store_Props.thy ===== *)
theory Store_Props
  imports Store
begin

text \<open>
  What the store keeps: the inversion of its calls, and the constraints of the schema, which hold
  in every reachable database, whatever statements fail.
\<close>

section \<open>Statements\<close>

lemma exec_Ok_iff [res_simps]:
  "exec P stmt d = (d', Ok a) \<longleftrightarrow>
     pg_fault P (db_seq d) = None \<and> stmt (db_seq d) (d\<lparr>db_seq := Suc (db_seq d)\<rparr>) = (d', Ok a)"
  by (auto simp: exec_def Let_def split: option.splits fault.splits)

lemma with_params_Ok_iff [res_simps]:
  "with_params r f w = (w', Ok a) \<longleftrightarrow> (\<exists>p. r = Ok p \<and> f p w = (w', Ok a))"
  by (cases r) (auto simp: with_params_def)

text \<open>What every statement body keeps is kept by a call, whether or not it fails.\<close>

lemma exec_invariant:
  assumes "I (d\<lparr>db_seq := Suc (db_seq d)\<rparr>)" and "\<And>k d1. I d1 \<Longrightarrow> I (fst (stmt k d1))"
  shows "I (fst (exec P stmt d))"
  using assms by (auto simp: exec_def Let_def split: option.splits fault.splits)

lemma with_params_invariant:
  assumes "I w" and "\<And>p. r = Ok p \<Longrightarrow> I (fst (f p w))"
  shows "I (fst (with_params r f w))"
  using assms by (cases r) (auto simp: with_params_def)

lemma uuid_param_Ok_iff [res_simps]: "uuid_param P s = Ok u \<longleftrightarrow> pg_uuid P s = Some u"
  by (auto simp: uuid_param_def split: option.splits)

lemma varchar_param_Ok_iff [res_simps]: "varchar_param P n s = Ok v \<longleftrightarrow> pg_varchar P n s = Some v"
  by (auto simp: varchar_param_def split: option.splits)

lemma row_tenant_fields [simp]:
  "om_uid (t_meta (row_tenant r)) = tr_id r" "ts_name (t_spec (row_tenant r)) = tr_name r"
  "ts_tier (t_spec (row_tenant r)) = tr_tier r" "ts_ownerEmail (t_spec (row_tenant r)) = tr_owner_email r"
  "tst_namespace (t_status (row_tenant r)) = tr_namespace r"
  by (simp_all add: row_tenant_def)

text \<open>The observable outcomes of the two methods that turn \<open>NoRows\<close> into success.\<close>

lemma CreateTenant_Ok_iff:
  "CreateTenant P t d = (d', Ok t') \<longleftrightarrow>
     (\<exists>now. exec P (\<lambda>k. with_params (tenant_params P t) (insert_tenant (pg_now P k))) d = (d', Ok now)
        \<and> t' = t\<lparr>t_meta := (t_meta t)\<lparr>om_creationTimestamp := Some now\<rparr>\<rparr>)
     \<or> exec P (\<lambda>k. with_params (tenant_params P t) (insert_tenant (pg_now P k))) d = (d', Err NoRows)
        \<and> t' = t"
  by (auto simp: CreateTenant_def split: prod.splits res.splits db_error.splits)

lemma GetTenantByID_Ok_iff:
  "GetTenantByID P i d = (d', Ok r) \<longleftrightarrow>
     (\<exists>t. exec P (\<lambda>k. with_params (uuid_param P i) (\<lambda>u. select_tenant (\<lambda>r. tr_id r = u))) d = (d', Ok t)
        \<and> r = Some t)
     \<or> exec P (\<lambda>k. with_params (uuid_param P i) (\<lambda>u. select_tenant (\<lambda>r. tr_id r = u))) d = (d', Err NoRows)
        \<and> r = None"
  by (auto simp: GetTenantByID_def split: prod.splits res.splits db_error.splits)

lemma exec_NoRows_iff:
  "exec P stmt d = (d', Err NoRows) \<longleftrightarrow>
     pg_fault P (db_seq d) = None \<and> stmt (db_seq d) (d\<lparr>db_seq := Suc (db_seq d)\<rparr>) = (d', Err NoRows)"
  by (auto simp: exec_def Let_def split: option.splits fault.splits)

lemma with_params_NoRows_iff:
  "r \<noteq> Err NoRows \<Longrightarrow>
     with_params r f w = (w', Err NoRows) \<longleftrightarrow> (\<exists>p. r = Ok p \<and> f p w = (w', Err NoRows))"
  by (cases r) (auto simp: with_params_def)

lemma params_not_NoRows [simp]:
  "uuid_param P s \<noteq> Err NoRows" "varchar_param P n s \<noteq> Err NoRows" "tenant_params P t \<noteq> Err NoRows"
  by (auto simp: uuid_param_def varchar_param_def tenant_params_def res_simps split: option.splits)

lemma fst_CreateTenant [simp]:
  "fst (CreateTenant P t d) =
     fst (exec P (\<lambda>k. with_params (tenant_params P t) (insert_tenant (pg_now P k))) d)"
  by (auto simp: CreateTenant_def split: prod.splits res.splits db_error.splits)

lemma fst_GetTenantByID [simp]:
  "fst (GetTenantByID P i d) =
     fst (exec P (\<lambda>k. with_params (uuid_param P i) (\<lambda>u. select_tenant (\<lambda>r. tr_id r = u))) d)"
  by (auto simp: GetTenantByID_def split: prod.splits res.splits db_error.splits)


section \<open>The constraints of the schema\<close>

definition tenants_ok :: "tenant_row list \<Rightarrow> bool" where
  "tenants_ok rs \<longleftrightarrow> distinct (map tr_id rs) \<and> distinct (map tr_name rs) \<and> distinct (map tr_namespace rs)"

definition member_key :: "member_row \<Rightarrow> string \<times> string" where
  "member_key m = (mr_tenant_id m, mr_user_id m)"

definition db_ok :: "db \<Rightarrow> bool" where
  "db_ok d \<longleftrightarrow> tenants_ok (db_tenants d) \<and> distinct (map member_key (db_members d))
     \<and> mr_tenant_id ` set (db_members d) \<subseteq> tr_id ` set (db_tenants d)"

definition empty_db :: db where
  "empty_db = \<lparr>db_tenants = [], db_members = [], db_seq = 0\<rparr>"

lemma db_ok_seq [simp]: "db_ok (d\<lparr>db_seq := k\<rparr>) \<longleftrightarrow> db_ok d"
  by (simp add: db_ok_def)

lemma insert_tenant_ok: "db_ok d \<Longrightarrow> db_ok (fst (insert_tenant now p d))"
  by (auto simp: insert_tenant_def db_ok_def tenants_ok_def split: prod.splits)

lemma change_rows_ok:
  assumes "db_ok d" and "\<And>r. tr_id (f r) = tr_id r" "\<And>r. tr_name (f r) = tr_name r"
    "\<And>r. tr_namespace (f r) = tr_namespace r"
  shows "db_ok (change_rows Q f d)"
proof -
  have "map tr_id (db_tenants (change_rows Q f d)) = map tr_id (db_tenants d)"
    "map tr_name (db_tenants (change_rows Q f d)) = map tr_name (db_tenants d)"
    "map tr_namespace (db_tenants (change_rows Q f d)) = map tr_namespace (db_tenants d)"
    "db_members (change_rows Q f d) = db_members d"
    using assms(2-4) by (auto simp: change_rows_def)
  moreover from this(1) have "tr_id ` set (db_tenants (change_rows Q f d)) = tr_id ` set (db_tenants d)"
    by (metis set_map)
  ultimately show ?thesis using assms(1) by (simp add: db_ok_def tenants_ok_def)
qed

lemma filter_members_ok:
  "db_ok d \<Longrightarrow> db_ok (d\<lparr>db_members := filter Q (db_members d)\<rparr>)"
  by (auto simp: db_ok_def distinct_map_filter)

lemma hard_delete_ok:
  "db_ok d \<Longrightarrow> db_ok (d\<lparr>db_tenants := filter (\<lambda>r. tr_id r \<noteq> u) (db_tenants d),
     db_members := filter (\<lambda>m. mr_tenant_id m \<noteq> u) (db_members d)\<rparr>)"
  by (auto simp: db_ok_def tenants_ok_def distinct_map_filter image_subset_iff)

lemma upsert_member_ok:
  assumes "db_ok d"
  shows "db_ok (fst (upsert_member now p d))"
proof -
  obtain u user role where p: "p = (u, user, role)" by (cases p)
  define f where "f = (\<lambda>m :: member_row. if mr_tenant_id m = u \<and> mr_user_id m = user then m\<lparr>mr_role := role\<rparr> else m)"
  have key: "member_key \<circ> f = member_key" and tid: "\<And>m. mr_tenant_id (f m) = mr_tenant_id m"
    by (auto simp: f_def member_key_def fun_eq_iff)
  have "db_ok (d\<lparr>db_members := map f (db_members d)\<rparr>)"
    using assms by (auto simp: db_ok_def key tid)
  moreover have "db_ok (d\<lparr>db_members := db_members d @ [\<lparr>mr_tenant_id = u, mr_user_id = user,
      mr_role = role, mr_created_at = now\<rparr>]\<rparr>)"
    if "(u, user) \<notin> set (map (\<lambda>m. (mr_tenant_id m, mr_user_id m)) (db_members d))"
      and "u \<in> set (map tr_id (db_tenants d))"
    using assms that by (auto simp: db_ok_def member_key_def)
  ultimately show ?thesis
    using assms by (auto simp: upsert_member_def p f_def)
qed

text \<open>The methods of \<open>Database\<close> as steps, on any input and with any fault.\<close>

inductive soft_step :: "pg \<Rightarrow> db \<Rightarrow> db \<Rightarrow> bool" for P where
  create: "soft_step P d (fst (CreateTenant P t d))"
| get: "soft_step P d (fst (GetTenantByID P i d))"
| get_name: "soft_step P d (fst (GetTenantByName P n d))"
| list: "soft_step P d (fst (ListTenants P d))"
| update: "soft_step P d (fst (UpdateTenant P t d))"
| delete: "soft_step P d (fst (DeleteTenant P i d))"
| add: "soft_step P d (fst (AddMember P i u r d))"
| remove: "soft_step P d (fst (RemoveMember P i u d))"
| members: "soft_step P d (fst (ListMembers P i d))"
| member_role: "soft_step P d (fst (GetMemberRole P i u d))"

inductive db_step :: "pg \<Rightarrow> db \<Rightarrow> db \<Rightarrow> bool" for P where
  soft: "soft_step P d d' \<Longrightarrow> db_step P d d'"
| hard_delete: "db_step P d (fst (HardDeleteTenant P i d))"

inductive db_reachable :: "pg \<Rightarrow> db \<Rightarrow> bool" for P where
  start: "db_reachable P empty_db"
| step: "db_reachable P d \<Longrightarrow> db_step P d d' \<Longrightarrow> db_reachable P d'"

lemmas exec_ok = exec_invariant [of db_ok, unfolded db_ok_seq]
lemmas with_params_ok = with_params_invariant [of db_ok]

lemmas ok_intros = exec_ok with_params_ok insert_tenant_ok upsert_member_ok

lemma UpdateTenant_ok: "db_ok d \<Longrightarrow> db_ok (fst (UpdateTenant P t d))"
  unfolding UpdateTenant_def by (intro ok_intros) (simp_all add: change_rows_ok split: prod.splits)

lemma DeleteTenant_ok: "db_ok d \<Longrightarrow> db_ok (fst (DeleteTenant P i d))"
  unfolding DeleteTenant_def by (intro ok_intros) (simp_all add: change_rows_ok)

lemma GetTenantByID_ok: "db_ok d \<Longrightarrow> db_ok (fst (GetTenantByID P i d))"
  unfolding fst_GetTenantByID by (intro ok_intros) (auto simp: select_tenant_def)

lemma CreateTenant_ok: "db_ok d \<Longrightarrow> db_ok (fst (CreateTenant P t d))"
  unfolding fst_CreateTenant by (intro ok_intros) auto

lemma soft_step_ok: "soft_step P d d' \<Longrightarrow> db_ok d \<Longrightarrow> db_ok d'"
proof (induction rule: soft_step.induct)
  case (get_name d n)
  then show ?case by (auto simp: GetTenantByName_def select_tenant_def intro!: exec_ok)
next
  case (list d)
  then show ?case by (auto simp: ListTenants_def intro!: exec_ok)
next
  case (add d i u r)
  then show ?case unfolding AddMember_def by (intro ok_intros)
next
  case (remove d i u)
  then show ?case
    unfolding RemoveMember_def by (intro ok_intros) (auto intro: filter_members_ok)
next
  case (members d i)
  then show ?case unfolding ListMembers_def by (intro ok_intros) auto
next
  case (member_role d i u)
  then show ?case unfolding GetMemberRole_def by (intro ok_intros) auto
qed (auto intro: UpdateTenant_ok DeleteTenant_ok GetTenantByID_ok CreateTenant_ok
       simp del: fst_CreateTenant fst_GetTenantByID)

lemma db_step_ok: "db_step P d d' \<Longrightarrow> db_ok d \<Longrightarrow> db_ok d'"
proof (induction rule: db_step.induct)
  case (hard_delete d i)
  then show ?case
    unfolding HardDeleteTenant_def by (intro ok_intros) (auto intro: hard_delete_ok)
qed (rule soft_step_ok)

text \<open>
  C8: in every database reachable by the store's methods, on any arguments and with any
  statements failing or losing their answer, identifiers, names and namespaces of tenants are
  unique (deleted tenants included), a user is a member of a tenant at most once, and every
  membership belongs to a tenant of the table.
\<close>

theorem reachable_db_ok:
  assumes "db_reachable P d"
  shows "db_ok d"
  using assms
proof (induction rule: db_reachable.induct)
  case start
  show ?case by (simp add: db_ok_def tenants_ok_def empty_db_def)
next
  case (step d d')
  then show ?case by (blast intro: db_step_ok)
qed

text \<open>A server in memory for the witnesses: no faults, every text accepted up to its length.\<close>

definition plain_pg :: pg where
  "plain_pg = \<lparr>pg_uuid = (\<lambda>s. if s = [] then None else Some s),
     pg_varchar = (\<lambda>n s. if length s \<le> n then Some s else None),
     pg_now = (\<lambda>k. 100 + k), pg_scan = (\<lambda>k rs. rs), pg_scan_members = (\<lambda>k ms. ms),
     pg_fault = (\<lambda>k. None)\<rparr>"

lemma plain_pg_laws: "pg_laws plain_pg"
  by (simp add: pg_laws_def plain_pg_def)

definition api_tenant :: "string \<Rightarrow> string \<Rightarrow> string \<Rightarrow> tenant" where
  "api_tenant uid name namespace = empty_tenant\<lparr>t_meta := empty_meta\<lparr>om_uid := uid\<rparr>,
     t_spec := (t_spec empty_tenant)\<lparr>ts_name := name, ts_tier := TierPro, ts_ownerEmail := ''o@x''\<rparr>,
     t_status := (t_status empty_tenant)\<lparr>tst_namespace := namespace\<rparr>\<rparr>"

theorem reachable_db_ok_witness:
  "db_ok (fst (CreateTenant plain_pg (api_tenant ''u1'' ''acme'' ''tenant-acme'') empty_db))"
  by (rule reachable_db_ok [of plain_pg]) (rule db_reachable.step [OF db_reachable.start db_step.soft [OF soft_step.create]])

end
