(* ===== verification/Store_Contract.thy ===== *)
theory Store_Contract
  imports Store_Props
begin

text \<open>
  The contract of \<open>internal/store\<close> as its clients see it. \<open>tenant_store\<close> is the interface: a map
  from identifiers to live tenants, read, updated in place and cut by deletion. It is proved of
  the methods of \<open>Database\<close>, and what clients need of several calls in a row is proved from it.
\<close>

section \<open>The interface\<close>

locale tenant_store =
  fixes inv :: "'w \<Rightarrow> bool"
    and view :: "'w \<Rightarrow> 'u \<Rightarrow> 't option"
    and canon :: "'i \<Rightarrow> 'u option"
    and key :: "'t \<Rightarrow> 'i"
    and merge :: "'t \<Rightarrow> 't \<Rightarrow> 't"
    and get :: "'i \<Rightarrow> 'w \<Rightarrow> 'w \<times> ('e, 't option) res"
    and update :: "'t \<Rightarrow> 'w \<Rightarrow> 'w \<times> ('e, unit) res"
    and delete :: "'i \<Rightarrow> 'w \<Rightarrow> 'w \<times> ('e, unit) res"
  assumes get_inv: "inv w \<Longrightarrow> inv (fst (get i w))"
    and update_inv: "inv w \<Longrightarrow> inv (fst (update t w))"
    and delete_inv: "inv w \<Longrightarrow> inv (fst (delete i w))"
    and get_Ok: "inv w \<Longrightarrow> get i w = (w', Ok r) \<Longrightarrow>
      \<exists>u. canon i = Some u \<and> r = view w u \<and> view w' = view w"
    and update_Ok: "inv w \<Longrightarrow> update t w = (w', Ok ()) \<Longrightarrow>
      \<exists>u. canon (key t) = Some u \<and> view w' = (view w)(u := map_option (merge t) (view w u))"
    and delete_Ok: "inv w \<Longrightarrow> delete i w = (w', Ok ()) \<Longrightarrow>
      \<exists>u. canon i = Some u \<and> view w' = (view w)(u := None)"
begin

lemma inv_after:
  assumes "inv w"
  shows "get i w = (w', r) \<Longrightarrow> inv w'" "update t w = (w', s) \<Longrightarrow> inv w'"
    "delete i w = (w', s) \<Longrightarrow> inv w'"
  using get_inv [OF assms, of i] update_inv [OF assms, of t] delete_inv [OF assms, of i] by auto

lemma get_after_update:
  assumes "inv w" "update t w = (w1, Ok ())" "get i w1 = (w2, Ok r)" "canon (key t) = Some u"
  shows "canon i = Some u \<Longrightarrow> r = map_option (merge t) (view w u)"
    and "canon i = Some v \<Longrightarrow> v \<noteq> u \<Longrightarrow> r = view w v"
  using update_Ok [OF assms(1,2)] get_Ok [OF inv_after(2) [OF assms(1,2)] assms(3)] assms(4) by auto

lemma get_after_delete:
  assumes "inv w" "delete i w = (w1, Ok ())" "get j w1 = (w2, Ok r)" "canon i = Some u"
  shows "canon j = Some u \<Longrightarrow> r = None"
    and "canon j = Some v \<Longrightarrow> v \<noteq> u \<Longrightarrow> r = view w v"
  using delete_Ok [OF assms(1,2)] get_Ok [OF inv_after(3) [OF assms(1,2)] assms(3)] assms(4) by auto

lemma no_resurrection:
  assumes "inv w" "delete i w = (w1, Ok ())" "update t w1 = (w2, Ok ())" "get i w2 = (w3, Ok r)"
  shows "r = None"
proof -
  obtain u where u: "canon i = Some u" "view w1 = (view w)(u := None)"
    using delete_Ok [OF assms(1,2)] by blast
  have w1: "inv w1" by (rule inv_after(3) [OF assms(1,2)])
  obtain v where v: "view w2 = (view w1)(v := map_option (merge t) (view w1 v))"
    using update_Ok [OF w1 assms(3)] by blast
  have "r = view w2 u"
    using get_Ok [OF inv_after(2) [OF w1 assms(3)] assms(4)] u(1) by auto
  then show ?thesis by (simp add: u v)
qed

end


section \<open>The methods of the database provide it\<close>

definition live :: "db \<Rightarrow> string \<Rightarrow> tenant option" where
  "live d u = map_option row_tenant (find (live_row u) (db_tenants d))"

definition updated :: "pg \<Rightarrow> tenant \<Rightarrow> tenant \<Rightarrow> tenant" where
  \<comment> \<open>tier and owner email of the first, all else of the second\<close>
  "updated P t x = x\<lparr>t_spec := (t_spec x)\<lparr>
     ts_tier := the (pg_varchar P 20 (ts_tier (t_spec t))),
     ts_ownerEmail := the (pg_varchar P 255 (ts_ownerEmail (t_spec t)))\<rparr>\<rparr>"

definition tenant_key :: "tenant \<Rightarrow> string" where
  "tenant_key t = om_uid (t_meta t)"

lemma live_seq [simp]: "live (d\<lparr>db_seq := k\<rparr>) = live d"
  by (simp add: live_def fun_eq_iff)

lemma find_change_rows_other:
  assumes "\<And>r. tr_id (f r) = tr_id r" "v \<noteq> u"
  shows "find (live_row v) (map (\<lambda>r. if live_row u r then f r else r) rs) = find (live_row v) rs"
  using assms by (induction rs) (auto simp: live_row_def)

lemma live_change_keep:
  assumes "\<And>r. tr_id (f r) = tr_id r" "\<And>r. tr_deleted_at (f r) = tr_deleted_at r"
  shows "live (change_rows (live_row u) f d) = (live d)(u := map_option row_tenant
     (map_option f (find (live_row u) (db_tenants d))))"
proof -
  have same: "find (live_row u) (map (\<lambda>r. if live_row u r then f r else r) rs) =
      map_option f (find (live_row u) rs)" for rs
    using assms by (induction rs) (auto simp: live_row_def)
  show ?thesis
    using find_change_rows_other [of f _ u, OF assms(1)]
    by (auto simp: fun_eq_iff live_def change_rows_def same)
qed

lemma live_change_delete:
  assumes "\<And>r. tr_id (f r) = tr_id r" "\<And>r. tr_deleted_at (f r) \<noteq> None"
  shows "live (change_rows (live_row u) f d) = (live d)(u := None)"
proof -
  have same: "find (live_row u) (map (\<lambda>r. if live_row u r then f r else r) rs) = None" for rs
    using assms by (induction rs) (auto simp: live_row_def)
  show ?thesis
    using find_change_rows_other [of f _ u, OF assms(1)]
    by (auto simp: fun_eq_iff live_def change_rows_def same)
qed

lemma GetTenantByID_Ok:
  assumes "GetTenantByID P i d = (d', Ok r)"
  shows "\<exists>u. pg_uuid P i = Some u \<and> r = live d u \<and> d' = d\<lparr>db_seq := Suc (db_seq d)\<rparr>"
  using assms
  by (auto simp: GetTenantByID_Ok_iff res_simps exec_NoRows_iff with_params_NoRows_iff
      select_tenant_def live_def live_row_def [abs_def] split: option.splits)

lemma row_tenant_update:
  assumes "pg_varchar P 20 (ts_tier (t_spec t)) = Some a" "pg_varchar P 255 (ts_ownerEmail (t_spec t)) = Some b"
  shows "row_tenant (r\<lparr>tr_tier := a, tr_owner_email := b, tr_updated_at := k\<rparr>) =
     updated P t (row_tenant r)"
  using assms by (simp add: row_tenant_def updated_def)

lemma UpdateTenant_Ok:
  assumes "UpdateTenant P t d = (d', Ok ())"
  shows "\<exists>u. pg_uuid P (tenant_key t) = Some u \<and> live d' = (live d)(u := map_option (updated P t) (live d u))"
proof -
  obtain a b u where p: "pg_varchar P 20 (ts_tier (t_spec t)) = Some a"
      "pg_varchar P 255 (ts_ownerEmail (t_spec t)) = Some b" "pg_uuid P (tenant_key t) = Some u"
    and d': "d' = change_rows (live_row u) (\<lambda>r. r\<lparr>tr_tier := a, tr_owner_email := b,
        tr_updated_at := pg_now P (db_seq d)\<rparr>) (d\<lparr>db_seq := Suc (db_seq d)\<rparr>)"
    using assms by (auto simp: UpdateTenant_def update_params_def res_simps tenant_key_def)
  show ?thesis
    unfolding d' using p
    by (subst live_change_keep) (auto simp: live_def option.map_comp o_def row_tenant_update)
qed

lemma DeleteTenant_Ok:
  assumes "DeleteTenant P i d = (d', Ok ())"
  shows "\<exists>u. pg_uuid P i = Some u \<and> live d' = (live d)(u := None)"
  using assms by (auto simp: DeleteTenant_def res_simps live_change_delete)

interpretation ts: tenant_store db_ok live "pg_uuid P" tenant_key "updated P"
    "GetTenantByID P" "UpdateTenant P" "DeleteTenant P" for P
proof unfold_locales
  fix d d' i r
  assume "GetTenantByID P i d = (d', Ok r)"
  then show "\<exists>u. pg_uuid P i = Some u \<and> r = live d u \<and> live d' = live d"
    using GetTenantByID_Ok by fastforce
qed (simp_all only: GetTenantByID_ok UpdateTenant_ok DeleteTenant_ok UpdateTenant_Ok DeleteTenant_Ok)


section \<open>Properties of the tenants table\<close>

text \<open>
  After an update that reported success, reading the same identifier (spelled in any way)
  gives the row as it was with only the tier and the owner email replaced, nothing if there was
  no live row; reading any other identifier gives what it gave before.
\<close>

theorem UpdateTenant_GetTenantByID:
  assumes "db_ok d" "UpdateTenant P t d = (d1, Ok ())" "GetTenantByID P i d1 = (d2, Ok r)"
  shows "\<exists>u v. pg_uuid P (om_uid (t_meta t)) = Some u \<and> pg_uuid P i = Some v
    \<and> r = (if v = u then map_option (updated P t) (live d u) else live d v)"
proof -
  obtain u where u: "pg_uuid P (tenant_key t) = Some u"
    using ts.update_Ok [OF assms(1,2)] by blast
  obtain v where v: "pg_uuid P i = Some v"
    using ts.get_Ok [OF ts.inv_after(2) [OF assms(1,2)] assms(3)] by blast
  show ?thesis
    using ts.get_after_update [OF assms u] u v by (cases "v = u") (auto simp: tenant_key_def)
qed

definition two_tenants :: db where
  "two_tenants = empty_db\<lparr>db_tenants :=
     [\<lparr>tr_id = ''u1'', tr_name = ''a'', tr_namespace = ''ns-a'', tr_tier = TierFree,
       tr_owner_email = ''a@x'', tr_created_at = 1, tr_updated_at = 1, tr_deleted_at = None\<rparr>,
      \<lparr>tr_id = ''u2'', tr_name = ''b'', tr_namespace = ''ns-b'', tr_tier = TierPro,
       tr_owner_email = ''b@x'', tr_created_at = 2, tr_updated_at = 2, tr_deleted_at = None\<rparr>]\<rparr>"

lemma two_tenants_ok: "db_ok two_tenants"
  by (simp add: db_ok_def tenants_ok_def two_tenants_def empty_db_def)

lemmas run_store = exec_def with_params_def plain_pg_def two_tenants_def empty_db_def update_params_def
  uuid_param_def varchar_param_def api_tenant_def change_rows_def live_row_def
  select_tenant_def tier_defs

lemma answered: "snd p = r \<Longrightarrow> p = (fst p, r)"
  by (cases p) simp

theorem UpdateTenant_GetTenantByID_witness:
  "\<exists>r. snd (GetTenantByID plain_pg ''u1'' (fst (UpdateTenant plain_pg (api_tenant ''u1'' ''x'' ''y'') two_tenants)))
        = Ok r
     \<and> (\<exists>u v. pg_uuid plain_pg ''u1'' = Some u \<and> pg_uuid plain_pg ''u1'' = Some v
         \<and> r = (if v = u then map_option (updated plain_pg (api_tenant ''u1'' ''x'' ''y'')) (live two_tenants u)
                else live two_tenants v))"
proof -
  let ?t = "api_tenant ''u1'' ''x'' ''y''"
  let ?d = "fst (UpdateTenant plain_pg ?t two_tenants)"
  have d1: "snd (UpdateTenant plain_pg ?t two_tenants) = Ok ()"
    by (simp add: UpdateTenant_def run_store)
  have "\<exists>r. snd (GetTenantByID plain_pg ''u1'' ?d) = Ok (Some r)"
    by (simp add: UpdateTenant_def GetTenantByID_def run_store)
  then obtain r where r: "snd (GetTenantByID plain_pg ''u1'' ?d) = Ok (Some r)" by blast
  show ?thesis
    using UpdateTenant_GetTenantByID [OF two_tenants_ok answered [OF d1] answered [OF r]] r
    by (simp add: api_tenant_def)
qed

text \<open>A row that was deleted stays deleted under every method but \<open>HardDeleteTenant\<close>.\<close>

definition buried :: "string \<Rightarrow> string \<Rightarrow> db \<Rightarrow> bool" where
  "buried u name d \<longleftrightarrow> (\<exists>r\<in>set (db_tenants d). tr_id r = u \<and> tr_name r = name \<and> tr_deleted_at r \<noteq> None)"

lemma buried_seq [simp]: "buried u name (d\<lparr>db_seq := k\<rparr>) = buried u name d"
  "buried u name (d\<lparr>db_members := ms\<rparr>) = buried u name d"
  by (simp_all add: buried_def)

lemmas buried_exec = exec_invariant [of "buried u n" for u n, unfolded buried_seq]
lemmas buried_with_params = with_params_invariant [of "buried u n" for u n]

lemma buried_change:
  assumes "buried u n d" "\<And>r. tr_deleted_at r \<noteq> None \<Longrightarrow> \<not> Q r"
  shows "buried u n (change_rows Q f d)"
proof -
  obtain r where r: "r \<in> set (db_tenants d)" "tr_id r = u" "tr_name r = n" "tr_deleted_at r \<noteq> None"
    using assms(1) by (auto simp: buried_def)
  then have "r \<in> set (db_tenants (change_rows Q f d))"
    using assms(2) [of r] by (force simp: change_rows_def)
  with r show ?thesis by (auto simp: buried_def)
qed

lemma buried_insert: "buried u n d \<Longrightarrow> buried u n (fst (insert_tenant now p d))"
  by (auto simp: insert_tenant_def buried_def split: prod.splits)

lemma buried_upsert: "buried u n d \<Longrightarrow> buried u n (fst (upsert_member now p d))"
  by (auto simp: upsert_member_def split: prod.splits)

lemmas buried_intros = buried_exec buried_with_params buried_change buried_insert buried_upsert

lemma buried_step: "soft_step P d d' \<Longrightarrow> buried u n d \<Longrightarrow> buried u n d'"
proof (induction rule: soft_step.induct)
  case (create d t)
  then show ?case unfolding fst_CreateTenant by (intro buried_intros)
next
  case (get d i)
  then show ?case unfolding fst_GetTenantByID by (intro buried_intros) (auto simp: select_tenant_def)
next
  case (get_name d n)
  then show ?case by (auto simp: GetTenantByName_def select_tenant_def intro!: buried_exec)
next
  case (list d)
  then show ?case by (auto simp: ListTenants_def intro!: buried_exec)
next
  case (update d t)
  then show ?case
    unfolding UpdateTenant_def
    by (intro buried_exec buried_with_params) (simp_all add: buried_change live_row_def split: prod.splits)
next
  case (delete d i)
  then show ?case
    unfolding DeleteTenant_def
    by (intro buried_exec buried_with_params) (simp_all add: buried_change live_row_def)
next
  case (add d i u r)
  then show ?case unfolding AddMember_def by (intro buried_intros)
next
  case (remove d i u)
  then show ?case unfolding RemoveMember_def by (intro buried_intros) auto
next
  case (members d i)
  then show ?case unfolding ListMembers_def by (intro buried_intros) auto
next
  case (member_role d i u)
  then show ?case unfolding GetMemberRole_def by (intro buried_intros) auto
qed

lemma buried_steps: "(soft_step P)\<^sup>*\<^sup>* d d' \<Longrightarrow> buried u n d \<Longrightarrow> buried u n d'"
  by (induction rule: rtranclp_induct) (auto intro: buried_step)

lemma soft_steps_ok: "(soft_step P)\<^sup>*\<^sup>* d d' \<Longrightarrow> db_ok d \<Longrightarrow> db_ok d'"
  by (induction rule: rtranclp_induct) (auto intro: soft_step_ok)

lemma distinct_map_same:
  "distinct (map f xs) \<Longrightarrow> x \<in> set xs \<Longrightarrow> y \<in> set xs \<Longrightarrow> f x = f y \<Longrightarrow> x = y"
  by (simp add: distinct_map inj_on_def)

lemma buried_not_live:
  assumes "db_ok d" "buried u n d"
  shows "live d u = None"
proof -
  obtain r where r: "r \<in> set (db_tenants d)" "tr_id r = u" "tr_deleted_at r \<noteq> None"
    using assms(2) unfolding buried_def by blast
  have ids: "distinct (map tr_id (db_tenants d))"
    using assms(1) by (simp add: db_ok_def tenants_ok_def)
  have "\<not> live_row u x" if "x \<in> set (db_tenants d)" for x
  proof
    assume x: "live_row u x"
    then have "tr_id r = tr_id x" using r(2) by (simp add: live_row_def)
    then have "r = x" by (rule distinct_map_same [OF ids r(1) that])
    then show False using x r(3) by (simp add: live_row_def)
  qed
  then have "find (live_row u) (db_tenants d) = None"
    by (simp add: find_None_iff)
  then show ?thesis by (simp add: live_def)
qed

lemma DeleteTenant_buries:
  assumes "DeleteTenant P i d = (d1, Ok ())" "pg_uuid P i = Some u" "live d u = Some t"
  shows "buried u (ts_name (t_spec t)) d1"
proof -
  obtain r where r: "find (live_row u) (db_tenants d) = Some r" "t = row_tenant r"
    using assms(3) by (auto simp: live_def)
  then have mem: "r \<in> set (db_tenants d)" and lr: "live_row u r"
    by (auto simp: find_Some_iff)
  let ?f = "\<lambda>x. if live_row u x then x\<lparr>tr_deleted_at := Some (pg_now P (db_seq d))\<rparr> else x"
  have "db_tenants d1 = map ?f (db_tenants d)"
    using assms(1,2) by (auto simp: DeleteTenant_def res_simps change_rows_def)
  then have "?f r \<in> set (db_tenants d1)" using mem by auto
  then show ?thesis
    unfolding buried_def by (rule bexI [rotated]) (use lr r(2) in \<open>auto simp: live_row_def\<close>)
qed

lemma CreateTenant_name_taken:
  assumes "CreateTenant P t d = (d', Ok t')" "pg_varchar P 63 (ts_name (t_spec t)) = Some n"
    "n \<in> tr_name ` set (db_tenants d)"
  shows "db_tenants d' = db_tenants d \<and> t' = t"
  using assms(1) unfolding CreateTenant_Ok_iff
  by (elim disjE exE conjE) (use assms(2,3) in \<open>auto simp: res_simps exec_NoRows_iff with_params_NoRows_iff
        tenant_params_def insert_tenant_def split: if_splits\<close>)

lemma buried_unread:
  assumes "pg_laws P" "db_ok d" "buried u n d"
  shows "pg_uuid P j = Some u \<Longrightarrow> snd (GetTenantByID P j d) \<noteq> Ok (Some x)"
    and "snd (GetTenantByName P n d) \<noteq> Ok x"
    and "snd (ListTenants P d) = Ok xs \<Longrightarrow> x \<in> set xs \<Longrightarrow> om_uid (t_meta x) \<noteq> u \<and> ts_name (t_spec x) \<noteq> n"
proof -
  obtain r where r: "r \<in> set (db_tenants d)" "tr_id r = u" "tr_name r = n" "tr_deleted_at r \<noteq> None"
    using assms(3) unfolding buried_def by blast
  have other: "tr_id y \<noteq> u \<and> tr_name y \<noteq> n" if "y \<in> set (db_tenants d)" "tr_deleted_at y = None" for y
    using assms(2) r that distinct_map_same [of tr_id "db_tenants d" y r] distinct_map_same [of tr_name "db_tenants d" y r]
    by (auto simp: db_ok_def tenants_ok_def)
  show "snd (GetTenantByID P j d) \<noteq> Ok (Some x)" if "pg_uuid P j = Some u"
    using GetTenantByID_Ok [of P j d "fst (GetTenantByID P j d)" "Some x"] buried_not_live [OF assms(2,3)] that
    by (metis answered option.inject option.distinct(1))
  show "snd (GetTenantByName P n d) \<noteq> Ok x"
  proof
    assume "snd (GetTenantByName P n d) = Ok x"
    from answered [OF this] obtain y where "find (\<lambda>r. tr_name r = n \<and> tr_deleted_at r = None) (db_tenants d) = Some y"
      by (auto simp: GetTenantByName_def res_simps select_tenant_def split: option.splits)
    then have "y \<in> set (db_tenants d)" "tr_name y = n" "tr_deleted_at y = None"
      by (auto simp: find_Some_iff)
    with other show False by blast
  qed
  show "om_uid (t_meta x) \<noteq> u \<and> ts_name (t_spec x) \<noteq> n" if "snd (ListTenants P d) = Ok xs" "x \<in> set xs"
  proof -
    have "set (pg_scan P k rs) = set rs" for k rs
      using assms(1) by (metis mset_eq_setD pg_laws_def)
    with answered [OF that(1)] that(2)
    obtain y where "y \<in> set (db_tenants d)" "tr_deleted_at y = None" "x = row_tenant y"
      by (auto simp: ListTenants_def res_simps)
    with other [of y] show ?thesis by (simp add: row_tenant_def)
  qed
qed

lemma CreateTenant_taken:
  assumes "pg_varchar P 63 (ts_name (t_spec t)) = Some n" "n \<in> tr_name ` set (db_tenants d)"
  shows "db_tenants (fst (CreateTenant P t d)) = db_tenants d \<and> db_members (fst (CreateTenant P t d)) = db_members d"
    and "pg_fault P (db_seq d) = None \<Longrightarrow> tenant_params P t = Ok p \<Longrightarrow> snd (CreateTenant P t d) = Ok t"
proof -
  have n: "\<exists>u ns tier email. p = (u, n, ns, tier, email)" if "tenant_params P t = Ok p" for p
    using that assms(1) by (auto simp: tenant_params_def varchar_param_def res_simps split: option.splits)
  have stmt: "with_params (tenant_params P t) (insert_tenant k) (d\<lparr>db_seq := j\<rparr>)
      = (d\<lparr>db_seq := j\<rparr>, case tenant_params P t of Ok _ \<Rightarrow> Err NoRows | Err e \<Rightarrow> Err e | Panic x \<Rightarrow> Panic x)" for k j
    using n assms(2) by (auto simp: with_params_def insert_tenant_def image_iff split: res.splits)
  show "db_tenants (fst (CreateTenant P t d)) = db_tenants d \<and> db_members (fst (CreateTenant P t d)) = db_members d"
    by (simp add: fst_CreateTenant exec_def Let_def stmt split: option.splits fault.splits)
  show "snd (CreateTenant P t d) = Ok t" if "pg_fault P (db_seq d) = None" "tenant_params P t = Ok p"
    using that stmt [of "pg_now P (db_seq d)" "Suc (db_seq d)"] by (simp add: CreateTenant_def exec_def Let_def)
qed

text \<open>
  C27: deletion is soft but final: once a live tenant has been deleted, no sequence of calls
  short of \<open>HardDeleteTenant\<close>, whatever fails in it, makes any read return it again: not by
  its identifier, however that is spelt, not by its name, and not in the list. And a later
  \<open>CreateTenant\<close> with its name leaves the tables as they are, but reports success
  with the tenant unchanged, unless the statement itself fails or a parameter does not convert.
\<close>

theorem deleted_tenant_stays_deleted:
  assumes "pg_laws P" and "db_ok d" and "pg_uuid P i = Some u" and "live d u = Some t"
    and "DeleteTenant P i d = (d1, Ok ())" and "(soft_step P)\<^sup>*\<^sup>* d1 d2"
  shows "(\<forall>j x. pg_uuid P j = Some u \<longrightarrow> snd (GetTenantByID P j d2) \<noteq> Ok (Some x))
    \<and> (\<forall>x. snd (GetTenantByName P (ts_name (t_spec t)) d2) \<noteq> Ok x)
    \<and> (\<forall>xs x. snd (ListTenants P d2) = Ok xs \<longrightarrow> x \<in> set xs \<longrightarrow>
         om_uid (t_meta x) \<noteq> u \<and> ts_name (t_spec x) \<noteq> ts_name (t_spec t))
    \<and> (\<forall>t'. pg_varchar P 63 (ts_name (t_spec t')) = Some (ts_name (t_spec t)) \<longrightarrow>
         db_tenants (fst (CreateTenant P t' d2)) = db_tenants d2
         \<and> db_members (fst (CreateTenant P t' d2)) = db_members d2
         \<and> (pg_fault P (db_seq d2) = None \<and> (\<exists>p. tenant_params P t' = Ok p) \<longrightarrow>
              snd (CreateTenant P t' d2) = Ok t'))"
proof -
  have ok: "db_ok d2"
    using ts.inv_after(3) [OF assms(2,5)] assms(6) by (blast intro: soft_steps_ok)
  have b: "buried u (ts_name (t_spec t)) d2"
    using buried_steps [OF assms(6)] DeleteTenant_buries [OF assms(5,3,4)] by blast
  then have "ts_name (t_spec t) \<in> tr_name ` set (db_tenants d2)"
    unfolding buried_def by (metis imageI)
  then show ?thesis using buried_unread [OF assms(1) ok b] CreateTenant_taken by blast
qed

theorem deleted_tenant_stays_deleted_witness:
  "snd (CreateTenant plain_pg (api_tenant ''u9'' ''a'' ''tenant-new'') (fst (UpdateTenant plain_pg (api_tenant ''u1'' ''x'' ''y'')
      (fst (DeleteTenant plain_pg ''u1'' two_tenants))))) = Ok (api_tenant ''u9'' ''a'' ''tenant-new'')"
proof -
  obtain t where t: "live two_tenants ''u1'' = Some t" "ts_name (t_spec t) = ''a''"
    by (simp add: live_def live_row_def two_tenants_def)
  have d: "snd (DeleteTenant plain_pg ''u1'' two_tenants) = Ok ()"
    by (simp add: DeleteTenant_def run_store)
  have u: "pg_uuid plain_pg ''u1'' = Some ''u1''" by (simp add: plain_pg_def)
  let ?d2 = "fst (UpdateTenant plain_pg (api_tenant ''u1'' ''x'' ''y'') (fst (DeleteTenant plain_pg ''u1'' two_tenants)))"
  have s: "(soft_step plain_pg)\<^sup>*\<^sup>* (fst (DeleteTenant plain_pg ''u1'' two_tenants)) ?d2"
    by (intro r_into_rtranclp soft_step.update)
  have "\<exists>p. tenant_params plain_pg (api_tenant ''u9'' ''a'' ''tenant-new'') = Ok p"
    by (simp add: tenant_params_def api_tenant_def empty_tenant_def empty_meta_def run_store)
  moreover have "pg_fault plain_pg (db_seq ?d2) = None" by (simp add: plain_pg_def)
  moreover have "pg_varchar plain_pg 63 (ts_name (t_spec (api_tenant ''u9'' ''a'' ''tenant-new''))) = Some (ts_name (t_spec t))"
    by (simp add: t(2) plain_pg_def api_tenant_def)
  ultimately show ?thesis
    using deleted_tenant_stays_deleted [OF plain_pg_laws two_tenants_ok u t(1) answered [OF d] s] by blast
qed

lemma CreateTenant_cases:
  assumes "CreateTenant P t d = (d1, Ok t')" "tenant_params P t = Ok (u, n, ns, tier, email)"
  shows "if n \<in> tr_name ` set (db_tenants d) then db_tenants d1 = db_tenants d \<and> t' = t
     else (\<exists>x. live d u = None \<and> live d1 = (live d)(u \<mapsto> x) \<and> length (db_tenants d1) = Suc (length (db_tenants d))
        \<and> om_uid (t_meta x) = u \<and> ts_name (t_spec x) = n \<and> tst_namespace (t_status x) = ns
        \<and> ts_tier (t_spec x) = tier \<and> ts_ownerEmail (t_spec x) = email
        \<and> t' = t\<lparr>t_meta := (t_meta t)\<lparr>om_creationTimestamp := Some (pg_now P (db_seq d))\<rparr>\<rparr>)"
proof (cases "n \<in> tr_name ` set (db_tenants d)")
  case True
  have "pg_varchar P 63 (ts_name (t_spec t)) = Some n"
    using assms(2) by (auto simp: tenant_params_def res_simps)
  then show ?thesis using CreateTenant_name_taken [OF assms(1)] True by simp
next
  case False
  define row where "row = \<lparr>tr_id = u, tr_name = n, tr_namespace = ns, tr_tier = tier,
    tr_owner_email = email, tr_created_at = pg_now P (db_seq d), tr_updated_at = pg_now P (db_seq d),
    tr_deleted_at = None\<rparr>"
  have out: "u \<notin> tr_id ` set (db_tenants d)" "db_tenants d1 = db_tenants d @ [row]"
      "t' = t\<lparr>t_meta := (t_meta t)\<lparr>om_creationTimestamp := Some (pg_now P (db_seq d))\<rparr>\<rparr>"
    using assms(1,2) False unfolding CreateTenant_Ok_iff
    by (auto simp: row_def res_simps exec_NoRows_iff with_params_NoRows_iff insert_tenant_def split: if_splits)
  have none: "find (live_row u) (db_tenants d) = None"
    using out(1) by (auto simp: find_None_iff live_row_def)
  have "live d1 v = ((live d)(u \<mapsto> row_tenant row)) v" for v
    using none by (auto simp: live_def out(2) find_append live_row_def row_def split: option.splits)
  then have "live d1 = (live d)(u \<mapsto> row_tenant row)" by (rule ext)
  moreover have "live d u = None" using none by (simp add: live_def)
  ultimately show ?thesis using False out by (auto simp: row_def)
qed

lemma CreateTenant_tables:
  assumes "CreateTenant P t d = (d1, Ok t')" "tenant_params P t = Ok (u, n, ns, tier, email)"
  shows "db_members d1 = db_members d \<and> db_tenants d1 = db_tenants d @
    (if n \<in> tr_name ` set (db_tenants d) then []
     else [\<lparr>tr_id = u, tr_name = n, tr_namespace = ns, tr_tier = tier, tr_owner_email = email,
            tr_created_at = pg_now P (db_seq d), tr_updated_at = pg_now P (db_seq d), tr_deleted_at = None\<rparr>])"
proof (cases "n \<in> tr_name ` set (db_tenants d)")
  case True
  have "pg_varchar P 63 (ts_name (t_spec t)) = Some n"
    using assms(2) by (auto simp: tenant_params_def res_simps)
  then show ?thesis using CreateTenant_taken(1) [of P t n d] assms(1) True by simp
next
  case False
  then show ?thesis using assms unfolding CreateTenant_Ok_iff
    by (auto simp: res_simps exec_NoRows_iff with_params_NoRows_iff insert_tenant_def split: if_splits)
qed

text \<open>
  \<open>CreateTenant\<close> reports success in exactly two cases: the name is free, and then the table
  has one more live row, which a read of the identifier returns with the fields of the argument,
  and the result carries the row's time; or the name is taken, by a live or a deleted tenant, and
  then nothing is stored and the tenant comes back unchanged.
\<close>

theorem CreateTenant_outcome:
  assumes "CreateTenant P t d = (d1, Ok t')" "tenant_params P t = Ok (u, n, ns, tier, email)"
  shows "if n \<in> tr_name ` set (db_tenants d) then db_tenants d1 = db_tenants d \<and> t' = t
     else (\<exists>x. live d u = None \<and> live d1 = (live d)(u \<mapsto> x) \<and> length (db_tenants d1) = Suc (length (db_tenants d))
        \<and> om_uid (t_meta x) = u \<and> ts_name (t_spec x) = n \<and> tst_namespace (t_status x) = ns
        \<and> ts_tier (t_spec x) = tier \<and> ts_ownerEmail (t_spec x) = email
        \<and> t' = t\<lparr>t_meta := (t_meta t)\<lparr>om_creationTimestamp := Some (pg_now P (db_seq d))\<rparr>\<rparr>)"
  by (rule CreateTenant_cases [OF assms])

theorem CreateTenant_outcome_witness:
  "live (fst (CreateTenant plain_pg (api_tenant ''u3'' ''c'' ''ns-c'') two_tenants)) ''u3'' \<noteq> None
   \<and> db_tenants (fst (CreateTenant plain_pg (api_tenant ''u3'' ''a'' ''ns-c'') two_tenants)) = db_tenants two_tenants"
proof -
  let ?new = "CreateTenant plain_pg (api_tenant ''u3'' ''c'' ''ns-c'') two_tenants"
  let ?old = "CreateTenant plain_pg (api_tenant ''u3'' ''a'' ''ns-c'') two_tenants"
  have p: "tenant_params plain_pg (api_tenant ''u3'' n ''ns-c'') = Ok (''u3'', n, ''ns-c'', ''pro'', ''o@x'')"
    if "length n \<le> 63" for n
    using that by (simp add: tenant_params_def run_store)
  have "\<exists>t. snd ?new = Ok t" "\<exists>t. snd ?old = Ok t"
    by (simp_all add: CreateTenant_def tenant_params_def insert_tenant_def run_store)
  then obtain t1 t2 where t: "snd ?new = Ok t1" "snd ?old = Ok t2" by blast
  have "live (fst ?new) ''u3'' \<noteq> None"
    using CreateTenant_outcome [OF answered [OF t(1)] p]
    by (simp add: two_tenants_def) auto
  moreover have "db_tenants (fst ?old) = db_tenants two_tenants"
    using CreateTenant_outcome [OF answered [OF t(2)] p]
    by (simp add: two_tenants_def)
  ultimately show ?thesis by blast
qed

lemma live_Some_iff:
  assumes "db_ok d"
  shows "live d u = Some t \<longleftrightarrow> (\<exists>r\<in>set (db_tenants d). live_row u r \<and> t = row_tenant r)"
proof
  assume "live d u = Some t"
  then obtain r where r: "find (live_row u) (db_tenants d) = Some r" "t = row_tenant r"
    by (auto simp: live_def)
  then show "\<exists>r\<in>set (db_tenants d). live_row u r \<and> t = row_tenant r"
    by (metis find_Some_iff nth_mem)
next
  assume "\<exists>r\<in>set (db_tenants d). live_row u r \<and> t = row_tenant r"
  then obtain r where r: "r \<in> set (db_tenants d)" "live_row u r" "t = row_tenant r" by blast
  then obtain x where x: "find (live_row u) (db_tenants d) = Some x"
    by (metis find_None_iff not_None_eq)
  then have "x \<in> set (db_tenants d)" "live_row u x" by (metis find_Some_iff nth_mem)+
  moreover have "distinct (map tr_id (db_tenants d))" using assms by (simp add: db_ok_def tenants_ok_def)
  ultimately have "x = r"
    using r distinct_map_same [of tr_id "db_tenants d" x r] by (simp add: live_row_def)
  with x r(3) show "live d u = Some t" by (simp add: live_def)
qed

text \<open>
  In whatever order PostgreSQL returns the rows, the list of tenants contains exactly the
  tenants that a read of some identifier returns, each once, with distinct identifiers.
\<close>

theorem ListTenants_lists_live:
  assumes "pg_laws P" "db_ok d" "ListTenants P d = (d1, Ok ts)"
  shows "set ts = {t. live d (om_uid (t_meta t)) = Some t} \<and> distinct (map (\<lambda>t. om_uid (t_meta t)) ts)
    \<and> live d1 = live d"
proof -
  define rs where "rs = filter (\<lambda>r. tr_deleted_at r = None) (db_tenants d)"
  obtain out where ts: "ts = map row_tenant out" and out: "mset out = mset rs"
    and d1: "d1 = d\<lparr>db_seq := Suc (db_seq d)\<rparr>"
    using assms(1,3) by (auto simp: ListTenants_def res_simps rs_def pg_laws_def)
  have ids: "map (\<lambda>t. om_uid (t_meta t)) ts = map tr_id out"
    by (simp add: ts)
  have "distinct (map tr_id rs)"
    using assms(2) by (simp add: rs_def db_ok_def tenants_ok_def distinct_map_filter)
  moreover have "mset (map tr_id out) = mset (map tr_id rs)"
    using out by simp
  ultimately have "distinct (map tr_id out)"
    by (metis mset_eq_imp_distinct_iff)
  moreover have "set ts = {t. live d (om_uid (t_meta t)) = Some t}"
    using out [THEN mset_eq_setD]
    by (auto simp: ts live_Some_iff [OF assms(2)] live_row_def rs_def)
  ultimately show ?thesis using ids d1 by simp
qed

theorem ListTenants_lists_live_witness:
  "\<exists>ts. snd (ListTenants plain_pg two_tenants) = Ok ts \<and> length ts = 2
     \<and> set ts = {t. live two_tenants (om_uid (t_meta t)) = Some t}"
proof -
  have "\<exists>ts. snd (ListTenants plain_pg two_tenants) = Ok ts \<and> length ts = 2"
    by (simp add: ListTenants_def run_store)
  then obtain ts where ts: "snd (ListTenants plain_pg two_tenants) = Ok ts" "length ts = 2" by blast
  show ?thesis
    using ListTenants_lists_live [OF plain_pg_laws two_tenants_ok answered [OF ts(1)]] ts by blast
qed


section \<open>Members\<close>

definition role_of :: "db \<Rightarrow> string \<Rightarrow> string \<Rightarrow> string option" where
  "role_of d u user =
     map_option mr_role (find (\<lambda>m. mr_tenant_id m = u \<and> mr_user_id m = user) (db_members d))"

text \<open>The interface: a map from tenant and user to a role.\<close>

locale role_store =
  fixes role :: "'w \<Rightarrow> 'u \<Rightarrow> 'n \<Rightarrow> 'r option"
    and canon :: "'i \<Rightarrow> 'u option"
    and add :: "'i \<Rightarrow> 'n \<Rightarrow> 'r \<Rightarrow> 'w \<Rightarrow> 'w \<times> ('e, unit) res"
    and remove :: "'i \<Rightarrow> 'n \<Rightarrow> 'w \<Rightarrow> 'w \<times> ('e, unit) res"
    and get :: "'i \<Rightarrow> 'n \<Rightarrow> 'w \<Rightarrow> 'w \<times> ('e, 'r) res"
    and missing :: 'e
    and user_val :: "'n \<Rightarrow> 'n" and role_val :: "'r \<Rightarrow> 'r"
  assumes add_Ok: "add i n r w = (w', Ok ()) \<Longrightarrow> \<exists>u. canon i = Some u
      \<and> role w' = (role w)(u := (role w u)(user_val n \<mapsto> role_val r))"
    and remove_Ok: "remove i n w = (w', Ok ()) \<Longrightarrow> \<exists>u. canon i = Some u
      \<and> role w' = (role w)(u := (role w u)(n := None))"
    and get_Ok: "get i n w = (w', Ok r) \<Longrightarrow> \<exists>u. canon i = Some u \<and> role w u n = Some r \<and> role w' = role w"
    and get_missing: "get i n w = (w', Err missing) \<Longrightarrow>
      \<exists>u. canon i = Some u \<and> role w u n = None \<and> role w' = role w"
begin

lemma get_after_add:
  assumes "add i n r w = (w1, Ok ())" "user_val n = n" "role_val r = r"
  shows "get i n w1 = (w2, Ok r') \<Longrightarrow> r' = r" "get i n w1 \<noteq> (w2, Err missing)"
  using add_Ok [OF assms(1)] get_Ok [of i n w1 w2 r'] get_missing [of i n w1 w2] assms(2,3)
  by (auto simp: fun_eq_iff)

lemma get_after_remove:
  assumes "remove i n w = (w1, Ok ())"
  shows "get i n w1 \<noteq> (w2, Ok r')"
  using remove_Ok [OF assms(1)] get_Ok [of i n w1 w2 r'] by (auto simp: fun_eq_iff)

lemma last_add_wins:
  assumes "add i n r w = (w1, Ok ())" "add i n r' w1 = (w2, Ok ())"
  shows "role w2 = (role w)(the (canon i) := (role w (the (canon i)))(user_val n \<mapsto> role_val r'))"
  using add_Ok [OF assms(1)] add_Ok [OF assms(2)] by (auto simp: fun_eq_iff)

lemma remove_undoes_add:
  assumes "add i n r w = (w1, Ok ())" "remove i n w1 = (w2, Ok ())" "user_val n = n"
    "role w (the (canon i)) n = None"
  shows "role w2 = role w"
  using add_Ok [OF assms(1)] remove_Ok [OF assms(2)] assms(3,4) by (auto simp: fun_eq_iff)

end

lemma role_of_seq [simp]: "role_of (d\<lparr>db_seq := k\<rparr>) = role_of d"
  by (simp add: role_of_def fun_eq_iff)

lemma find_role_update:
  "map_option mr_role (find (\<lambda>m. mr_tenant_id m = u \<and> mr_user_id m = n)
      (map (\<lambda>m. if mr_tenant_id m = v \<and> mr_user_id m = k then m\<lparr>mr_role := r\<rparr> else m) ms)) =
   (if u = v \<and> n = k \<and> (v, k) \<in> set (map (\<lambda>m. (mr_tenant_id m, mr_user_id m)) ms) then Some r
    else map_option mr_role (find (\<lambda>m. mr_tenant_id m = u \<and> mr_user_id m = n) ms))"
  by (induction ms) auto

lemma find_role_remove:
  "find (\<lambda>m. mr_tenant_id m = u \<and> mr_user_id m = n) (filter (\<lambda>m. \<not> (mr_tenant_id m = v \<and> mr_user_id m = k)) ms) =
   (if u = v \<and> n = k then None else find (\<lambda>m. mr_tenant_id m = u \<and> mr_user_id m = n) ms)"
  by (induction ms) auto

lemma find_role_None_iff:
  "find (\<lambda>m. mr_tenant_id m = u \<and> mr_user_id m = n) ms = None \<longleftrightarrow>
     (u, n) \<notin> set (map (\<lambda>m. (mr_tenant_id m, mr_user_id m)) ms)"
  by (auto simp: find_None_iff)

lemma role_of_upsert:
  assumes "upsert_member now (u, n, r) d = (d', Ok ())"
  shows "role_of d' = (role_of d)(u := (role_of d u)(n \<mapsto> r))"
proof (cases "(u, n) \<in> set (map (\<lambda>m. (mr_tenant_id m, mr_user_id m)) (db_members d))")
  case True
  then have "d' = d\<lparr>db_members := map (\<lambda>m. if mr_tenant_id m = u \<and> mr_user_id m = n
      then m\<lparr>mr_role := r\<rparr> else m) (db_members d)\<rparr>"
    using assms by (simp add: upsert_member_def)
  then show ?thesis using True by (auto simp: role_of_def fun_eq_iff find_role_update)
next
  case False
  then have "d' = d\<lparr>db_members := db_members d @
      [\<lparr>mr_tenant_id = u, mr_user_id = n, mr_role = r, mr_created_at = now\<rparr>]\<rparr>"
    using assms by (simp add: upsert_member_def split: if_splits)
  moreover have "find (\<lambda>m. mr_tenant_id m = u \<and> mr_user_id m = n) (db_members d) = None"
    using False by (simp add: find_role_None_iff)
  ultimately show ?thesis
    by (auto simp: role_of_def fun_eq_iff find_append split: option.splits)
qed

definition short :: "pg \<Rightarrow> nat \<Rightarrow> string \<Rightarrow> string" where
  \<comment> \<open>the text as the column keeps it\<close>
  "short P n s = the (pg_varchar P n s)"

lemma AddMember_Ok:
  assumes "AddMember P i n r d = (d', Ok ())"
  shows "\<exists>u. pg_uuid P i = Some u \<and> role_of d' = (role_of d)(u := (role_of d u)(short P 255 n \<mapsto> short P 20 r))"
proof -
  obtain u v w where p: "pg_uuid P i = Some u" "pg_varchar P 255 n = Some v" "pg_varchar P 20 r = Some w"
    and up: "upsert_member (pg_now P (db_seq d)) (u, v, w) (d\<lparr>db_seq := Suc (db_seq d)\<rparr>) = (d', Ok ())"
    using assms by (auto simp: AddMember_def member_params_def res_simps)
  show ?thesis using role_of_upsert [OF up] p by (simp add: short_def)
qed

lemma RemoveMember_Ok:
  assumes "RemoveMember P i n d = (d', Ok ())"
  shows "\<exists>u. pg_uuid P i = Some u \<and> role_of d' = (role_of d)(u := (role_of d u)(n := None))"
  using assms
  by (auto simp: RemoveMember_def res_simps role_of_def fun_eq_iff find_role_remove simp del: de_Morgan_conj)

lemma GetMemberRole_Ok:
  assumes "GetMemberRole P i n d = (d', Ok r)"
  shows "\<exists>u. pg_uuid P i = Some u \<and> role_of d u n = Some r \<and> role_of d' = role_of d"
  using assms by (auto simp: GetMemberRole_def res_simps role_of_def [abs_def] split: option.splits)

lemma GetMemberRole_NoRows:
  assumes "GetMemberRole P i n d = (d', Err NoRows)"
  shows "\<exists>u. pg_uuid P i = Some u \<and> role_of d u n = None \<and> role_of d' = role_of d"
  using assms
  by (auto simp: GetMemberRole_def exec_NoRows_iff with_params_NoRows_iff res_simps role_of_def [abs_def] split: option.splits)

interpretation rs: role_store role_of "pg_uuid P" "AddMember P" "RemoveMember P" "GetMemberRole P"
    NoRows "short P 255" "short P 20" for P
  by unfold_locales (simp_all only: AddMember_Ok RemoveMember_Ok GetMemberRole_Ok GetMemberRole_NoRows)

lemma short_id: "pg_laws P \<Longrightarrow> length s \<le> n \<Longrightarrow> short P n s = s"
  by (simp add: pg_laws_def short_def)

text \<open>
  A user added to a tenant with a role of at most 20 characters is found with exactly that
  role, also when the user was a member before; adding an absent user and removing it again leaves
  every membership as it was, and a removed user has no role.
\<close>

theorem members_roundtrip:
  assumes "pg_laws P" "length n \<le> 255" "length r \<le> 20" "AddMember P i n r d = (d1, Ok ())"
  shows "(\<forall>d2 r'. GetMemberRole P i n d1 = (d2, Ok r') \<longrightarrow> r' = r)
    \<and> (\<forall>d2. GetMemberRole P i n d1 \<noteq> (d2, Err NoRows))
    \<and> (\<forall>d2. RemoveMember P i n d1 = (d2, Ok ()) \<longrightarrow>
         (\<forall>d3 r'. GetMemberRole P i n d2 \<noteq> (d3, Ok r'))
         \<and> (role_of d (the (pg_uuid P i)) n = None \<longrightarrow> role_of d2 = role_of d))"
  using rs.get_after_add [OF assms(4) short_id [OF assms(1,2)] short_id [OF assms(1,3)]]
    rs.get_after_remove rs.remove_undoes_add [OF assms(4) _ short_id [OF assms(1,2)]] by blast

theorem members_roundtrip_witness:
  "snd (GetMemberRole plain_pg ''u1'' ''bob'' (fst (AddMember plain_pg ''u1'' ''bob'' ''viewer'' two_tenants)))
     = Ok ''viewer''"
proof -
  let ?d = "fst (AddMember plain_pg ''u1'' ''bob'' ''viewer'' two_tenants)"
  have a: "snd (AddMember plain_pg ''u1'' ''bob'' ''viewer'' two_tenants) = Ok ()"
    by (simp add: AddMember_def member_params_def upsert_member_def run_store)
  have "\<exists>r. snd (GetMemberRole plain_pg ''u1'' ''bob'' ?d) = Ok r"
    by (simp add: AddMember_def GetMemberRole_def member_params_def upsert_member_def run_store)
  then obtain r where r: "snd (GetMemberRole plain_pg ''u1'' ''bob'' ?d) = Ok r" by blast
  have "r = ''viewer''"
    using members_roundtrip [OF plain_pg_laws _ _ answered [OF a]] answered [OF r] by simp
  with r show ?thesis by simp
qed

end
