(* ===== verification/Server.thy ===== *)
theory Server
  imports Rate_Limit Auth Store_Contract
begin

text \<open>
  The API server, \<open>internal/server/server.go\<close>: the routes and the chain of middlewares around
  every handler (logging, rate limit, authentication), and what a client can observe over several
  requests. The multiplexer of \<open>net/http\<close> is modelled on paths already split into segments;
  redirects of unclean paths are left out.
\<close>

section \<open>Routes\<close>

datatype segment = Lit string | Wild

datatype endpoint =
    Health | ListTenantsE | CreateTenantE | GetTenantE | UpdateTenantE | DeleteTenantE
  | AddMemberE | RemoveMemberE | ListMembersE

definition tenants_path :: "segment list" where
  "tenants_path = [Lit ''api'', Lit ''v1'', Lit ''tenants'']"

definition routes :: "(string option \<times> segment list \<times> endpoint) list" where
  \<comment> \<open>the patterns of \<open>NewMux\<close>; no method means any\<close>
  "routes =
     [(None, [Lit ''health''], Health),
      (Some ''GET'', tenants_path, ListTenantsE),
      (Some ''POST'', tenants_path, CreateTenantE),
      (Some ''GET'', tenants_path @ [Wild], GetTenantE),
      (Some ''PUT'', tenants_path @ [Wild], UpdateTenantE),
      (Some ''DELETE'', tenants_path @ [Wild], DeleteTenantE),
      (Some ''POST'', tenants_path @ [Wild, Lit ''members''], AddMemberE),
      (Some ''DELETE'', tenants_path @ [Wild, Lit ''members'', Wild], RemoveMemberE),
      (Some ''GET'', tenants_path @ [Wild, Lit ''members''], ListMembersE)]"

fun match_path :: "segment list \<Rightarrow> string list \<Rightarrow> string list option" where
  \<comment> \<open>the values of the wildcards\<close>
  "match_path [] [] = Some []"
| "match_path (Lit s # ps) (x # xs) = (if x = s then match_path ps xs else None)"
| "match_path (Wild # ps) (x # xs) = (if x = [] then None else map_option ((#) x) (match_path ps xs))"
| "match_path _ _ = None"

definition match_method :: "string option \<Rightarrow> string \<Rightarrow> bool" where
  \<comment> \<open>a pattern for GET also takes HEAD\<close>
  "match_method m method = (case m of None \<Rightarrow> True
     | Some x \<Rightarrow> method = x \<or> x = ''GET'' \<and> method = ''HEAD'')"

datatype routed = Found endpoint "string list" | MethodNotAllowed | PathNotFound

definition find_route :: "http_request \<Rightarrow> routed" where
  "find_route r =
     (case find (\<lambda>(m, ps, e). match_method m (hr_method r) \<and> match_path ps (hr_path r) \<noteq> None) routes of
        Some (m, ps, e) \<Rightarrow> Found e (the (match_path ps (hr_path r)))
      | None \<Rightarrow> if list_ex (\<lambda>(m, ps, e). match_path ps (hr_path r) \<noteq> None) routes
                then MethodNotAllowed else PathNotFound)"


section \<open>Serving a request\<close>

record server =
  sv_db :: db
  sv_buckets :: buckets

record server_env =
  se_http :: http_env
  se_pg :: pg
  se_auth :: auth_env
  se_rnd :: "real \<Rightarrow> real"
  se_show :: "real \<Rightarrow> string"

definition Limit ::
    "(real \<Rightarrow> real) \<Rightarrow> (real \<Rightarrow> string) \<Rightarrow> limiter \<Rightarrow> int \<Rightarrow> int
       \<Rightarrow> (req_context \<Rightarrow> http_request \<Rightarrow> server \<Rightarrow> server \<times> http_result)
       \<Rightarrow> req_context \<Rightarrow> http_request \<Rightarrow> server \<Rightarrow> server \<times> http_result" where
  "Limit rnd show_float L created now next ctx r s =
     (let (bs, allowed) = take_token rnd L (limit_key ctx r) created now (sv_buckets s);
          s = s\<lparr>sv_buckets := bs\<rparr> in
      if \<not> allowed then (s, too_many rnd show_float L) else next ctx r s)"

definition healthHandler :: "'w \<Rightarrow> 'w \<times> http_result" where
  "healthHandler w = (w, json_reply 200 (HealthBody ''healthy''))"

declare healthHandler_def [simp]

fun run_endpoint :: "http_env \<Rightarrow> pg \<Rightarrow> endpoint \<Rightarrow> string list \<Rightarrow> http_request \<Rightarrow> db \<Rightarrow> db \<times> http_result" where
  "run_endpoint E P ListTenantsE vs r d = handleListTenants P d"
| "run_endpoint E P CreateTenantE vs r d = handleCreateTenant E P (hr_body r) d"
| "run_endpoint E P GetTenantE vs r d = handleGetTenant P (vs ! 0) d"
| "run_endpoint E P UpdateTenantE vs r d = handleUpdateTenant E P (vs ! 0) (hr_body r) d"
| "run_endpoint E P DeleteTenantE vs r d = handleDeleteTenant P (vs ! 0) d"
| "run_endpoint E P AddMemberE vs r d = handleAddMember E P (vs ! 0) (hr_body r) d"
| "run_endpoint E P RemoveMemberE vs r d = handleRemoveMember P (vs ! 0) (vs ! 1) d"
| "run_endpoint E P ListMembersE vs r d = handleListMembers E P (vs ! 0) d"
| "run_endpoint E P Health vs r d = healthHandler d"

definition on_store :: "(db \<Rightarrow> db \<times> http_result) \<Rightarrow> server \<Rightarrow> server \<times> http_result" where
  "on_store f s = (let (d, r) = f (sv_db s) in (s\<lparr>sv_db := d\<rparr>, r))"

definition plain_reply :: "string \<Rightarrow> nat \<Rightarrow> http_result" where
  "plain_reply msg status = Reply \<lparr>rs_status = status, rs_contentType = ''text/plain; charset=utf-8'',
     rs_retryAfter = None, rs_body = ErrorText msg\<rparr>"

definition serve ::
    "server_env \<Rightarrow> limiter \<Rightarrow> auth \<Rightarrow> int \<times> int \<Rightarrow> http_request \<Rightarrow> server \<Rightarrow> server \<times> http_result" where
  \<comment> \<open>the context of a new request holds no user\<close>
  "serve X L A clock r s =
     (case find_route r of
        PathNotFound \<Rightarrow> (s, plain_reply ''404 page not found'' 404)
      | MethodNotAllowed \<Rightarrow> (s, plain_reply ''Method Not Allowed'' 405)
      | Found Health vs \<Rightarrow> on_store (run_endpoint (se_http X) (se_pg X) Health vs r) s
      | Found e vs \<Rightarrow>
          Limit (se_rnd X) (se_show X) L (fst clock) (snd clock)
            (Auth (se_auth X) A (\<lambda>ctx r. on_store (run_endpoint (se_http X) (se_pg X) e vs r))) None r s)"

fun serve_all ::
    "server_env \<Rightarrow> limiter \<Rightarrow> auth \<Rightarrow> ((int \<times> int) \<times> http_request) list \<Rightarrow> server \<Rightarrow> server" where
  "serve_all X L A [] s = s"
| "serve_all X L A ((clock, r) # rs) s = serve_all X L A rs (fst (serve X L A clock r s))"

definition status_of :: "http_result \<Rightarrow> nat option" where
  "status_of h = (case h of Reply r \<Rightarrow> Some (rs_status r) | Aborted x \<Rightarrow> None)"

end
