(* ===== verification/Server_Props.thy ===== *)
theory Server_Props
  imports Server
begin

text \<open>
  What a client of the API server can rely on: who may change the database, what a POST, a PUT
  and a DELETE mean for the requests after them.
\<close>

section \<open>Requests as steps of the store\<close>

lemma or_500_steps:
  assumes "(soft_step P)\<^sup>*\<^sup>* d (fst p)" "\<And>d' a. p = (d', Ok a) \<Longrightarrow> (soft_step P)\<^sup>*\<^sup>* d' (fst (k d' a))"
  shows "(soft_step P)\<^sup>*\<^sup>* d (fst (or_500 p msg k))"
proof -
  obtain d' r where p: "p = (d', r)" by (cases p)
  show ?thesis
  proof (cases r)
    case (Ok a)
    then show ?thesis using assms rtranclp_trans [of "soft_step P" d d'] by (simp add: or_500_def p)
  qed (use assms(1) in \<open>simp_all add: or_500_def p\<close>)
qed

lemma or_500_simps [simp]:
  "or_500 (d, Ok a) msg k = k d a" "or_500 (d, Err e) msg k = (d, http_error msg 500)"
  "or_500 (d, Panic x) msg k = (d, Aborted x)"
  by (simp_all add: or_500_def)

lemma one_step:
  "(soft_step P)\<^sup>*\<^sup>* d (fst (CreateTenant P t d))" "(soft_step P)\<^sup>*\<^sup>* d (fst (GetTenantByID P i d))"
  "(soft_step P)\<^sup>*\<^sup>* d (fst (ListTenants P d))" "(soft_step P)\<^sup>*\<^sup>* d (fst (UpdateTenant P t d))"
  "(soft_step P)\<^sup>*\<^sup>* d (fst (DeleteTenant P i d))" "(soft_step P)\<^sup>*\<^sup>* d (fst (AddMember P i u r d))"
  "(soft_step P)\<^sup>*\<^sup>* d (fst (RemoveMember P i u d))" "(soft_step P)\<^sup>*\<^sup>* d (fst (ListMembers P i d))"
  by (rule r_into_rtranclp, rule soft_step.intros)+

lemma run_endpoint_steps: "(soft_step P)\<^sup>*\<^sup>* d (fst (run_endpoint E P e vs r d))"
proof (cases e)
  case UpdateTenantE
  then show ?thesis
    by (auto simp: handleUpdateTenant_def simp del: fst_GetTenantByID
        intro!: or_500_steps one_step split: option.split)
next
  case AddMemberE
  then show ?thesis
    by (auto simp: handleAddMember_def simp del: fst_GetTenantByID
        intro!: or_500_steps one_step split: option.split)
qed (auto simp: handleListTenants_def handleCreateTenant_def handleGetTenant_def handleDeleteTenant_def
    handleRemoveMember_def handleListMembers_def simp del: fst_GetTenantByID fst_CreateTenant
    intro!: or_500_steps one_step split: option.split)

lemma sv_db_on_store [simp]: "sv_db (fst (on_store f s)) = fst (f (sv_db s))"
  by (simp add: on_store_def split: prod.splits)

lemma snd_on_store [simp]: "snd (on_store f s) = snd (f (sv_db s))"
  by (simp add: on_store_def split: prod.splits)

lemma status_of_simps [simp]:
  "status_of (http_error m n) = Some n" "status_of (plain_reply m n) = Some n"
  "status_of (json_reply n b) = Some n" "status_of (too_many rnd sh L) = Some 429"
  "status_of (Aborted x) = None"
  by (simp_all add: status_of_def http_error_def plain_reply_def json_reply_def too_many_def)

text \<open>A request is either turned away, or runs the endpoint of its route on the database.\<close>

lemma serve_cases:
  obtains (refused) "sv_db (fst (serve X L A clock r s)) = sv_db s"
      "status_of (snd (serve X L A clock r s)) \<in> {Some 401, Some 404, Some 405, Some 429}"
  | (served) e vs where "find_route r = Found e vs" "e = Health \<or> authenticate (se_auth X) A r \<noteq> None"
      "sv_db (fst (serve X L A clock r s)) = fst (run_endpoint (se_http X) (se_pg X) e vs r (sv_db s))"
      "snd (serve X L A clock r s) = snd (run_endpoint (se_http X) (se_pg X) e vs r (sv_db s))"
proof (cases "find_route r")
  case (Found e vs)
  show ?thesis
  proof (cases "e = Health")
    case True
    then show ?thesis using served [OF Found] by (simp add: serve_def Found)
  next
    case False
    then have sv: "serve X L A clock r s = Limit (se_rnd X) (se_show X) L (fst clock) (snd clock)
        (Auth (se_auth X) A (\<lambda>ctx r. on_store (run_endpoint (se_http X) (se_pg X) e vs r))) None r s"
      by (cases e) (simp_all add: serve_def Found)
    obtain bs allowed where tk: "take_token (se_rnd X) L (limit_key None r) (fst clock) (snd clock) (sv_buckets s)
        = (bs, allowed)" by fastforce
    show ?thesis
    proof (cases "allowed \<and> authenticate (se_auth X) A r \<noteq> None")
      case True
      then show ?thesis using served [OF Found] by (auto simp: sv Limit_def Auth_def tk Let_def)
    next
      case False
      then show ?thesis using refused by (cases allowed) (auto simp: sv Limit_def Auth_def tk Let_def)
    qed
  qed
qed (use refused in \<open>simp_all add: serve_def\<close>)

lemma serve_steps: "(soft_step (se_pg X))\<^sup>*\<^sup>* (sv_db s) (sv_db (fst (serve X L A clock r s)))"
  by (cases rule: serve_cases [of X L A clock r s]) (simp_all add: run_endpoint_steps del: run_endpoint.simps)

lemma serve_all_steps: "(soft_step (se_pg X))\<^sup>*\<^sup>* (sv_db s) (sv_db (serve_all X L A rs s))"
proof (induction rs arbitrary: s)
  case (Cons x rs)
  obtain clock r where x: "x = (clock, r)" by (cases x)
  show ?case
    using rtranclp_trans [OF serve_steps Cons.IH [of "fst (serve X L A clock r s)"]] by (simp add: x)
qed simp


text \<open>
  C13: with authentication on, a request whose token the library does not accept, under the keys
  of the key set, the issuer and the client, changes nothing in the database and is answered 401,
  404, 405 or 429, the health check apart, which is answered 200.
\<close>

theorem unauthenticated_changes_nothing:
  assumes "au_Enabled A"
    and "ae_parse (se_auth X) (au_keySet A) (au_IssuerURL A) (au_ClientID A) (cut_bearer (hr_authorization r)) = None"
  shows "sv_db (fst (serve X L A clock r s)) = sv_db s
    \<and> (status_of (snd (serve X L A clock r s)) \<in> {Some 401, Some 404, Some 405, Some 429}
       \<or> (\<exists>vs. find_route r = Found Health vs) \<and> status_of (snd (serve X L A clock r s)) = Some 200)"
proof (cases rule: serve_cases [of X L A clock r s])
  case (served e vs)
  moreover have "authenticate (se_auth X) A r = None" using assms by (simp add: authenticate_def)
  ultimately have "e = Health" by simp
  with served show ?thesis by simp
qed simp

definition demo_env_api :: server_env where
  "demo_env_api = \<lparr>se_http = \<lparr>
       he_create = (\<lambda>data. Some \<lparr>ct_Name = data, ct_Tier = ''pro'', ct_OwnerEmail = ''o@x''\<rparr>),
       he_update = (\<lambda>data. Some \<lparr>ut_Tier = Some data, ut_OwnerEmail = None\<rparr>),
       he_addMember = (\<lambda>data. Some \<lparr>am_UserID = data, am_Role = ''admin''\<rparr>),
       he_uuid = (\<lambda>k. ''u9''), he_rfc3339 = (\<lambda>k. ''t'')\<rparr>,
     se_pg = plain_pg,
     se_auth = \<lparr>ae_get = (\<lambda>url. None), ae_jwks = (\<lambda>data. None),
       ae_parse = (\<lambda>ks iss aud tok. if tok = ''good'' then Some (Some ''alice'') else None)\<rparr>,
     se_rnd = exact, se_show = (\<lambda>x. ''1'')\<rparr>"

definition demo_auth :: auth where
  "demo_auth = \<lparr>au_IssuerURL = ''https://dex'', au_ClientID = ''mtp'', au_Enabled = True, au_keySet = Map.empty\<rparr>"

definition demo_server :: server where
  "demo_server = \<lparr>sv_db = two_tenants, sv_buckets = Map.empty\<rparr>"

definition demo_request :: "string \<Rightarrow> string \<Rightarrow> http_request" where
  "demo_request method token = \<lparr>hr_method = method, hr_path = [''api'', ''v1'', ''tenants'', ''u1''],
     hr_body = [], hr_authorization = token, hr_remoteAddr = ''10.0.0.1:4711''\<rparr>"

theorem unauthenticated_changes_nothing_witness:
  "sv_db (fst (serve demo_env_api demo_limiter demo_auth (0, 0) (demo_request ''DELETE'' ''Bearer bad'') demo_server))
   = sv_db demo_server"
  by (rule conjunct1 [OF unauthenticated_changes_nothing])
    (simp_all add: demo_auth_def demo_env_api_def demo_request_def cut_bearer_def hasPrefix_def)

text \<open>
  C14: once a DELETE of a live tenant has been answered 204, no sequence of requests makes a GET
  of that tenant answer 200 again, whoever sends them and whatever fails.
\<close>

theorem deleted_tenant_is_gone:
  assumes "db_ok (sv_db s)" "find_route r = Found DeleteTenantE [i]" "find_route r' = Found GetTenantE [i]"
    "pg_uuid (se_pg X) i = Some u" "live (sv_db s) u = Some t"
    "status_of (snd (serve X L A clock r s)) = Some 204"
  shows "status_of (snd (serve X L A clock' r' (serve_all X L A rs (fst (serve X L A clock r s))))) \<noteq> Some 200"
proof
  let ?s1 = "fst (serve X L A clock r s)" and ?s2 = "serve_all X L A rs (fst (serve X L A clock r s))"
  assume "status_of (snd (serve X L A clock' r' ?s2)) = Some 200"
  then have "status_of (snd (handleGetTenant (se_pg X) i (sv_db ?s2))) = Some 200"
    by (cases rule: serve_cases [of X L A clock' r' ?s2]) (use assms(3) in auto)
  then obtain x where x: "snd (GetTenantByID (se_pg X) i (sv_db ?s2)) = Ok (Some x)"
    by (auto simp: handleGetTenant_def or_500_def split: prod.splits res.splits option.splits)
  have "DeleteTenant (se_pg X) i (sv_db s) = (sv_db ?s1, Ok ())"
  proof (cases rule: serve_cases [of X L A clock r s])
    case refused
    then show ?thesis using assms(6) by auto
  next
    case (served e vs)
    then have "status_of (snd (handleDeleteTenant (se_pg X) i (sv_db s))) = Some 204"
      "sv_db ?s1 = fst (handleDeleteTenant (se_pg X) i (sv_db s))"
      using assms(2,6) by auto
    then show ?thesis
      by (auto simp: handleDeleteTenant_def or_500_def split: prod.splits res.splits)
  qed
  then have "buried u (ts_name (t_spec t)) (sv_db ?s1)" "db_ok (sv_db ?s1)"
    using DeleteTenant_buries assms(4,5) ts.inv_after(3) [OF assms(1)] by blast+
  then have "live (sv_db ?s2) u = None"
    using buried_steps soft_steps_ok serve_all_steps buried_not_live by blast
  then show False
    using GetTenantByID_Ok [OF answered [OF x]] assms(4) by simp
qed

lemma demo_routes:
  "find_route (demo_request ''DELETE'' tok) = Found DeleteTenantE [''u1'']"
  "find_route (demo_request ''GET'' tok) = Found GetTenantE [''u1'']"
  by (simp_all add: find_route_def routes_def tenants_path_def demo_request_def match_method_def)

lemma demo_delete_204:
  "status_of (snd (serve demo_env_api demo_limiter demo_auth (0, 0) (demo_request ''DELETE'' ''Bearer good'') demo_server))
   = Some 204"
  by (simp add: serve_def demo_routes Limit_def Auth_def take_token_def new_bucket_def consume_def refill_def
      seconds_exact exact_def Let_def demo_limiter_def demo_server_def authenticate_def demo_auth_def
      demo_env_api_def cut_bearer_def hasPrefix_def handleDeleteTenant_def DeleteTenant_def run_store)
    (simp add: demo_request_def hasPrefix_def)

theorem deleted_tenant_is_gone_witness:
  "status_of (snd (serve demo_env_api demo_limiter demo_auth (0, 5) (demo_request ''GET'' ''Bearer good'')
      (serve_all demo_env_api demo_limiter demo_auth [((0, 3), demo_request ''PUT'' ''good'')]
        (fst (serve demo_env_api demo_limiter demo_auth (0, 0) (demo_request ''DELETE'' ''Bearer good'') demo_server)))))
   \<noteq> Some 200"
proof -
  have l: "\<exists>t. live two_tenants ''u1'' = Some t"
    by (simp add: live_def live_row_def two_tenants_def)
  then obtain t where t: "live (sv_db demo_server) ''u1'' = Some t" by (auto simp: demo_server_def)
  have ok: "db_ok (sv_db demo_server)" by (simp add: demo_server_def two_tenants_ok)
  have u: "pg_uuid (se_pg demo_env_api) ''u1'' = Some ''u1''" by (simp add: demo_env_api_def plain_pg_def)
  show ?thesis
    by (rule deleted_tenant_is_gone [OF ok demo_routes u t demo_delete_204])
qed


section \<open>What a POST and a PUT promise\<close>

lemma post_created:
  assumes "handleCreateTenant E P data d = (d1, Reply r1)" "rs_status r1 = 201"
  obtains req t' where "he_create E data = Some req" "ct_Tier req \<in> {''free'', ''pro'', ''enterprise''}"
    "CreateTenant P (new_tenant req (he_uuid E (db_seq d))) d = (d1, Ok t')"
    "rs_body r1 = TenantBody (tenant_response_of t')"
  using assms
  by (auto simp: handleCreateTenant_def or_500_def http_error_def json_reply_def
      split: option.splits if_splits prod.splits res.splits)

lemma created_response:
  assumes "CreateTenant P t d = (d', Ok t')"
  shows "tenant_response_of t' = tenant_response_of t"
  using CreateTenant_Ok_iff [of P t d d' t'] assms by (auto simp: tenant_response_of_def)

lemma get_status:
  assumes "handleGetTenant P i d = (d', Reply r)"
  shows "rs_status r = 500
    \<or> rs_status r = 404 \<and> (\<exists>u. pg_uuid P i = Some u \<and> live d u = None)
    \<or> rs_status r = 200 \<and> (\<exists>u x. pg_uuid P i = Some u \<and> live d u = Some x \<and> rs_body r = TenantBody (tenant_response_of x))"
proof -
  obtain d1 g where get: "GetTenantByID P i d = (d1, g)" by fastforce
  show ?thesis
  proof (cases g)
    case (Ok t)
    then obtain u where "pg_uuid P i = Some u" "t = live d u"
      using GetTenantByID_Ok get by blast
    then show ?thesis
      using assms by (cases "live d u") (auto simp: handleGetTenant_def get Ok http_error_def json_reply_def)
  qed (use assms in \<open>auto simp: handleGetTenant_def get http_error_def\<close>)
qed

lemma live_cong: "db_tenants d' = db_tenants d \<Longrightarrow> live d' = live d"
  by (simp add: live_def fun_eq_iff)

lemma new_tenant_params:
  assumes "pg_laws P" "length (ct_Name req) \<le> 56" "length (ct_OwnerEmail req) \<le> 255"
    "ct_Tier req \<in> {''free'', ''pro'', ''enterprise''}" "pg_uuid P uid = Some uid"
  shows "tenant_params P (new_tenant req uid) =
    Ok (uid, ct_Name req, ''tenant-'' @ ct_Name req, ct_Tier req, ct_OwnerEmail req)"
proof -
  have "length (ct_Tier req) \<le> 20" using assms(4) by auto
  then show ?thesis
    using assms by (simp add: tenant_params_def new_tenant_def uuid_param_def varchar_param_def pg_laws_def)
qed

text \<open>
  C26: a POST answered 201 stored the tenant exactly if its name was free: the table has one more
  row, live and with the fields of the request, and a GET of the identifier in the answer, if the
  database answers it, is 200 with the same body. If the name was taken, by a live or by a deleted
  tenant, both tables are as before and the GET is 404. The name and the address fit their
  columns, and the identifier is new and in canonical spelling.
\<close>

theorem post_then_get:
  assumes "pg_laws P" "db_ok d" "handleCreateTenant E P data d = (d1, Reply r1)" "rs_status r1 = 201"
    "he_create E data = Some req" "length (ct_Name req) \<le> 56" "length (ct_OwnerEmail req) \<le> 255"
    "pg_uuid P (he_uuid E (db_seq d)) = Some (he_uuid E (db_seq d))" "live d (he_uuid E (db_seq d)) = None"
  shows "\<exists>b. rs_body r1 = TenantBody b \<and> tp_Name b = ct_Name req
    \<and> db_members d1 = db_members d
    \<and> db_tenants d1 = db_tenants d @
         (if ct_Name req \<in> tr_name ` set (db_tenants d) then []
          else [\<lparr>tr_id = tp_ID b, tr_name = ct_Name req, tr_namespace = ''tenant-'' @ ct_Name req,
                 tr_tier = ct_Tier req, tr_owner_email = ct_OwnerEmail req, tr_created_at = pg_now P (db_seq d),
                 tr_updated_at = pg_now P (db_seq d), tr_deleted_at = None\<rparr>])
    \<and> (\<forall>d2 r2. handleGetTenant P (tp_ID b) d1 = (d2, Reply r2) \<longrightarrow> rs_status r2 \<noteq> 500 \<longrightarrow>
         (if ct_Name req \<in> tr_name ` set (db_tenants d) then rs_status r2 = 404
          else rs_status r2 = 200 \<and> rs_body r2 = TenantBody b))"
proof -
  let ?uid = "he_uuid E (db_seq d)"
  obtain t' where tier: "ct_Tier req \<in> {''free'', ''pro'', ''enterprise''}"
    and c: "CreateTenant P (new_tenant req ?uid) d = (d1, Ok t')"
    and b: "rs_body r1 = TenantBody (tenant_response_of t')"
    using post_created [OF assms(3,4)] assms(5) by (metis option.inject)
  note tables = CreateTenant_tables [OF c new_tenant_params [OF assms(1,6,7) tier assms(8)]]
  note out = CreateTenant_cases [OF c new_tenant_params [OF assms(1,6,7) tier assms(8)]]
  have resp: "tenant_response_of t' = \<lparr>tp_ID = ?uid, tp_Name = ct_Name req, tp_Namespace = ''tenant-'' @ ct_Name req,
      tp_Tier = ct_Tier req, tp_OwnerEmail = ct_OwnerEmail req\<rparr>"
    using created_response [OF c] by (simp add: tenant_response_of_def new_tenant_def)
  have "if ct_Name req \<in> tr_name ` set (db_tenants d) then rs_status r2 = 404
      else rs_status r2 = 200 \<and> rs_body r2 = TenantBody (tenant_response_of t')"
    if g: "handleGetTenant P ?uid d1 = (d2, Reply r2)" and ok: "rs_status r2 \<noteq> 500" for d2 r2
  proof (cases "ct_Name req \<in> tr_name ` set (db_tenants d)")
    case True
    then have "live d1 ?uid = None" using out assms(9) live_cong [of d1 d] by simp
    then show ?thesis using True get_status [OF g] ok assms(8) by auto
  next
    case False
    then obtain x where "live d1 ?uid = Some x" "tenant_response_of x = tenant_response_of t'"
      using out unfolding resp by (auto simp: tenant_response_of_def)
    then show ?thesis using False get_status [OF g] ok assms(8) by auto
  qed
  then show ?thesis using b resp tables by auto
qed

theorem post_then_get_witness:
  "rs_status (case snd (handleGetTenant plain_pg ''u9'' (fst (handleCreateTenant (se_http demo_env_api) plain_pg ''c'' two_tenants)))
      of Reply r \<Rightarrow> r) = 200"
proof -
  let ?E = "se_http demo_env_api"
  let ?d1 = "fst (handleCreateTenant ?E plain_pg ''c'' two_tenants)"
  have "\<exists>r. snd (handleCreateTenant ?E plain_pg ''c'' two_tenants) = Reply r \<and> rs_status r = 201
      \<and> (\<exists>b. rs_body r = TenantBody b \<and> tp_ID b = ''u9'')"
    by (simp add: demo_env_api_def handleCreateTenant_def CreateTenant_def tenant_params_def insert_tenant_def
        new_tenant_def json_reply_def tenant_response_of_def empty_tenant_def empty_meta_def run_store)
  then obtain r b where r: "snd (handleCreateTenant ?E plain_pg ''c'' two_tenants) = Reply r" "rs_status r = 201"
      "rs_body r = TenantBody b" "tp_ID b = ''u9''" by blast
  have "\<exists>r2. snd (handleGetTenant plain_pg ''u9'' ?d1) = Reply r2 \<and> rs_status r2 \<noteq> 500"
    by (simp add: demo_env_api_def handleCreateTenant_def CreateTenant_def tenant_params_def insert_tenant_def
        handleGetTenant_def GetTenantByID_def new_tenant_def json_reply_def empty_tenant_def empty_meta_def run_store)
  then obtain r2 where r2: "snd (handleGetTenant plain_pg ''u9'' ?d1) = Reply r2" "rs_status r2 \<noteq> 500" by blast
  have "rs_status r2 = 200"
    using post_then_get [OF plain_pg_laws two_tenants_ok answered [OF r(1)] r(2),
        of "\<lparr>ct_Name = ''c'', ct_Tier = ''pro'', ct_OwnerEmail = ''o@x''\<rparr>"] r(3,4) answered [OF r2(1)] r2(2)
    by (simp add: demo_env_api_def plain_pg_def two_tenants_def live_def live_row_def)
  then show ?thesis by (simp add: r2(1))
qed

text \<open>
  A PUT answered 200 replaced exactly the fields that the request gives, in that row and in no
  other, and the answer shows the row as it is then; the tier may be any text of at most 20
  characters.
\<close>

theorem put_changes_given_fields:
  assumes "pg_laws P" "db_ok d" "handleUpdateTenant E P i data d = (d1, Reply r)" "rs_status r = 200"
    "he_update E data = Some req" "length (ts_tier (t_spec (apply_update req t))) \<le> 20"
    "length (ts_ownerEmail (t_spec (apply_update req t))) \<le> 255" "pg_uuid P i = Some u" "live d u = Some t"
  shows "live d1 = (live d)(u \<mapsto> apply_update req t) \<and> rs_body r = TenantBody (tenant_response_of (apply_update req t))
    \<and> apply_update req t = t\<lparr>t_spec := (t_spec t)\<lparr>ts_tier := case_option (ts_tier (t_spec t)) id (ut_Tier req),
        ts_ownerEmail := case_option (ts_ownerEmail (t_spec t)) id (ut_OwnerEmail req)\<rparr>\<rparr>"
proof -
  have app: "apply_update req t = t\<lparr>t_spec := (t_spec t)\<lparr>ts_tier := case_option (ts_tier (t_spec t)) id (ut_Tier req),
        ts_ownerEmail := case_option (ts_ownerEmail (t_spec t)) id (ut_OwnerEmail req)\<rparr>\<rparr>"
    by (cases "ut_Tier req"; cases "ut_OwnerEmail req") (simp_all add: apply_update_def Let_def)
  have canon: "pg_uuid P u = Some u" using assms(1,8) by (auto simp: pg_laws_def)
  obtain d0 g where get: "GetTenantByID P i d = (d0, g)" by fastforce
  obtain x where g: "g = Ok (Some x)" and up: "UpdateTenant P (apply_update req x) d0 = (d1, Ok ())"
    and body: "rs_body r = TenantBody (tenant_response_of (apply_update req x))"
    using assms(3-5) unfolding handleUpdateTenant_def get
    by (cases g; cases "UpdateTenant P (apply_update req (the (case g of Ok y \<Rightarrow> y))) d0")
      (auto simp: http_error_def json_reply_def or_500_def split: option.splits res.splits prod.splits)
  have x: "x = t" and same: "live d0 = live d"
    using GetTenantByID_Ok [OF get [unfolded g]] assms(8,9) by auto
  have key: "tenant_key (apply_update req t) = u"
  proof -
    have "om_uid (t_meta t) = u"
      using assms(2,9) by (auto simp: live_Some_iff live_row_def)
    then show ?thesis by (simp add: tenant_key_def app)
  qed
  have "updated P (apply_update req t) t = apply_update req t"
    using assms(1,6,7) by (simp add: updated_def pg_laws_def app)
  moreover have "live d1 = (live d0)(u := map_option (updated P (apply_update req t)) (live d0 u))"
    using UpdateTenant_Ok [OF up [unfolded x]] key canon by auto
  ultimately show ?thesis using same assms(9) body x app by simp
qed

theorem put_changes_given_fields_witness:
  "map_option (\<lambda>t. ts_tier (t_spec t))
     (live (fst (handleUpdateTenant (se_http demo_env_api) plain_pg ''u1'' ''gold'' two_tenants)) ''u1'') = Some ''gold''"
proof -
  let ?E = "se_http demo_env_api"
  have "\<exists>r. snd (handleUpdateTenant ?E plain_pg ''u1'' ''gold'' two_tenants) = Reply r \<and> rs_status r = 200"
    by (simp add: demo_env_api_def handleUpdateTenant_def GetTenantByID_def UpdateTenant_def apply_update_def
        json_reply_def row_tenant_def empty_tenant_def empty_meta_def run_store)
  then obtain r where r: "snd (handleUpdateTenant ?E plain_pg ''u1'' ''gold'' two_tenants) = Reply r" "rs_status r = 200"
    by blast
  have "\<exists>t. live two_tenants ''u1'' = Some t \<and> length (ts_ownerEmail (t_spec t)) \<le> 255"
    by (simp add: live_def live_row_def two_tenants_def row_tenant_def)
  then obtain t where t: "live two_tenants ''u1'' = Some t" "length (ts_ownerEmail (t_spec t)) \<le> 255" by blast
  show ?thesis
    using put_changes_given_fields [OF plain_pg_laws two_tenants_ok answered [OF r(1)] r(2),
        of "\<lparr>ut_Tier = Some ''gold'', ut_OwnerEmail = None\<rparr>" t "''u1''"] t
    by (simp add: demo_env_api_def plain_pg_def apply_update_def)
qed

end
