(* ===== verification/TLS.thy ===== *)
theory TLS
  imports MTP_Prelude "HOL-Library.Word"
begin

text \<open>
  The certificates of the admission webhook, \<open>pkg/webhook/tls.go\<close>: \<open>GenerateCA\<close> and
  \<open>GenerateServerCert\<close>. The cryptography of Go's \<open>crypto\<close> packages is a record of functions over
  the state \<open>'s\<close> of the random source; bytes, which the code passes on unread, are of type \<open>'b\<close>,
  private and public keys of types \<open>'k\<close> and \<open>'p\<close>. Times are nanoseconds of the clock, and each
  generator is given its two readings.
\<close>

unbundle bit_operations_syntax

section \<open>Certificates and the library\<close>

record 'b pem_block =
  pb_Type :: string
  pb_Bytes :: 'b

record x509_name =
  xn_Organization :: "string list"
  xn_CommonName :: string

record 'p certificate =
  \<comment> \<open>\<open>x509.Certificate\<close>; a template leaves issuer and public key empty\<close>
  ct_SerialNumber :: int
  ct_Subject :: x509_name
  ct_Issuer :: x509_name
  ct_NotBefore :: int
  ct_NotAfter :: int
  ct_KeyUsage :: int
  ct_ExtKeyUsage :: "string list"
  ct_BasicConstraintsValid :: bool
  ct_IsCA :: bool
  ct_DNSNames :: "string list"
  ct_PublicKey :: "'p option"

definition empty_certificate :: "'p certificate" where
  "empty_certificate = \<lparr>ct_SerialNumber = 0,
     ct_Subject = \<lparr>xn_Organization = [], xn_CommonName = []\<rparr>,
     ct_Issuer = \<lparr>xn_Organization = [], xn_CommonName = []\<rparr>,
     ct_NotBefore = 0, ct_NotAfter = 0, ct_KeyUsage = 0, ct_ExtKeyUsage = [],
     ct_BasicConstraintsValid = False, ct_IsCA = False, ct_DNSNames = [], ct_PublicKey = None\<rparr>"

text \<open>The bits of \<open>x509.KeyUsage\<close>.\<close>

definition KeyUsageDigitalSignature :: int where "KeyUsageDigitalSignature = push_bit 0 1"
definition KeyUsageKeyEncipherment :: int where "KeyUsageKeyEncipherment = push_bit 2 1"
definition KeyUsageCertSign :: int where "KeyUsageCertSign = push_bit 5 1"
definition KeyUsageCRLSign :: int where "KeyUsageCRLSign = push_bit 6 1"

lemmas key_usage_defs = KeyUsageDigitalSignature_def KeyUsageKeyEncipherment_def
  KeyUsageCertSign_def KeyUsageCRLSign_def

record ('s, 'k, 'p, 'b) crypto =
  cy_GenerateKey :: "'s \<Rightarrow> 's \<times> (string, 'k) res"          \<comment> \<open>\<open>ecdsa.GenerateKey\<close> on P-256\<close>
  cy_Public :: "'k \<Rightarrow> 'p"
  cy_CreateCertificate :: "'p certificate \<Rightarrow> 'p certificate \<Rightarrow> 'p \<Rightarrow> 'k \<Rightarrow> 's \<Rightarrow> 's \<times> (string, 'b) res"
    \<comment> \<open>\<open>x509.CreateCertificate\<close> of template, parent, public key and the signer's private key\<close>
  cy_ParseCertificate :: "'b \<Rightarrow> (string, 'p certificate) res"
  cy_MarshalECPrivateKey :: "'k \<Rightarrow> (string, 'b) res"
  cy_ParseECPrivateKey :: "'b \<Rightarrow> (string, 'k) res"
  cy_EncodeToMemory :: "'b pem_block \<Rightarrow> 'b"
  cy_Decode :: "'b \<Rightarrow> 'b pem_block option"                 \<comment> \<open>the first block; the rest is dropped\<close>
  cy_signed_by :: "'b \<Rightarrow> 'p \<Rightarrow> bool"
    \<comment> \<open>the signature of an encoded certificate verifies under a key; no code of the repository asks\<close>

text \<open>
  The documented behaviour: a PEM block and a private key survive encoding, and a certificate
  carries what its template says, times cut to seconds, with the parent's subject as its issuer
  and a signature by the signer's key.
\<close>

definition whole_seconds :: "int \<Rightarrow> int" where
  "whole_seconds t = t div 1000000000 * 1000000000"

definition issued :: "'p certificate \<Rightarrow> 'p certificate \<Rightarrow> 'p \<Rightarrow> 'p certificate" where
  "issued template parent pub = template\<lparr>ct_Issuer := ct_Subject parent, ct_PublicKey := Some pub,
     ct_NotBefore := whole_seconds (ct_NotBefore template),
     ct_NotAfter := whole_seconds (ct_NotAfter template)\<rparr>"

definition crypto_laws :: "('s, 'k, 'p, 'b) crypto \<Rightarrow> bool" where
  "crypto_laws C \<longleftrightarrow>
     (\<forall>b. cy_Decode C (cy_EncodeToMemory C b) = Some b)
     \<and> (\<forall>k d. cy_MarshalECPrivateKey C k = Ok d \<longrightarrow> cy_ParseECPrivateKey C d = Ok k)
     \<and> (\<forall>template parent pub k s s' der.
          cy_CreateCertificate C template parent pub k s = (s', Ok der) \<longrightarrow>
          cy_ParseCertificate C der = Ok (issued template parent pub)
          \<and> cy_signed_by C der (cy_Public C k))"


section \<open>The generators\<close>

definition dnsNames :: "string list" where
  "dnsNames =
     [''webhook'',
      ''webhook.k8s-mtp'',
      ''webhook.k8s-mtp.svc'',
      ''webhook.k8s-mtp.svc.cluster.local'',
      ''webhook-svc.k8s-mtp.svc'',
      ''webhook-svc.k8s-mtp.svc.cluster.local'']"

definition ten_years :: int where
  \<comment> \<open>\<open>10 * 365 * 24 * time.Hour\<close>, in nanoseconds\<close>
  "ten_years = 10 * 365 * 24 * 3600000000000"

definition ca_template :: "int \<times> int \<Rightarrow> 'p certificate" where
  "ca_template clock = empty_certificate\<lparr>
     ct_SerialNumber := 1,
     ct_Subject := \<lparr>xn_Organization = [''k8s-mtp''], xn_CommonName = ''k8s-mtp-webhook-ca''\<rparr>,
     ct_NotBefore := fst clock,
     ct_NotAfter := snd clock + ten_years,
     ct_KeyUsage := KeyUsageCertSign OR KeyUsageCRLSign,
     ct_BasicConstraintsValid := True,
     ct_IsCA := True\<rparr>"

definition server_template :: "int \<times> int \<Rightarrow> 'p certificate" where
  "server_template clock = empty_certificate\<lparr>
     ct_SerialNumber := 2,
     ct_Subject := \<lparr>xn_Organization = [''k8s-mtp''], xn_CommonName = ''webhook.k8s-mtp.svc''\<rparr>,
     ct_DNSNames := dnsNames,
     ct_KeyUsage := KeyUsageKeyEncipherment OR KeyUsageDigitalSignature,
     ct_ExtKeyUsage := [''ServerAuth''],
     ct_NotBefore := fst clock,
     ct_NotAfter := snd clock + ten_years\<rparr>"

definition pem :: "('s, 'k, 'p, 'b) crypto \<Rightarrow> string \<Rightarrow> 'b \<Rightarrow> 'b" where
  "pem C ty bytes = cy_EncodeToMemory C \<lparr>pb_Type = ty, pb_Bytes = bytes\<rparr>"

definition GenerateCA ::
    "('s, 'k, 'p, 'b) crypto \<Rightarrow> int \<times> int \<Rightarrow> 's \<Rightarrow> 's \<times> (string, 'b \<times> 'b) res" where
  "GenerateCA C clock s =
     then_try (cy_GenerateKey C s) (\<lambda>s1 privKey.
     then_try (cy_CreateCertificate C (ca_template clock) (ca_template clock)
                 (cy_Public C privKey) privKey s1) (\<lambda>s2 certDER.
     then_try (s2, cy_MarshalECPrivateKey C privKey) (\<lambda>s2 keyBytes.
       (s2, Ok (pem C ''CERTIFICATE'' certDER, pem C ''EC PRIVATE KEY'' keyBytes))) id) id) id"

definition GenerateServerCert ::
    "('s, 'k, 'p, 'b) crypto \<Rightarrow> int \<times> int \<Rightarrow> 'b \<Rightarrow> 'b \<Rightarrow> 's \<Rightarrow> 's \<times> (string, 'b \<times> 'b) res" where
  "GenerateServerCert C clock caCertPEM caKeyPEM s =
     (case cy_Decode C caCertPEM of
        None \<Rightarrow> (s, Err ''failed to decode CA cert PEM'')
      | Some caCertBlock \<Rightarrow>
     then_try (s, cy_ParseCertificate C (pb_Bytes caCertBlock)) (\<lambda>s caCert.
     case cy_Decode C caKeyPEM of
        None \<Rightarrow> (s, Err ''failed to decode CA key PEM'')
      | Some caKeyBlock \<Rightarrow>
     then_try (s, cy_ParseECPrivateKey C (pb_Bytes caKeyBlock)) (\<lambda>s caKey.
     then_try (cy_GenerateKey C s) (\<lambda>s1 serverKey.
     then_try (cy_CreateCertificate C (server_template clock) caCert
                 (cy_Public C serverKey) caKey s1) (\<lambda>s2 certDER.
     then_try (s2, cy_MarshalECPrivateKey C serverKey) (\<lambda>s2 keyBytes.
       (s2, Ok (pem C ''CERTIFICATE'' certDER, pem C ''EC PRIVATE KEY'' keyBytes))) id) id) id) id) id)"


section \<open>What the certificates are good for\<close>

text \<open>
  The webhook server loads the pair with \<open>tls.LoadX509KeyPair\<close>, which wants a certificate block, a
  private key block and a key that belongs to the certificate.
\<close>

definition LoadX509KeyPair :: "('s, 'k, 'p, 'b) crypto \<Rightarrow> 'b \<Rightarrow> 'b \<Rightarrow> bool" where
  "LoadX509KeyPair C cert key =
     (case (cy_Decode C cert, cy_Decode C key) of
        (Some cb, Some kb) \<Rightarrow>
          pb_Type cb = ''CERTIFICATE''
          \<and> (pb_Type kb = ''PRIVATE KEY'' \<or> suffix '' PRIVATE KEY'' (pb_Type kb))
          \<and> (case (cy_ParseCertificate C (pb_Bytes cb), cy_ParseECPrivateKey C (pb_Bytes kb)) of
               (Ok c, Ok k) \<Rightarrow> ct_PublicKey c = Some (cy_Public C k)
             | _ \<Rightarrow> False)
      | _ \<Rightarrow> False)"

text \<open>
  The API server connects to the webhook as a TLS client that trusts the bundle alone. It accepts
  a certificate for a host when the root may sign certificates, issued this one, both are in
  their period, and the host is among the names of a certificate for servers.
\<close>

definition in_period :: "'p certificate \<Rightarrow> int \<Rightarrow> bool" where
  "in_period c now \<longleftrightarrow> ct_NotBefore c \<le> now \<and> now \<le> ct_NotAfter c"

definition may_sign :: "'p certificate \<Rightarrow> bool" where
  "may_sign c \<longleftrightarrow> ct_BasicConstraintsValid c \<and> ct_IsCA c \<and> bit (ct_KeyUsage c) 5"

definition parse_pem :: "('s, 'k, 'p, 'b) crypto \<Rightarrow> 'b \<Rightarrow> ('b \<times> 'p certificate) option" where
  "parse_pem C b =
     (case cy_Decode C b of
        None \<Rightarrow> None
      | Some blk \<Rightarrow> (case cy_ParseCertificate C (pb_Bytes blk) of Ok c \<Rightarrow> Some (pb_Bytes blk, c) | _ \<Rightarrow> None))"

definition verifies :: "('s, 'k, 'p, 'b) crypto \<Rightarrow> 'b \<Rightarrow> 'b \<Rightarrow> string \<Rightarrow> int \<Rightarrow> bool" where
  "verifies C bundle cert host now =
     (case (parse_pem C bundle, parse_pem C cert) of
        (Some (_, root), Some (der, leaf)) \<Rightarrow>
          may_sign root \<and> in_period root now \<and> in_period leaf now
          \<and> ct_Issuer leaf = ct_Subject root
          \<and> (case ct_PublicKey root of None \<Rightarrow> False | Some p \<Rightarrow> cy_signed_by C der p)
          \<and> ''ServerAuth'' \<in> set (ct_ExtKeyUsage leaf) \<and> host \<in> set (ct_DNSNames leaf)
      | _ \<Rightarrow> False)"

lemma cert_sign_bit: "bit (KeyUsageCertSign OR KeyUsageCRLSign) 5"
  by (simp add: key_usage_defs bit_or_iff bit_push_bit_iff)

lemma crypto_lawsD:
  assumes "crypto_laws C"
  shows "cy_Decode C (cy_EncodeToMemory C b) = Some b"
    "cy_MarshalECPrivateKey C k = Ok d \<Longrightarrow> cy_ParseECPrivateKey C d = Ok k"
    "cy_CreateCertificate C template parent pub k s = (s', Ok der) \<Longrightarrow>
       cy_ParseCertificate C der = Ok (issued template parent pub) \<and> cy_signed_by C der (cy_Public C k)"
  using assms unfolding crypto_laws_def by blast+

lemma GenerateCA_Ok:
  assumes "GenerateCA C clock s = (s', Ok (ca, key))"
  obtains k s1 der kb where "cy_CreateCertificate C (ca_template clock) (ca_template clock) (cy_Public C k) k s1 = (s', Ok der)"
    "cy_MarshalECPrivateKey C k = Ok kb" "ca = pem C ''CERTIFICATE'' der" "key = pem C ''EC PRIVATE KEY'' kb"
  using assms by (auto simp: GenerateCA_def res_simps)

text \<open>
  What \<open>GenerateCA\<close> made is decoded and parsed again without an error: the server certificate is
  signed with the key of the authority.
\<close>

lemma GenerateServerCert_Ok:
  assumes "crypto_laws C" "ca = pem C ''CERTIFICATE'' der" "cy_ParseCertificate C der = Ok root"
    and "cakey = pem C ''EC PRIVATE KEY'' kb" "cy_MarshalECPrivateKey C k = Ok kb"
    and "GenerateServerCert C clock ca cakey s = (s', Ok (cert, key))"
  obtains sk s1 leaf skb where
    "cy_CreateCertificate C (server_template clock) root (cy_Public C sk) k s1 = (s', Ok leaf)"
    "cy_MarshalECPrivateKey C sk = Ok skb" "cert = pem C ''CERTIFICATE'' leaf"
    "key = pem C ''EC PRIVATE KEY'' skb"
  using assms(6) crypto_lawsD(2) [OF assms(1,5)]
  by (auto simp: GenerateServerCert_def assms(2-4) pem_def crypto_lawsD(1) [OF assms(1)] res_simps)

lemma webhook_pair:
  assumes laws: "crypto_laws C" and ca: "GenerateCA C clock s = (s1, Ok (ca, cakey))"
    and server: "GenerateServerCert C clock' ca cakey s2 = (s3, Ok (cert, key))"
  shows "LoadX509KeyPair C cert key"
    and "verifies C ca cert host now \<longleftrightarrow>
      host \<in> set dnsNames \<and> whole_seconds (fst clock) \<le> now \<and> whole_seconds (fst clock') \<le> now
      \<and> now \<le> whole_seconds (snd clock + ten_years) \<and> now \<le> whole_seconds (snd clock' + ten_years)"
proof -
  from ca obtain k r der kb where
    root: "cy_CreateCertificate C (ca_template clock) (ca_template clock) (cy_Public C k) k r = (s1, Ok der)"
    and kb: "cy_MarshalECPrivateKey C k = Ok kb" "ca = pem C ''CERTIFICATE'' der" "cakey = pem C ''EC PRIVATE KEY'' kb"
    by (rule GenerateCA_Ok)
  note root = crypto_lawsD(3) [OF laws root]
  from server obtain sk r2 leaf skb where
    leaf: "cy_CreateCertificate C (server_template clock') (issued (ca_template clock) (ca_template clock) (cy_Public C k))
             (cy_Public C sk) k r2 = (s3, Ok leaf)"
    and skb: "cy_MarshalECPrivateKey C sk = Ok skb" "cert = pem C ''CERTIFICATE'' leaf" "key = pem C ''EC PRIVATE KEY'' skb"
    using root by (rule_tac GenerateServerCert_Ok [OF laws kb(2) _ kb(3,1)]) auto
  note leaf = crypto_lawsD(3) [OF laws leaf]
  show "LoadX509KeyPair C cert key"
    using leaf crypto_lawsD(2) [OF laws skb(1)]
    by (simp add: LoadX509KeyPair_def skb pem_def crypto_lawsD(1) [OF laws] issued_def suffix_def)
  show "verifies C ca cert host now \<longleftrightarrow>
      host \<in> set dnsNames \<and> whole_seconds (fst clock) \<le> now \<and> whole_seconds (fst clock') \<le> now
      \<and> now \<le> whole_seconds (snd clock + ten_years) \<and> now \<le> whole_seconds (snd clock' + ten_years)"
    using leaf root cert_sign_bit
    by (auto simp: verifies_def parse_pem_def skb kb pem_def crypto_lawsD(1) [OF laws] issued_def
        may_sign_def in_period_def server_template_def ca_template_def)
qed

text \<open>
  With the authority that \<open>GenerateCA\<close> made, \<open>GenerateServerCert\<close> makes a pair the webhook server
  can load and a client that trusts the authority accepts, for exactly the names of \<open>dnsNames\<close> and
  from the second of the generation to ten years after it.
\<close>

theorem webhook_certificate_verifies:
  assumes "crypto_laws C" and "GenerateCA C clock s = (s1, Ok (ca, cakey))"
    and "GenerateServerCert C clock' ca cakey s1 = (s2, Ok (cert, key))"
  shows "LoadX509KeyPair C cert key
    \<and> (verifies C ca cert host now \<longleftrightarrow>
        host \<in> set dnsNames \<and> whole_seconds (fst clock) \<le> now \<and> whole_seconds (fst clock') \<le> now
        \<and> now \<le> whole_seconds (snd clock + ten_years) \<and> now \<le> whole_seconds (snd clock' + ten_years))"
  using webhook_pair [OF assms] by blast

text \<open>
  The name by which the API server calls a service is \<open>name.namespace.svc\<close>: for the service the
  manager creates it is among the names only in the namespace \<open>k8s-mtp\<close>.
\<close>

lemma service_host_covered:
  "''webhook-svc.'' @ ns @ ''.svc'' \<in> set dnsNames \<longleftrightarrow> ns = ''k8s-mtp''"
proof
  assume "''webhook-svc.'' @ ns @ ''.svc'' \<in> set dnsNames"
  then have "ns @ ''.svc'' = ''k8s-mtp'' @ ''.svc'' \<or> ns @ ''.svc'' = ''k8s-mtp.svc.cluster.local''"
    by (auto simp: dnsNames_def)
  moreover have "ns @ ''.svc'' \<noteq> ''k8s-mtp.svc.cluster.local''"
  proof
    assume "ns @ ''.svc'' = ''k8s-mtp.svc.cluster.local''"
    then have "rev (ns @ ''.svc'') = rev ''k8s-mtp.svc.cluster.local''" by (rule arg_cong)
    then show False by simp
  qed
  ultimately show "ns = ''k8s-mtp''" by auto
qed (simp add: dnsNames_def)


section \<open>An instance of the library\<close>

text \<open>
  Used only to show that the laws can hold together: keys are numbers that name their own public
  key, an encoded certificate holds its fields and the signer.
\<close>

datatype blob = BCert "nat certificate" nat | BKey nat | BPem string blob | BText string

definition demo_crypto :: "(nat, nat, nat, blob) crypto" where
  "demo_crypto =
     \<lparr>cy_GenerateKey = (\<lambda>s. (Suc s, Ok s)),
      cy_Public = (\<lambda>k. k),
      cy_CreateCertificate = (\<lambda>template parent pub k s. (s, Ok (BCert (issued template parent pub) k))),
      cy_ParseCertificate = (\<lambda>b. case b of BCert c k \<Rightarrow> Ok c | _ \<Rightarrow> Err ''malformed certificate''),
      cy_MarshalECPrivateKey = (\<lambda>k. Ok (BKey k)),
      cy_ParseECPrivateKey = (\<lambda>b. case b of BKey k \<Rightarrow> Ok k | _ \<Rightarrow> Err ''malformed key''),
      cy_EncodeToMemory = (\<lambda>p. BPem (pb_Type p) (pb_Bytes p)),
      cy_Decode = (\<lambda>b. case b of BPem ty x \<Rightarrow> Some \<lparr>pb_Type = ty, pb_Bytes = x\<rparr> | _ \<Rightarrow> None),
      cy_signed_by = (\<lambda>b p. case b of BCert c k \<Rightarrow> k = p | _ \<Rightarrow> False)\<rparr>"

lemma demo_crypto_laws: "crypto_laws demo_crypto"
  by (auto simp: crypto_laws_def demo_crypto_def)

definition demo_ca :: "int \<times> int \<Rightarrow> nat \<Rightarrow> blob \<times> blob" where
  "demo_ca clock k = (BPem ''CERTIFICATE'' (BCert (issued (ca_template clock) (ca_template clock) k) k),
     BPem ''EC PRIVATE KEY'' (BKey k))"

definition demo_pair :: "int \<times> int \<Rightarrow> nat \<Rightarrow> nat \<Rightarrow> blob \<times> blob" where
  "demo_pair clock ca k = (BPem ''CERTIFICATE'' (BCert (issued (server_template clock) (ca_template clock) k) ca),
     BPem ''EC PRIVATE KEY'' (BKey k))"

lemma demo_GenerateCA: "GenerateCA demo_crypto clock s = (Suc s, Ok (demo_ca clock s))"
  by (simp add: GenerateCA_def demo_crypto_def pem_def demo_ca_def)

lemma demo_GenerateServerCert:
  "GenerateServerCert demo_crypto clock' (fst (demo_ca clock k)) (snd (demo_ca clock k)) s
     = (Suc s, Ok (demo_pair clock' k s))"
  by (simp add: GenerateServerCert_def demo_crypto_def pem_def demo_ca_def demo_pair_def issued_def
      ca_template_def)

theorem webhook_certificate_verifies_witness:
  "verifies demo_crypto (fst (demo_ca (0, 5) 7)) (fst (demo_pair (10, 20) 7 8)) ''webhook-svc.k8s-mtp.svc'' 1000
   \<and> \<not> verifies demo_crypto (fst (demo_ca (0, 5) 7)) (fst (demo_pair (10, 20) 7 8)) ''webhook-svc.default.svc'' 1000"
  using webhook_certificate_verifies [OF demo_crypto_laws, of "(0, 5)" 7 8 "fst (demo_ca (0, 5) 7)"
      "snd (demo_ca (0, 5) 7)" "(10, 20)" 9 "fst (demo_pair (10, 20) 7 8)" "snd (demo_pair (10, 20) 7 8)"]
    demo_GenerateCA [of "(0, 5)" 7] demo_GenerateServerCert [of "(10, 20)" "(0, 5)" 7 8]
  by (simp add: whole_seconds_def ten_years_def dnsNames_def)

end
