(* ===== verification/Kube.thy ===== *)
theory Kube
  imports K8s_Types
begin

text \<open>
  The Kubernetes objects the controller manages, and the client it manages them through. The
  object types are those of \<open>k8s.io/api\<close>, with the fields that the repository reads or
  writes. The client (\<open>controller-runtime\<close>) and the API server behind it are not code of the
  repository: the client is a record of functions over a cluster state \<open>'w\<close>, and what the code
  relies on is the predicate \<open>api_laws\<close>.
\<close>

section \<open>Objects\<close>

record 'q resource_quota =
  rq_meta :: object_meta
  rq_hard :: "'q resource_list"

record policy_rule =
  pr_apiGroups :: "string list"
  pr_resources :: "string list"
  pr_verbs :: "string list"
  pr_resourceNames :: "string list"

record role =
  ro_meta :: object_meta
  ro_rules :: "policy_rule list"

record subject =
  su_kind :: string
  su_apiGroup :: string
  su_name :: string

record role_ref =
  rr_apiGroup :: string
  rr_kind :: string
  rr_name :: string

record role_binding =
  rb_meta :: object_meta
  rb_subjects :: "subject list"
  rb_roleRef :: role_ref

record label_selector =
  ls_matchLabels :: "(string, string) gomap"

record np_peer =
  peer_podSelector :: "label_selector option"
  peer_namespaceSelector :: "label_selector option"
  peer_ipBlock :: "string option"

record np_port =
  npp_protocol :: string
  npp_port :: int

record np_rule =
  \<comment> \<open>an ingress rule (peers are \<open>From\<close>) or an egress rule (peers are \<open>To\<close>)\<close>
  npr_peers :: "np_peer list"
  npr_ports :: "np_port list"

record network_policy =
  np_meta :: object_meta
  np_podSelector :: label_selector
  np_policyTypes :: "string list"
  np_ingress :: "np_rule list"
  np_egress :: "np_rule list"

record 'q limit_range_item =
  li_type :: string
  li_default :: "'q resource_list"
  li_defaultRequest :: "'q resource_list"

record 'q limit_range =
  lr_meta :: object_meta
  lr_limits :: "'q limit_range_item list"

text \<open>
  A \<open>client.Object\<close>. \<open>KNilQuota\<close> is the nil pointer of type \<open>*ResourceQuota\<close>, which
  \<open>buildResourceQuota\<close> returns for an unknown tier and which is not a nil interface.
\<close>

datatype 'q kobj =
    KNamespace object_meta
  | KQuota "'q resource_quota"
  | KNilQuota
  | KRole role
  | KRoleBinding role_binding
  | KNetworkPolicy network_policy
  | KLimitRange "'q limit_range"

datatype obj_kind = NamespaceKind | QuotaKind | RoleKind | RoleBindingKind | NetworkPolicyKind
  | LimitRangeKind

type_synonym obj_key = "obj_kind \<times> string \<times> string"

fun meta_of :: "'q kobj \<Rightarrow> object_meta" where
  "meta_of (KNamespace m) = m"
| "meta_of (KQuota q) = rq_meta q"
| "meta_of KNilQuota = empty_meta"
| "meta_of (KRole r) = ro_meta r"
| "meta_of (KRoleBinding b) = rb_meta b"
| "meta_of (KNetworkPolicy p) = np_meta p"
| "meta_of (KLimitRange l) = lr_meta l"

fun kind_of :: "'q kobj \<Rightarrow> obj_kind" where
  "kind_of (KNamespace m) = NamespaceKind"
| "kind_of (KQuota q) = QuotaKind"
| "kind_of KNilQuota = QuotaKind"
| "kind_of (KRole r) = RoleKind"
| "kind_of (KRoleBinding b) = RoleBindingKind"
| "kind_of (KNetworkPolicy p) = NetworkPolicyKind"
| "kind_of (KLimitRange l) = LimitRangeKind"

fun map_meta :: "(object_meta \<Rightarrow> object_meta) \<Rightarrow> 'q kobj \<Rightarrow> 'q kobj" where
  "map_meta f (KNamespace m) = KNamespace (f m)"
| "map_meta f (KQuota q) = KQuota (q\<lparr>rq_meta := f (rq_meta q)\<rparr>)"
| "map_meta f KNilQuota = KNilQuota"
| "map_meta f (KRole r) = KRole (r\<lparr>ro_meta := f (ro_meta r)\<rparr>)"
| "map_meta f (KRoleBinding b) = KRoleBinding (b\<lparr>rb_meta := f (rb_meta b)\<rparr>)"
| "map_meta f (KNetworkPolicy p) = KNetworkPolicy (p\<lparr>np_meta := f (np_meta p)\<rparr>)"
| "map_meta f (KLimitRange l) = KLimitRange (l\<lparr>lr_meta := f (lr_meta l)\<rparr>)"

definition obj_key :: "'q kobj \<Rightarrow> obj_key" where
  \<comment> \<open>\<open>client.ObjectKeyFromObject\<close>, with the kind that the typed client adds\<close>
  "obj_key o1 = (kind_of o1, om_namespace (meta_of o1), om_name (meta_of o1))"

definition set_resourceVersion :: "string \<Rightarrow> 'q kobj \<Rightarrow> 'q kobj" where
  "set_resourceVersion rv = map_meta (\<lambda>m. m\<lparr>om_resourceVersion := rv\<rparr>)"

lemma obj_key_set_resourceVersion [simp]: "obj_key (set_resourceVersion rv o1) = obj_key o1"
  by (cases o1) (simp_all add: obj_key_def set_resourceVersion_def)

lemma set_resourceVersion_nil [simp]: "set_resourceVersion rv o1 = KNilQuota \<longleftrightarrow> o1 = KNilQuota"
  by (cases o1) (simp_all add: set_resourceVersion_def)


section \<open>The client\<close>

datatype api_error = AlreadyExists | NotFound | Conflict | ApiOther string

record ('w, 'q) kube_client =
  kc_get_tenant :: "string \<Rightarrow> 'w \<Rightarrow> (api_error, tenant) res"
  kc_update_tenant :: "tenant \<Rightarrow> 'w \<Rightarrow> 'w \<times> (api_error, tenant) res"
  kc_update_status :: "tenant \<Rightarrow> 'w \<Rightarrow> 'w \<times> (api_error, tenant) res"
  kc_get :: "obj_key \<Rightarrow> 'w \<Rightarrow> (api_error, 'q kobj) res"
  kc_create :: "'q kobj \<Rightarrow> 'w \<Rightarrow> 'w \<times> (api_error, 'q kobj) res"
  kc_update :: "'q kobj \<Rightarrow> 'w \<Rightarrow> 'w \<times> (api_error, 'q kobj) res"
  kc_stored :: "obj_key \<Rightarrow> 'w \<Rightarrow> 'q kobj option"
    \<comment> \<open>what the API server holds; the code cannot call it\<close>
  kc_tenant :: "string \<Rightarrow> 'w \<Rightarrow> tenant option"
    \<comment> \<open>the tenant resource the API server holds, likewise\<close>

text \<open>
  The server fills metadata of its own (resource version, UID, creation time, and the deletion time of
  an object that is going), and adds labels to namespaces (\<open>kubernetes.io/metadata.name\<close>). Otherwise
  it stores what it is sent.
\<close>

definition erase_meta :: "object_meta \<Rightarrow> object_meta" where
  "erase_meta m = m\<lparr>om_resourceVersion := [], om_uid := [], om_creationTimestamp := None\<rparr>"

definition sent_meta :: "object_meta \<Rightarrow> object_meta" where
  "sent_meta m = (erase_meta m)\<lparr>om_deletionTimestamp := None\<rparr>"

definition stored_as :: "'q kobj \<Rightarrow> 'q kobj \<Rightarrow> bool" where
  "stored_as c o1 \<longleftrightarrow>
     (case o1 of
        KNamespace m \<Rightarrow>
          (\<exists>m'. c = KNamespace m' \<and> sent_meta (m'\<lparr>om_labels := om_labels m\<rparr>) = sent_meta m
                \<and> map_of (om_labels m) \<subseteq>\<^sub>m map_of (om_labels m'))
      | _ \<Rightarrow> map_meta sent_meta c = map_meta sent_meta o1)"

text \<open>
  The documented behaviour of the API server: an object is held under its own key; creation succeeds
  only where nothing is stored, creation and update store the object sent, an update does not end
  the deletion of an object, no write touches another object, an object that exists already is
  reported without a change, and the status endpoint stores the status and a new version and
  nothing else.
\<close>

definition terminating :: "'q kobj \<Rightarrow> bool" where
  "terminating o1 \<longleftrightarrow> om_deletionTimestamp (meta_of o1) \<noteq> None"

definition same_objects_but :: "('w, 'q) kube_client \<Rightarrow> obj_key \<Rightarrow> 'w \<Rightarrow> 'w \<Rightarrow> bool" where
  "same_objects_but K key w w' \<longleftrightarrow>
     (\<forall>k. k \<noteq> key \<longrightarrow> kc_stored K k w' = kc_stored K k w)
     \<and> (\<forall>n. kc_tenant K n w' = kc_tenant K n w)"

definition same_objects :: "('w, 'q) kube_client \<Rightarrow> 'w \<Rightarrow> 'w \<Rightarrow> bool" where
  "same_objects K w w' \<longleftrightarrow> (\<forall>k. kc_stored K k w' = kc_stored K k w)"

definition key_law :: "('w, 'q) kube_client \<Rightarrow> bool" where
  "key_law K \<longleftrightarrow>
     (\<forall>k w c. kc_stored K k w = Some c \<longrightarrow> obj_key c = k)
     \<and> (\<forall>n w t. kc_tenant K n w = Some t \<longrightarrow> om_name (t_meta t) = n)"

definition create_law :: "('w, 'q) kube_client \<Rightarrow> bool" where
  "create_law K \<longleftrightarrow>
     (\<forall>o1 w w' o'. kc_create K o1 w = (w', Ok o') \<longrightarrow>
        kc_stored K (obj_key o1) w = None \<and> kc_stored K (obj_key o1) w' = Some o'
        \<and> o1 \<noteq> KNilQuota \<and> stored_as o' o1 \<and> \<not> terminating o' \<and> same_objects_but K (obj_key o1) w w')
     \<and> (\<forall>o1 w w'. kc_create K o1 w = (w', Err AlreadyExists) \<longrightarrow>
          same_objects K w w' \<and> (\<forall>n. kc_tenant K n w' = kc_tenant K n w))"

definition update_law :: "('w, 'q) kube_client \<Rightarrow> bool" where
  "update_law K \<longleftrightarrow>
     (\<forall>o1 w w' o'. kc_update K o1 w = (w', Ok o') \<longrightarrow>
        kc_stored K (obj_key o1) w' = Some o' \<and> stored_as o' o1
        \<and> (terminating o' \<longleftrightarrow> (\<exists>c. kc_stored K (obj_key o1) w = Some c \<and> terminating c))
        \<and> same_objects_but K (obj_key o1) w w')"

definition status_law :: "('w, 'q) kube_client \<Rightarrow> bool" where
  "status_law K \<longleftrightarrow>
     (\<forall>t w w' t'. kc_update_status K t w = (w', Ok t') \<longrightarrow>
        same_objects K w w'
        \<and> (\<exists>s rv. kc_tenant K (om_name (t_meta t)) w = Some s \<and> om_uid (t_meta s) = om_uid (t_meta t)
             \<and> t' = s\<lparr>t_status := t_status t, t_meta := (t_meta s)\<lparr>om_resourceVersion := rv\<rparr>\<rparr>)
        \<and> kc_tenant K (om_name (t_meta t)) w' = Some t'
        \<and> (\<forall>n. n \<noteq> om_name (t_meta t) \<longrightarrow> kc_tenant K n w' = kc_tenant K n w))"

definition api_laws :: "('w, 'q) kube_client \<Rightarrow> bool" where
  "api_laws K \<longleftrightarrow> key_law K \<and> create_law K \<and> update_law K \<and> status_law K"

text \<open>
  The controller reads through the cache of its manager, which lags behind the server. What it reads
  of a key is \<open>synced\<close> when it is what the server holds. Nothing makes it so: the law of the cache is
  only that what it returns for a key stays as it is or becomes what the server holds, while no
  one else writes. Results that need a cache in step require it of the state they start from, and
  never while a run goes on.
\<close>

definition synced_at :: "('w, 'q) kube_client \<Rightarrow> obj_key \<Rightarrow> 'w \<Rightarrow> bool" where
  "synced_at K key w \<longleftrightarrow>
     kc_get K key w = (case kc_stored K key w of Some c \<Rightarrow> Ok c | None \<Rightarrow> Err NotFound)"

definition synced :: "('w, 'q) kube_client \<Rightarrow> 'w \<Rightarrow> bool" where
  "synced K w \<longleftrightarrow> (\<forall>key. synced_at K key w)
     \<and> (\<forall>n. kc_get_tenant K n w = (case kc_tenant K n w of Some t \<Rightarrow> Ok t | None \<Rightarrow> Err NotFound))"

definition cache_step :: "('w, 'q) kube_client \<Rightarrow> 'w \<Rightarrow> 'w \<Rightarrow> bool" where
  "cache_step K w w' \<longleftrightarrow> (\<forall>key. kc_get K key w' = kc_get K key w \<or> synced_at K key w')"

definition cache_law :: "('w, 'q) kube_client \<Rightarrow> bool" where
  "cache_law K \<longleftrightarrow>
     (\<forall>o1 w. cache_step K w (fst (kc_create K o1 w)))
     \<and> (\<forall>o1 w. cache_step K w (fst (kc_update K o1 w)))
     \<and> (\<forall>t w. cache_step K w (fst (kc_update_status K t w)))"

definition catches_up :: "('w, 'q) kube_client \<Rightarrow> 'w \<Rightarrow> 'w \<Rightarrow> bool" where
  \<comment> \<open>time passes, no one writes, and the cache receives what the server holds\<close>
  "catches_up K w w' \<longleftrightarrow> same_objects K w w' \<and> (\<forall>n. kc_tenant K n w' = kc_tenant K n w) \<and> synced K w'"

text \<open>
  What the server does with the tenant resource, whatever it answers: writes of other objects do
  not touch it, the status endpoint keeps its metadata, and an update leaves it, replaces it with
  the one sent, or removes it when the one sent has no finalizer. The update of a custom resource
  is refused unless it carries the UID and the resource version of the one stored (optimistic
  locking); and two reads of one version of a resource are equal.
\<close>

definition same_anchor :: "tenant \<Rightarrow> tenant \<Rightarrow> bool" where
  "same_anchor t t' \<longleftrightarrow> om_name (t_meta t') = om_name (t_meta t) \<and> om_uid (t_meta t') = om_uid (t_meta t)
     \<and> om_finalizers (t_meta t') = om_finalizers (t_meta t)"

definition same_version :: "tenant \<Rightarrow> tenant \<Rightarrow> bool" where
  "same_version t s \<longleftrightarrow> om_name (t_meta s) = om_name (t_meta t) \<and> om_uid (t_meta s) = om_uid (t_meta t)
     \<and> om_resourceVersion (t_meta s) = om_resourceVersion (t_meta t)"

definition same_tenants :: "('w, 'q) kube_client \<Rightarrow> 'w \<Rightarrow> 'w \<Rightarrow> bool" where
  "same_tenants K w w' \<longleftrightarrow> (\<forall>n. rel_option same_anchor (kc_tenant K n w) (kc_tenant K n w'))"

definition replaced :: "tenant \<Rightarrow> tenant option \<Rightarrow> bool" where
  \<comment> \<open>what a successful update leaves of the resource\<close>
  "replaced t m \<longleftrightarrow> m = None \<and> om_finalizers (t_meta t) = [] \<or> (\<exists>t'. m = Some t' \<and> same_anchor t t')"

definition tenant_reads :: "('w, 'q) kube_client \<Rightarrow> bool" where
  "tenant_reads K \<longleftrightarrow>
     (\<forall>n w t. kc_get_tenant K n w = Ok t \<longrightarrow> om_name (t_meta t) = n)
     \<and> (\<forall>n w t s. kc_get_tenant K n w = Ok t \<longrightarrow> kc_tenant K n w = Some s \<longrightarrow> same_version t s \<longrightarrow> s = t)"

definition tenant_frames :: "('w, 'q) kube_client \<Rightarrow> bool" where
  "tenant_frames K \<longleftrightarrow>
     (\<forall>o1 w. same_tenants K w (fst (kc_create K o1 w)))
     \<and> (\<forall>o1 w. same_tenants K w (fst (kc_update K o1 w)))
     \<and> (\<forall>t w. same_tenants K w (fst (kc_update_status K t w)))
     \<and> (\<forall>t w n. n \<noteq> om_name (t_meta t) \<longrightarrow> kc_tenant K n (fst (kc_update_tenant K t w)) = kc_tenant K n w)"

definition tenant_lock :: "('w, 'q) kube_client \<Rightarrow> bool" where
  "tenant_lock K \<longleftrightarrow>
     (\<forall>t w. let m = kc_tenant K (om_name (t_meta t)); w' = fst (kc_update_tenant K t w) in
        m w' = m w \<or> (\<exists>s. m w = Some s \<and> same_version t s) \<and> replaced t (m w'))
     \<and> (\<forall>t w w' t'. kc_update_tenant K t w = (w', Ok t') \<longrightarrow>
          (\<exists>s. kc_tenant K (om_name (t_meta t)) w = Some s \<and> same_version t s)
          \<and> replaced t (kc_tenant K (om_name (t_meta t)) w'))"

definition tenant_laws :: "('w, 'q) kube_client \<Rightarrow> bool" where
  "tenant_laws K \<longleftrightarrow> key_law K \<and> tenant_reads K \<and> tenant_frames K \<and> tenant_lock K"

lemma erase_meta_fields:
  "erase_meta a = erase_meta b \<Longrightarrow>
     om_name a = om_name b \<and> om_namespace a = om_namespace b \<and> om_labels a = om_labels b
     \<and> om_annotations a = om_annotations b \<and> om_ownerReferences a = om_ownerReferences b"
  by (cases a; cases b) (simp add: erase_meta_def)

lemma sent_meta_fields:
  "sent_meta a = sent_meta b \<Longrightarrow>
     om_name a = om_name b \<and> om_namespace a = om_namespace b \<and> om_labels a = om_labels b
     \<and> om_annotations a = om_annotations b \<and> om_ownerReferences a = om_ownerReferences b"
  by (cases a; cases b) (simp add: sent_meta_def erase_meta_def)

lemma synced_at_frame:
  assumes "cache_step K w w'" "kc_stored K key w' = kc_stored K key w" "synced_at K key w"
  shows "synced_at K key w'"
  using assms unfolding cache_step_def synced_at_def by metis

lemma syncedD:
  assumes "synced K w"
  shows "synced_at K key w" "kc_tenant K n w = Some t \<Longrightarrow> kc_get_tenant K n w = Ok t"
    "kc_tenant K n w = None \<Longrightarrow> kc_get_tenant K n w = Err NotFound" "kc_get_tenant K n w = Ok t \<Longrightarrow> kc_tenant K n w = Some t"
proof -
  show "synced_at K key w" using assms unfolding synced_def by blast
  have t: "kc_get_tenant K n w = (case kc_tenant K n w of Some t \<Rightarrow> Ok t | None \<Rightarrow> Err NotFound)"
    using assms unfolding synced_def by blast
  show "kc_tenant K n w = Some t \<Longrightarrow> kc_get_tenant K n w = Ok t"
    "kc_tenant K n w = None \<Longrightarrow> kc_get_tenant K n w = Err NotFound"
    "kc_get_tenant K n w = Ok t \<Longrightarrow> kc_tenant K n w = Some t"
    using t by (auto split: option.splits)
qed

lemma synced_at_Ok: "synced_at K key w \<Longrightarrow> kc_get K key w = Ok c \<longleftrightarrow> kc_stored K key w = Some c"
  by (auto simp: synced_at_def split: option.splits)

lemma catches_upD:
  assumes "catches_up K w w'"
  shows "kc_stored K k w' = kc_stored K k w" "kc_tenant K n w' = kc_tenant K n w" "synced K w'"
  using assms unfolding catches_up_def same_objects_def by blast+


section \<open>An API server in memory\<close>

text \<open>
  An instance of the client, used to show that the laws can hold together and to run the
  controller on concrete tenants: a server that numbers its writes, refuses creations where there is
  no open namespace, updates of another version and changes of the role of a binding, and
  that is read without a cache.
\<close>

record 'q mem_cluster =
  mc_objects :: "(obj_key \<times> 'q kobj) list"
  mc_tenants :: "(string \<times> tenant) list"
  mc_rev :: nat

definition rev_text :: "nat \<Rightarrow> string" where
  "rev_text n = replicate (Suc n) CHR ''v''"

definition mem_accept :: "string \<Rightarrow> nat option \<Rightarrow> 'q kobj \<Rightarrow> 'q kobj" where
  "mem_accept rv going o1 =
     (case o1 of
        KNamespace m \<Rightarrow> KNamespace (m\<lparr>om_resourceVersion := rv, om_deletionTimestamp := going,
          om_labels := om_labels m @ [(''kubernetes.io/metadata.name'', om_name m)]\<rparr>)
      | _ \<Rightarrow> map_meta (\<lambda>m. m\<lparr>om_resourceVersion := rv, om_deletionTimestamp := going\<rparr>) o1)"

definition mem_look :: "'q mem_cluster \<Rightarrow> obj_key \<Rightarrow> 'q kobj option" where
  "mem_look w k =
     (case map_of (mc_objects w) k of
        Some o1 \<Rightarrow> if obj_key o1 = k \<and> o1 \<noteq> KNilQuota then Some o1 else None
      | None \<Rightarrow> None)"

definition mem_tenant :: "'q mem_cluster \<Rightarrow> string \<Rightarrow> tenant option" where
  "mem_tenant w n =
     (case map_of (mc_tenants w) n of
        Some t \<Rightarrow> if om_name (t_meta t) = n then Some t else None
      | None \<Rightarrow> None)"

definition mem_open :: "'q mem_cluster \<Rightarrow> string \<Rightarrow> bool" where
  \<comment> \<open>the namespace is there and not going, or none is needed\<close>
  "mem_open w ns \<longleftrightarrow> ns = []
     \<or> (case mem_look w (NamespaceKind, [], ns) of
          Some (KNamespace m) \<Rightarrow> om_deletionTimestamp m = None | _ \<Rightarrow> False)"

fun immutable_same :: "'q kobj \<Rightarrow> 'q kobj \<Rightarrow> bool" where
  \<comment> \<open>the role of a binding cannot be changed\<close>
  "immutable_same (KRoleBinding b) (KRoleBinding d) \<longleftrightarrow> rb_roleRef b = rb_roleRef d"
| "immutable_same c d \<longleftrightarrow> True"

definition mem_put :: "'q kobj \<Rightarrow> nat option \<Rightarrow> 'q mem_cluster \<Rightarrow> 'q mem_cluster \<times> (api_error, 'q kobj) res" where
  "mem_put o1 going w =
     (let c = mem_accept (rev_text (mc_rev w)) going o1 in
      (w\<lparr>mc_objects := (obj_key o1, c) # mc_objects w, mc_rev := Suc (mc_rev w)\<rparr>, Ok c))"

definition mem_put_tenant :: "tenant \<Rightarrow> 'q mem_cluster \<Rightarrow> 'q mem_cluster \<times> (api_error, tenant) res" where
  "mem_put_tenant t w =
     (let c = t\<lparr>t_meta := (t_meta t)\<lparr>om_resourceVersion := rev_text (mc_rev w)\<rparr>\<rparr> in
      (w\<lparr>mc_tenants := (om_name (t_meta t), c) # mc_tenants w, mc_rev := Suc (mc_rev w)\<rparr>, Ok c))"

definition mem_client :: "('q mem_cluster, 'q) kube_client" where
  "mem_client =
     \<lparr>kc_get_tenant = (\<lambda>n w. case mem_tenant w n of None \<Rightarrow> Err NotFound | Some t \<Rightarrow> Ok t),
      kc_update_tenant = (\<lambda>t w.
        let n = om_name (t_meta t) in
        case mem_tenant w n of
          None \<Rightarrow> (w, Err NotFound)
        | Some s \<Rightarrow>
            if \<not> same_version t s then (w, Err Conflict)
            else if om_deletionTimestamp (t_meta s) \<noteq> None \<and> om_finalizers (t_meta t) = [] then
              (w\<lparr>mc_tenants := filter (\<lambda>e. fst e \<noteq> n) (mc_tenants w)\<rparr>, Ok t)
            else mem_put_tenant (t\<lparr>t_meta := (t_meta t)\<lparr>om_deletionTimestamp := om_deletionTimestamp (t_meta s)\<rparr>,
                                   t_status := t_status s\<rparr>) w),
      kc_update_status = (\<lambda>t w.
        case mem_tenant w (om_name (t_meta t)) of
          None \<Rightarrow> (w, Err NotFound)
        | Some s \<Rightarrow>
            if \<not> same_version t s then (w, Err Conflict)
            else mem_put_tenant (s\<lparr>t_status := t_status t\<rparr>) w),
      kc_get = (\<lambda>k w. case mem_look w k of None \<Rightarrow> Err NotFound | Some o1 \<Rightarrow> Ok o1),
      kc_create = (\<lambda>o1 w.
        if o1 = KNilQuota then (w, Panic NilDeref)
        else if \<not> mem_open w (om_namespace (meta_of o1)) then (w, Err NotFound)
        else (case mem_look w (obj_key o1) of
          Some _ \<Rightarrow> (w, Err AlreadyExists)
        | None \<Rightarrow> mem_put o1 None w)),
      kc_update = (\<lambda>o1 w.
        case mem_look w (obj_key o1) of
          None \<Rightarrow> (w, Err NotFound)
        | Some c \<Rightarrow>
            if om_resourceVersion (meta_of o1) \<noteq> om_resourceVersion (meta_of c) then (w, Err Conflict)
            else if \<not> immutable_same c o1 then (w, Err (ApiOther ''cannot change roleRef''))
            else if o1 = KNilQuota then (w, Panic NilDeref)
            else mem_put o1 (om_deletionTimestamp (meta_of c)) w),
      kc_stored = (\<lambda>k w. mem_look w k),
      kc_tenant = (\<lambda>n w. mem_tenant w n)\<rparr>"

lemma mem_accept_stored: "stored_as (mem_accept rv g o1) o1"
  by (cases o1)
    (auto simp: stored_as_def mem_accept_def sent_meta_def erase_meta_def map_le_def
       map_add_def split: option.split)

lemma mem_accept_key [simp]: "obj_key (mem_accept rv g o1) = obj_key o1"
  by (cases o1) (simp_all add: mem_accept_def obj_key_def)

lemma mem_accept_nil [simp]: "mem_accept rv g o1 = KNilQuota \<longleftrightarrow> o1 = KNilQuota"
  by (cases o1) (simp_all add: mem_accept_def)

lemma mem_accept_going [simp]: "o1 \<noteq> KNilQuota \<Longrightarrow> om_deletionTimestamp (meta_of (mem_accept rv g o1)) = g"
  by (cases o1) (simp_all add: mem_accept_def)

lemma mem_look_Some: "mem_look w k = Some c \<longleftrightarrow> map_of (mc_objects w) k = Some c \<and> obj_key c = k \<and> c \<noteq> KNilQuota"
  by (auto simp: mem_look_def split: option.splits)

lemma mem_look_put:
  "mem_put o1 g w = (w', r) \<Longrightarrow> o1 \<noteq> KNilQuota \<Longrightarrow>
     mem_look w' = (mem_look w)(obj_key o1 \<mapsto> mem_accept (rev_text (mc_rev w)) g o1) \<and> mem_tenant w' = mem_tenant w
     \<and> r = Ok (mem_accept (rev_text (mc_rev w)) g o1)"
  by (auto simp: mem_put_def Let_def mem_look_def mem_tenant_def fun_eq_iff)

lemma mem_put_tenant_look:
  "mem_put_tenant t w = (w', r) \<Longrightarrow>
     mem_look w' = mem_look w
     \<and> mem_tenant w' = (mem_tenant w)(om_name (t_meta t) \<mapsto> t\<lparr>t_meta := (t_meta t)\<lparr>om_resourceVersion := rev_text (mc_rev w)\<rparr>\<rparr>)
     \<and> r = Ok (t\<lparr>t_meta := (t_meta t)\<lparr>om_resourceVersion := rev_text (mc_rev w)\<rparr>\<rparr>)"
  by (auto simp: mem_put_tenant_def Let_def mem_look_def mem_tenant_def fun_eq_iff)

lemma mem_tenant_name: "mem_tenant w n = Some t \<Longrightarrow> om_name (t_meta t) = n"
  by (auto simp: mem_tenant_def split: option.splits if_splits)

lemma mem_client_keys: "key_law mem_client"
  by (auto simp: key_law_def mem_client_def mem_look_Some mem_tenant_name)

lemma mem_client_create: "create_law mem_client"
  by (auto simp: create_law_def mem_client_def same_objects_but_def same_objects_def mem_accept_stored terminating_def
        dest!: mem_look_put split: option.splits if_splits)

lemma mem_client_update: "update_law mem_client"
  by (auto simp: update_law_def mem_client_def same_objects_but_def mem_accept_stored terminating_def
        dest!: mem_look_put split: option.splits if_splits)

lemma mem_client_status: "status_law mem_client"
  by (auto simp: status_law_def mem_client_def same_objects_def same_version_def mem_tenant_name
        dest!: mem_put_tenant_look split: option.splits if_splits)

lemma mem_client_laws: "api_laws mem_client"
  by (simp add: api_laws_def mem_client_keys mem_client_create mem_client_update mem_client_status)

lemma mem_client_synced: "synced mem_client w"
  by (simp add: synced_def synced_at_def mem_client_def)

lemma mem_client_cache: "cache_law mem_client"
  using mem_client_synced by (auto simp: cache_law_def cache_step_def synced_def)

lemma map_of_filter_key: "map_of (filter (\<lambda>e. fst e \<noteq> k) xs) n = (if n = k then None else map_of xs n)"
  by (induction xs) auto

lemma mem_tenant_remove:
  "mem_tenant (w\<lparr>mc_tenants := filter (\<lambda>e. fst e \<noteq> n) (mc_tenants w)\<rparr>) = (mem_tenant w)(n := None)"
  by (auto simp: mem_tenant_def map_of_filter_key fun_eq_iff)

lemma mem_client_updates:
  assumes "kc_update_tenant mem_client t w = (w', r)"
  shows "w' = w \<and> (\<exists>e. r = Err e) \<or> (\<exists>s. mem_tenant w (om_name (t_meta t)) = Some s \<and> same_version t s)
    \<and> replaced t (mem_tenant w' (om_name (t_meta t))) \<and> (\<forall>n. n \<noteq> om_name (t_meta t) \<longrightarrow> mem_tenant w' n = mem_tenant w n)"
  using assms
  by (auto simp: mem_client_def Let_def replaced_def same_anchor_def mem_tenant_remove
        dest!: mem_put_tenant_look split: option.splits if_splits)

lemma mem_client_tenant_laws: "tenant_laws mem_client"
proof -
  have refl: "rel_option same_anchor m m" for m
    by (cases m) (simp_all add: same_anchor_def)
  have put: "rel_option same_anchor (mem_tenant w n) (mem_tenant (fst (mem_put o1 g w)) n)" if "o1 \<noteq> KNilQuota" for o1 g w n
    using mem_look_put [of o1 g w "fst (mem_put o1 g w)" "snd (mem_put o1 g w)"] that by (simp add: refl)
  have st: "rel_option same_anchor (mem_tenant w n) (mem_tenant (fst (kc_update_status mem_client t w)) n)" for t w n
    by (auto simp: mem_client_def refl same_anchor_def mem_tenant_name mem_put_tenant_look [OF prod.collapse [symmetric]]
        split: option.splits)
  have up: "kc_update_tenant mem_client t w = (fst (kc_update_tenant mem_client t w), snd (kc_update_tenant mem_client t w))" for t w
    by simp
  have fields: "kc_tenant mem_client = (\<lambda>n w. mem_tenant w n)"
      "kc_get_tenant mem_client = (\<lambda>n w. case mem_tenant w n of None \<Rightarrow> Err NotFound | Some t \<Rightarrow> Ok t)"
    by (simp_all add: mem_client_def)
  show ?thesis
    unfolding tenant_laws_def tenant_reads_def tenant_frames_def tenant_lock_def same_tenants_def fields Let_def
  proof (intro conjI allI impI)
    show "rel_option same_anchor (mem_tenant w n) (mem_tenant (fst (kc_create mem_client o1 w)) n)" for o1 w n
      using put by (auto simp: mem_client_def refl split: option.splits)
    show "rel_option same_anchor (mem_tenant w n) (mem_tenant (fst (kc_update mem_client o1 w)) n)" for o1 w n
      using put by (auto simp: mem_client_def refl split: option.splits)
    show "rel_option same_anchor (mem_tenant w n) (mem_tenant (fst (kc_update_status mem_client t w)) n)" for t w n
      by (rule st)
    show "mem_tenant (fst (kc_update_tenant mem_client t w)) n = mem_tenant w n" if "n \<noteq> om_name (t_meta t)" for t w n
      using mem_client_updates [OF up, of t w] that by auto
    show "mem_tenant (fst (kc_update_tenant mem_client t w)) (om_name (t_meta t)) = mem_tenant w (om_name (t_meta t))
        \<or> (\<exists>s. mem_tenant w (om_name (t_meta t)) = Some s \<and> same_version t s)
          \<and> replaced t (mem_tenant (fst (kc_update_tenant mem_client t w)) (om_name (t_meta t)))" for t w
      using mem_client_updates [OF up, of t w] by auto
    fix t w w' t' assume "kc_update_tenant mem_client t w = (w', Ok t')"
    from mem_client_updates [OF this]
    show "\<exists>s. mem_tenant w (om_name (t_meta t)) = Some s \<and> same_version t s"
      and "replaced t (mem_tenant w' (om_name (t_meta t)))" by auto
  qed (auto simp: mem_client_keys mem_tenant_name split: option.splits)
qed

end
