(* ===== verification/Ensure.thy ===== *)
theory Ensure
  imports MTP_Prelude
begin

text \<open>
  Putting objects in place one after the other. The controller and the webhook manager are both
  sequences of calls that each make one object be there and stop at the first error; \<open>ensurer\<close> is
  the contract of such a call, and what a sequence of them reaches is proved from it.
\<close>

fun ensure_all :: "('o \<Rightarrow> 'w \<Rightarrow> 'w \<times> ('e, unit) res) \<Rightarrow> 'o list \<Rightarrow> 'w \<Rightarrow> 'w \<times> ('e, unit) res" where
  \<comment> \<open>a run of \<open>if err := ensure(obj); err != nil { return err }\<close>\<close>
  "ensure_all f [] w = (w, Ok ())"
| "ensure_all f (o1 # os) w = then_try (f o1 w) (\<lambda>w1 _. ensure_all f os w1) id"

lemma ensure_all_Cons_Ok [res_simps]:
  "ensure_all f (o1 # os) w = (w', Ok ()) \<longleftrightarrow>
     (\<exists>w1. f o1 w = (w1, Ok ()) \<and> ensure_all f os w1 = (w', Ok ()))"
  by (auto simp: res_simps)

lemma ensure_all_append_Ok:
  "ensure_all f (os @ ps) w = (w', Ok ()) \<longleftrightarrow>
     (\<exists>w1. ensure_all f os w = (w1, Ok ()) \<and> ensure_all f ps w1 = (w', Ok ()))"
  by (induction os arbitrary: w) (auto simp: res_simps)

text \<open>
  \<open>ready\<close> says of a key that a call for it may rely on what it reads; it is required where a sequence
  starts, and calls for other keys keep it.
\<close>

locale ensurer =
  fixes env :: bool                                      \<comment> \<open>what is assumed of the server\<close>
    and ensure :: "'o \<Rightarrow> 'w \<Rightarrow> 'w \<times> ('e, unit) res"
    and key :: "'o \<Rightarrow> 'k"
    and look :: "'k \<Rightarrow> 'w \<Rightarrow> 'c option"
    and good :: "'c \<Rightarrow> 'o \<Rightarrow> bool"
    and calm :: "'o \<Rightarrow> bool"                             \<comment> \<open>not rewritten once in place\<close>
    and ready :: "'k \<Rightarrow> 'w \<Rightarrow> bool"
  assumes ensure_Ok: "env \<Longrightarrow> ready (key o1) w \<Longrightarrow> ensure o1 w = (w', Ok ()) \<Longrightarrow>
      \<exists>c. look (key o1) w' = Some c \<and> good c o1"
    and ensure_frame: "env \<Longrightarrow> ensure o1 w = (w', Ok ()) \<Longrightarrow> k \<noteq> key o1 \<Longrightarrow> look k w' = look k w"
    and ensure_calm: "env \<Longrightarrow> ready (key o1) w \<Longrightarrow> calm o1 \<Longrightarrow> look (key o1) w = Some c \<Longrightarrow> good c o1 \<Longrightarrow>
      ensure o1 w = (w', Ok ()) \<Longrightarrow> look (key o1) w' = Some c"
    and ready_frame: "env \<Longrightarrow> ensure o1 w = (w', Ok ()) \<Longrightarrow> k \<noteq> key o1 \<Longrightarrow> ready k w \<Longrightarrow> ready k w'"
begin

definition placed :: "'o \<Rightarrow> 'w \<Rightarrow> bool" where
  "placed o1 w \<longleftrightarrow> (\<exists>c. look (key o1) w = Some c \<and> good c o1)"

lemma all_frame:
  assumes env "ensure_all ensure os w = (w', Ok ())" "k \<notin> key ` set os"
  shows "look k w' = look k w"
  using assms(2,3)
proof (induction os arbitrary: w)
  case (Cons o1 os)
  then show ?case using ensure_frame [OF assms(1)] by (fastforce simp: res_simps)
qed simp

lemma all_ready:
  assumes env "ensure_all ensure os w = (w', Ok ())" "k \<notin> key ` set os" "ready k w"
  shows "ready k w'"
  using assms(2-4)
proof (induction os arbitrary: w)
  case (Cons o1 os)
  then show ?case using ready_frame [OF assms(1)] by (fastforce simp: res_simps)
qed simp

lemma all_placed:
  assumes env "ensure_all ensure os w = (w', Ok ())" "distinct (map key os)" "\<And>o1. o1 \<in> set os \<Longrightarrow> ready (key o1) w"
    and "o1 \<in> set os"
  shows "placed o1 w'"
  using assms(2-5)
proof (induction os arbitrary: w)
  case (Cons p os)
  then obtain w1 where w1: "ensure p w = (w1, Ok ())" "ensure_all ensure os w1 = (w', Ok ())"
    by (auto simp: res_simps)
  show ?case
  proof (cases "o1 \<in> set os")
    case True
    have "ready (key q) w1" if "q \<in> set os" for q
    proof (rule ready_frame [OF assms(1) w1(1)])
      show "key q \<noteq> key p" using Cons.prems(2) that by (metis distinct.simps(2) imageI list.map(2) list.set_map)
      show "ready (key q) w" using Cons.prems(3) that by simp
    qed
    then show ?thesis using Cons.IH [OF w1(2)] Cons.prems(2) True by simp
  next
    case False
    with Cons.prems have "o1 = p" "key p \<notin> key ` set os" by auto
    then show ?thesis
      using ensure_Ok [OF assms(1) _ w1(1)] Cons.prems(3) all_frame [OF assms(1) w1(2)] by (auto simp: placed_def)
  qed
qed simp

lemma all_calm:
  assumes env "ensure_all ensure os w = (w', Ok ())" "\<And>o1. o1 \<in> set os \<Longrightarrow> calm o1 \<or> key o1 = loud"
    and "\<And>o1. o1 \<in> set os \<Longrightarrow> placed o1 w \<and> ready (key o1) w" "distinct (map key os)" "k \<noteq> loud"
  shows "look k w' = look k w"
  using assms(2-5)
proof (induction os arbitrary: w)
  case (Cons p os)
  then obtain w1 where w1: "ensure p w = (w1, Ok ())" "ensure_all ensure os w1 = (w', Ok ())"
    by (auto simp: res_simps)
  have same: "look j w1 = look j w" if "j \<noteq> loud \<or> j \<noteq> key p" for j
  proof (cases "j = key p")
    case True
    with that Cons.prems(2) [of p] have "calm p" by auto
    with Cons.prems(3) [of p] show ?thesis
      using ensure_calm [OF assms(1) _ _ _ _ w1(1)] True by (auto simp: placed_def)
  qed (use ensure_frame [OF assms(1) w1(1)] in auto)
  have "look k w' = look k w1"
  proof (rule Cons.IH [OF w1(2)])
    fix o1 assume o1: "o1 \<in> set os"
    then show "calm o1 \<or> key o1 = loud" using Cons.prems(2) by simp
    have ne: "key o1 \<noteq> key p" using Cons.prems(4) o1 by (metis distinct.simps(2) imageI list.map(2) list.set_map)
    then have "look (key o1) w1 = look (key o1) w" using same [of "key o1"] by blast
    then show "placed o1 w1 \<and> ready (key o1) w1"
      using Cons.prems(3) [of o1] o1 ready_frame [OF assms(1) w1(1) ne] by (simp add: placed_def)
  qed (use Cons.prems(4) in simp)
  with same [of k] assms(6) show ?case by simp
qed simp

end


section \<open>Creating what is missing\<close>

text \<open>
  A call of the webhook manager leaves an object that is there alone and builds it otherwise.
  \<open>built w o c\<close> says that \<open>c\<close> is what the call for \<open>o\<close> makes in the world \<open>w\<close>, which may hold
  objects that \<open>c\<close> refers to.
\<close>

locale creator =
  fixes env :: bool
    and ensure :: "'o \<Rightarrow> 'w \<Rightarrow> 'w \<times> ('e, unit) res"
    and key :: "'o \<Rightarrow> 'k"
    and look :: "'k \<Rightarrow> 'w \<Rightarrow> 'c option"
    and built :: "'w \<Rightarrow> 'o \<Rightarrow> 'c \<Rightarrow> bool"
  assumes ensure_there: "env \<Longrightarrow> ensure o1 w = (w', Ok ()) \<Longrightarrow> \<exists>c. look (key o1) w' = Some c"
    and ensure_built: "env \<Longrightarrow> ensure o1 w = (w', Ok ()) \<Longrightarrow> look (key o1) w = None \<Longrightarrow>
      look (key o1) w' = Some c \<Longrightarrow> built w' o1 c"
    and ensure_keeps: "env \<Longrightarrow> look k w = Some c \<Longrightarrow> look k (fst (ensure o1 w)) = Some c"
    and ensure_other: "env \<Longrightarrow> k \<noteq> key o1 \<Longrightarrow> look k (fst (ensure o1 w)) = look k w"
    and built_mono: "built w o1 c \<Longrightarrow> (\<And>k c. look k w = Some c \<Longrightarrow> look k w' = Some c) \<Longrightarrow> built w' o1 c"

sublocale creator \<subseteq> ensurer env ensure key look "\<lambda>c o1. True" "\<lambda>o1. True" "\<lambda>k w. True"
proof
  fix o1 w w'
  assume e: env and ok: "ensure o1 w = (w', Ok ())"
  then show "\<exists>c. look (key o1) w' = Some c \<and> True" using ensure_there by simp
  show "look k w' = look k w" if "k \<noteq> key o1" for k using ensure_other [OF e that, of w] ok by simp
  show "look (key o1) w' = Some c" if "look (key o1) w = Some c" for c
    using ensure_keeps [OF e that, of o1] ok by simp
qed

context creator
begin

lemma all_keeps:
  assumes env "look k w = Some c"
  shows "look k (fst (ensure_all ensure os w)) = Some c"
  using assms(2)
proof (induction os arbitrary: w)
  case (Cons p os)
  obtain w1 r where r: "ensure p w = (w1, r)" by fastforce
  then have "look k w1 = Some c" using ensure_keeps [OF assms(1) Cons.prems, of p] by simp
  with Cons.IH r show ?case by (cases r) simp_all
qed simp

lemma all_other:
  assumes env "k \<notin> key ` set os"
  shows "look k (fst (ensure_all ensure os w)) = look k w"
  using assms(2)
proof (induction os arbitrary: w)
  case (Cons p os)
  then have k: "k \<noteq> key p" "k \<notin> key ` set os" by auto
  obtain w1 r where r: "ensure p w = (w1, r)" by fastforce
  then have "look k w1 = look k w" using ensure_other [OF assms(1) k(1), of w] by simp
  with Cons.IH [OF k(2), of w1] r show ?case by (cases r) simp_all
qed simp

lemma all_there:
  assumes env "ensure_all ensure os w = (w', Ok ())" "o1 \<in> set os"
  shows "\<exists>c. look (key o1) w' = Some c"
  using assms(2,3)
proof (induction os arbitrary: w)
  case (Cons p os)
  then obtain w1 where w1: "ensure p w = (w1, Ok ())" "ensure_all ensure os w1 = (w', Ok ())"
    by (auto simp: res_simps)
  then show ?case
    using Cons ensure_there [OF assms(1) w1(1)] all_keeps [OF assms(1), of _ w1 _ os] by fastforce
qed simp

lemma all_built:
  assumes env "ensure_all ensure os w = (w', Ok ())" "o1 \<in> set os" "look (key o1) w = None"
    and "look (key o1) w' = Some c" "distinct (map key os)"
  shows "built w' o1 c"
  using assms(2-4,6)
proof (induction os arbitrary: w)
  case (Cons p os)
  then obtain w1 where w1: "ensure p w = (w1, Ok ())" "ensure_all ensure os w1 = (w', Ok ())"
    by (auto simp: res_simps)
  show ?case
  proof (cases "o1 \<in> set os")
    case True
    with Cons.prems have "key o1 \<noteq> key p" by (metis distinct.simps(2) imageI list.map(2) list.set_map)
    then have "look (key o1) w1 = None"
      using ensure_other [OF assms(1), of "key o1" p w] w1(1) Cons.prems(3) by simp
    then show ?thesis using Cons.IH w1(2) True Cons.prems(4) by simp
  next
    case False
    with Cons.prems(2) have o1: "o1 = p" by simp
    obtain c1 where c1: "look (key p) w1 = Some c1" using ensure_there [OF assms(1) w1(1)] by blast
    have keep: "look k w' = Some d" if "look k w1 = Some d" for k d
      using all_keeps [OF assms(1) that, of os] w1(2) by simp
    from keep [OF c1] assms(5) have "c1 = c" by (simp add: o1)
    then have "built w1 p c" using ensure_built [OF assms(1) w1(1)] Cons.prems(3) c1 by (simp add: o1)
    then show ?thesis unfolding o1 by (rule built_mono) (rule keep)
  qed
qed simp

text \<open>However a sequence ends, an object it created comes after all those before it.\<close>

lemma all_in_order:
  assumes env "look (key o1) w = None" "look (key o1) (fst (ensure_all ensure (os @ o1 # ps) w)) = Some c"
    and "key o1 \<notin> key ` set os" "p \<in> set os"
  shows "\<exists>d. look (key p) (fst (ensure_all ensure (os @ o1 # ps) w)) = Some d"
  using assms(2-5)
proof (induction os arbitrary: w)
  case (Cons q os)
  then have q: "key o1 \<noteq> key q" by auto
  have none: "look (key o1) (fst (ensure q w)) = None"
    using ensure_other [OF assms(1) q, of w] Cons.prems(1) by simp
  obtain w1 r where r: "ensure q w = (w1, r)" by fastforce
  show ?case
  proof (cases r)
    case (Ok u)
    then have q1: "ensure q w = (w1, Ok ())" using r by simp
    then obtain d where d: "look (key q) w1 = Some d" using ensure_there [OF assms(1)] by blast
    show ?thesis
    proof (cases "p \<in> set os")
      case True
      then show ?thesis using Cons.IH [of w1] Cons.prems none q1 by simp
    next
      case False
      then have "p = q" using Cons.prems(4) by simp
      then show ?thesis using all_keeps [OF assms(1) d, of "os @ o1 # ps"] q1 by simp
    qed
  qed (use Cons.prems(2) none r in auto)
qed simp

end

end
