(* ===== verification/Webhook_Manager.thy ===== *)
theory Webhook_Manager
  imports TLS Kube Ensure
begin

text \<open>
  The webhook manager, \<open>internal/webhook/manager.go\<close>: at start the controller makes the TLS secret,
  the deployment, the service and the two webhook configurations be there. The objects are those
  of \<open>k8s.io/api\<close> with the fields the code writes or reads. The client and the API server are a
  record of functions over the cluster \<open>'w\<close>; this client reads the server itself, not a cache.
\<close>

section \<open>Objects\<close>

record 'b secret =
  se_meta :: object_meta
  se_data :: "(string, 'b) gomap"
  se_type :: string

record container_port =
  cpt_containerPort :: int
  cpt_protocol :: string

record volume_mount =
  vm_name :: string
  vm_mountPath :: string
  vm_readOnly :: bool

record template_container =
  tc_name :: string
  tc_image :: string
  tc_imagePullPolicy :: string
  tc_ports :: "container_port list"
  tc_volumeMounts :: "volume_mount list"

record volume =
  vo_name :: string
  vo_secretName :: string

record deployment =
  dp_meta :: object_meta
  dp_selector :: label_selector
  dp_templateLabels :: "(string, string) gomap"
  dp_containers :: "template_container list"
  dp_volumes :: "volume list"

record service_port =
  svp_port :: int
  svp_targetPort :: int

record service =
  sv_meta :: object_meta
  sv_ports :: "service_port list"
  sv_selector :: "(string, string) gomap"

record 'b client_config =
  cc_serviceName :: string
  cc_serviceNamespace :: string
  cc_servicePath :: string
  cc_caBundle :: "'b option"                  \<comment> \<open>\<open>None\<close> is the nil slice\<close>

record rule_with_operations =
  ru_operations :: "string list"
  ru_apiGroups :: "string list"
  ru_apiVersions :: "string list"
  ru_resources :: "string list"

record 'b webhook_entry =
  we_name :: string
  we_clientConfig :: "'b client_config"
  we_rules :: "rule_with_operations list"
  we_failurePolicy :: "string option"
  we_sideEffects :: "string option"
  we_admissionReviewVersions :: "string list"
  we_reinvocationPolicy :: "string option"    \<comment> \<open>mutating webhooks only\<close>
  we_namespaceSelector :: label_selector

record 'b webhook_configuration =
  wc_meta :: object_meta
  wc_webhooks :: "'b webhook_entry list"

datatype 'b install_obj =
    ISecret "'b secret"
  | IDeployment deployment
  | IService service
  | IValidating "'b webhook_configuration"
  | IMutating "'b webhook_configuration"

datatype install_kind = SecretKind | DeploymentKind | ServiceKind | ValidatingKind | MutatingKind

type_synonym install_key = "install_kind \<times> string \<times> string"  \<comment> \<open>kind, namespace, name\<close>

fun imeta :: "'b install_obj \<Rightarrow> object_meta" where
  "imeta (ISecret s) = se_meta s"
| "imeta (IDeployment d) = dp_meta d"
| "imeta (IService s) = sv_meta s"
| "imeta (IValidating c) = wc_meta c"
| "imeta (IMutating c) = wc_meta c"

fun ikind :: "'b install_obj \<Rightarrow> install_kind" where
  "ikind (ISecret s) = SecretKind"
| "ikind (IDeployment d) = DeploymentKind"
| "ikind (IService s) = ServiceKind"
| "ikind (IValidating c) = ValidatingKind"
| "ikind (IMutating c) = MutatingKind"

fun map_imeta :: "(object_meta \<Rightarrow> object_meta) \<Rightarrow> 'b install_obj \<Rightarrow> 'b install_obj" where
  "map_imeta f (ISecret s) = ISecret (s\<lparr>se_meta := f (se_meta s)\<rparr>)"
| "map_imeta f (IDeployment d) = IDeployment (d\<lparr>dp_meta := f (dp_meta d)\<rparr>)"
| "map_imeta f (IService s) = IService (s\<lparr>sv_meta := f (sv_meta s)\<rparr>)"
| "map_imeta f (IValidating c) = IValidating (c\<lparr>wc_meta := f (wc_meta c)\<rparr>)"
| "map_imeta f (IMutating c) = IMutating (c\<lparr>wc_meta := f (wc_meta c)\<rparr>)"

definition ikey :: "'b install_obj \<Rightarrow> install_key" where
  "ikey o1 = (ikind o1, om_namespace (imeta o1), om_name (imeta o1))"

fun data_of :: "'b install_obj \<Rightarrow> (string, 'b) gomap" where
  \<comment> \<open>\<open>secret.Data\<close>, of the secret that a read by a secret's key returns\<close>
  "data_of (ISecret s) = se_data s"
| "data_of o1 = []"


section \<open>The client\<close>

record ('w, 'b) direct_client =
  dc_get :: "install_key \<Rightarrow> 'w \<Rightarrow> (api_error, 'b install_obj) res"
  dc_create :: "'b install_obj \<Rightarrow> 'w \<Rightarrow> 'w \<times> (api_error, 'b install_obj) res"
  dc_stored :: "install_key \<Rightarrow> 'w \<Rightarrow> 'b install_obj option"
    \<comment> \<open>what the API server holds\<close>

text \<open>
  The documented behaviour: a read returns what is stored under the key, or says that nothing is;
  a creation succeeds only where nothing is stored, and stores the object with the metadata that
  belongs to the server; no creation, whatever its answer, touches another key. Fields of the server's own defaults are not among those modelled.
\<close>

definition stored_from :: "'b install_obj \<Rightarrow> 'b install_obj \<Rightarrow> bool" where
  "stored_from c o1 \<longleftrightarrow> map_imeta erase_meta c = map_imeta erase_meta o1"

definition direct_laws :: "('w, 'b) direct_client \<Rightarrow> bool" where
  "direct_laws K \<longleftrightarrow>
     (\<forall>k w o1. dc_get K k w = Ok o1 \<longrightarrow> dc_stored K k w = Some o1)
     \<and> (\<forall>k w. dc_get K k w = Err NotFound \<longrightarrow> dc_stored K k w = None)
     \<and> (\<forall>k w o1. dc_stored K k w = Some o1 \<longrightarrow> ikey o1 = k)
     \<and> (\<forall>o1 w w' o'. dc_create K o1 w = (w', Ok o') \<longrightarrow>
          dc_stored K (ikey o1) w = None \<and> dc_stored K (ikey o1) w' = Some o' \<and> stored_from o' o1)
     \<and> (\<forall>o1 w k. k \<noteq> ikey o1 \<longrightarrow> dc_stored K k (fst (dc_create K o1 w)) = dc_stored K k w)"


section \<open>The manager\<close>

record webhook_manager =
  wm_Namespace :: string
  wm_Image :: string

record ('w, 's) install_world =
  iw_kube :: 'w
  iw_rand :: 's

type_synonym install_clock = "(int \<times> int) \<times> (int \<times> int)"
  \<comment> \<open>the readings of \<open>time.Now\<close> in \<open>GenerateCA\<close> and in \<open>GenerateServerCert\<close>\<close>

datatype install_error =
    IApi string api_error      \<comment> \<open>\<open>fmt.Errorf("...: %w", err)\<close> of the client's error\<close>
  | ICrypto string string
  | IFailed string install_error

type_synonym ('w, 's) install_call = "('w, 's) install_world \<Rightarrow> ('w, 's) install_world \<times> (install_error, unit) res"

definition on_cluster :: "('w \<Rightarrow> 'w \<times> ('e, 'a) res) \<Rightarrow> ('w, 's) install_world \<Rightarrow> ('w, 's) install_world \<times> ('e, 'a) res" where
  "on_cluster f w = (let (k, r) = f (iw_kube w) in (w\<lparr>iw_kube := k\<rparr>, r))"

definition on_rand :: "('s \<Rightarrow> 's \<times> ('e, 'a) res) \<Rightarrow> ('w, 's) install_world \<Rightarrow> ('w, 's) install_world \<times> ('e, 'a) res" where
  "on_rand f w = (let (s, r) = f (iw_rand w) in (w\<lparr>iw_rand := s\<rparr>, r))"

definition unless_exists ::
    "('w, 'b) direct_client \<Rightarrow> install_key \<Rightarrow> string \<Rightarrow> ('w, 's) install_call \<Rightarrow> ('w, 's) install_call" where
  \<comment> \<open>get the object; nothing more if it is there, the missing part if the server says it is not\<close>
  "unless_exists K key failed missing w =
     (case dc_get K key (iw_kube w) of
        Ok _ \<Rightarrow> (w, Ok ())
      | Panic x \<Rightarrow> (w, Panic x)
      | Err e \<Rightarrow> if e \<noteq> NotFound then (w, Err (IApi failed e)) else missing w)"

definition create_it ::
    "('w, 'b) direct_client \<Rightarrow> string \<Rightarrow> 'b install_obj \<Rightarrow> ('w, 's) install_call" where
  "create_it K failed o1 w = then_try (on_cluster (dc_create K o1) w) (\<lambda>w1 _. (w1, Ok ())) (IApi failed)"

definition secret_key :: "webhook_manager \<Rightarrow> install_key" where
  "secret_key m = (SecretKind, wm_Namespace m, ''webhook-tls'')"

definition webhook_meta :: "string \<Rightarrow> string \<Rightarrow> object_meta" where
  "webhook_meta name namespace = empty_meta\<lparr>om_name := name, om_namespace := namespace\<rparr>"

definition build_secret :: "webhook_manager \<Rightarrow> 'b \<Rightarrow> 'b \<Rightarrow> 'b \<Rightarrow> 'b install_obj" where
  "build_secret m caCert serverCert serverKey = ISecret
     \<lparr>se_meta = webhook_meta ''webhook-tls'' (wm_Namespace m),
      se_data = [(''ca.crt'', caCert), (''tls.crt'', serverCert), (''tls.key'', serverKey)],
      se_type = ''kubernetes.io/tls''\<rparr>"

definition ensureTLSSecret ::
    "('w, 'b) direct_client \<Rightarrow> ('s, 'k, 'p, 'b) crypto \<Rightarrow> install_clock \<Rightarrow> webhook_manager \<Rightarrow> ('w, 's) install_call" where
  "ensureTLSSecret K C clock m =
     unless_exists K (secret_key m) ''failed to get secret'' (\<lambda>w.
       then_try (on_rand (GenerateCA C (fst clock)) w) (\<lambda>w1 (caCert, caKey).
       then_try (on_rand (GenerateServerCert C (snd clock) caCert caKey) w1) (\<lambda>w2 (serverCert, serverKey).
       create_it K ''failed to create secret'' (build_secret m caCert serverCert serverKey) w2)
         (ICrypto ''error generating server certs'')) (ICrypto ''error generating CA certs''))"

definition build_deployment :: "webhook_manager \<Rightarrow> 'b install_obj" where
  "build_deployment m = IDeployment
     \<lparr>dp_meta = (webhook_meta ''webhook'' (wm_Namespace m))\<lparr>om_labels := [(''app'', ''webhook'')]\<rparr>,
      dp_selector = \<lparr>ls_matchLabels = [(''app'', ''webhook'')]\<rparr>,
      dp_templateLabels = [(''app'', ''webhook'')],
      dp_containers =
        [\<lparr>tc_name = ''webhook'', tc_image = wm_Image m, tc_imagePullPolicy = ''IfNotPresent'',
          tc_ports = [\<lparr>cpt_containerPort = 8443, cpt_protocol = ''TCP''\<rparr>],
          tc_volumeMounts =
            [\<lparr>vm_name = ''webhook-tls'', vm_mountPath = ''/etc/webhook/tls'', vm_readOnly = True\<rparr>]\<rparr>],
      dp_volumes = [\<lparr>vo_name = ''webhook-tls'', vo_secretName = ''webhook-tls''\<rparr>]\<rparr>"

definition ensureDeployment :: "('w, 'b) direct_client \<Rightarrow> webhook_manager \<Rightarrow> ('w, 's) install_call" where
  "ensureDeployment K m =
     unless_exists K (DeploymentKind, wm_Namespace m, ''webhook'') ''failed to get deployment''
       (create_it K ''failed to create deployment'' (build_deployment m))"

definition build_service :: "webhook_manager \<Rightarrow> 'b install_obj" where
  "build_service m = IService
     \<lparr>sv_meta = (webhook_meta ''webhook-svc'' (wm_Namespace m))\<lparr>om_labels := [(''app'', ''webhook'')]\<rparr>,
      sv_ports = [\<lparr>svp_port = 443, svp_targetPort = 8443\<rparr>],
      sv_selector = [(''app'', ''webhook'')]\<rparr>"

definition ensureService :: "('w, 'b) direct_client \<Rightarrow> webhook_manager \<Rightarrow> ('w, 's) install_call" where
  "ensureService K m =
     unless_exists K (ServiceKind, wm_Namespace m, ''webhook-svc'') ''failed to get service''
       (create_it K ''failed to create service'' (build_service m))"

definition build_validating :: "webhook_manager \<Rightarrow> 'b option \<Rightarrow> 'b install_obj" where
  "build_validating m caCert = IValidating
     \<lparr>wc_meta = webhook_meta ''k8s-mtp-webhook'' [],
      wc_webhooks =
        [\<lparr>we_name = ''k8s-mtp-webhook.k8s-mtp.io'',
          we_clientConfig = \<lparr>cc_serviceName = ''webhook-svc'', cc_serviceNamespace = wm_Namespace m,
            cc_servicePath = ''/validate-pod'', cc_caBundle = caCert\<rparr>,
          we_rules = [\<lparr>ru_operations = [''CREATE'', ''UPDATE''], ru_apiGroups = [[]],
            ru_apiVersions = [''v1''], ru_resources = [''pods'']\<rparr>],
          we_failurePolicy = Some ''Fail'', we_sideEffects = Some ''None'',
          we_admissionReviewVersions = [''v1''], we_reinvocationPolicy = None,
          we_namespaceSelector = \<lparr>ls_matchLabels = [(''tenant.k8s-mtp.io/managed'', ''true'')]\<rparr>\<rparr>]\<rparr>"

definition with_secret ::
    "('w, 'b) direct_client \<Rightarrow> webhook_manager \<Rightarrow> ('b option \<Rightarrow> ('w, 's) install_call) \<Rightarrow> ('w, 's) install_call" where
  \<comment> \<open>get the secret and go on with its certificate of the authority\<close>
  "with_secret K m k w =
     then_try (w, dc_get K (secret_key m) (iw_kube w))
       (\<lambda>w secret. k (map_of (data_of secret) ''ca.crt'') w) (IApi ''error getting secret'')"

definition ensureValidatingWebhookConfig :: "('w, 'b) direct_client \<Rightarrow> webhook_manager \<Rightarrow> ('w, 's) install_call" where
  "ensureValidatingWebhookConfig K m =
     with_secret K m (\<lambda>caCert.
       unless_exists K (ValidatingKind, [], ''k8s-mtp-webhook'') ''failed to get webhook config validation''
         (create_it K ''failed to create webhook config'' (build_validating m caCert)))"

definition build_mutating :: "webhook_manager \<Rightarrow> 'b option \<Rightarrow> 'b install_obj" where
  "build_mutating m caCert = IMutating
     \<lparr>wc_meta = webhook_meta ''k8s-mtp-mutating-webhook'' [],
      wc_webhooks =
        [\<lparr>we_name = ''k8s-mtp-mutating-webhook.k8s-mtp.io'',
          we_clientConfig = \<lparr>cc_serviceName = ''webhook-svc'', cc_serviceNamespace = wm_Namespace m,
            cc_servicePath = ''/mutate-pod'', cc_caBundle = caCert\<rparr>,
          we_rules = [\<lparr>ru_operations = [''CREATE'', ''UPDATE''], ru_apiGroups = [[]],
            ru_apiVersions = [''v1''], ru_resources = [''pods'']\<rparr>],
          we_failurePolicy = Some ''Fail'', we_sideEffects = Some ''None'',
          we_admissionReviewVersions = [''v1''], we_reinvocationPolicy = Some ''Never'',
          we_namespaceSelector = \<lparr>ls_matchLabels = [(''tenant.k8s-mtp.io/managed'', ''true'')]\<rparr>\<rparr>]\<rparr>"

definition ensureMutatingWebhookConfiguration :: "('w, 'b) direct_client \<Rightarrow> webhook_manager \<Rightarrow> ('w, 's) install_call" where
  "ensureMutatingWebhookConfiguration K m =
     with_secret K m (\<lambda>caCert.
       unless_exists K (MutatingKind, [], ''k8s-mtp-mutating-webhook'') ''failed to get mutating webhook config validation''
         (create_it K ''failed to create mutating webhook config'' (build_mutating m caCert)))"

definition EnsureAll ::
    "('w, 'b) direct_client \<Rightarrow> ('s, 'k, 'p, 'b) crypto \<Rightarrow> install_clock \<Rightarrow> webhook_manager \<Rightarrow> ('w, 's) install_call" where
  "EnsureAll K C clock m w =
     then_try (ensureTLSSecret K C clock m w) (\<lambda>w1 _.
     then_try (ensureDeployment K m w1) (\<lambda>w2 _.
     then_try (ensureService K m w2) (\<lambda>w3 _.
     then_try (ensureValidatingWebhookConfig K m w3) (\<lambda>w4 _.
     then_try (ensureMutatingWebhookConfiguration K m w4) (\<lambda>w5 _.
       (w5, Ok ()))
       (IFailed ''failed to ensure mutating webhook config''))
       (IFailed ''failed to ensure webhook config''))
       (IFailed ''failed to ensure service''))
       (IFailed ''failed to ensure deployment''))
       (IFailed ''failed to ensure TLS secret'')"

end
