(* ===== verification/Webhook_Install.thy ===== *)
theory Webhook_Install
  imports Webhook_Manager
begin

text \<open>
  What \<open>EnsureAll\<close> reaches: each of its five calls meets the contract \<open>creator\<close>, whose facts give
  the objects after a run, their order, and what a second run does.
\<close>

section \<open>The calls as steps\<close>

datatype install_step = TLSSecret | Deployment | Service | ValidatingConfig | MutatingConfig

definition install_steps :: "install_step list" where
  "install_steps = [TLSSecret, Deployment, Service, ValidatingConfig, MutatingConfig]"

fun step_key :: "webhook_manager \<Rightarrow> install_step \<Rightarrow> install_key" where
  "step_key m TLSSecret = secret_key m"
| "step_key m Deployment = (DeploymentKind, wm_Namespace m, ''webhook'')"
| "step_key m Service = (ServiceKind, wm_Namespace m, ''webhook-svc'')"
| "step_key m ValidatingConfig = (ValidatingKind, [], ''k8s-mtp-webhook'')"
| "step_key m MutatingConfig = (MutatingKind, [], ''k8s-mtp-mutating-webhook'')"

fun step_call :: "('w, 'b) direct_client \<Rightarrow> ('s, 'k, 'p, 'b) crypto \<Rightarrow> install_clock \<Rightarrow> webhook_manager
    \<Rightarrow> install_step \<Rightarrow> ('w, 's) install_call" where
  "step_call K C clock m TLSSecret = ensureTLSSecret K C clock m"
| "step_call K C clock m Deployment = ensureDeployment K m"
| "step_call K C clock m Service = ensureService K m"
| "step_call K C clock m ValidatingConfig = ensureValidatingWebhookConfig K m"
| "step_call K C clock m MutatingConfig = ensureMutatingWebhookConfiguration K m"

fun step_failure :: "install_step \<Rightarrow> string" where
  "step_failure TLSSecret = ''failed to ensure TLS secret''"
| "step_failure Deployment = ''failed to ensure deployment''"
| "step_failure Service = ''failed to ensure service''"
| "step_failure ValidatingConfig = ''failed to ensure webhook config''"
| "step_failure MutatingConfig = ''failed to ensure mutating webhook config''"

definition ensure_step :: "('w, 'b) direct_client \<Rightarrow> ('s, 'k, 'p, 'b) crypto \<Rightarrow> install_clock \<Rightarrow> webhook_manager
    \<Rightarrow> install_step \<Rightarrow> ('w, 's) install_call" where
  "ensure_step K C clock m st w =
     then_try (step_call K C clock m st w) (\<lambda>w1 _. (w1, Ok ())) (IFailed (step_failure st))"

lemma then_try_wrap_id:
  "then_try (then_try p (\<lambda>w (_ :: unit). (w, Ok ())) wrap) k id = then_try p k wrap"
  by (cases "(p, k, wrap)" rule: then_try.cases) (simp_all add: unit_eq)

lemma EnsureAll_steps: "EnsureAll K C clock m w = ensure_all (ensure_step K C clock m) install_steps w"
  by (simp add: EnsureAll_def install_steps_def ensure_step_def then_try_wrap_id)

lemma distinct_step_keys: "distinct (map (step_key m) install_steps)"
  by (simp add: install_steps_def secret_key_def)

lemma set_install_steps: "set install_steps = UNIV"
proof -
  have "st \<in> set install_steps" for st by (cases st) (simp_all add: install_steps_def)
  then show ?thesis by blast
qed

definition ilook :: "('w, 'b) direct_client \<Rightarrow> install_key \<Rightarrow> ('w, 's) install_world \<Rightarrow> 'b install_obj option" where
  "ilook K k w = dc_stored K k (iw_kube w)"

lemma ilook_rand [simp]: "ilook K k (w\<lparr>iw_rand := s\<rparr>) = ilook K k w"
  by (simp add: ilook_def)

text \<open>What a step makes: the two configurations carry the certificate of the secret that is stored.\<close>

definition secret_ca :: "('w, 'b) direct_client \<Rightarrow> webhook_manager \<Rightarrow> ('w, 's) install_world \<Rightarrow> 'b option" where
  "secret_ca K m w = (case ilook K (secret_key m) w of None \<Rightarrow> None | Some s \<Rightarrow> map_of (data_of s) ''ca.crt'')"

fun step_built :: "('w, 'b) direct_client \<Rightarrow> ('s, 'k, 'p, 'b) crypto \<Rightarrow> install_clock \<Rightarrow> webhook_manager
    \<Rightarrow> ('w, 's) install_world \<Rightarrow> install_step \<Rightarrow> 'b install_obj \<Rightarrow> bool" where
  "step_built K C clock m w TLSSecret c \<longleftrightarrow>
     (\<exists>s s1 s2 ca cakey cert key. GenerateCA C (fst clock) s = (s1, Ok (ca, cakey))
        \<and> GenerateServerCert C (snd clock) ca cakey s1 = (s2, Ok (cert, key))
        \<and> stored_from c (build_secret m ca cert key))"
| "step_built K C clock m w Deployment c \<longleftrightarrow> stored_from c (build_deployment m)"
| "step_built K C clock m w Service c \<longleftrightarrow> stored_from c (build_service m)"
| "step_built K C clock m w ValidatingConfig c \<longleftrightarrow>
     ilook K (secret_key m) w \<noteq> None \<and> stored_from c (build_validating m (secret_ca K m w))"
| "step_built K C clock m w MutatingConfig c \<longleftrightarrow>
     ilook K (secret_key m) w \<noteq> None \<and> stored_from c (build_mutating m (secret_ca K m w))"


section \<open>One call\<close>

lemma direct_lawsD:
  assumes "direct_laws K"
  shows "dc_get K k w = Ok o1 \<Longrightarrow> dc_stored K k w = Some o1"
    "dc_get K k w = Err NotFound \<Longrightarrow> dc_stored K k w = None"
    "dc_create K o1 w = (w', Ok o') \<Longrightarrow> dc_stored K (ikey o1) w = None \<and> dc_stored K (ikey o1) w' = Some o' \<and> stored_from o' o1"
    "k \<noteq> ikey o1 \<Longrightarrow> dc_stored K k (fst (dc_create K o1 w)) = dc_stored K k w"
  using assms unfolding direct_laws_def by blast+

lemma create_it_Ok:
  assumes "direct_laws K" "create_it K f o1 w = (w', Ok ())"
  shows "\<exists>c. ilook K (ikey o1) w' = Some c \<and> stored_from c o1"
  using assms(2) direct_lawsD(3) [OF assms(1), of o1 "iw_kube w"]
  by (auto simp: create_it_def on_cluster_def ilook_def res_simps split: prod.splits)

lemma create_it_other:
  assumes "direct_laws K" "k \<noteq> ikey o1"
  shows "ilook K k (fst (create_it K f o1 w)) = ilook K k w"
proof -
  obtain c r where c: "dc_create K o1 (iw_kube w) = (c, r)" by fastforce
  then show ?thesis
    using direct_lawsD(4) [OF assms, of "iw_kube w"]
    by (cases r) (simp_all add: create_it_def on_cluster_def ilook_def)
qed

lemma unless_exists_Ok:
  assumes "direct_laws K" "unless_exists K key f missing w = (w', Ok ())"
  shows "w' = w \<and> (\<exists>c. ilook K key w = Some c) \<or> ilook K key w = None \<and> missing w = (w', Ok ())"
  using assms direct_lawsD(1,2) [OF assms(1), of key "iw_kube w"]
  by (auto simp: unless_exists_def ilook_def split: res.splits if_splits)

lemma unless_exists_keeps:
  assumes "direct_laws K" "ilook K key w = None \<Longrightarrow> Q (missing w)" "\<And>r. Q (w, r)"
  shows "Q (unless_exists K key f missing w)"
  using assms direct_lawsD(2) [OF assms(1), of key "iw_kube w"]
  by (auto simp: unless_exists_def ilook_def split: res.splits)

lemma ikey_built [simp]:
  "ikey (build_secret m ca cert key) = step_key m TLSSecret"
  "ikey (build_deployment m) = step_key m Deployment" "ikey (build_service m) = step_key m Service"
  "ikey (build_validating m b) = step_key m ValidatingConfig" "ikey (build_mutating m b) = step_key m MutatingConfig"
  by (simp_all add: ikey_def build_secret_def build_deployment_def build_service_def build_validating_def
      build_mutating_def webhook_meta_def secret_key_def empty_meta_def)

lemma with_secret_cases:
  assumes "direct_laws K"
  obtains (secret) "ilook K (secret_key m) w \<noteq> None" "with_secret K m k w = k (secret_ca K m w) w"
  | (failed) r where "with_secret K m k w = (w, r)" "r \<noteq> Ok ()"
proof (cases "dc_get K (secret_key m) (iw_kube w)")
  case (Ok o1)
  then have "ilook K (secret_key m) w = Some o1"
    using direct_lawsD(1) [OF assms] by (simp add: ilook_def)
  with Ok secret show ?thesis by (simp add: with_secret_def secret_ca_def)
qed (use failed in \<open>simp_all add: with_secret_def\<close>)

text \<open>The part of a call that runs when its object is missing.\<close>

fun step_missing :: "('w, 'b) direct_client \<Rightarrow> ('s, 'k, 'p, 'b) crypto \<Rightarrow> install_clock \<Rightarrow> webhook_manager
    \<Rightarrow> install_step \<Rightarrow> 'b option \<Rightarrow> ('w, 's) install_call" where
  "step_missing K C clock m TLSSecret ca = (\<lambda>w.
     then_try (on_rand (GenerateCA C (fst clock)) w) (\<lambda>w1 (caCert, caKey).
     then_try (on_rand (GenerateServerCert C (snd clock) caCert caKey) w1) (\<lambda>w2 (serverCert, serverKey).
     create_it K ''failed to create secret'' (build_secret m caCert serverCert serverKey) w2)
       (ICrypto ''error generating server certs'')) (ICrypto ''error generating CA certs''))"
| "step_missing K C clock m Deployment ca = create_it K ''failed to create deployment'' (build_deployment m)"
| "step_missing K C clock m Service ca = create_it K ''failed to create service'' (build_service m)"
| "step_missing K C clock m ValidatingConfig ca =
     create_it K ''failed to create webhook config'' (build_validating m ca)"
| "step_missing K C clock m MutatingConfig ca =
     create_it K ''failed to create mutating webhook config'' (build_mutating m ca)"

lemma unless_exists_cases:
  assumes "direct_laws K"
  obtains (stopped) r where "unless_exists K key f k w = (w, r)" "r = Ok () \<longrightarrow> ilook K key w \<noteq> None"
  | (missing) "ilook K key w = None" "unless_exists K key f k w = k w"
proof (cases "dc_get K key (iw_kube w)")
  case (Ok o1)
  then show ?thesis
    using stopped [of "Ok ()"] direct_lawsD(1) [OF assms, of key "iw_kube w" o1] by (simp add: unless_exists_def ilook_def)
next
  case (Err e)
  show ?thesis
  proof (cases "e = NotFound")
    case True
    then show ?thesis
      using missing Err direct_lawsD(2) [OF assms, of key "iw_kube w"] by (simp add: unless_exists_def ilook_def)
  qed (use stopped [of "Err (IApi f e)"] Err in \<open>simp add: unless_exists_def\<close>)
qed (use stopped in \<open>simp add: unless_exists_def\<close>)

lemma step_call_cases:
  assumes "direct_laws K"
  obtains (stopped) r where "step_call K C clock m st w = (w, r)" "r = Ok () \<longrightarrow> ilook K (step_key m st) w \<noteq> None"
  | (missing) ca where "ilook K (step_key m st) w = None"
      "step_call K C clock m st w = step_missing K C clock m st ca w"
      "st \<in> {ValidatingConfig, MutatingConfig} \<Longrightarrow> ilook K (secret_key m) w \<noteq> None \<and> ca = secret_ca K m w"
proof -
  have unless: thesis if "step_call K C clock m st w = unless_exists K (step_key m st) f (step_missing K C clock m st ca) w"
    and "st \<in> {ValidatingConfig, MutatingConfig} \<Longrightarrow> ilook K (secret_key m) w \<noteq> None \<and> ca = secret_ca K m w" for f ca
    by (rule unless_exists_cases [OF assms, of "step_key m st" f "step_missing K C clock m st ca" w])
      (use stopped missing that in auto)
  have config: thesis if sc: "step_call K C clock m st w = with_secret K m
      (\<lambda>ca. unless_exists K (step_key m st) f (step_missing K C clock m st ca)) w" for f
  proof (rule with_secret_cases [OF assms, of m w "\<lambda>ca. unless_exists K (step_key m st) f (step_missing K C clock m st ca)"])
    assume "ilook K (secret_key m) w \<noteq> None" "with_secret K m (\<lambda>ca. unless_exists K (step_key m st) f (step_missing K C clock m st ca)) w
        = unless_exists K (step_key m st) f (step_missing K C clock m st (secret_ca K m w)) w"
    then show thesis using unless [of f "secret_ca K m w"] sc by simp
  next
    fix r assume "with_secret K m (\<lambda>ca. unless_exists K (step_key m st) f (step_missing K C clock m st ca)) w = (w, r)" "r \<noteq> Ok ()"
    then show thesis using stopped [of r] sc by simp
  qed
  show thesis
  proof (cases st)
    case TLSSecret
    then show ?thesis using unless [of "''failed to get secret''" None] by (simp add: ensureTLSSecret_def)
  next
    case Deployment
    then show ?thesis using unless [of "''failed to get deployment''" None] by (simp add: ensureDeployment_def)
  next
    case Service
    then show ?thesis using unless [of "''failed to get service''" None] by (simp add: ensureService_def)
  next
    case ValidatingConfig
    then show ?thesis using config [of "''failed to get webhook config validation''"]
      by (simp add: ensureValidatingWebhookConfig_def)
  next
    case MutatingConfig
    then show ?thesis using config [of "''failed to get mutating webhook config validation''"]
      by (simp add: ensureMutatingWebhookConfiguration_def)
  qed
qed

lemma on_rand_Ok:
  "on_rand f w = (w', Ok a) \<longleftrightarrow> (\<exists>s. f (iw_rand w) = (s, Ok a) \<and> w' = w\<lparr>iw_rand := s\<rparr>)"
  by (auto simp: on_rand_def split: prod.splits)

lemma step_key_inj [simp]: "step_key m st = step_key m st' \<longleftrightarrow> st = st'"
  by (cases st; cases st') (simp_all add: secret_key_def)

lemma step_missing_other:
  assumes "direct_laws K" "k \<noteq> step_key m st"
  shows "ilook K k (fst (step_missing K C clock m st ca w)) = ilook K k w"
proof (cases st)
  case TLSSecret
  let ?I = "\<lambda>w1. ilook K k w1 = ilook K k w"
  have rand: "ilook K k (fst (on_rand f w1)) = ilook K k w1" for f :: "'c \<Rightarrow> 'c \<times> (string, 'b \<times> 'b) res" and w1
    by (simp add: on_rand_def split: prod.split)
  have "?I (fst (step_missing K C clock m TLSSecret ca w))"
    unfolding step_missing.simps
  proof (rule then_try_invariant, simp add: rand, clarify)
    fix w1 a b assume "on_rand (GenerateCA C (fst clock)) w = (w1, Ok (a, b))"
    then have w1: "?I w1" by (auto simp: on_rand_Ok)
    show "?I (fst (then_try (on_rand (GenerateServerCert C (snd clock) a b) w1) (\<lambda>w2 (serverCert, serverKey).
      create_it K ''failed to create secret'' (build_secret m a serverCert serverKey) w2)
       (ICrypto ''error generating server certs'')))"
    proof (rule then_try_invariant, simp add: rand w1, clarify)
      fix w2 cert key assume "on_rand (GenerateServerCert C (snd clock) a b) w1 = (w2, Ok (cert, key))"
      then have "?I w2" using w1 by (auto simp: on_rand_Ok)
      then show "?I (fst (create_it K ''failed to create secret'' (build_secret m a cert key) w2))"
        using assms by (simp add: create_it_other TLSSecret)
    qed
  qed
  then show ?thesis by (simp add: TLSSecret)
qed (use assms in \<open>simp_all add: create_it_other\<close>)

lemma step_missing_Ok:
  assumes "direct_laws K" "step_missing K C clock m st ca w = (w', Ok ())"
    and "st \<in> {ValidatingConfig, MutatingConfig} \<Longrightarrow> ilook K (secret_key m) w \<noteq> None \<and> ca = secret_ca K m w"
  shows "\<exists>c. ilook K (step_key m st) w' = Some c \<and> step_built K C clock m w' st c"
proof -
  have secret: "ilook K (secret_key m) w' = ilook K (secret_key m) w" if "st \<noteq> TLSSecret"
    using step_missing_other [OF assms(1), of "secret_key m" m st C clock ca w] assms(2) that
    by (cases st) (simp_all add: secret_key_def)
  show ?thesis
  proof (cases st)
    case TLSSecret
    from assms(2) obtain s1 a b s2 cert key where
      "GenerateCA C (fst clock) (iw_rand w) = (s1, Ok (a, b))"
      "GenerateServerCert C (snd clock) a b s1 = (s2, Ok (cert, key))"
      and "create_it K ''failed to create secret'' (build_secret m a cert key) (w\<lparr>iw_rand := s2\<rparr>) = (w', Ok ())"
      by (auto simp: TLSSecret res_simps on_rand_Ok split: prod.splits)
    with create_it_Ok [OF assms(1) this(3)] show ?thesis by (fastforce simp: TLSSecret)
  next
    case Deployment
    then show ?thesis using create_it_Ok [OF assms(1)] assms(2) by fastforce
  next
    case Service
    then show ?thesis using create_it_Ok [OF assms(1)] assms(2) by fastforce
  next
    case ValidatingConfig
    then show ?thesis using create_it_Ok [OF assms(1)] assms(2,3) secret by (fastforce simp: secret_ca_def)
  next
    case MutatingConfig
    then show ?thesis using create_it_Ok [OF assms(1)] assms(2,3) secret by (fastforce simp: secret_ca_def)
  qed
qed

lemma fst_ensure_step: "fst (ensure_step K C clock m st w) = fst (step_call K C clock m st w)"
  unfolding ensure_step_def
  by (cases "step_call K C clock m st w"; cases "snd (step_call K C clock m st w)") simp_all

lemma ensure_step_Ok: "ensure_step K C clock m st w = (w', Ok ()) \<longleftrightarrow> step_call K C clock m st w = (w', Ok ())"
  by (auto simp: ensure_step_def res_simps)

interpretation inst: creator "direct_laws K" "ensure_step K C clock m" "step_key m" "ilook K" "step_built K C clock m"
  for K :: "('w, 'b) direct_client" and C :: "('s, 'k, 'p, 'b) crypto" and clock m
proof
  fix st w w'
  assume K: "direct_laws K" and "ensure_step K C clock m st w = (w', Ok ())"
  then have call: "step_call K C clock m st w = (w', Ok ())" by (simp add: ensure_step_Ok)
  have made: "\<exists>c. ilook K (step_key m st) w' = Some c \<and> (ilook K (step_key m st) w = None \<longrightarrow> step_built K C clock m w' st c)"
  proof (rule step_call_cases [OF K, of C clock m st w])
    fix r assume "step_call K C clock m st w = (w, r)" "r = Ok () \<longrightarrow> ilook K (step_key m st) w \<noteq> None"
    with call show ?thesis by auto
  next
    fix ca
    assume "step_call K C clock m st w = step_missing K C clock m st ca w"
      and "st \<in> {ValidatingConfig, MutatingConfig} \<Longrightarrow> ilook K (secret_key m) w \<noteq> None \<and> ca = secret_ca K m w"
    then show ?thesis using step_missing_Ok [OF K, of C clock m st ca w w'] call by auto
  qed
  then show "\<exists>c. ilook K (step_key m st) w' = Some c" by blast
  show "step_built K C clock m w' st c" if "ilook K (step_key m st) w = None" "ilook K (step_key m st) w' = Some c" for c
    using made that by auto
next
  fix st k w
  assume K: "direct_laws K"
  have other: "ilook K k (fst (step_call K C clock m st w)) = ilook K k w"
    if "k \<noteq> step_key m st \<or> ilook K k w \<noteq> None"
    by (rule step_call_cases [OF K, of C clock m st w]) (use that step_missing_other [OF K, of k m st C clock] in auto)
  show "ilook K k (fst (ensure_step K C clock m st w)) = Some c" if "ilook K k w = Some c" for c
    using other that by (simp add: fst_ensure_step)
  show "ilook K k (fst (ensure_step K C clock m st w)) = ilook K k w" if "k \<noteq> step_key m st"
    using other that by (simp add: fst_ensure_step)
next
  fix w w' :: "('w, 's) install_world" and st c
  assume b: "step_built K C clock m w st c" and keep: "\<And>k c. ilook K k w = Some c \<Longrightarrow> ilook K k w' = Some c"
  have "secret_ca K m w' = secret_ca K m w" if "ilook K (secret_key m) w \<noteq> None"
  proof -
    from that obtain sec where "ilook K (secret_key m) w = Some sec" by auto
    with keep [OF this] show ?thesis by (simp add: secret_ca_def)
  qed
  with b show "step_built K C clock m w' st c"
    using keep [of "secret_key m"] by (cases st) auto
qed


section \<open>A run\<close>

lemma EnsureAll_reaches:
  assumes "direct_laws K" and "EnsureAll K C clock m w = (w', Ok ())"
  shows EnsureAll_keeps: "ilook K k w = Some c \<Longrightarrow> ilook K k w' = Some c"
    and EnsureAll_there: "\<exists>c. ilook K (step_key m st) w' = Some c"
    and EnsureAll_builds: "ilook K (step_key m st) w = None \<Longrightarrow> ilook K (step_key m st) w' = Some c \<Longrightarrow>
      step_built K C clock m w' st c"
    and EnsureAll_other: "k \<notin> range (step_key m) \<Longrightarrow> ilook K k w' = ilook K k w"
proof -
  have run: "ensure_all (ensure_step K C clock m) install_steps w = (w', Ok ())"
    using assms(2) by (simp add: EnsureAll_steps)
  show "ilook K k w = Some c \<Longrightarrow> ilook K k w' = Some c"
    using inst.all_keeps [OF assms(1), of k w c C clock m install_steps] run by simp
  show "\<exists>c. ilook K (step_key m st) w' = Some c"
    using inst.all_there [OF assms(1) run, of st] by (simp add: set_install_steps)
  show "ilook K (step_key m st) w = None \<Longrightarrow> ilook K (step_key m st) w' = Some c \<Longrightarrow>
      step_built K C clock m w' st c"
    using inst.all_built [OF assms(1) run, of st] distinct_step_keys by (simp add: set_install_steps)
  show "k \<notin> range (step_key m) \<Longrightarrow> ilook K k w' = ilook K k w"
    using inst.all_other [OF assms(1), of k m install_steps C clock w] run by (simp add: set_install_steps)
qed

text \<open>
  C15: a successful \<open>EnsureAll\<close> leaves every object that was there as it was, the five objects are
  there, and those that were missing are the ones built, the two configurations with the
  certificate that the stored secret holds. Nothing else changes.
\<close>

theorem EnsureAll_outcome:
  assumes "direct_laws K" and "EnsureAll K C clock m w = (w', Ok ())"
  shows "(\<forall>k c. ilook K k w = Some c \<longrightarrow> ilook K k w' = Some c)
    \<and> (\<forall>st. \<exists>c. ilook K (step_key m st) w' = Some c
           \<and> (ilook K (step_key m st) w = None \<longrightarrow> step_built K C clock m w' st c))
    \<and> (\<forall>k. k \<notin> range (step_key m) \<longrightarrow> ilook K k w' = ilook K k w)"
  using EnsureAll_reaches [OF assms] by metis

text \<open>
  C29: a run that fails on the way leaves no webhook configuration behind that the API server could
  not follow: one that the run created, whatever the run's outcome, comes after the secret, the
  deployment and the service.
\<close>

theorem configuration_after_server:
  assumes "direct_laws K" and "st \<in> {ValidatingConfig, MutatingConfig}"
    and "ilook K (step_key m st) w = None"
    and "ilook K (step_key m st) (fst (EnsureAll K C clock m w)) = Some c"
    and "p \<in> {TLSSecret, Deployment, Service}"
  shows "\<exists>d. ilook K (step_key m p) (fst (EnsureAll K C clock m w)) = Some d"
proof -
  have split: "install_steps = [TLSSecret, Deployment, Service] @ ValidatingConfig # [MutatingConfig]"
    "install_steps = [TLSSecret, Deployment, Service, ValidatingConfig] @ MutatingConfig # []"
    by (simp_all add: install_steps_def)
  show ?thesis
  proof (cases "st = ValidatingConfig")
    case True
    show ?thesis
      using assms(3,4) unfolding EnsureAll_steps split(1) True
      by (rule inst.all_in_order [OF assms(1)]) (use assms(5) in \<open>auto simp del: step_key.simps\<close>)
  next
    case False
    with assms(2) have st: "st = MutatingConfig" by simp
    show ?thesis
      using assms(3,4) unfolding EnsureAll_steps split(2) st
      by (rule inst.all_in_order [OF assms(1)]) (use assms(5) in \<open>auto simp del: step_key.simps\<close>)
  qed
qed

text \<open>A second run finds everything in place and changes nothing, the random source included.\<close>

definition answers :: "('w, 'b) direct_client \<Rightarrow> 'w \<Rightarrow> bool" where
  "answers K w \<longleftrightarrow> (\<forall>k. dc_get K k w = (case dc_stored K k w of None \<Rightarrow> Err NotFound | Some o1 \<Rightarrow> Ok o1))"

lemma step_call_in_place:
  assumes "answers K (iw_kube w)" "ilook K (secret_key m) w \<noteq> None" "ilook K (step_key m st) w \<noteq> None"
  shows "step_call K C clock m st w = (w, Ok ())"
proof -
  have get: "dc_get K k (iw_kube w) = Ok o1" if "ilook K k w = Some o1" for k o1
    using assms(1) [unfolded answers_def, rule_format, of k] that by (simp add: ilook_def)
  obtain s o1 where "ilook K (secret_key m) w = Some s" "ilook K (step_key m st) w = Some o1"
    using assms(2,3) by auto
  note get [OF this(1)] get [OF this(2)]
  then show ?thesis
    by (cases st) (simp_all add: ensureTLSSecret_def ensureDeployment_def ensureService_def unless_exists_def
        ensureValidatingWebhookConfig_def ensureMutatingWebhookConfiguration_def with_secret_def)
qed

lemma EnsureAll_again:
  assumes "direct_laws K" "EnsureAll K C clock m w = (w', Ok ())" "answers K (iw_kube w')"
  shows "EnsureAll K C clock' m w' = (w', Ok ())"
proof -
  have there: "ilook K (step_key m st) w' \<noteq> None" for st
    using EnsureAll_there [OF assms(1,2), of st] by auto
  have "ensure_step K C clock' m st w' = (w', Ok ())" for st
    using step_call_in_place [OF assms(3), of m st C clock'] there [of TLSSecret] there [of st]
    by (simp add: ensure_step_Ok)
  then have "ensure_all (ensure_step K C clock' m) sts w' = (w', Ok ())" for sts
    by (induction sts) simp_all
  then show ?thesis by (simp add: EnsureAll_steps)
qed


section \<open>Progress\<close>

definition responsive :: "('w, 'b) direct_client \<Rightarrow> bool" where
  "responsive K \<longleftrightarrow> (\<forall>w. answers K w)
     \<and> (\<forall>o1 w. dc_stored K (ikey o1) w = None \<longrightarrow> (\<exists>w' o'. dc_create K o1 w = (w', Ok o')))"

definition crypto_works :: "('s, 'k, 'p, 'b) crypto \<Rightarrow> bool" where
  "crypto_works C \<longleftrightarrow> (\<forall>s. \<exists>s' k. cy_GenerateKey C s = (s', Ok k))
     \<and> (\<forall>t p pub k s. \<exists>s' der. cy_CreateCertificate C t p pub k s = (s', Ok der))
     \<and> (\<forall>k. \<exists>d. cy_MarshalECPrivateKey C k = Ok d)"

lemma crypto_worksD:
  assumes "crypto_works C"
  shows "\<exists>s' k. cy_GenerateKey C s = (s', Ok k)" "\<exists>s' der. cy_CreateCertificate C t p pub k s = (s', Ok der)"
    "\<exists>d. cy_MarshalECPrivateKey C k = Ok d"
  using assms unfolding crypto_works_def by blast+

lemma GenerateCA_works:
  assumes "crypto_works C"
  shows "\<exists>s' ca key. GenerateCA C clock s = (s', Ok (ca, key))"
proof -
  obtain s1 k where k: "cy_GenerateKey C s = (s1, Ok k)" using crypto_worksD(1) [OF assms] by blast
  obtain s2 der where der: "cy_CreateCertificate C (ca_template clock) (ca_template clock) (cy_Public C k) k s1 = (s2, Ok der)"
    using crypto_worksD(2) [OF assms] by blast
  obtain d where "cy_MarshalECPrivateKey C k = Ok d" using crypto_worksD(3) [OF assms] by blast
  with k der show ?thesis by (simp add: GenerateCA_def)
qed

lemma GenerateServerCert_works:
  assumes "crypto_works C" "crypto_laws C" "GenerateCA C clock s0 = (s1, Ok (ca, cakey))"
  shows "\<exists>s' cert key. GenerateServerCert C clock' ca cakey s = (s', Ok (cert, key))"
proof -
  from assms(3) obtain k r der kb where
    root: "cy_CreateCertificate C (ca_template clock) (ca_template clock) (cy_Public C k) k r = (s1, Ok der)"
    and kb: "cy_MarshalECPrivateKey C k = Ok kb" "ca = pem C ''CERTIFICATE'' der" "cakey = pem C ''EC PRIVATE KEY'' kb"
    by (rule GenerateCA_Ok)
  let ?root = "issued (ca_template clock) (ca_template clock) (cy_Public C k)"
  obtain s2 sk where sk: "cy_GenerateKey C s = (s2, Ok sk)" using crypto_worksD(1) [OF assms(1)] by blast
  obtain s3 leaf where leaf: "cy_CreateCertificate C (server_template clock') ?root (cy_Public C sk) k s2 = (s3, Ok leaf)"
    using crypto_worksD(2) [OF assms(1)] by blast
  obtain d where "cy_MarshalECPrivateKey C sk = Ok d" using crypto_worksD(3) [OF assms(1)] by blast
  with sk leaf show ?thesis
    using crypto_lawsD(3) [OF assms(2) root] crypto_lawsD(2) [OF assms(2) kb(1)]
    by (simp add: GenerateServerCert_def kb(2,3) pem_def crypto_lawsD(1) [OF assms(2)])
qed

lemma create_it_works:
  assumes "responsive K" "ilook K (ikey o1) w = None"
  shows "\<exists>w'. create_it K f o1 w = (w', Ok ())"
proof -
  obtain k' o' where "dc_create K o1 (iw_kube w) = (k', Ok o')"
    using assms unfolding responsive_def ilook_def by blast
  then show ?thesis by (simp add: create_it_def on_cluster_def)
qed

lemma step_missing_works:
  assumes "responsive K" "crypto_works C" "crypto_laws C" "ilook K (step_key m st) w = None"
  shows "\<exists>w'. step_missing K C clock m st ca w = (w', Ok ())"
proof (cases st)
  case TLSSecret
  obtain s1 a b where ca: "GenerateCA C (fst clock) (iw_rand w) = (s1, Ok (a, b))"
    using GenerateCA_works [OF assms(2)] by blast
  obtain s2 cert key where server: "GenerateServerCert C (snd clock) a b s1 = (s2, Ok (cert, key))"
    using GenerateServerCert_works [OF assms(2,3) ca] by blast
  have "\<exists>w'. create_it K ''failed to create secret'' (build_secret m a cert key) (w\<lparr>iw_rand := s2\<rparr>) = (w', Ok ())"
    using assms(4) by (intro create_it_works [OF assms(1)]) (simp add: TLSSecret)
  then show ?thesis by (simp add: TLSSecret on_rand_def ca server)
qed (use assms in \<open>simp_all add: create_it_works\<close>)

lemma step_call_works:
  assumes "responsive K" "crypto_works C" "crypto_laws C" "st = TLSSecret \<or> ilook K (secret_key m) w \<noteq> None"
  shows "\<exists>w'. step_call K C clock m st w = (w', Ok ())"
proof -
  have get: "dc_get K k (iw_kube w) = (case ilook K k w of None \<Rightarrow> Err NotFound | Some o1 \<Rightarrow> Ok o1)" for k
    using assms(1) unfolding responsive_def answers_def ilook_def by blast
  have missing: "\<exists>w'. unless_exists K (step_key m st) f (step_missing K C clock m st ca) w = (w', Ok ())" for f ca
    using step_missing_works [OF assms(1-3), of m st w clock ca]
    by (cases "ilook K (step_key m st) w") (simp_all add: unless_exists_def get)
  show ?thesis
  proof (cases "ilook K (secret_key m) w")
    case None
    with assms(4) have st: "st = TLSSecret" by simp
    show ?thesis using missing [of "''failed to get secret''" None] by (simp add: st ensureTLSSecret_def)
  next
    case (Some sec)
    then have "with_secret K m k w = k (map_of (data_of sec) ''ca.crt'') w" for k :: "'b option \<Rightarrow> ('a, 'c) install_call"
      by (simp add: with_secret_def get)
    then show ?thesis
      using missing
      by (cases st) (fastforce simp: ensureTLSSecret_def ensureDeployment_def ensureService_def
          ensureValidatingWebhookConfig_def ensureMutatingWebhookConfiguration_def)+
  qed
qed

lemma EnsureAll_works:
  assumes "direct_laws K" "responsive K" "crypto_laws C" "crypto_works C"
  shows "\<exists>w'. EnsureAll K C clock m w = (w', Ok ())"
proof -
  have rest: "\<exists>w'. ensure_all (ensure_step K C clock m) sts w = (w', Ok ())"
    if "ilook K (secret_key m) w \<noteq> None" for sts w
    using that
  proof (induction sts arbitrary: w)
    case (Cons st sts)
    obtain w1 where w1: "ensure_step K C clock m st w = (w1, Ok ())"
      using step_call_works [OF assms(2,4,3), of st m w clock] Cons.prems by (auto simp: ensure_step_Ok)
    then have "ilook K (secret_key m) w1 \<noteq> None"
      using inst.ensure_keeps [OF assms(1), of "secret_key m" w _ C clock m st] Cons.prems by auto
    with Cons.IH w1 show ?case by simp
  qed simp
  obtain w1 where w1: "ensure_step K C clock m TLSSecret w = (w1, Ok ())"
    using step_call_works [OF assms(2,4,3), of TLSSecret m w clock] by (auto simp: ensure_step_Ok)
  then have "ilook K (secret_key m) w1 \<noteq> None" using inst.ensure_there [OF assms(1) w1] by auto
  then obtain w' where "ensure_all (ensure_step K C clock m) (tl install_steps) w1 = (w', Ok ())"
    using rest by blast
  then show ?thesis
    using w1 by (simp add: EnsureAll_steps install_steps_def)
qed

text \<open>
  Against a server that answers, and with cryptography that works, \<open>EnsureAll\<close> succeeds from
  every cluster, whichever of the objects are there already; a second run succeeds too and leaves
  cluster and random source as they are.
\<close>

theorem EnsureAll_succeeds:
  assumes "direct_laws K" "responsive K" "crypto_laws C" "crypto_works C"
  shows "\<exists>w'. EnsureAll K C clock m w = (w', Ok ()) \<and> EnsureAll K C clock' m w' = (w', Ok ())"
proof -
  obtain w' where "EnsureAll K C clock m w = (w', Ok ())" using EnsureAll_works [OF assms] by blast
  moreover have "answers K (iw_kube w')" using assms(2) by (simp add: responsive_def)
  ultimately show ?thesis using EnsureAll_again [OF assms(1)] by blast
qed


section \<open>A server in memory\<close>

text \<open>An instance of the client, used to show that the laws can hold and to run the manager.\<close>

type_synonym 'b mem_store = "(install_key \<times> 'b install_obj) list"

definition mem_direct :: "('b mem_store, 'b) direct_client" where
  "mem_direct =
     \<lparr>dc_get = (\<lambda>k w. case map_of w k of None \<Rightarrow> Err NotFound
                       | Some o1 \<Rightarrow> if ikey o1 = k then Ok o1 else Err NotFound),
      dc_create = (\<lambda>o1 w. case map_of w (ikey o1) of
          None \<Rightarrow> ((ikey o1, o1) # w, Ok o1)
        | Some c \<Rightarrow> if ikey c = ikey o1 then (w, Err AlreadyExists) else ((ikey o1, o1) # w, Ok o1)),
      dc_stored = (\<lambda>k w. case map_of w k of None \<Rightarrow> None | Some o1 \<Rightarrow> if ikey o1 = k then Some o1 else None)\<rparr>"

lemma mem_direct_laws: "direct_laws mem_direct"
  by (auto simp: direct_laws_def mem_direct_def stored_from_def split: option.splits if_splits)

lemma mem_direct_responsive: "responsive mem_direct"
  by (auto simp: responsive_def answers_def mem_direct_def split: option.splits if_splits)

lemma demo_crypto_works: "crypto_works demo_crypto"
  by (simp add: crypto_works_def demo_crypto_def)

definition demo_manager :: webhook_manager where
  "demo_manager = \<lparr>wm_Namespace = ''k8s-mtp'', wm_Image = ''webhook:1''\<rparr>"

definition demo_clock :: install_clock where
  "demo_clock = ((0, 0), (0, 0))"

definition fresh_cluster :: "(blob mem_store, nat) install_world" where
  "fresh_cluster = \<lparr>iw_kube = [], iw_rand = 0\<rparr>"

definition demo_install :: "(blob mem_store, nat) install_world" where
  "demo_install = fst (EnsureAll mem_direct demo_crypto demo_clock demo_manager fresh_cluster)"

lemma demo_install_Ok: "EnsureAll mem_direct demo_crypto demo_clock demo_manager fresh_cluster = (demo_install, Ok ())"
proof -
  obtain w' where "EnsureAll mem_direct demo_crypto demo_clock demo_manager fresh_cluster = (w', Ok ())"
    using EnsureAll_works [OF mem_direct_laws mem_direct_responsive demo_crypto_laws demo_crypto_works] by blast
  then show ?thesis by (simp add: demo_install_def)
qed

lemma fresh_cluster_empty [simp]: "ilook mem_direct k fresh_cluster = None"
  by (simp add: ilook_def mem_direct_def fresh_cluster_def)

theorem EnsureAll_outcome_witness:
  "\<exists>c. ilook mem_direct (ServiceKind, ''k8s-mtp'', ''webhook-svc'') demo_install = Some c
     \<and> stored_from c (build_service demo_manager)"
proof -
  have "\<forall>st. \<exists>c. ilook mem_direct (step_key demo_manager st) demo_install = Some c
      \<and> step_built mem_direct demo_crypto demo_clock demo_manager demo_install st c"
    using EnsureAll_outcome [OF mem_direct_laws demo_install_Ok] by simp
  from spec [OF this, of Service] show ?thesis by (simp add: demo_manager_def)
qed

theorem EnsureAll_succeeds_witness:
  "\<exists>w'. EnsureAll mem_direct demo_crypto ((1, 2), (3, 4)) demo_manager fresh_cluster = (w', Ok ())"
  using EnsureAll_succeeds [OF mem_direct_laws mem_direct_responsive demo_crypto_laws demo_crypto_works,
      of "((1, 2), (3, 4))" demo_manager fresh_cluster] by blast

theorem configuration_after_server_witness:
  "\<exists>d. ilook mem_direct (secret_key demo_manager) demo_install = Some d"
proof -
  obtain c where "ilook mem_direct (step_key demo_manager MutatingConfig) demo_install = Some c"
    using EnsureAll_there [OF mem_direct_laws demo_install_Ok] by blast
  then show ?thesis
    using configuration_after_server [OF mem_direct_laws, of MutatingConfig demo_manager fresh_cluster
        demo_crypto demo_clock c TLSSecret]
    by (simp add: demo_install_Ok)
qed

text \<open>
  A secret that was deleted is made again with a new authority, but the configurations are kept:
  their bundle stays that of the old authority, which the new certificate does not verify under.
\<close>

lemma stale_bundle:
  assumes "direct_laws K" "EnsureAll K C clock m w = (w', Ok ())"
    and "ilook K (step_key m ValidatingConfig) w = Some c" "ilook K (secret_key m) w = None"
  shows "ilook K (step_key m ValidatingConfig) w' = Some c
    \<and> (\<exists>s s1 ca cakey. GenerateCA C (fst clock) s = (s1, Ok (ca, cakey)) \<and> secret_ca K m w' = Some ca)"
proof -
  obtain sec where sec: "ilook K (secret_key m) w' = Some sec"
    using EnsureAll_there [OF assms(1,2), of TLSSecret] by auto
  then obtain s s1 ca cakey cert key where ca: "GenerateCA C (fst clock) s = (s1, Ok (ca, cakey))"
    and "stored_from sec (build_secret m ca cert key)"
    using EnsureAll_builds [OF assms(1,2), of TLSSecret sec] assms(4) by auto
  then have "data_of sec = [(''ca.crt'', ca), (''tls.crt'', cert), (''tls.key'', key)]"
    by (cases sec; cases "case sec of ISecret x \<Rightarrow> x") (simp_all add: stored_from_def build_secret_def)
  then show ?thesis
    using EnsureAll_keeps [OF assms(1-3)] ca sec by (auto simp: secret_ca_def)
qed

end
