(* ===== verification/Webhook_Server.thy ===== *)
theory Webhook_Server
  imports K8s_Types
begin

text \<open>
  The admission webhook server, \<open>cmd/webhook/main.go\<close>: the validating handler
  (\<open>validatePodHandler\<close> and the checks it calls) and the mutating handler
  (\<open>mutatePodHandler\<close>). JSON decoding is a parameter (\<open>webhook_codec\<close>); the answer is
  kept as the value the code encodes. Logging is left out.
\<close>

section \<open>Data\<close>

record security_context =
  sc_privileged :: "bool option"
  sc_runAsNonRoot :: "bool option"
  sc_runAsUser :: "int option"
  sc_readOnlyRootFilesystem :: "bool option"
  sc_allowPrivilegeEscalation :: "bool option"

record 'q container =
  c_name :: string
  c_limits :: "'q resource_list option"            \<comment> \<open>\<open>None\<close> is the nil map\<close>
  c_securityContext :: "security_context option"

record 'q ephemeral_container =
  ec_name :: string
  ec_limits :: "'q resource_list option"
  ec_securityContext :: "security_context option"

record 'q pod =
  p_containers :: "'q container list"
  p_initContainers :: "'q container list"
  p_ephemeralContainers :: "'q ephemeral_container list"

record status =
  st_status :: string
  st_message :: string
  st_reason :: string
  st_code :: int

definition empty_status :: status where
  "empty_status = \<lparr>st_status = [], st_message = [], st_reason = [], st_code = 0\<rparr>"

definition failure :: "string \<Rightarrow> string \<Rightarrow> status" where
  "failure msg reason =
     \<lparr>st_status = ''Failure'', st_message = msg, st_reason = reason, st_code = 400\<rparr>"


section \<open>The checks\<close>

definition validateContainer :: "'q quantity_api \<Rightarrow> 'q container \<Rightarrow> bool \<times> status" where
  "validateContainer Q c =
     (case c_limits c of
        None \<Rightarrow> (False, failure (''Container '' @ c_name c @ '' must have resource limits'')
                                ''MissingResourceLimits'')
      | Some limits \<Rightarrow>
        if qa_is_zero Q (resource_of Q limits ''cpu'') then
          (False, failure (''Container '' @ c_name c @ '' must have CPU limits'')
                          ''MissingCPULimit'')
        else if qa_is_zero Q (resource_of Q limits ''memory'') then
          (False, failure (''Container '' @ c_name c @ '' must have Memory limits'')
                          ''MissingMemoryLimit'')
        else (case c_securityContext c of
          None \<Rightarrow> (False, failure (''Container '' @ c_name c @ '' must have SecurityContext defined'')
                                  ''MissingSecurityContext'')
        | Some sc \<Rightarrow>
          if sc_privileged sc = Some True \<or> sc_runAsNonRoot sc = Some False
             \<or> sc_runAsUser sc = Some 0 then
            (False, failure (''Container '' @ c_name c @ '' failed privilege check'') ''Conflict'')
          else if sc_readOnlyRootFilesystem sc = Some False
                  \<or> sc_readOnlyRootFilesystem sc = None then
            (False, failure (''Container '' @ c_name c @ '' must have read only root filesystem'')
                            ''Conflict'')
          else if sc_allowPrivilegeEscalation sc = Some True
                  \<or> sc_allowPrivilegeEscalation sc = None then
            (False, failure (''Container '' @ c_name c
                             @ '' must not be allowed to escalete privileges'') ''Conflict'')
          else (True, empty_status)))"

definition validateEphemeralContainer ::
    "'q quantity_api \<Rightarrow> 'q ephemeral_container \<Rightarrow> bool \<times> status" where
  "validateEphemeralContainer Q c =
     (case ec_limits c of
        None \<Rightarrow> (False, failure (''Container '' @ ec_name c @ '' must have resource limits'')
                                ''MissingResourceLimits'')
      | Some limits \<Rightarrow>
        if qa_is_zero Q (resource_of Q limits ''cpu'') then
          (False, failure (''Container '' @ ec_name c @ '' must have CPU limits'')
                          ''MissingCPULimit'')
        else if qa_is_zero Q (resource_of Q limits ''memory'') then
          (False, failure (''Container '' @ ec_name c @ '' must have Memory limits'')
                          ''MissingMemoryLimit'')
        else (case ec_securityContext c of
          None \<Rightarrow> (False, failure (''Container '' @ ec_name c @ '' must have SecurityContext defined'')
                                  ''MissingSecurityContext'')
        | Some sc \<Rightarrow>
          if sc_privileged sc = Some True \<or> sc_runAsNonRoot sc = Some False
             \<or> sc_runAsUser sc = Some 0 then
            (False, failure (''Container '' @ ec_name c @ '' failed privilege check'') ''Conflict'')
          else if sc_readOnlyRootFilesystem sc = Some False
                  \<or> sc_readOnlyRootFilesystem sc = None then
            (False, failure (''Container '' @ ec_name c @ '' must have read only root filesystem'')
                            ''Conflict'')
          else if sc_allowPrivilegeEscalation sc = Some True
                  \<or> sc_allowPrivilegeEscalation sc = None then
            (False, failure (''Container '' @ ec_name c
                             @ '' must not be allowed to escalete privileges'') ''Conflict'')
          else (True, empty_status)))"

text \<open>
  The loop \<open>for _, c := range cs { if allowed, status := check(c); !allowed { return allowed,
  status } }\<close>: the first denial, if any.
\<close>

fun first_denied :: "('c \<Rightarrow> bool \<times> status) \<Rightarrow> 'c list \<Rightarrow> (bool \<times> status) option" where
  "first_denied check [] = None"
| "first_denied check (c # cs) =
     (if \<not> fst (check c) then Some (check c) else first_denied check cs)"

definition validatePodResource :: "'q quantity_api \<Rightarrow> 'q pod \<Rightarrow> bool \<times> status" where
  "validatePodResource Q pod =
     (case first_denied (validateContainer Q) (p_containers pod) of
        Some r \<Rightarrow> r
      | None \<Rightarrow>
        (case first_denied (validateContainer Q) (p_initContainers pod) of
           Some r \<Rightarrow> r
         | None \<Rightarrow>
           (case first_denied (validateEphemeralContainer Q) (p_ephemeralContainers pod) of
              Some r \<Rightarrow> r
            | None \<Rightarrow> (True, empty_status\<lparr>st_status := ''Success''\<rparr>))))"

definition system_namespaces :: "(string, bool) gomap" where
  "system_namespaces =
     [(''kube-system'', True), (''kube-public'', True), (''kube-node-lease'', True),
      (''default'', True), (''k8s-mtp'', True)]"

definition shouldValidateNamespace :: "string \<Rightarrow> bool" where
  "shouldValidateNamespace ns =
     (if gm_get False system_namespaces ns then False else hasPrefix ns ''tenant-'')"


section \<open>The handlers\<close>

record admission_request =
  rq_uid :: string
  rq_namespace :: string
  rq_raw :: string

datatype patch_value = PObj "(string, string) gomap" | PStr string

record patch_op =
  po_op :: string
  po_path :: string
  po_value :: patch_value

record admission_response =
  ar_uid :: string
  ar_allowed :: bool
  ar_result :: "status option"
  ar_patch :: "patch_op list option"
  ar_patchType :: "string option"

record admission_review =
  rv_apiVersion :: string
  rv_kind :: string
  rv_response :: admission_response

text \<open>
  \<open>json.Unmarshal\<close> of the review and of the pod. The review's \<open>Request\<close> field is a
  pointer: a document without it decodes to the nil pointer.
\<close>

record 'q webhook_codec =
  dec_review :: "string \<Rightarrow> admission_request option option"
  dec_pod :: "string \<Rightarrow> 'q pod option"

type_synonym http_error = "nat \<times> string"

definition skip_review :: "string \<Rightarrow> admission_review" where
  \<comment> \<open>the answer for a namespace that is not a tenant's: no \<open>TypeMeta\<close> is set\<close>
  "skip_review uid =
     \<lparr>rv_apiVersion = [], rv_kind = [],
      rv_response = \<lparr>ar_uid = uid, ar_allowed = True,
        ar_result = Some (empty_status\<lparr>st_status := ''Success''\<rparr>),
        ar_patch = None, ar_patchType = None\<rparr>\<rparr>"

definition validatePodHandler ::
    "'q webhook_codec \<Rightarrow> 'q quantity_api \<Rightarrow> string option \<Rightarrow> (http_error, admission_review) res"
  where
  \<comment> \<open>the body is \<open>None\<close> when reading it fails\<close>
  "validatePodHandler D Q body =
     (case body of
        None \<Rightarrow> Err (400, ''Failed to read body'')
      | Some b \<Rightarrow>
        (case dec_review D b of
           None \<Rightarrow> Err (400, ''Failed to unmarshal json'')
         | Some None \<Rightarrow> Panic NilDeref
         | Some (Some rq) \<Rightarrow>
           if \<not> shouldValidateNamespace (rq_namespace rq) then Ok (skip_review (rq_uid rq))
           else
             (case dec_pod D (rq_raw rq) of
                None \<Rightarrow> Err (400, ''Failed to unmarshal json'')
              | Some pod \<Rightarrow>
                (let (allowed, reason) = validatePodResource Q pod in
                 Ok \<lparr>rv_apiVersion = ''admission.k8s.io/v1'', rv_kind = ''AdmissionReview'',
                     rv_response = \<lparr>ar_uid = rq_uid rq, ar_allowed = allowed,
                       ar_result = Some (empty_status\<lparr>st_message := st_message reason\<rparr>),
                       ar_patch = None, ar_patchType = None\<rparr>\<rparr>))))"

definition label_patches :: "string \<Rightarrow> (http_error, patch_op list) res" where
  "label_patches namespace =
     res_bind (go_index (split_on CHR ''-'' namespace) 1) (\<lambda>name.
     res_bind (go_index (split_on CHR ''-'' namespace) 2) (\<lambda>tier.
       Ok [\<lparr>po_op = ''add'', po_path = ''/metadata/labels'', po_value = PObj []\<rparr>,
           \<lparr>po_op = ''add'', po_path = ''/metadata/labels/tenant.k8s-mtp.io~1name'',
            po_value = PStr name\<rparr>,
           \<lparr>po_op = ''add'', po_path = ''/metadata/labels/tenant.k8s-mtp.io~1tier'',
            po_value = PStr tier\<rparr>]))"

definition mutatePodHandler ::
    "'q webhook_codec \<Rightarrow> string option \<Rightarrow> (http_error, admission_review) res" where
  "mutatePodHandler D body =
     (case body of
        None \<Rightarrow> Err (400, ''Failed to read body'')
      | Some b \<Rightarrow>
        (case dec_review D b of
           None \<Rightarrow> Err (400, ''Failed to unmarshal json'')
         | Some None \<Rightarrow> Panic NilDeref
         | Some (Some rq) \<Rightarrow>
           if \<not> shouldValidateNamespace (rq_namespace rq) then Ok (skip_review (rq_uid rq))
           else
             res_bind (label_patches (rq_namespace rq)) (\<lambda>patches.
               Ok \<lparr>rv_apiVersion = ''admission.k8s.io/v1'', rv_kind = ''AdmissionReview'',
                   rv_response = \<lparr>ar_uid = rq_uid rq, ar_allowed = True, ar_result = None,
                     ar_patch = Some patches, ar_patchType = Some ''JSONPatch''\<rparr>\<rparr>)))"


section \<open>The contract of a container check\<close>

text \<open>
  What admission promises of one container: resource limits with non-zero CPU and memory,
  a security context with a read-only root filesystem and no privilege escalation, and no
  setting that asks for privileges or for the root user.
\<close>

definition hardened ::
    "'q quantity_api \<Rightarrow> 'q resource_list option \<Rightarrow> security_context option \<Rightarrow> bool" where
  "hardened Q limits sec \<longleftrightarrow>
     (\<exists>ls sc. limits = Some ls \<and> sec = Some sc
        \<and> \<not> qa_is_zero Q (resource_of Q ls ''cpu'') \<and> \<not> qa_is_zero Q (resource_of Q ls ''memory'')
        \<and> sc_readOnlyRootFilesystem sc = Some True \<and> sc_allowPrivilegeEscalation sc = Some False
        \<and> sc_privileged sc \<noteq> Some True \<and> sc_runAsNonRoot sc \<noteq> Some False
        \<and> sc_runAsUser sc \<noteq> Some 0)"

definition hardened_container :: "'q quantity_api \<Rightarrow> 'q container \<Rightarrow> bool" where
  "hardened_container Q c = hardened Q (c_limits c) (c_securityContext c)"

definition hardened_ephemeral :: "'q quantity_api \<Rightarrow> 'q ephemeral_container \<Rightarrow> bool" where
  "hardened_ephemeral Q c = hardened Q (ec_limits c) (ec_securityContext c)"

definition hardened_pod :: "'q quantity_api \<Rightarrow> 'q pod \<Rightarrow> bool" where
  "hardened_pod Q pod \<longleftrightarrow>
     list_all (hardened_container Q) (p_containers pod)
     \<and> list_all (hardened_container Q) (p_initContainers pod)
     \<and> list_all (hardened_ephemeral Q) (p_ephemeralContainers pod)"

text \<open>
  The loops of \<open>validatePodResource\<close> rely on this much of a check: it decides a condition
  on the container, and a denial carries a failure status.
\<close>

locale container_check =
  fixes check :: "'c \<Rightarrow> bool \<times> status" and secure :: "'c \<Rightarrow> bool"
  assumes decides: "fst (check c) = secure c"
    and denial_status: "\<not> secure c \<Longrightarrow> st_status (snd (check c)) = ''Failure''"
begin

lemma first_denied_None_iff: "first_denied check cs = None \<longleftrightarrow> list_all secure cs"
  by (induction cs) (auto simp: decides)

lemma first_denied_find: "first_denied check cs = find (\<lambda>r. \<not> fst r) (map check cs)"
  by (induction cs) auto

lemma first_denied_SomeD:
  "first_denied check cs = Some r \<Longrightarrow>
     \<not> fst r \<and> st_status (snd r) = ''Failure''
     \<and> (\<exists>c \<in> set cs. \<not> secure c \<and> r = check c)"
  by (induction cs) (auto simp: decides denial_status split: if_splits)

end

lemma validateContainer_decides: "fst (validateContainer Q c) = hardened_container Q c"
  by (auto simp: validateContainer_def hardened_container_def hardened_def
           split: option.splits)

text \<open>The second check is the first one on the same data: the two copies agree.\<close>

definition as_container :: "'q ephemeral_container \<Rightarrow> 'q container" where
  "as_container c = \<lparr>c_name = ec_name c, c_limits = ec_limits c,
     c_securityContext = ec_securityContext c\<rparr>"

lemma ephemeral_as_container:
  "validateEphemeralContainer Q c = validateContainer Q (as_container c)"
  by (simp add: validateEphemeralContainer_def validateContainer_def as_container_def
        split: option.split)

lemma hardened_as_container: "hardened_container Q (as_container c) = hardened_ephemeral Q c"
  by (simp add: hardened_container_def hardened_ephemeral_def as_container_def)

lemma validateContainer_denial:
  "\<not> fst (validateContainer Q c) \<Longrightarrow> st_status (snd (validateContainer Q c)) = ''Failure''"
  by (auto simp: validateContainer_def failure_def split: option.splits if_splits)

interpretation ctr: container_check "validateContainer Q" "hardened_container Q" for Q
  by unfold_locales (auto simp: validateContainer_decides validateContainer_denial)

interpretation eph: container_check "validateEphemeralContainer Q" "hardened_ephemeral Q" for Q
  by unfold_locales
    (auto simp: ephemeral_as_container validateContainer_decides hardened_as_container
       validateContainer_denial)


section \<open>Properties of the validating webhook\<close>

lemma validatePodResource_admits: "fst (validatePodResource Q pod) \<longleftrightarrow> hardened_pod Q pod"
  by (auto simp: validatePodResource_def hardened_pod_def ctr.first_denied_None_iff
             eph.first_denied_None_iff split: option.splits
           dest: ctr.first_denied_SomeD eph.first_denied_SomeD
           simp flip: ctr.first_denied_None_iff eph.first_denied_None_iff)

text \<open>
  \<open>validatePodResource\<close> admits exactly the pods all of whose containers (ordinary,
  init and ephemeral) are hardened.
\<close>

theorem validatePodResource_iff: "fst (validatePodResource Q pod) \<longleftrightarrow> hardened_pod Q pod"
  by (rule validatePodResource_admits)

text \<open>
  The verdict is that of the first container denied, in the order containers, init
  containers, ephemeral containers; with no denial it is success.
\<close>

theorem validatePodResource_first:
  "validatePodResource Q pod =
     (case find (\<lambda>r. \<not> fst r)
             (map (validateContainer Q) (p_containers pod @ p_initContainers pod)
              @ map (validateEphemeralContainer Q) (p_ephemeralContainers pod)) of
        Some r \<Rightarrow> r
      | None \<Rightarrow> (True, empty_status\<lparr>st_status := ''Success''\<rparr>))"
  by (simp add: validatePodResource_def ctr.first_denied_find eph.first_denied_find
        find_append split: option.split)

text \<open>
  The table of system namespaces changes nothing: none of its names starts with the
  prefix of a tenant namespace.
\<close>

lemma shouldValidateNamespace_iff [simp]:
  "shouldValidateNamespace ns \<longleftrightarrow> hasPrefix ns ''tenant-''"
  by (auto simp: shouldValidateNamespace_def system_namespaces_def gm_get_def hasPrefix_def
           split: if_splits)

text \<open>
  C1: on a request that decodes, the validating handler answers with the request's UID,
  and allows it exactly if the namespace is not a tenant's or the pod is hardened.
\<close>

theorem validatePodHandler_decision:
  assumes "dec_review D b = Some (Some rq)" and "dec_pod D (rq_raw rq) = Some pod"
  shows "\<exists>rv. validatePodHandler D Q (Some b) = Ok rv
           \<and> ar_uid (rv_response rv) = rq_uid rq
           \<and> (ar_allowed (rv_response rv) \<longleftrightarrow>
                \<not> hasPrefix (rq_namespace rq) ''tenant-'' \<or> hardened_pod Q pod)"
  using assms
  by (simp add: validatePodHandler_def skip_review_def validatePodResource_admits [symmetric]
        split: prod.splits)

text \<open>A pod that passes, and one that is denied for its third container only.\<close>

definition sample_security :: security_context where
  "sample_security = \<lparr>sc_privileged = None, sc_runAsNonRoot = None, sc_runAsUser = None,
     sc_readOnlyRootFilesystem = Some True, sc_allowPrivilegeEscalation = Some False\<rparr>"

definition sample_container :: "string container" where
  "sample_container = \<lparr>c_name = ''app'',
     c_limits = Some [(''cpu'', ''100m''), (''memory'', ''128Mi'')],
     c_securityContext = Some sample_security\<rparr>"

definition sample_pod :: "string pod" where
  "sample_pod = \<lparr>p_containers = [sample_container], p_initContainers = [sample_container],
     p_ephemeralContainers =
       [\<lparr>ec_name = ''debug'', ec_limits = Some [(''cpu'', ''100m'')],
         ec_securityContext = Some sample_security\<rparr>]\<rparr>"

definition sample_codec :: "string webhook_codec" where
  "sample_codec = \<lparr>
     dec_review = (\<lambda>b. if b = ''{}'' then Some None
       else Some (Some \<lparr>rq_uid = ''u1'', rq_namespace = b, rq_raw = ''pod''\<rparr>)),
     dec_pod = (\<lambda>_. Some sample_pod)\<rparr>"

lemmas sample_defs = sample_security_def sample_container_def sample_pod_def sample_codec_def
  text_quantities_def resource_of_def gm_get_def

theorem validatePodResource_iff_witness:
  "fst (validatePodResource text_quantities sample_pod) = False
   \<and> fst (validatePodResource text_quantities (sample_pod\<lparr>p_ephemeralContainers := []\<rparr>)) = True"
  using validatePodResource_iff [of text_quantities sample_pod]
    validatePodResource_iff [of text_quantities "sample_pod\<lparr>p_ephemeralContainers := []\<rparr>"]
  by (simp add: hardened_pod_def hardened_container_def hardened_ephemeral_def hardened_def
        sample_defs)

theorem validatePodHandler_decision_witness:
  "\<exists>rv. validatePodHandler sample_codec text_quantities (Some ''tenant-a-b'') = Ok rv
     \<and> ar_uid (rv_response rv) = ''u1'' \<and> \<not> ar_allowed (rv_response rv)"
  using validatePodHandler_decision
    [of sample_codec "''tenant-a-b''" "\<lparr>rq_uid = ''u1'', rq_namespace = ''tenant-a-b'', rq_raw = ''pod''\<rparr>"
      sample_pod text_quantities]
  by (simp add: hardened_pod_def hardened_container_def hardened_ephemeral_def hardened_def
        hasPrefix_def sample_defs)

text \<open>
  The README promises non-root containers; the check only rejects a container that says it
  wants root. A container that says nothing about its user passes.
\<close>

theorem unspecified_user_admitted:
  "hardened_container text_quantities sample_container
   \<and> sc_runAsNonRoot sample_security = None \<and> sc_runAsUser sample_security = None"
  by (simp add: hardened_container_def hardened_def sample_defs)


section \<open>Properties of the mutating webhook\<close>

lemma label_patches_panics_iff:
  assumes "hasPrefix ns ''tenant-''"
  shows "(\<exists>x. label_patches ns = Panic x) \<longleftrightarrow> CHR ''-'' \<notin> set (drop 7 ns)"
proof -
  from assms obtain r where r: "ns = ''tenant'' @ CHR ''-'' # r"
    by (auto simp: hasPrefix_def prefix_def)
  have split: "split_on CHR ''-'' ns = ''tenant'' # split_on CHR ''-'' r"
    unfolding r by (rule split_on_append) simp
  have "length (split_on CHR ''-'' r) \<ge> 2 \<longleftrightarrow> CHR ''-'' \<in> set r"
    by (auto simp: length_split_on filter_empty_conv Suc_le_eq)
  then show ?thesis
    by (cases "split_on CHR ''-'' r")
      (auto simp: label_patches_def split go_index_def r Suc_le_eq)
qed

text \<open>
  C36: the mutating handler panics exactly if the review has no request, or the namespace
  is \<open>tenant-\<close> followed by a name without a dash: the third piece of the namespace that
  the code indexes does not exist then.
\<close>

theorem mutatePodHandler_panics_iff:
  "(\<exists>x. mutatePodHandler D (Some b) = Panic x) \<longleftrightarrow>
     dec_review D b = Some None
     \<or> (\<exists>rq. dec_review D b = Some (Some rq) \<and> hasPrefix (rq_namespace rq) ''tenant-''
             \<and> CHR ''-'' \<notin> set (drop 7 (rq_namespace rq)))"
proof (cases "dec_review D b")
  case (Some r)
  then show ?thesis
    by (cases r)
      (auto simp: mutatePodHandler_def res_simps skip_review_def
         label_patches_panics_iff [symmetric])
qed (simp add: mutatePodHandler_def)

lemma label_patches_two_names:
  assumes "CHR ''-'' \<notin> set a"
  shows "label_patches (''tenant-'' @ a @ ''-'' @ b) =
     Ok [\<lparr>po_op = ''add'', po_path = ''/metadata/labels'', po_value = PObj []\<rparr>,
         \<lparr>po_op = ''add'', po_path = ''/metadata/labels/tenant.k8s-mtp.io~1name'', po_value = PStr a\<rparr>,
         \<lparr>po_op = ''add'', po_path = ''/metadata/labels/tenant.k8s-mtp.io~1tier'',
          po_value = PStr (hd (split_on CHR ''-'' b))\<rparr>]"
proof -
  have "split_on CHR ''-'' (''tenant-'' @ a @ ''-'' @ b)
        = split_on CHR ''-'' (''tenant'' @ CHR ''-'' # a @ CHR ''-'' # b)" by simp
  also have "\<dots> = ''tenant'' # a # split_on CHR ''-'' b"
    using assms by (subst split_on_append, simp) (simp add: split_on_append)
  finally show ?thesis
    by (cases "split_on CHR ''-'' b") (auto simp: label_patches_def go_index_def)
qed

text \<open>
  JSON Patch is applied by the API server, outside the repository. What RFC 6902 says of
  the two kinds of operation the patch uses: adding an object at \<open>/metadata/labels\<close> sets
  the labels (an existing member is replaced), and adding a string below it sets one label,
  whose name is the path segment with \<open>~1\<close> read as a slash and \<open>~0\<close> as a tilde.
\<close>

fun unescape :: "string \<Rightarrow> string" where
  "unescape [] = []"
| "unescape [c] = [c]"
| "unescape (c # d # s) =
     (if c = CHR ''~'' \<and> d = CHR ''1'' then CHR ''/'' # unescape s
      else if c = CHR ''~'' \<and> d = CHR ''0'' then CHR ''~'' # unescape s
      else c # unescape (d # s))"

definition json_patch_laws ::
    "(patch_op \<Rightarrow> 'p \<Rightarrow> 'p) \<Rightarrow> ('p \<Rightarrow> string \<rightharpoonup> string) \<Rightarrow> bool" where
  "json_patch_laws apply_op labels \<longleftrightarrow>
     (\<forall>p m. labels (apply_op \<lparr>po_op = ''add'', po_path = ''/metadata/labels'', po_value = PObj m\<rparr> p)
              = map_of m)
     \<and> (\<forall>p seg v. CHR ''/'' \<notin> set seg \<longrightarrow>
          labels (apply_op \<lparr>po_op = ''add'', po_path = ''/metadata/labels/'' @ seg,
                      po_value = PStr v\<rparr> p) = (labels p)(unescape seg \<mapsto> v))"

text \<open>
  C37: for a pod of the namespace \<open>tenant-a-b\<close> (\<open>a\<close> without a dash) the patch leaves exactly
  two labels: the tenant name \<open>a\<close> and, under the name of the tier, the first piece of \<open>b\<close>.
  Every label the pod came with is gone.
\<close>

theorem mutatePodHandler_labels:
  assumes "json_patch_laws apply_op labels" and "CHR ''-'' \<notin> set a"
    and "dec_review D body = Some (Some rq)" and "rq_namespace rq = ''tenant-'' @ a @ ''-'' @ b"
  shows "\<exists>rv patches. mutatePodHandler D (Some body) = Ok rv \<and> ar_allowed (rv_response rv)
           \<and> ar_patch (rv_response rv) = Some patches
           \<and> labels (fold apply_op patches p) =
               [''tenant.k8s-mtp.io/name'' \<mapsto> a,
                ''tenant.k8s-mtp.io/tier'' \<mapsto> hd (split_on CHR ''-'' b)]"
proof -
  have set_one: "CHR ''/'' \<notin> set seg \<Longrightarrow>
      labels (apply_op \<lparr>po_op = ''add'', po_path = ''/metadata/labels/'' @ seg,
        po_value = PStr v\<rparr> q) = (labels q)(unescape seg \<mapsto> v)" for seg v q
    using assms(1) by (simp add: json_patch_laws_def)
  have clear: "labels (apply_op \<lparr>po_op = ''add'', po_path = ''/metadata/labels'',
        po_value = PObj []\<rparr> q) = Map.empty" for q
    using assms(1) by (simp add: json_patch_laws_def)
  note name = set_one [of "''tenant.k8s-mtp.io~1name''", simplified]
  note tier = set_one [of "''tenant.k8s-mtp.io~1tier''", simplified]
  have "hasPrefix (rq_namespace rq) ''tenant-''"
    unfolding assms(4) by (rule hasPrefix_append)
  with assms(3) show ?thesis
    by (simp add: mutatePodHandler_def assms(4) label_patches_two_names [OF assms(2), simplified]
          name tier clear)
qed

definition apply_to_labels :: "patch_op \<Rightarrow> (string, string) gomap \<Rightarrow> (string, string) gomap" where
  \<comment> \<open>an instance of the patch interface: a pod reduced to its labels\<close>
  "apply_to_labels op p =
     (case po_value op of PObj m \<Rightarrow> m
      | PStr v \<Rightarrow> (unescape (drop (length ''/metadata/labels/'') (po_path op)), v) # p)"

theorem mutatePodHandler_labels_witness:
  "\<exists>rv patches. mutatePodHandler sample_codec (Some ''tenant-acme-web'') = Ok rv
     \<and> ar_allowed (rv_response rv) \<and> ar_patch (rv_response rv) = Some patches
     \<and> map_of (fold apply_to_labels patches [(''app'', ''nginx'')]) =
         [''tenant.k8s-mtp.io/name'' \<mapsto> ''acme'', ''tenant.k8s-mtp.io/tier'' \<mapsto> ''web'']"
proof -
  have "json_patch_laws apply_to_labels map_of"
    by (simp add: json_patch_laws_def apply_to_labels_def)
  from mutatePodHandler_labels [OF this, of "''acme''" sample_codec "''tenant-acme-web''"
      "\<lparr>rq_uid = ''u1'', rq_namespace = ''tenant-acme-web'', rq_raw = ''pod''\<rparr>" "''web''"
      "[(''app'', ''nginx'')]"]
  show ?thesis by (simp add: sample_defs)
qed

end
