(* ===== verification/Resources.thy ===== *)
theory Resources
  imports Kube Config
begin

text \<open>
  What the controller wants of a tenant: the builders of \<open>internal/reconciler\<close>, one definition
  per function, for the namespace, the resource quota of the tier, the two roles and their
  bindings, the network policy and the limit range.
\<close>

section \<open>Names and owners\<close>

definition tname :: "tenant \<Rightarrow> string" where
  "tname t = om_name (t_meta t)"

definition namespace_name :: "tenant \<Rightarrow> string" where
  \<comment> \<open>\<open>fmt.Sprintf("tenant-%s-%s", t.Name, t.Spec.Name)\<close>, spelled out in every builder\<close>
  "namespace_name t = ''tenant-'' @ tname t @ ''-'' @ ts_name (t_spec t)"

definition tenant_owner :: "tenant \<Rightarrow> owner_reference list" where
  "tenant_owner t =
     [\<lparr>or_apiVersion = SchemeGroupVersion, or_kind = ''Tenant'', or_name = tname t,
       or_uid = om_uid (t_meta t), or_controller = None\<rparr>]"

definition owned_meta :: "tenant \<Rightarrow> string \<Rightarrow> string \<Rightarrow> object_meta" where
  "owned_meta t name namespace =
     empty_meta\<lparr>om_name := name, om_namespace := namespace, om_ownerReferences := tenant_owner t\<rparr>"

definition buildNamespace :: "tenant \<Rightarrow> object_meta" where
  "buildNamespace t =
     (owned_meta t (namespace_name t) [])\<lparr>om_labels := [(''tenant.k8s-mtp.io/managed'', ''true'')]\<rparr>"


section \<open>Quotas\<close>

definition build_quota ::
    "'q quantity_api \<Rightarrow> string \<Rightarrow> string \<Rightarrow> string \<Rightarrow> string \<Rightarrow> string \<Rightarrow> tenant
       \<Rightarrow> ('e, 'q resource_quota) res" where
  \<comment> \<open>the shape the three tier functions share: name, CPU, memory, pods, storage\<close>
  "build_quota Q name cpu mem pods storage t =
     res_bind (mustParse Q cpu) (\<lambda>qcpu.
     res_bind (mustParse Q mem) (\<lambda>qmem.
     res_bind (mustParse Q pods) (\<lambda>qpods.
     res_bind (mustParse Q storage) (\<lambda>qstorage.
       Ok \<lparr>rq_meta = owned_meta t name (namespace_name t),
           rq_hard = [(''cpu'', qcpu), (''memory'', qmem), (''pods'', qpods),
                      (''requests.storage'', qstorage)]\<rparr>))))"

definition buildFreeTier :: "'q quantity_api \<Rightarrow> tenant \<Rightarrow> ('e, 'q resource_quota) res" where
  "buildFreeTier Q = build_quota Q ''tenant-quota-free'' ''500m'' ''1Gi'' ''20'' ''10Gi''"

definition buildProTier :: "'q quantity_api \<Rightarrow> tenant \<Rightarrow> ('e, 'q resource_quota) res" where
  "buildProTier Q = build_quota Q ''tenant-quota-pro'' ''4'' ''8Gi'' ''100'' ''100Gi''"

definition buildEnterpriseTier :: "'q quantity_api \<Rightarrow> tenant \<Rightarrow> ('e, 'q resource_quota) res" where
  "buildEnterpriseTier Q = build_quota Q ''tenant-quota-enterprise'' ''8'' ''16Gi'' ''200'' ''200Gi''"

definition buildResourceQuota :: "'q quantity_api \<Rightarrow> tenant \<Rightarrow> ('e, 'q kobj) res" where
  "buildResourceQuota Q t =
     (let tier = ts_tier (t_spec t) in
      if tier = TierFree then res_bind (buildFreeTier Q t) (\<lambda>q. Ok (KQuota q))
      else if tier = TierPro then res_bind (buildProTier Q t) (\<lambda>q. Ok (KQuota q))
      else if tier = TierEnterprise then res_bind (buildEnterpriseTier Q t) (\<lambda>q. Ok (KQuota q))
      else Ok KNilQuota)"


section \<open>Roles and bindings\<close>

definition admin_verbs :: "string list" where
  "admin_verbs = [''get'', ''list'', ''watch'', ''create'', ''update'', ''patch'', ''delete'',
     ''deletecollection'']"

definition operator_verbs :: "string list" where
  "operator_verbs = [''get'', ''list'', ''watch'', ''create'', ''update'', ''patch'', ''delete'']"

definition rule :: "string \<Rightarrow> string list \<Rightarrow> string list \<Rightarrow> policy_rule" where
  "rule grp resources verbs = \<lparr>pr_apiGroups = [grp], pr_resources = resources,
     pr_verbs = verbs, pr_resourceNames = []\<rparr>"

definition buildAdminRole :: "tenant \<Rightarrow> role" where
  "buildAdminRole t =
     \<lparr>ro_meta = owned_meta t (''tenant-'' @ tname t @ ''-admin'') (namespace_name t),
      ro_rules =
        [rule [] [''pods'', ''pods/log'', ''pods/status'', ''pods/exec'',
                  ''services'', ''services/proxy'', ''endpoints'',
                  ''configmaps'', ''secrets'', ''serviceaccounts'',
                  ''events'', ''limitranges'', ''podtemplates''] admin_verbs,
         rule ''apps'' [''deployments'', ''deployments/scale'', ''deployments/status'',
                  ''replicasets'', ''replicasets/scale'', ''replicasets/status'',
                  ''daemonsets'', ''daemonsets/status'',
                  ''statefulsets'', ''statefulsets/scale'', ''statefulsets/status''] admin_verbs,
         rule ''batch'' [''jobs'', ''jobs/status'', ''cronjobs'', ''cronjobs/status''] admin_verbs,
         rule ''autoscaling'' [''horizontalpodautoscalers'']
           [''get'', ''list'', ''watch'', ''create'', ''update'', ''patch'', ''delete''],
         rule [] [''bindings''] [''create'']]\<rparr>"

definition buildOperatorRole :: "tenant \<Rightarrow> role" where
  "buildOperatorRole t =
     \<lparr>ro_meta = owned_meta t (''tenant-'' @ tname t @ ''-operator'') (namespace_name t),
      ro_rules =
        [rule [] [''pods'', ''pods/log'', ''pods/status'', ''pods/exec'',
                  ''services'', ''endpoints'', ''configmaps'', ''secrets'', ''events''] operator_verbs,
         rule ''apps'' [''deployments'', ''deployments/scale'', ''deployments/status'',
                  ''replicasets'', ''replicasets/scale''] operator_verbs,
         rule ''batch'' [''jobs'', ''jobs/status''] operator_verbs]\<rparr>"

definition build_binding :: "string \<Rightarrow> string \<Rightarrow> string \<Rightarrow> tenant \<Rightarrow> role_binding" where
  "build_binding name grp role_name t =
     \<lparr>rb_meta = owned_meta t name (namespace_name t),
      rb_subjects = [\<lparr>su_kind = ''Group'', su_apiGroup = ''rbac.authorization.k8s.io'', su_name = grp\<rparr>],
      rb_roleRef = \<lparr>rr_apiGroup = ''rbac.authorization.k8s.io'', rr_kind = ''Role'', rr_name = role_name\<rparr>\<rparr>"

definition buildAdminRoleBinding :: "tenant \<Rightarrow> role_binding" where
  "buildAdminRoleBinding t =
     build_binding (''tenant-'' @ tname t @ ''-admin-binding'') (''tenant-'' @ tname t @ ''-admins'')
       (''tenant-'' @ tname t @ ''-admin'') t"

definition buildOperatorRoleBinding :: "tenant \<Rightarrow> role_binding" where
  "buildOperatorRoleBinding t =
     build_binding (''tenant-'' @ tname t @ ''-operator-binding'')
       (''tenant-'' @ tname t @ ''-operators'') (''tenant-'' @ tname t @ ''-operator'') t"


section \<open>Network policy and limit range\<close>

definition any_pod :: label_selector where
  \<comment> \<open>\<open>metav1.LabelSelector{}\<close>\<close>
  "any_pod = \<lparr>ls_matchLabels = []\<rparr>"

definition selector :: "string \<Rightarrow> string \<Rightarrow> label_selector" where
  "selector k v = \<lparr>ls_matchLabels = [(k, v)]\<rparr>"

definition buildNetworkPolicy :: "config \<Rightarrow> tenant \<Rightarrow> network_policy" where
  "buildNetworkPolicy cfg t =
     (let ns = namespace_name t;
          same_ns = \<lparr>peer_podSelector = Some any_pod, peer_namespaceSelector = None,
                     peer_ipBlock = None\<rparr>;
          ingressRules =
            [\<lparr>npr_peers = [same_ns], npr_ports = []\<rparr>,
             \<lparr>npr_peers = [\<lparr>peer_podSelector = Some (selector (cfg_PlatformAccessLabel cfg) ''true''),
                           peer_namespaceSelector = Some (selector ''name'' ''k8s-mtp''),
                           peer_ipBlock = None\<rparr>], npr_ports = []\<rparr>];
          egressRules =
            [\<lparr>npr_peers = [same_ns], npr_ports = []\<rparr>,
             \<lparr>npr_peers = [\<lparr>peer_podSelector = None,
                           peer_namespaceSelector = Some (selector ''name'' ''kube-system''),
                           peer_ipBlock = None\<rparr>],
              npr_ports = [\<lparr>npp_protocol = ''UDP'', npp_port = 53\<rparr>,
                           \<lparr>npp_protocol = ''TCP'', npp_port = 53\<rparr>]\<rparr>,
             \<lparr>npr_peers = [\<lparr>peer_podSelector = None,
                           peer_namespaceSelector = Some (selector ''name'' ''k8s-mtp''),
                           peer_ipBlock = None\<rparr>], npr_ports = []\<rparr>]
            @ (if cfg_TenantEgressPolicy cfg = ''internet''
               then [\<lparr>npr_peers = [\<lparr>peer_podSelector = None, peer_namespaceSelector = None,
                                   peer_ipBlock = Some ''0.0.0.0/0''\<rparr>], npr_ports = []\<rparr>]
               else [])
      in \<lparr>np_meta = owned_meta t ''tenant-isolation'' ns, np_podSelector = any_pod,
          np_policyTypes = [''Ingress'', ''Egress''],
          np_ingress = ingressRules, np_egress = egressRules\<rparr>)"

definition tier_limits :: "config \<Rightarrow> tenant \<Rightarrow> string \<times> string" where
  "tier_limits cfg t =
     (let tier = ts_tier (t_spec t) in
      if tier = TierFree then (td_cpu (cfg_Free cfg), td_memory (cfg_Free cfg))
      else if tier = TierPro then (td_cpu (cfg_Pro cfg), td_memory (cfg_Pro cfg))
      else if tier = TierEnterprise then (td_cpu (cfg_Enterprise cfg), td_memory (cfg_Enterprise cfg))
      else (''100m'', ''128Mi''))"

definition buildLimitRange ::
    "'q quantity_api \<Rightarrow> config \<Rightarrow> tenant \<Rightarrow> ('e, 'q limit_range) res" where
  "buildLimitRange Q cfg t =
     (let (cpu, memory) = tier_limits cfg t in
      res_bind (mustParse Q cpu) (\<lambda>qcpu.
      res_bind (mustParse Q memory) (\<lambda>qmem.
      res_bind (mustParse Q cpu) (\<lambda>qcpu'.
      res_bind (mustParse Q memory) (\<lambda>qmem'.
        Ok \<lparr>lr_meta = owned_meta t ''tenant-defaults'' (namespace_name t),
            lr_limits = [\<lparr>li_type = ''Container'',
                          li_default = [(''cpu'', qcpu), (''memory'', qmem)],
                          li_defaultRequest = [(''cpu'', qcpu'), (''memory'', qmem')]\<rparr>]\<rparr>)))))"

definition removeString :: "string list \<Rightarrow> string \<Rightarrow> string list" where
  "removeString xs s = filter (\<lambda>item. item \<noteq> s) xs"


section \<open>Where the objects live\<close>

text \<open>
  The namespace of a tenant joins two names with a dash. It determines both names if the
  tenant's own name has no dash.
\<close>

lemma namespace_name_inj:
  assumes "namespace_name t = namespace_name t'"
    and "CHR ''-'' \<notin> set (tname t)" and "CHR ''-'' \<notin> set (tname t')"
  shows "tname t = tname t' \<and> ts_name (t_spec t) = ts_name (t_spec t')"
proof -
  have "tname t @ CHR ''-'' # ts_name (t_spec t) = tname t' @ CHR ''-'' # ts_name (t_spec t')"
    using assms(1) by (simp add: namespace_name_def)
  with assms(2,3) show ?thesis
    by (metis split_on_append join_split_on list.inject)
qed

text \<open>
  Two tenants whose own names have no dash and which share a namespace are the same
  pair of names: the namespaces of distinct tenants are distinct.
\<close>

theorem namespaces_distinct:
  assumes "CHR ''-'' \<notin> set (tname t)" and "CHR ''-'' \<notin> set (tname t')"
  shows "om_name (buildNamespace t) = om_name (buildNamespace t')
           \<longleftrightarrow> tname t = tname t' \<and> ts_name (t_spec t) = ts_name (t_spec t')"
  using namespace_name_inj [OF _ assms]
  by (auto simp: buildNamespace_def owned_meta_def namespace_name_def)

definition named_tenant :: "string \<Rightarrow> string \<Rightarrow> string \<Rightarrow> tenant" where
  "named_tenant name uid spec_name =
     empty_tenant\<lparr>t_meta := empty_meta\<lparr>om_name := name, om_uid := uid\<rparr>,
       t_spec := (t_spec empty_tenant)\<lparr>ts_name := spec_name, ts_tier := TierFree\<rparr>\<rparr>"

theorem namespaces_distinct_witness:
  "om_name (buildNamespace (named_tenant ''acme'' ''u1'' ''web-app''))
     \<noteq> om_name (buildNamespace (named_tenant ''globex'' ''u2'' ''web-app''))"
  by (subst namespaces_distinct) (simp_all add: named_tenant_def tname_def)

text \<open>
  Kubernetes allows dashes in names, and the README's own example uses one. Then two
  tenants can have one namespace.
\<close>

lemma namespace_collision:
  "namespace_name (named_tenant ''acme'' ''u1'' ''corp-web'')
     = namespace_name (named_tenant ''acme-corp'' ''u2'' ''web'')"
  by (simp add: namespace_name_def named_tenant_def tname_def)

lemma owned_meta_fields [simp]:
  "om_name (owned_meta t n ns) = n" "om_namespace (owned_meta t n ns) = ns"
  "om_labels (owned_meta t n ns) = []" "om_annotations (owned_meta t n ns) = []"
  "om_ownerReferences (owned_meta t n ns) = tenant_owner t"
  by (simp_all add: owned_meta_def empty_meta_def)

lemma length_tenant_owner [simp]: "length (tenant_owner t) = 1"
  by (simp add: tenant_owner_def)


section \<open>What the roles grant\<close>

text \<open>
  The documented reading of RBAC rules. A request names a group, a resource, possibly a subresource
  and an object, and a verb; rules add up, and a rule allows a request it covers in every respect.
  \<open>*\<close> stands for every group, resource (with all subresources) or verb, and \<open>*/s\<close> for the subresource
  \<open>s\<close> of every resource; a rule with resource names is limited to these objects. The pattern \<open>r/*\<close> for
  every subresource of \<open>r\<close> belongs to admission rules and not to RBAC; it is counted here too, so that
  what is said not to be allowed holds however a server reads it.
\<close>

definition resource_path :: "string \<Rightarrow> string \<Rightarrow> string" where
  "resource_path res sub = (if sub = [] then res else res @ ''/'' @ sub)"

definition names_resource :: "string \<Rightarrow> string \<Rightarrow> string \<Rightarrow> bool" where
  "names_resource p res sub \<longleftrightarrow> p = ''*'' \<or> p = resource_path res sub
     \<or> sub \<noteq> [] \<and> (p = ''*/'' @ sub \<or> p = res @ ''/*'')"

definition rule_allows :: "policy_rule \<Rightarrow> string \<Rightarrow> string \<Rightarrow> string \<Rightarrow> string \<Rightarrow> string \<Rightarrow> bool" where
  "rule_allows r grp res sub name verb \<longleftrightarrow>
     list_ex (\<lambda>g. g = ''*'' \<or> g = grp) (pr_apiGroups r)
     \<and> list_ex (\<lambda>p. names_resource p res sub) (pr_resources r)
     \<and> list_ex (\<lambda>v. v = ''*'' \<or> v = verb) (pr_verbs r)
     \<and> (pr_resourceNames r = [] \<or> name \<in> set (pr_resourceNames r))"

definition rules_allow :: "policy_rule list \<Rightarrow> string \<Rightarrow> string \<Rightarrow> string \<Rightarrow> string \<Rightarrow> string \<Rightarrow> bool" where
  "rules_allow rs grp res sub name verb \<longleftrightarrow> list_ex (\<lambda>r. rule_allows r grp res sub name verb) rs"

definition covers :: "policy_rule \<Rightarrow> policy_rule \<Rightarrow> bool" where
  "covers a b \<longleftrightarrow> set (pr_apiGroups b) \<subseteq> set (pr_apiGroups a)
     \<and> set (pr_resources b) \<subseteq> set (pr_resources a) \<and> set (pr_verbs b) \<subseteq> set (pr_verbs a)
     \<and> pr_resourceNames a = []"

lemma rule_allows_mono: "covers a b \<Longrightarrow> rule_allows b g r s n v \<Longrightarrow> rule_allows a g r s n v"
  by (auto simp: rule_allows_def covers_def list_ex_iff)

lemma rules_allow_mono:
  assumes "list_all (\<lambda>b. list_ex (\<lambda>a. covers a b) as) bs" and "rules_allow bs g r s n v"
  shows "rules_allow as g r s n v"
  using assms rule_allows_mono by (fastforce simp: rules_allow_def list_all_iff list_ex_iff)

lemma rule_rule_allows [simp]:
  "rule_allows (rule grp rs vs) g r s n v \<longleftrightarrow> (grp = ''*'' \<or> grp = g)
     \<and> list_ex (\<lambda>p. names_resource p r s) rs \<and> list_ex (\<lambda>w. w = ''*'' \<or> w = v) vs"
  by (simp add: rule_allows_def rule_def)

lemmas role_defs = buildAdminRole_def buildOperatorRole_def rules_allow_def

text \<open>
  C17: whatever the operator role of a tenant allows, its admin role allows too; and no
  operator may delete collections.
\<close>

theorem operator_below_admin:
  assumes "rules_allow (ro_rules (buildOperatorRole t)) g r s n v"
  shows "rules_allow (ro_rules (buildAdminRole t)) g r s n v \<and> v \<noteq> ''deletecollection''"
proof -
  have "list_all (\<lambda>b. list_ex (\<lambda>a. covers a b) (ro_rules (buildAdminRole t)))
          (ro_rules (buildOperatorRole t))"
    by (simp add: buildOperatorRole_def buildAdminRole_def rule_def covers_def admin_verbs_def
          operator_verbs_def)
  moreover have "v \<in> set operator_verbs"
    using assms by (auto simp: rules_allow_def buildOperatorRole_def operator_verbs_def)
  ultimately show ?thesis
    using assms rules_allow_mono by (auto simp: operator_verbs_def)
qed

theorem operator_below_admin_witness:
  "rules_allow (ro_rules (buildAdminRole empty_tenant)) ''apps'' ''deployments'' ''scale'' ''web'' ''patch''"
  using operator_below_admin [of empty_tenant "''apps''" "''deployments''" "''scale''" "''web''" "''patch''"]
  by (simp add: rules_allow_def buildOperatorRole_def operator_verbs_def names_resource_def resource_path_def)

text \<open>
  C18: neither role lets a tenant touch what confines it: roles and role bindings, network
  policies, resource quotas and namespaces, with their subresources, are out of reach under every
  group, name and verb, wildcards of the rules included.
\<close>

theorem roles_confined:
  assumes "res \<in> {''roles'', ''rolebindings'', ''networkpolicies'', ''resourcequotas'', ''namespaces''}"
  shows "\<not> rules_allow (ro_rules (buildAdminRole t)) g res sub name v
         \<and> \<not> rules_allow (ro_rules (buildOperatorRole t)) g res sub name v"
  using assms
  by (elim insertE; simp add: role_defs names_resource_def resource_path_def)

theorem roles_confined_witness:
  "\<not> rules_allow (ro_rules (buildAdminRole empty_tenant)) ''networking.k8s.io'' ''networkpolicies'' []
      ''tenant-isolation'' ''delete''"
  using roles_confined [of "''networkpolicies''" empty_tenant "''networking.k8s.io''" "[]" "''tenant-isolation''" "''delete''"]
  by simp

text \<open>The limit range is not among them: an admin may delete it.\<close>

lemma admin_may_delete_limitranges:
  "rules_allow (ro_rules (buildAdminRole t)) [] ''limitranges'' [] ''tenant-defaults'' ''delete''"
  by (simp add: role_defs admin_verbs_def names_resource_def resource_path_def)

text \<open>
  Each binding grants the role of its tenant built beside it, in the same namespace,
  to a group of its own: the two bindings have different names, roles and groups.
\<close>

theorem bindings_match_roles:
  "rr_name (rb_roleRef (buildAdminRoleBinding t)) = om_name (ro_meta (buildAdminRole t))
   \<and> om_namespace (rb_meta (buildAdminRoleBinding t)) = om_namespace (ro_meta (buildAdminRole t))
   \<and> rr_name (rb_roleRef (buildOperatorRoleBinding t)) = om_name (ro_meta (buildOperatorRole t))
   \<and> om_namespace (rb_meta (buildOperatorRoleBinding t)) = om_namespace (ro_meta (buildOperatorRole t))
   \<and> om_name (ro_meta (buildAdminRole t)) \<noteq> om_name (ro_meta (buildOperatorRole t))
   \<and> om_name (rb_meta (buildAdminRoleBinding t)) \<noteq> om_name (rb_meta (buildOperatorRoleBinding t))
   \<and> map su_name (rb_subjects (buildAdminRoleBinding t)) \<noteq> map su_name (rb_subjects (buildOperatorRoleBinding t))"
  by (simp add: buildAdminRoleBinding_def buildOperatorRoleBinding_def build_binding_def
        buildAdminRole_def buildOperatorRole_def)


section \<open>What the network policy admits\<close>

text \<open>
  The documented meaning of a policy: a selector matches labels that contain its entries; a
  peer without a namespace selector means pods of the policy's own namespace; a peer with an address
  block means the addresses of the block; a rule admits what one of its peers selects, on the listed
  ports (none listed: on every port). Which pods have an address inside a block, and whether a
  network plugin applies blocks to traffic between pods at all, depends on the cluster: the
  parameter \<open>B\<close> says it.
\<close>

definition matches :: "label_selector \<Rightarrow> (string \<rightharpoonup> string) \<Rightarrow> bool" where
  "matches s labels \<longleftrightarrow> list_all (\<lambda>(k, v). labels k = Some v) (ls_matchLabels s)"

record pod_place =
  pp_namespace :: string
  pp_ns_labels :: "string \<rightharpoonup> string"
  pp_labels :: "string \<rightharpoonup> string"

type_synonym blocks = "string \<Rightarrow> pod_place \<Rightarrow> bool"

definition peer_selects :: "blocks \<Rightarrow> string \<Rightarrow> np_peer \<Rightarrow> pod_place \<Rightarrow> bool" where
  "peer_selects B own p x \<longleftrightarrow>
     (case peer_ipBlock p of Some block \<Rightarrow> B block x
      | None \<Rightarrow>
          (case peer_namespaceSelector p of None \<Rightarrow> pp_namespace x = own
           | Some s \<Rightarrow> matches s (pp_ns_labels x))
          \<and> (case peer_podSelector p of None \<Rightarrow> True | Some s \<Rightarrow> matches s (pp_labels x)))"

definition rule_admits :: "blocks \<Rightarrow> string \<Rightarrow> np_rule \<Rightarrow> pod_place \<Rightarrow> string \<Rightarrow> int \<Rightarrow> bool" where
  "rule_admits B own r x proto port \<longleftrightarrow>
     (npr_peers r = [] \<or> list_ex (\<lambda>p. peer_selects B own p x) (npr_peers r))
     \<and> (npr_ports r = [] \<or> list_ex (\<lambda>q. npp_protocol q = proto \<and> npp_port q = port) (npr_ports r))"

definition ingress_admits :: "blocks \<Rightarrow> network_policy \<Rightarrow> pod_place \<Rightarrow> string \<Rightarrow> int \<Rightarrow> bool" where
  "ingress_admits B np x proto port \<longleftrightarrow>
     list_ex (\<lambda>r. rule_admits B (om_namespace (np_meta np)) r x proto port) (np_ingress np)"

definition egress_admits :: "blocks \<Rightarrow> network_policy \<Rightarrow> pod_place \<Rightarrow> string \<Rightarrow> int \<Rightarrow> bool" where
  "egress_admits B np x proto port \<longleftrightarrow>
     list_ex (\<lambda>r. rule_admits B (om_namespace (np_meta np)) r x proto port) (np_egress np)"

lemmas admits_defs = ingress_admits_def egress_admits_def rule_admits_def peer_selects_def
  matches_def buildNetworkPolicy_def Let_def any_pod_def selector_def

text \<open>
  C16: the policy of a tenant admits a connection from a pod exactly if the pod is in the
  tenant's namespace, or is a labelled platform pod in a namespace named k8s-mtp, whatever pods
  address blocks cover. It admits one to a pod exactly if the pod is in the tenant's namespace or in
  k8s-mtp, or it is DNS in kube-system, or the egress setting is \<open>internet\<close> and the block 0.0.0.0/0
  covers the pod.
\<close>

theorem network_policy_isolation:
  "(ingress_admits B (buildNetworkPolicy cfg t) x proto port \<longleftrightarrow>
      pp_namespace x = namespace_name t
      \<or> pp_ns_labels x ''name'' = Some ''k8s-mtp''
        \<and> pp_labels x (cfg_PlatformAccessLabel cfg) = Some ''true'')
   \<and> (egress_admits B (buildNetworkPolicy cfg t) x proto port \<longleftrightarrow>
      pp_namespace x = namespace_name t
      \<or> pp_ns_labels x ''name'' = Some ''k8s-mtp''
      \<or> pp_ns_labels x ''name'' = Some ''kube-system'' \<and> port = 53 \<and> proto \<in> {''UDP'', ''TCP''}
      \<or> cfg_TenantEgressPolicy cfg = ''internet'' \<and> B ''0.0.0.0/0'' x)"
  by (auto simp: admits_defs)

text \<open>
  An address block, hence the internet, is reachable exactly under the setting
  \<open>internet\<close>.
\<close>

theorem internet_only_if_configured:
  "list_ex (\<lambda>r. list_ex (\<lambda>p. peer_ipBlock p \<noteq> None) (npr_peers r))
     (np_egress (buildNetworkPolicy cfg t))
   \<longleftrightarrow> cfg_TenantEgressPolicy cfg = ''internet''"
  by (simp add: buildNetworkPolicy_def Let_def)

end
