(* ===== verification/Platform.thy ===== *)
theory Platform
  imports Webhook_Install Webhook_Server Resources
begin

text \<open>
  The webhook server's \<open>main\<close> (\<open>cmd/webhook/main.go\<close>), and how the pieces that different programs
  install fit: the namespaces the controller labels, the configurations, service, deployment and
  secret of the webhook manager, and the routes, port and files of the webhook server.
\<close>

section \<open>The webhook server's main\<close>

definition certFile :: string where "certFile = ''/etc/webhook/tls/tls.crt''"
definition keyFile :: string where "keyFile = ''/etc/webhook/tls/tls.key''"
definition webhook_port :: int where "webhook_port = 8443"

datatype webhook_endpoint = ValidatePod | MutatePod | Healthz

definition webhook_mux :: "string \<Rightarrow> webhook_endpoint option" where
  \<comment> \<open>the \<open>http.ServeMux\<close> of exact paths\<close>
  "webhook_mux = map_of
     [(''/validate-pod'', ValidatePod), (''/healthz'', Healthz), (''/mutate-pod'', MutatePod)]"

record 'b webhook_server =
  ws_addr :: int             \<comment> \<open>the port of \<open>Addr\<close>\<close>
  ws_cert :: 'b
  ws_key :: 'b

definition webhook_main ::
    "('s, 'k, 'p, 'b) crypto \<Rightarrow> (string \<Rightarrow> 'b option) \<Rightarrow> (nat, 'b webhook_server) res" where
  \<comment> \<open>the server it goes on to run, or the exit status; \<open>files\<close> is the file system\<close>
  "webhook_main C files =
     (case (files certFile, files keyFile) of
        (Some cert, Some key) \<Rightarrow>
          if LoadX509KeyPair C cert key then Ok \<lparr>ws_addr = webhook_port, ws_cert = cert, ws_key = key\<rparr>
          else Err 1
      | _ \<Rightarrow> Err 1)"

datatype webhook_answer =
    Review "(http_error, admission_review) res"
  | Healthy
  | NoRoute

definition webhook_serve ::
    "'q webhook_codec \<Rightarrow> 'q quantity_api \<Rightarrow> string \<Rightarrow> string option \<Rightarrow> webhook_answer" where
  "webhook_serve D Q path body =
     (case webhook_mux path of
        Some ValidatePod \<Rightarrow> Review (validatePodHandler D Q body)
      | Some MutatePod \<Rightarrow> Review (mutatePodHandler D body)
      | Some Healthz \<Rightarrow> Healthy
      | None \<Rightarrow> NoRoute)"


section \<open>What Kubernetes does with the installed objects\<close>

text \<open>
  The documented behaviour of admission: a webhook is called for a request whose namespace has the
  selector's labels and whose operation, group, version and resource one rule lists; a
  subresource is a resource of its own name. The call goes to the service's port 443, from
  there to a container of the selected pods that exposes the target port, with the path of the
  configuration.
\<close>

definition webhook_calls ::
    "'b webhook_configuration \<Rightarrow> (string \<rightharpoonup> string) \<Rightarrow> string \<Rightarrow> string \<Rightarrow> 'b client_config list" where
  "webhook_calls cfg labels operation res =
     map we_clientConfig (filter (\<lambda>e. matches (we_namespaceSelector e) labels
       \<and> list_ex (\<lambda>r. operation \<in> set (ru_operations r) \<and> [] \<in> set (ru_apiGroups r)
             \<and> ''v1'' \<in> set (ru_apiVersions r) \<and> res \<in> set (ru_resources r)) (we_rules e))
       (wc_webhooks cfg))"

definition endpoint_of ::
    "('w, 'b) direct_client \<Rightarrow> webhook_manager \<Rightarrow> ('w, 's) install_world \<Rightarrow> 'b client_config \<Rightarrow> webhook_endpoint option" where
  "endpoint_of K m w cc =
     (case (ilook K (ServiceKind, cc_serviceNamespace cc, cc_serviceName cc) w, ilook K (step_key m Deployment) w) of
        (Some (IService sv), Some (IDeployment d)) \<Rightarrow>
          if list_all (\<lambda>(k, v). map_of (dp_templateLabels d) k = Some v) (sv_selector sv)
             \<and> list_ex (\<lambda>p. svp_port p = 443 \<and> svp_targetPort p = webhook_port
                  \<and> list_ex (\<lambda>c. list_ex (\<lambda>q. cpt_containerPort q = svp_targetPort p) (tc_ports c)) (dp_containers d))
                 (sv_ports sv)
          then webhook_mux (cc_servicePath cc) else None
      | _ \<Rightarrow> None)"

definition reviewers ::
    "('w, 'b) direct_client \<Rightarrow> webhook_manager \<Rightarrow> ('w, 's) install_world \<Rightarrow> install_step
       \<Rightarrow> (string \<rightharpoonup> string) \<Rightarrow> string \<Rightarrow> string \<Rightarrow> webhook_endpoint option list" where
  "reviewers K m w st labels operation res =
     (case ilook K (step_key m st) w of
        Some (IValidating cfg) \<Rightarrow> map (endpoint_of K m w) (webhook_calls cfg labels operation res)
      | Some (IMutating cfg) \<Rightarrow> map (endpoint_of K m w) (webhook_calls cfg labels operation res)
      | _ \<Rightarrow> [])"

text \<open>
  The clients of the webhooks a configuration lists; where a call on the service's port 443 ends up;
  and the host name under which the server is called.
\<close>

definition called_clients ::
    "('w, 'b) direct_client \<Rightarrow> webhook_manager \<Rightarrow> ('w, 's) install_world \<Rightarrow> install_step \<Rightarrow> 'b client_config list" where
  "called_clients K m w st =
     (case ilook K (step_key m st) w of
        Some (IValidating cfg) \<Rightarrow> map we_clientConfig (wc_webhooks cfg)
      | Some (IMutating cfg) \<Rightarrow> map we_clientConfig (wc_webhooks cfg)
      | _ \<Rightarrow> [])"

definition forwards_to ::
    "('w, 'b) direct_client \<Rightarrow> webhook_manager \<Rightarrow> ('w, 's) install_world \<Rightarrow> 'b client_config \<Rightarrow> int \<Rightarrow> bool" where
  "forwards_to K m w cc port \<longleftrightarrow>
     (case (ilook K (ServiceKind, cc_serviceNamespace cc, cc_serviceName cc) w, ilook K (step_key m Deployment) w) of
        (Some (IService sv), Some (IDeployment d)) \<Rightarrow>
          sv_selector sv \<noteq> []
          \<and> list_all (\<lambda>(k, v). map_of (dp_templateLabels d) k = Some v) (sv_selector sv)
          \<and> list_ex (\<lambda>p. svp_port p = 443 \<and> svp_targetPort p = port) (sv_ports sv)
          \<and> list_ex (\<lambda>c. list_ex (\<lambda>q. cpt_containerPort q = port) (tc_ports c)) (dp_containers d)
      | _ \<Rightarrow> False)"

definition called_host :: "'b client_config \<Rightarrow> string" where
  "called_host cc = cc_serviceName cc @ ''.'' @ cc_serviceNamespace cc @ ''.svc''"

text \<open>The files of the deployment's first container: a secret's entries below the mount path.\<close>

definition pod_files :: "deployment \<Rightarrow> (string \<Rightarrow> (string, 'b) gomap) \<Rightarrow> string \<Rightarrow> 'b option" where
  "pod_files d secrets path =
     (case find (\<lambda>vm. hasPrefix path (vm_mountPath vm @ ''/'')) (tc_volumeMounts (hd (dp_containers d))) of
        None \<Rightarrow> None
      | Some vm \<Rightarrow>
         (case find (\<lambda>v. vo_name v = vm_name vm) (dp_volumes d) of
            None \<Rightarrow> None
          | Some v \<Rightarrow> map_of (secrets (vo_secretName v)) (drop (length (vm_mountPath vm) + 1) path)))"

definition installed_files :: "('w, 'b) direct_client \<Rightarrow> webhook_manager \<Rightarrow> ('w, 's) install_world \<Rightarrow> string \<Rightarrow> 'b option" where
  "installed_files K m w path =
     (case ilook K (step_key m Deployment) w of
        Some (IDeployment d) \<Rightarrow>
          pod_files d (\<lambda>n. case ilook K (SecretKind, wm_Namespace m, n) w of
                             None \<Rightarrow> [] | Some s \<Rightarrow> data_of s) path
      | _ \<Rightarrow> None)"


section \<open>The objects of a first installation\<close>

lemma imeta_update_eqD:
  "s\<lparr>se_meta := m\<rparr> = s'\<lparr>se_meta := m'\<rparr> \<Longrightarrow> se_data s = se_data s'"
  "d\<lparr>dp_meta := m\<rparr> = d'\<lparr>dp_meta := m'\<rparr> \<Longrightarrow> dp_templateLabels d = dp_templateLabels d'
     \<and> dp_containers d = dp_containers d' \<and> dp_volumes d = dp_volumes d'"
  "v\<lparr>sv_meta := m\<rparr> = v'\<lparr>sv_meta := m'\<rparr> \<Longrightarrow> sv_ports v = sv_ports v' \<and> sv_selector v = sv_selector v'"
  "f\<lparr>wc_meta := m\<rparr> = f'\<lparr>wc_meta := m'\<rparr> \<Longrightarrow> wc_webhooks f = wc_webhooks f'"
  subgoal by (cases s; cases s') simp
  subgoal by (cases d; cases d') simp
  subgoal by (cases v; cases v') simp
  subgoal by (cases f; cases f') simp
  done

lemma stored_from_cases:
  "stored_from c (ISecret s) \<Longrightarrow> \<exists>s'. c = ISecret s' \<and> se_data s' = se_data s"
  "stored_from c (IDeployment d) \<Longrightarrow> \<exists>d'. c = IDeployment d' \<and> dp_templateLabels d' = dp_templateLabels d
     \<and> dp_containers d' = dp_containers d \<and> dp_volumes d' = dp_volumes d"
  "stored_from c (IService v) \<Longrightarrow> \<exists>v'. c = IService v' \<and> sv_ports v' = sv_ports v \<and> sv_selector v' = sv_selector v"
  "stored_from c (IValidating f) \<Longrightarrow> \<exists>f'. c = IValidating f' \<and> wc_webhooks f' = wc_webhooks f"
  "stored_from c (IMutating f) \<Longrightarrow> \<exists>f'. c = IMutating f' \<and> wc_webhooks f' = wc_webhooks f"
  by (cases c; auto simp: stored_from_def dest: imeta_update_eqD)+

definition uninstalled :: "('w, 'b) direct_client \<Rightarrow> webhook_manager \<Rightarrow> ('w, 's) install_world \<Rightarrow> bool" where
  "uninstalled K m w \<longleftrightarrow> (\<forall>st. ilook K (step_key m st) w = None)"

lemma first_installation:
  assumes "direct_laws K" "EnsureAll K C clock m w = (w', Ok ())" "uninstalled K m w"
  obtains c where "ilook K (step_key m st) w' = Some c" "step_built K C clock m w' st c"
proof -
  obtain c where "ilook K (step_key m st) w' = Some c" using EnsureAll_there [OF assms(1,2)] by blast
  then show thesis
    using EnsureAll_builds [OF assms(1,2), of st c] assms(3) that by (simp add: uninstalled_def)
qed

lemma installed_deployment:
  fixes K :: "('w, 'b) direct_client"
  assumes "direct_laws K" "EnsureAll K C clock m w = (w', Ok ())" "uninstalled K m w"
  shows "\<exists>d d0. ilook K (DeploymentKind, wm_Namespace m, ''webhook'') w' = Some (IDeployment d)
    \<and> build_deployment m = (IDeployment d0 :: 'b install_obj) \<and> dp_templateLabels d = dp_templateLabels d0
    \<and> dp_containers d = dp_containers d0 \<and> dp_volumes d = dp_volumes d0"
  by (rule first_installation [OF assms, of Deployment])
    (auto simp: build_deployment_def dest: stored_from_cases(2))

lemma installed_service:
  fixes K :: "('w, 'b) direct_client"
  assumes "direct_laws K" "EnsureAll K C clock m w = (w', Ok ())" "uninstalled K m w"
  shows "\<exists>v v0. ilook K (ServiceKind, wm_Namespace m, ''webhook-svc'') w' = Some (IService v)
    \<and> build_service m = (IService v0 :: 'b install_obj) \<and> sv_ports v = sv_ports v0 \<and> sv_selector v = sv_selector v0"
  by (rule first_installation [OF assms, of Service])
    (auto simp: build_service_def dest: stored_from_cases(3))

lemma endpoint_installed:
  assumes "direct_laws K" "EnsureAll K C clock m w = (w', Ok ())" "uninstalled K m w"
    and "cc_serviceName cc = ''webhook-svc''" "cc_serviceNamespace cc = wm_Namespace m"
  shows "endpoint_of K m w' cc = webhook_mux (cc_servicePath cc)"
  using installed_deployment [OF assms(1-3)] installed_service [OF assms(1-3)]
  by (auto simp: endpoint_of_def assms(4,5) build_deployment_def build_service_def webhook_port_def)

lemma managed_label:
  assumes "map_of (om_labels (buildNamespace t)) \<subseteq>\<^sub>m labels"
  shows "labels ''tenant.k8s-mtp.io/managed'' = Some ''true''"
  using assms by (auto simp: buildNamespace_def map_le_def)

lemma reviewers_installed:
  assumes "direct_laws K" "EnsureAll K C clock m w = (w', Ok ())" "uninstalled K m w"
    and "map_of (om_labels (buildNamespace t)) \<subseteq>\<^sub>m labels" "op1 \<in> {''CREATE'', ''UPDATE''}"
  shows "reviewers K m w' ValidatingConfig labels op1 res = (if res = ''pods'' then [Some ValidatePod] else [])"
    and "reviewers K m w' MutatingConfig labels op1 res = (if res = ''pods'' then [Some MutatePod] else [])"
proof -
  note managed = managed_label [OF assms(4)]
  obtain c where c: "ilook K (ValidatingKind, [], ''k8s-mtp-webhook'') w' = Some c"
      "stored_from c (build_validating m (secret_ca K m w'))"
    by (rule first_installation [OF assms(1-3), of ValidatingConfig]) auto
  then obtain f g where "c = IValidating f" "build_validating m (secret_ca K m w') = IValidating g" "wc_webhooks f = wc_webhooks g"
    by (auto simp: build_validating_def dest: stored_from_cases(4))
  with c managed assms(5)
  show "reviewers K m w' ValidatingConfig labels op1 res = (if res = ''pods'' then [Some ValidatePod] else [])"
    by (auto simp: reviewers_def build_validating_def webhook_calls_def matches_def endpoint_installed [OF assms(1-3)]
        webhook_mux_def)
  obtain c where c: "ilook K (MutatingKind, [], ''k8s-mtp-mutating-webhook'') w' = Some c"
      "stored_from c (build_mutating m (secret_ca K m w'))"
    by (rule first_installation [OF assms(1-3), of MutatingConfig]) auto
  then obtain f g where "c = IMutating f" "build_mutating m (secret_ca K m w') = IMutating g" "wc_webhooks f = wc_webhooks g"
    by (auto simp: build_mutating_def dest: stored_from_cases(5))
  with c managed assms(5)
  show "reviewers K m w' MutatingConfig labels op1 res = (if res = ''pods'' then [Some MutatePod] else [])"
    by (auto simp: reviewers_def build_mutating_def webhook_calls_def matches_def endpoint_installed [OF assms(1-3)]
        webhook_mux_def)
qed


section \<open>Properties of the installation\<close>

lemma tenant_namespace_label_patches:
  "\<exists>patches. label_patches (namespace_name t) = Ok patches"
proof -
  have "length (split_on CHR ''-'' (''tenant'' @ CHR ''-'' # tname t @ CHR ''-'' # ts_name (t_spec t))) \<ge> 3"
    by (simp add: length_split_on)
  then show ?thesis by (simp add: label_patches_def go_index_def namespace_name_def)
qed

text \<open>
  C2: after a first installation, a pod created or updated in the namespace built for a tenant,
  whatever further labels the server adds to it, is sent to exactly one validating and one
  mutating call, which reach \<open>validatePodHandler\<close> and \<open>mutatePodHandler\<close>; the handlers do not skip the
  namespace, and the mutating one does not panic on its name.
\<close>

theorem tenant_pods_reviewed:
  assumes "direct_laws K" and "EnsureAll K C clock m w = (w', Ok ())" and "uninstalled K m w"
    and "map_of (om_labels (buildNamespace t)) \<subseteq>\<^sub>m labels" and "op1 \<in> {''CREATE'', ''UPDATE''}"
  shows "reviewers K m w' ValidatingConfig labels op1 ''pods'' = [Some ValidatePod]
    \<and> reviewers K m w' MutatingConfig labels op1 ''pods'' = [Some MutatePod]
    \<and> shouldValidateNamespace (om_name (buildNamespace t))
    \<and> (\<exists>patches. label_patches (om_name (buildNamespace t)) = Ok patches)"
  using reviewers_installed [OF assms(1-5), of "''pods''"]
    tenant_namespace_label_patches [of t]
  by (simp add: buildNamespace_def namespace_name_def hasPrefix_def)

text \<open>
  The rules of the configurations list \<open>pods\<close> alone. Ephemeral containers are added through the
  subresource \<open>pods/ephemeralcontainers\<close>, limits are changed in place through \<open>pods/resize\<close>, and
  neither is reviewed, although the handler has a check for ephemeral containers.
\<close>

lemma subresources_not_reviewed:
  assumes "direct_laws K" "EnsureAll K C clock m w = (w', Ok ())" "uninstalled K m w"
    and "map_of (om_labels (buildNamespace t)) \<subseteq>\<^sub>m labels" "op1 \<in> {''CREATE'', ''UPDATE''}"
  shows "reviewers K m w' ValidatingConfig labels op1 ''pods/ephemeralcontainers'' = []
    \<and> reviewers K m w' ValidatingConfig labels op1 ''pods/resize'' = []"
  using reviewers_installed(1) [OF assms(1-5)] by simp

text \<open>
  C19: no role of a tenant goes around the review: of the pod resource and the subresources through
  which the containers of a pod are set or changed, the roles grant (wildcards included, to whatever
  pod) only \<open>pods\<close> itself, and that one is reviewed.
\<close>

theorem tenant_roles_reviewed:
  assumes "direct_laws K" and "EnsureAll K C clock m w = (w', Ok ())" and "uninstalled K m w"
    and "map_of (om_labels (buildNamespace t)) \<subseteq>\<^sub>m labels" and "op1 \<in> {''CREATE'', ''UPDATE''}"
    and "sub \<in> {[], ''ephemeralcontainers'', ''resize''}"
    and "rules_allow (ro_rules (buildAdminRole t)) [] ''pods'' sub name verb
         \<or> rules_allow (ro_rules (buildOperatorRole t)) [] ''pods'' sub name verb"
  shows "reviewers K m w' ValidatingConfig labels op1 (resource_path ''pods'' sub) = [Some ValidatePod]"
proof -
  have "sub = []"
    using assms(6,7) by (auto simp: role_defs names_resource_def resource_path_def)
  then show ?thesis using reviewers_installed(1) [OF assms(1-5)] by (simp add: resource_path_def)
qed

lemma installed_pair:
  assumes "direct_laws K" "crypto_laws C" "EnsureAll K C clock m w = (w', Ok ())" "uninstalled K m w"
  obtains ca cakey cert key s s1 s2 where "secret_ca K m w' = Some ca"
    "GenerateCA C (fst clock) s = (s1, Ok (ca, cakey))"
    "GenerateServerCert C (snd clock) ca cakey s1 = (s2, Ok (cert, key))"
    "installed_files K m w' certFile = Some cert" "installed_files K m w' keyFile = Some key"
proof -
  obtain sec where sec: "ilook K (secret_key m) w' = Some sec" "step_built K C clock m w' TLSSecret sec"
    by (rule first_installation [OF assms(1,3,4), of TLSSecret]) auto
  from sec(2) obtain s s1 s2 ca cakey cert key where
    pair: "GenerateCA C (fst clock) s = (s1, Ok (ca, cakey))"
      "GenerateServerCert C (snd clock) ca cakey s1 = (s2, Ok (cert, key))"
    and "stored_from sec (build_secret m ca cert key)" by auto
  then have data: "data_of sec = [(''ca.crt'', ca), (''tls.crt'', cert), (''tls.key'', key)]"
    by (auto simp: build_secret_def dest!: stored_from_cases(1))
  have "secret_ca K m w' = Some ca" by (simp add: secret_ca_def sec data)
  moreover have "installed_files K m w' certFile = Some cert" "installed_files K m w' keyFile = Some key"
    using installed_deployment [OF assms(1,3,4)] sec(1) data
    by (auto simp: installed_files_def pod_files_def build_deployment_def certFile_def keyFile_def
        hasPrefix_def secret_key_def)
  ultimately show thesis using pair that by blast
qed

lemma clients_installed:
  assumes "direct_laws K" "EnsureAll K C clock m w = (w', Ok ())" "uninstalled K m w"
    and "st \<in> {ValidatingConfig, MutatingConfig}"
  obtains cc where "called_clients K m w' st = [cc]" "cc_caBundle cc = secret_ca K m w'"
    "cc_serviceName cc = ''webhook-svc''" "cc_serviceNamespace cc = wm_Namespace m"
proof (cases "st = ValidatingConfig")
  case True
  obtain c where c: "ilook K (ValidatingKind, [], ''k8s-mtp-webhook'') w' = Some c"
      "stored_from c (build_validating m (secret_ca K m w'))"
    by (rule first_installation [OF assms(1-3), of ValidatingConfig]) auto
  then obtain f g where "c = IValidating f" "build_validating m (secret_ca K m w') = IValidating g" "wc_webhooks f = wc_webhooks g"
    by (auto simp: build_validating_def dest: stored_from_cases(4))
  then show thesis using that c(1) True by (auto simp: called_clients_def build_validating_def)
next
  case False
  then have st: "st = MutatingConfig" using assms(4) by simp
  obtain c where c: "ilook K (MutatingKind, [], ''k8s-mtp-mutating-webhook'') w' = Some c"
      "stored_from c (build_mutating m (secret_ca K m w'))"
    by (rule first_installation [OF assms(1-3), of MutatingConfig]) auto
  then obtain f g where "c = IMutating f" "build_mutating m (secret_ca K m w') = IMutating g" "wc_webhooks f = wc_webhooks g"
    by (auto simp: build_mutating_def dest: stored_from_cases(5))
  then show thesis using that c(1) st by (auto simp: called_clients_def build_mutating_def)
qed

lemma forwarding_installed:
  assumes "direct_laws K" "EnsureAll K C clock m w = (w', Ok ())" "uninstalled K m w"
    and "cc_serviceName cc = ''webhook-svc''" "cc_serviceNamespace cc = wm_Namespace m"
  shows "forwards_to K m w' cc webhook_port"
  using installed_deployment [OF assms(1-3)] installed_service [OF assms(1-3)]
  by (auto simp: forwards_to_def assms(4,5) build_deployment_def build_service_def webhook_port_def)

text \<open>
  C28: after a first installation into the namespace \<open>k8s-mtp\<close>, which is where the controller's \<open>main\<close>
  installs, the webhook server finds its files and loads them. Each of the two configurations
  calls one client: its service selects the pods of the deployment and forwards port 443 to the
  port the server listens on, which a container of these pods exposes; and a caller that trusts the
  bundle of the configuration accepts the server's certificate under the name of the service, for
  ten years from the generation.
\<close>

theorem webhook_server_starts:
  assumes "direct_laws K" and "crypto_laws C" and "EnsureAll K C clock m w = (w', Ok ())"
    and "uninstalled K m w" and "wm_Namespace m = ''k8s-mtp''" and "st \<in> {ValidatingConfig, MutatingConfig}"
  shows "\<exists>srv cc ca. webhook_main C (installed_files K m w') = Ok srv
    \<and> called_clients K m w' st = [cc] \<and> cc_caBundle cc = Some ca
    \<and> forwards_to K m w' cc (ws_addr srv)
    \<and> (\<forall>now. verifies C ca (ws_cert srv) (called_host cc) now
          \<longleftrightarrow> max (whole_seconds (fst (fst clock))) (whole_seconds (fst (snd clock))) \<le> now
            \<and> now \<le> min (whole_seconds (snd (fst clock) + ten_years)) (whole_seconds (snd (snd clock) + ten_years)))"
proof -
  obtain ca cakey cert key s s1 s2 where ca: "secret_ca K m w' = Some ca"
    and pair: "GenerateCA C (fst clock) s = (s1, Ok (ca, cakey))"
      "GenerateServerCert C (snd clock) ca cakey s1 = (s2, Ok (cert, key))"
    and files: "installed_files K m w' certFile = Some cert" "installed_files K m w' keyFile = Some key"
    by (rule installed_pair [OF assms(1-4)])
  obtain cc where cc: "called_clients K m w' st = [cc]" "cc_caBundle cc = secret_ca K m w'"
      and named: "cc_serviceName cc = ''webhook-svc''" "cc_serviceNamespace cc = wm_Namespace m"
    by (rule clients_installed [OF assms(1,3,4,6)])
  have host: "called_host cc \<in> set dnsNames"
    using service_host_covered [of "wm_Namespace m"] assms(5) by (simp add: called_host_def named)
  have "webhook_main C (installed_files K m w') = Ok \<lparr>ws_addr = webhook_port, ws_cert = cert, ws_key = key\<rparr>"
    using webhook_pair(1) [OF assms(2) pair] files by (simp add: webhook_main_def)
  then show ?thesis
    using ca cc webhook_pair(2) [OF assms(2) pair, of "called_host cc"] host
      forwarding_installed [OF assms(1,3,4) named] by auto
qed

lemma demo_uninstalled: "uninstalled mem_direct demo_manager fresh_cluster"
  by (simp add: uninstalled_def)

theorem tenant_pods_reviewed_witness:
  "reviewers mem_direct demo_manager demo_install ValidatingConfig
     [''tenant.k8s-mtp.io/managed'' \<mapsto> ''true'', ''kubernetes.io/metadata.name'' \<mapsto> ''tenant-acme-web''] ''CREATE'' ''pods''
   = [Some ValidatePod]"
  using tenant_pods_reviewed [OF mem_direct_laws demo_install_Ok demo_uninstalled,
      of "named_tenant ''acme'' ''u1'' ''web''"
        "[''tenant.k8s-mtp.io/managed'' \<mapsto> ''true'', ''kubernetes.io/metadata.name'' \<mapsto> ''tenant-acme-web'']" "''CREATE''"]
  by (simp add: buildNamespace_def map_le_def)

theorem tenant_roles_reviewed_witness:
  "reviewers mem_direct demo_manager demo_install ValidatingConfig
     [''tenant.k8s-mtp.io/managed'' \<mapsto> ''true''] ''UPDATE'' ''pods'' = [Some ValidatePod]"
  using tenant_roles_reviewed [OF mem_direct_laws demo_install_Ok demo_uninstalled, of "named_tenant ''acme'' ''u1'' ''web''"
      "[''tenant.k8s-mtp.io/managed'' \<mapsto> ''true'']" "''UPDATE''" "[]" "''web-0''" "''patch''"]
  by (simp add: buildNamespace_def map_le_def role_defs admin_verbs_def names_resource_def resource_path_def)

theorem webhook_server_starts_witness:
  "\<exists>srv cc. webhook_main demo_crypto (installed_files mem_direct demo_manager demo_install) = Ok srv
     \<and> called_clients mem_direct demo_manager demo_install MutatingConfig = [cc]
     \<and> forwards_to mem_direct demo_manager demo_install cc (ws_addr srv)"
  using webhook_server_starts [OF mem_direct_laws demo_crypto_laws demo_install_Ok demo_uninstalled, of MutatingConfig]
  by (auto simp: demo_manager_def)

end
