(* ===== verification/Drift.thy ===== *)
theory Drift
  imports Kube "HOL-Library.List_Lexorder" "HOL-Library.Char_ord" "HOL-Library.Multiset"
begin

text \<open>
  Drift detection, the \<open>needsUpdate\<close> functions of \<open>internal/reconciler\<close>: whether an object the
  cluster holds (\<open>current\<close>) differs from the one the controller builds (\<open>desired\<close>).
\<close>

section \<open>The comparisons the functions share\<close>

text \<open>Labels and annotations: the lengths, then every desired entry.\<close>

definition strings_differ :: "(string, string) gomap \<Rightarrow> (string, string) gomap \<Rightarrow> bool" where
  "strings_differ current desired \<longleftrightarrow>
     gm_len current \<noteq> gm_len desired \<or> gm_exists (\<lambda>k v. gm_get [] current k \<noteq> v) desired"

text \<open>Owner references: the lengths, then the first current reference with the same UID.\<close>

definition owner_differs :: "owner_reference list \<Rightarrow> owner_reference \<Rightarrow> bool" where
  "owner_differs current d \<longleftrightarrow>
     (case find (\<lambda>c. or_uid c = or_uid d) current of
        None \<Rightarrow> True
      | Some c \<Rightarrow> or_apiVersion c \<noteq> or_apiVersion d \<or> or_kind c \<noteq> or_kind d \<or> or_name c \<noteq> or_name d)"

definition owners_differ :: "owner_reference list \<Rightarrow> owner_reference list \<Rightarrow> bool" where
  "owners_differ current desired \<longleftrightarrow>
     length current \<noteq> length desired \<or> list_ex (owner_differs current) desired"

definition quantities_differ ::
    "'q quantity_api \<Rightarrow> 'q resource_list \<Rightarrow> 'q resource_list \<Rightarrow> bool" where
  "quantities_differ Q current desired \<longleftrightarrow>
     gm_len current \<noteq> gm_len desired
     \<or> gm_exists (\<lambda>k v. \<not> qa_equal Q (gm_get (qa_zero Q) current k) v) desired"

definition nsNeedsUpdate :: "object_meta \<Rightarrow> object_meta \<Rightarrow> bool" where
  "nsNeedsUpdate current desired \<longleftrightarrow>
     strings_differ (om_annotations current) (om_annotations desired)
     \<or> owners_differ (om_ownerReferences current) (om_ownerReferences desired)
     \<or> strings_differ (om_labels current) (om_labels desired)"

definition rqNeedsUpdate ::
    "'q quantity_api \<Rightarrow> 'q resource_quota \<Rightarrow> 'q resource_quota \<Rightarrow> bool" where
  "rqNeedsUpdate Q current desired \<longleftrightarrow>
     quantities_differ Q (rq_hard current) (rq_hard desired)
     \<or> strings_differ (om_annotations (rq_meta current)) (om_annotations (rq_meta desired))
     \<or> strings_differ (om_labels (rq_meta current)) (om_labels (rq_meta desired))
     \<or> owners_differ (om_ownerReferences (rq_meta current)) (om_ownerReferences (rq_meta desired))"

definition normalizeRule :: "policy_rule \<Rightarrow> string" where
  \<comment> \<open>the sorted resource names are computed and then left out\<close>
  "normalizeRule r =
     join '','' (sort (pr_apiGroups r)) @ ''|'' @ join '','' (sort (pr_resources r)) @ ''|''
     @ join '','' (sort (pr_verbs r))"

definition roleNeedsUpdate :: "role \<Rightarrow> role \<Rightarrow> bool" where
  "roleNeedsUpdate current desired \<longleftrightarrow>
     strings_differ (om_annotations (ro_meta current)) (om_annotations (ro_meta desired))
     \<or> owners_differ (om_ownerReferences (ro_meta current)) (om_ownerReferences (ro_meta desired))
     \<or> strings_differ (om_labels (ro_meta current)) (om_labels (ro_meta desired))
     \<or> length (ro_rules current) \<noteq> length (ro_rules desired)
     \<or> (let currentRules = map normalizeRule (ro_rules current);
            desiredRules = map normalizeRule (ro_rules desired) in
        list_ex (\<lambda>key. key \<notin> set currentRules) desiredRules
        \<or> list_ex (\<lambda>key. key \<notin> set desiredRules) currentRules)"

definition subject_key :: "subject \<Rightarrow> string" where
  "subject_key s = su_kind s @ ''|'' @ su_apiGroup s @ ''|'' @ su_name s"

definition rbNeedsUpdate :: "role_binding \<Rightarrow> role_binding \<Rightarrow> bool" where
  "rbNeedsUpdate current desired \<longleftrightarrow>
     strings_differ (om_annotations (rb_meta current)) (om_annotations (rb_meta desired))
     \<or> length (rb_subjects current) \<noteq> length (rb_subjects desired)
     \<or> list_ex (\<lambda>s. subject_key s \<notin> set (map subject_key (rb_subjects current))) (rb_subjects desired)
     \<or> owners_differ (om_ownerReferences (rb_meta current)) (om_ownerReferences (rb_meta desired))
     \<or> strings_differ (om_labels (rb_meta current)) (om_labels (rb_meta desired))
     \<or> rr_apiGroup (rb_roleRef current) \<noteq> rr_apiGroup (rb_roleRef desired)
     \<or> rr_kind (rb_roleRef current) \<noteq> rr_kind (rb_roleRef desired)
     \<or> rr_name (rb_roleRef current) \<noteq> rr_name (rb_roleRef desired)"

definition npNeedsUpdate :: "network_policy \<Rightarrow> network_policy \<Rightarrow> bool" where
  "npNeedsUpdate current desired \<longleftrightarrow>
     length (np_policyTypes current) \<noteq> length (np_policyTypes desired)
     \<or> length (np_ingress current) \<noteq> length (np_ingress desired)
     \<or> length (np_egress current) \<noteq> length (np_egress desired)"

definition lrNeedsUpdate :: "'q quantity_api \<Rightarrow> 'q limit_range \<Rightarrow> 'q limit_range \<Rightarrow> bool" where
  "lrNeedsUpdate Q current desired \<longleftrightarrow>
     length (lr_limits current) \<noteq> length (lr_limits desired)
     \<or> list_ex (\<lambda>i. quantities_differ Q (li_default (lr_limits current ! i))
                                       (li_default (lr_limits desired ! i)))
         [0..<length (lr_limits desired)]"

text \<open>
  The dispatch on the type of the desired object. The current object is a copy of it that the
  client has filled, so the two have one type and the last equation covers the nil quota only.
\<close>

fun needsUpdate :: "'q quantity_api \<Rightarrow> 'q kobj \<Rightarrow> 'q kobj \<Rightarrow> bool" where
  "needsUpdate Q (KNamespace c) (KNamespace d) = nsNeedsUpdate c d"
| "needsUpdate Q (KQuota c) (KQuota d) = rqNeedsUpdate Q c d"
| "needsUpdate Q (KRole c) (KRole d) = roleNeedsUpdate c d"
| "needsUpdate Q (KRoleBinding c) (KRoleBinding d) = rbNeedsUpdate c d"
| "needsUpdate Q (KNetworkPolicy c) (KNetworkPolicy d) = npNeedsUpdate c d"
| "needsUpdate Q (KLimitRange c) (KLimitRange d) = lrNeedsUpdate Q c d"
| "needsUpdate Q c d = True"


section \<open>What the shared comparisons decide\<close>

definition rel_map :: "('a \<Rightarrow> 'b \<Rightarrow> bool) \<Rightarrow> ('k \<rightharpoonup> 'a) \<Rightarrow> ('k \<rightharpoonup> 'b) \<Rightarrow> bool" where
  "rel_map R m n \<longleftrightarrow> (\<forall>k. rel_option R (m k) (n k))"

lemma rel_map_eq [simp]: "rel_map (=) m n \<longleftrightarrow> m = n"
  by (auto simp: rel_map_def option.rel_eq)

lemma rel_map_dom: "rel_map R m n \<Longrightarrow> dom m = dom n"
  by (auto simp: rel_map_def dom_def) (metis option.rel_sel option.distinct(1) option.exhaust)+

text \<open>
  Comparing the lengths of two Go maps and then every entry of one of them compares the
  maps, provided no entry of that one is related to the zero value: a missing key reads as
  the zero value.
\<close>

lemma gm_compare:
  assumes nz: "\<And>k v. map_of d k = Some v \<Longrightarrow> \<not> R z v"
  shows "gm_len c \<noteq> gm_len d \<or> gm_exists (\<lambda>k v. \<not> R (gm_get z c k) v) d
           \<longleftrightarrow> \<not> rel_map R (map_of c) (map_of d)"
proof -
  have "rel_map R (map_of c) (map_of d)"
    if len: "gm_len c = gm_len d"
      and all: "\<And>k v. map_of d k = Some v \<Longrightarrow> R (gm_get z c k) v"
  proof -
    have found: "\<exists>u. map_of c k = Some u \<and> R u v" if "map_of d k = Some v" for k v
      using all [OF that] nz [OF that] by (auto simp: gm_get_def split: option.splits)
    then have "dom (map_of d) \<subseteq> dom (map_of c)" by blast
    moreover have "card (dom (map_of d)) = card (dom (map_of c))"
      using len by (simp add: gm_len_card)
    ultimately have "dom (map_of d) = dom (map_of c)"
      by (simp add: card_subset_eq finite_dom_map_of)
    then have none: "map_of d k = None \<Longrightarrow> map_of c k = None" for k by blast
    have "rel_option R (map_of c k) (map_of d k)" for k
      using found [of k] none [of k] by (cases "map_of d k") auto
    then show ?thesis by (simp add: rel_map_def)
  qed
  moreover have "gm_len c = gm_len d \<and> (\<forall>k v. map_of d k = Some v \<longrightarrow> R (gm_get z c k) v)"
    if "rel_map R (map_of c) (map_of d)"
    using rel_map_dom [OF that] that
    by (auto simp: gm_len_card rel_map_def gm_get_def split: option.splits)
      (metis option.distinct(1) option.inject option.rel_cases)+
  ultimately show ?thesis by (auto simp: gm_exists_iff)
qed

definition filled :: "(string, string) gomap \<Rightarrow> bool" where
  "filled m \<longleftrightarrow> (\<forall>k. map_of m k \<noteq> Some [])"

text \<open>
  The label and annotation comparison is equality of the maps, for desired maps without
  empty values.
\<close>

lemma strings_differ_iff:
  assumes "filled d"
  shows "strings_differ c d \<longleftrightarrow> map_of c \<noteq> map_of d"
  using gm_compare [of d "(=)" "[]" c] assms
  by (auto simp: strings_differ_def filled_def)

text \<open>Without that condition a renamed label with an empty value goes unnoticed.\<close>

lemma strings_differ_empty_value:
  "\<not> strings_differ [(''other'', ''x'')] [(''wanted'', [])]"
  by (simp add: strings_differ_def gm_len_def gm_exists_def gm_get_def)

text \<open>Of an owner reference four fields are compared; \<open>controller\<close> is not.\<close>

definition owner_key :: "owner_reference \<Rightarrow> string \<times> string \<times> string \<times> string" where
  "owner_key r = (or_apiVersion r, or_kind r, or_name r, or_uid r)"

lemma owners_differ_single [simp]: "owners_differ c [d] \<longleftrightarrow> map owner_key c \<noteq> [owner_key d]"
  by (cases c) (auto simp: owners_differ_def owner_differs_def owner_key_def)

definition regular_meta :: "object_meta \<Rightarrow> bool" where
  "regular_meta d \<longleftrightarrow> filled (om_labels d) \<and> filled (om_annotations d)
     \<and> length (om_ownerReferences d) = 1"

definition agrees_meta :: "object_meta \<Rightarrow> object_meta \<Rightarrow> bool" where
  "agrees_meta c d \<longleftrightarrow> map_of (om_labels c) = map_of (om_labels d)
     \<and> map_of (om_annotations c) = map_of (om_annotations d)
     \<and> map owner_key (om_ownerReferences c) = map owner_key (om_ownerReferences d)"

lemma meta_differs_iff:
  assumes "regular_meta d"
  shows "strings_differ (om_labels c) (om_labels d)
         \<or> strings_differ (om_annotations c) (om_annotations d)
         \<or> owners_differ (om_ownerReferences c) (om_ownerReferences d) \<longleftrightarrow> \<not> agrees_meta c d"
proof -
  from assms obtain o1 where "om_ownerReferences d = [o1]"
    by (auto simp: regular_meta_def length_Suc_conv)
  with assms show ?thesis
    by (auto simp: agrees_meta_def regular_meta_def strings_differ_iff)
qed

definition regular_quantities :: "'q quantity_api \<Rightarrow> 'q resource_list \<Rightarrow> bool" where
  "regular_quantities Q d \<longleftrightarrow> (\<forall>k v. map_of d k = Some v \<longrightarrow> \<not> qa_equal Q (qa_zero Q) v)"

lemma quantities_differ_iff:
  "regular_quantities Q d \<Longrightarrow>
     quantities_differ Q c d \<longleftrightarrow> \<not> rel_map (qa_equal Q) (map_of c) (map_of d)"
  using gm_compare [of d "qa_equal Q" "qa_zero Q" c]
  by (auto simp: quantities_differ_def regular_quantities_def)

lemma rel_map_refl: "quantity_laws Q \<Longrightarrow> rel_map (qa_equal Q) m m"
  by (auto simp: rel_map_def quantity_laws_def rel_option_iff split: option.split)


section \<open>The contract of a drift check\<close>

text \<open>
  What the controller needs of a \<open>needsUpdate\<close> function: for the desired objects it builds
  (\<open>regular\<close>), it decides whether the current object agrees with the desired one in what the
  controller manages (\<open>agrees\<close>), and a desired object agrees with itself. Storing the desired
  object therefore ends the drift.
\<close>

locale drift_check =
  fixes needs :: "'o \<Rightarrow> 'o \<Rightarrow> bool" and agrees :: "'o \<Rightarrow> 'o \<Rightarrow> bool" and regular :: "'o \<Rightarrow> bool"
  assumes needs_iff: "regular d \<Longrightarrow> needs c d \<longleftrightarrow> \<not> agrees c d"
    and agrees_refl: "regular d \<Longrightarrow> agrees d d"
begin

lemma stable: "regular d \<Longrightarrow> \<not> needs d d"
  by (simp add: needs_iff agrees_refl)

lemma settled: "regular d \<Longrightarrow> agrees c d \<Longrightarrow> \<not> needs c d"
  by (simp add: needs_iff)

lemma detected: "regular d \<Longrightarrow> \<not> needs c d \<Longrightarrow> agrees c d"
  by (simp add: needs_iff)

end

definition rq_regular :: "'q quantity_api \<Rightarrow> 'q resource_quota \<Rightarrow> bool" where
  "rq_regular Q d \<longleftrightarrow> quantity_laws Q \<and> regular_meta (rq_meta d) \<and> regular_quantities Q (rq_hard d)"

definition rq_agrees :: "'q quantity_api \<Rightarrow> 'q resource_quota \<Rightarrow> 'q resource_quota \<Rightarrow> bool" where
  "rq_agrees Q c d \<longleftrightarrow> agrees_meta (rq_meta c) (rq_meta d)
     \<and> rel_map (qa_equal Q) (map_of (rq_hard c)) (map_of (rq_hard d))"

definition ro_agrees :: "role \<Rightarrow> role \<Rightarrow> bool" where
  "ro_agrees c d \<longleftrightarrow> agrees_meta (ro_meta c) (ro_meta d)
     \<and> length (ro_rules c) = length (ro_rules d)
     \<and> normalizeRule ` set (ro_rules c) = normalizeRule ` set (ro_rules d)"

definition rb_agrees :: "role_binding \<Rightarrow> role_binding \<Rightarrow> bool" where
  "rb_agrees c d \<longleftrightarrow> agrees_meta (rb_meta c) (rb_meta d)
     \<and> length (rb_subjects c) = length (rb_subjects d)
     \<and> subject_key ` set (rb_subjects d) \<subseteq> subject_key ` set (rb_subjects c)
     \<and> rb_roleRef c = rb_roleRef d"

definition np_agrees :: "network_policy \<Rightarrow> network_policy \<Rightarrow> bool" where
  \<comment> \<open>the numbers of policy types and rules, nothing of their content\<close>
  "np_agrees c d \<longleftrightarrow> length (np_policyTypes c) = length (np_policyTypes d)
     \<and> length (np_ingress c) = length (np_ingress d) \<and> length (np_egress c) = length (np_egress d)"

definition lr_regular :: "'q quantity_api \<Rightarrow> 'q limit_range \<Rightarrow> bool" where
  "lr_regular Q d \<longleftrightarrow> quantity_laws Q
     \<and> (\<forall>l \<in> set (lr_limits d). regular_quantities Q (li_default l))"

definition lr_agrees :: "'q quantity_api \<Rightarrow> 'q limit_range \<Rightarrow> 'q limit_range \<Rightarrow> bool" where
  "lr_agrees Q c d \<longleftrightarrow>
     list_all2 (\<lambda>a b. rel_map (qa_equal Q) (map_of (li_default a)) (map_of (li_default b)))
       (lr_limits c) (lr_limits d)"

interpretation ns: drift_check nsNeedsUpdate agrees_meta regular_meta
proof unfold_locales
  fix c d :: object_meta
  assume "regular_meta d"
  from meta_differs_iff [OF this, of c] show "nsNeedsUpdate c d \<longleftrightarrow> \<not> agrees_meta c d"
    by (auto simp: nsNeedsUpdate_def)
qed (simp add: agrees_meta_def)

interpretation rq: drift_check "rqNeedsUpdate Q" "rq_agrees Q" "rq_regular Q" for Q
proof unfold_locales
  fix c d :: "'a resource_quota"
  assume d: "rq_regular Q d"
  then have "regular_meta (rq_meta d)" by (simp add: rq_regular_def)
  from meta_differs_iff [OF this, of "rq_meta c"] d
  show "rqNeedsUpdate Q c d \<longleftrightarrow> \<not> rq_agrees Q c d"
    by (auto simp: rqNeedsUpdate_def rq_agrees_def rq_regular_def quantities_differ_iff)
qed (auto simp: rq_agrees_def rq_regular_def agrees_meta_def rel_map_refl)

interpretation ro: drift_check roleNeedsUpdate ro_agrees "\<lambda>d. regular_meta (ro_meta d)"
proof unfold_locales
  fix c d :: role
  assume "regular_meta (ro_meta d)"
  from meta_differs_iff [OF this, of "ro_meta c"]
  show "roleNeedsUpdate c d \<longleftrightarrow> \<not> ro_agrees c d"
    by (auto simp: roleNeedsUpdate_def ro_agrees_def list_ex_iff Let_def)
qed (auto simp: ro_agrees_def agrees_meta_def)

interpretation rb: drift_check rbNeedsUpdate rb_agrees "\<lambda>d. regular_meta (rb_meta d)"
proof unfold_locales
  fix c d :: role_binding
  assume "regular_meta (rb_meta d)"
  from meta_differs_iff [OF this, of "rb_meta c"]
  have m: "strings_differ (om_labels (rb_meta c)) (om_labels (rb_meta d))
         \<or> strings_differ (om_annotations (rb_meta c)) (om_annotations (rb_meta d))
         \<or> owners_differ (om_ownerReferences (rb_meta c)) (om_ownerReferences (rb_meta d))
         \<longleftrightarrow> \<not> agrees_meta (rb_meta c) (rb_meta d)" .
  have r: "rb_roleRef c = rb_roleRef d \<longleftrightarrow> rr_apiGroup (rb_roleRef c) = rr_apiGroup (rb_roleRef d)
     \<and> rr_kind (rb_roleRef c) = rr_kind (rb_roleRef d) \<and> rr_name (rb_roleRef c) = rr_name (rb_roleRef d)"
    by (cases "rb_roleRef c"; cases "rb_roleRef d") auto
  show "rbNeedsUpdate c d \<longleftrightarrow> \<not> rb_agrees c d"
    unfolding rbNeedsUpdate_def rb_agrees_def r using m by (auto simp: list_ex_iff)
qed (auto simp: rb_agrees_def agrees_meta_def)

interpretation np: drift_check npNeedsUpdate np_agrees "\<lambda>_. True"
  by unfold_locales (auto simp: npNeedsUpdate_def np_agrees_def)

interpretation lr: drift_check "lrNeedsUpdate Q" "lr_agrees Q" "lr_regular Q" for Q
proof unfold_locales
  fix c d :: "'a limit_range"
  assume "lr_regular Q d"
  then have "i < length (lr_limits d) \<Longrightarrow> regular_quantities Q (li_default (lr_limits d ! i))" for i
    by (auto simp: lr_regular_def)
  then show "lrNeedsUpdate Q c d \<longleftrightarrow> \<not> lr_agrees Q c d"
    by (auto simp: lrNeedsUpdate_def lr_agrees_def list_all2_conv_all_nth list_ex_iff
          quantities_differ_iff)
next
  fix d :: "'a limit_range"
  assume "lr_regular Q d"
  then show "lr_agrees Q d d"
    by (auto simp: lr_agrees_def lr_regular_def rel_map_refl intro: list.rel_refl)
qed


section \<open>Rules up to order\<close>

text \<open>
  Two rules are interchangeable for the check if they list the same groups, resources and
  verbs, in any order.
\<close>

definition same_rule :: "policy_rule \<Rightarrow> policy_rule \<Rightarrow> bool" where
  "same_rule a b \<longleftrightarrow> mset (pr_apiGroups a) = mset (pr_apiGroups b)
     \<and> mset (pr_resources a) = mset (pr_resources b) \<and> mset (pr_verbs a) = mset (pr_verbs b)"

definition plain :: "string list \<Rightarrow> bool" where
  \<comment> \<open>not empty, and no separator inside an element\<close>
  "plain xs \<longleftrightarrow> xs \<noteq> [] \<and> list_all (\<lambda>x. CHR '','' \<notin> set x \<and> CHR ''|'' \<notin> set x) xs"

definition plain_rule :: "policy_rule \<Rightarrow> bool" where
  "plain_rule r \<longleftrightarrow> plain (pr_apiGroups r) \<and> plain (pr_resources r) \<and> plain (pr_verbs r)"

lemma join_chars: "set (join sep xs) \<subseteq> set sep \<union> (\<Union>x \<in> set xs. set x)"
  by (induction sep xs rule: join.induct) auto

lemma join_sort_no_bar:
  assumes "plain xs"
  shows "CHR ''|'' \<notin> set (join '','' (sort xs))"
  using assms join_chars [of "'',''" "sort xs"] by (auto simp: plain_def list_all_iff)

lemma split_join_sort: "plain xs \<Longrightarrow> split_on CHR '','' (join '','' (sort xs)) = sort xs"
  by (rule split_on_join) (auto simp: plain_def list_all_iff
        dest: arg_cong [of _ _ length])

lemma join_sort_inj:
  assumes "plain xs" and "plain ys" and "join '','' (sort xs) = join '','' (sort ys)"
  shows "mset xs = mset ys"
  using assms by (metis mset_sort split_join_sort)

lemma normalizeRule_split:
  assumes "plain_rule r"
  shows "split_on CHR ''|'' (normalizeRule r) =
    [join '','' (sort (pr_apiGroups r)), join '','' (sort (pr_resources r)), join '','' (sort (pr_verbs r))]"
proof -
  have "normalizeRule r = join '','' (sort (pr_apiGroups r)) @ CHR ''|'' #
      join '','' (sort (pr_resources r)) @ CHR ''|'' # join '','' (sort (pr_verbs r))"
    by (simp add: normalizeRule_def)
  with assms show ?thesis
    by (simp add: split_on_append split_on_no_sep join_sort_no_bar plain_rule_def)
qed

lemma normal_form_eq:
  assumes "plain_rule a" and "plain_rule b"
  shows "normalizeRule a = normalizeRule b \<longleftrightarrow> same_rule a b"
proof
  assume "normalizeRule a = normalizeRule b"
  then have "split_on CHR ''|'' (normalizeRule a) = split_on CHR ''|'' (normalizeRule b)" by simp
  with assms show "same_rule a b"
    by (simp add: normalizeRule_split same_rule_def join_sort_inj plain_rule_def)
next
  assume "same_rule a b"
  then have "sort (pr_apiGroups a) = sort (pr_apiGroups b)" "sort (pr_resources a) = sort (pr_resources b)"
    "sort (pr_verbs a) = sort (pr_verbs b)"
    by (auto simp: same_rule_def intro!: properties_for_sort)
  then show "normalizeRule a = normalizeRule b" by (simp add: normalizeRule_def)
qed

text \<open>
  On rules without separators in their elements, the normal forms are equal exactly if
  the rules have the same groups, resources and verbs up to order.
\<close>

theorem normalizeRule_eq_iff:
  assumes "plain_rule a" and "plain_rule b"
  shows "normalizeRule a = normalizeRule b \<longleftrightarrow> same_rule a b"
  by (rule normal_form_eq [OF assms])

theorem normalizeRule_eq_iff_witness:
  "normalizeRule \<lparr>pr_apiGroups = [[]], pr_resources = [''pods'', ''events''], pr_verbs = [''get''],
       pr_resourceNames = []\<rparr>
   = normalizeRule \<lparr>pr_apiGroups = [[]], pr_resources = [''events'', ''pods''], pr_verbs = [''get''],
       pr_resourceNames = [''only-this'']\<rparr>"
  by (subst normalizeRule_eq_iff) (simp_all add: plain_rule_def plain_def same_rule_def)

text \<open>
  The separators matter: a group list that is empty and one that holds the core group (the
  empty string) have one normal form.
\<close>

lemma normalizeRule_core_group:
  "normalizeRule \<lparr>pr_apiGroups = [], pr_resources = rs, pr_verbs = vs, pr_resourceNames = ns\<rparr>
   = normalizeRule \<lparr>pr_apiGroups = [[]], pr_resources = rs, pr_verbs = vs, pr_resourceNames = ns'\<rparr>"
  by (simp add: normalizeRule_def)

end
