(* ===== verification/Reconciler.thy ===== *)
theory Reconciler
  imports Resources Drift Store Ensure
begin

text \<open>
  The tenant controller, \<open>internal/reconciler/tenant_reconciler.go\<close>: \<open>Reconcile\<close> and the handlers it
  dispatches to, over a world of two parts, the cluster behind the Kubernetes client and the
  tenant database. An object passed to the client is filled with the server's answer, which is
  how the tenant changes between two calls.
\<close>

section \<open>State and outcomes\<close>

record 'w world =
  wd_kube :: 'w
  wd_db :: db

datatype rec_error =
    ApiErr api_error
  | Wrapped string api_error   \<comment> \<open>\<open>fmt.Errorf("failed to ...: %w", err)\<close>\<close>
  | DbErr db_error

record ctrl_result =
  cr_Requeue :: bool

definition on_kube :: "('w \<Rightarrow> 'w \<times> ('e, 'a) res) \<Rightarrow> 'w world \<Rightarrow> 'w world \<times> ('e, 'a) res" where
  "on_kube f w = (let (k, r) = f (wd_kube w) in (w\<lparr>wd_kube := k\<rparr>, r))"

definition on_db :: "(db \<Rightarrow> db \<times> ('e, 'a) res) \<Rightarrow> 'w world \<Rightarrow> 'w world \<times> ('e, 'a) res" where
  "on_db f w = (let (d, r) = f (wd_db w) in (w\<lparr>wd_db := d\<rparr>, r))"

definition tenantFinalizer :: string where
  "tenantFinalizer = ''tenant.multitenant.k8s-mtp.io/finalizer''"

definition done_result :: "'w \<Rightarrow> 'w \<times> ('e, ctrl_result) res" where
  "done_result w = (w, Ok \<lparr>cr_Requeue = False\<rparr>)"


section \<open>Create or update\<close>

definition createOrUpdate ::
    "('w, 'q) kube_client \<Rightarrow> 'q quantity_api \<Rightarrow> 'q kobj \<Rightarrow> 'w \<Rightarrow> 'w \<times> (rec_error, unit) res" where
  "createOrUpdate K Q desired w =
     (case kc_create K desired w of
        (w1, Ok _) \<Rightarrow> (w1, Ok ())
      | (w1, Panic x) \<Rightarrow> (w1, Panic x)
      | (w1, Err e) \<Rightarrow>
          if e \<noteq> AlreadyExists then (w1, Err (Wrapped ''failed to create'' e))
          else if desired = KNilQuota then (w1, Panic NilDeref)
          else
            (case kc_get K (obj_key desired) w1 of
               Err e \<Rightarrow> (w1, Err (Wrapped ''failed to get existing'' e))
             | Panic x \<Rightarrow> (w1, Panic x)
             | Ok current \<Rightarrow>
                 if \<not> needsUpdate Q current desired then (w1, Ok ())
                 else
                   then_try (kc_update K
                       (set_resourceVersion (om_resourceVersion (meta_of current)) desired) w1)
                     (\<lambda>w2 _. (w2, Ok ())) (Wrapped ''failed to update'')))"


section \<open>The handlers\<close>

definition addFinalizer ::
    "('w, 'q) kube_client \<Rightarrow> tenant \<Rightarrow> 'w world \<Rightarrow> 'w world \<times> (rec_error, ctrl_result) res" where
  "addFinalizer K t w =
     (let t1 = t\<lparr>t_meta := (t_meta t)\<lparr>om_finalizers := om_finalizers (t_meta t) @ [tenantFinalizer]\<rparr>\<rparr> in
      then_try (on_kube (kc_update_tenant K t1) w) (\<lambda>w1 _. (w1, Ok \<lparr>cr_Requeue = True\<rparr>)) ApiErr)"

definition reconcileDelete ::
    "pg \<Rightarrow> ('w, 'q) kube_client \<Rightarrow> tenant \<Rightarrow> 'w world \<Rightarrow> 'w world \<times> (rec_error, ctrl_result) res" where
  "reconcileDelete P K t w =
     then_try (on_db (DeleteTenant P (om_uid (t_meta t))) w) (\<lambda>w1 _.
       let t1 = t\<lparr>t_meta := (t_meta t)\<lparr>om_finalizers :=
                    removeString (om_finalizers (t_meta t)) tenantFinalizer\<rparr>\<rparr> in
       then_try (on_kube (kc_update_tenant K t1) w1) (\<lambda>w2 _. done_result w2) ApiErr) DbErr"

definition record_tenant :: "pg \<Rightarrow> tenant \<Rightarrow> 'w world \<Rightarrow> 'w world \<times> (rec_error, tenant) res" where
  \<comment> \<open>the row: created if no live one has the UID, updated otherwise; creation fills the tenant\<close>
  "record_tenant P t w =
     then_try (on_db (GetTenantByID P (om_uid (t_meta t))) w) (\<lambda>w1 existing.
       case existing of
         None \<Rightarrow> then_try (on_db (CreateTenant P t) w1) (\<lambda>w2 t1. (w2, Ok t1)) DbErr
       | Some _ \<Rightarrow> then_try (on_db (UpdateTenant P t) w1) (\<lambda>w2 _. (w2, Ok t)) DbErr) DbErr"

definition desired_before :: "tenant \<Rightarrow> 'q kobj \<Rightarrow> 'q kobj list" where
  \<comment> \<open>the objects before the status, in the order of the calls, given the quota\<close>
  "desired_before t quota =
     [KNamespace (buildNamespace t), quota, KRole (buildAdminRole t), KRole (buildOperatorRole t),
      KRoleBinding (buildAdminRoleBinding t), KRoleBinding (buildOperatorRoleBinding t)]"

definition reconcileCreateOrUpdate ::
    "pg \<Rightarrow> ('w, 'q) kube_client \<Rightarrow> 'q quantity_api \<Rightarrow> config \<Rightarrow> tenant \<Rightarrow> 'w world
       \<Rightarrow> 'w world \<times> (rec_error, ctrl_result) res" where
  "reconcileCreateOrUpdate P K Q cfg t0 w =
     then_try (record_tenant P t0 w) (\<lambda>w1 t.
     then_try (w1, buildResourceQuota Q t) (\<lambda>w1 quota.
     then_try (on_kube (ensure_all (createOrUpdate K Q) (desired_before t quota)) w1) (\<lambda>w2 _.
       let t1 = t\<lparr>t_status := (t_status t)\<lparr>tst_phase := TenantPhaseActive,
                               tst_namespace := om_name (buildNamespace t)\<rparr>\<rparr> in
     then_try (on_kube (kc_update_status K t1) w2) (\<lambda>w3 t2.
     then_try (on_kube (ensure_all (createOrUpdate K Q) [KNetworkPolicy (buildNetworkPolicy cfg t2)]) w3) (\<lambda>w4 _.
     then_try (w4, buildLimitRange Q cfg t2) (\<lambda>w4 limits.
     then_try (on_kube (ensure_all (createOrUpdate K Q) [KLimitRange limits]) w4) (\<lambda>w5 _.
       done_result w5) id) id) id) ApiErr) id) id) id"

definition Reconcile ::
    "pg \<Rightarrow> ('w, 'q) kube_client \<Rightarrow> 'q quantity_api \<Rightarrow> config \<Rightarrow> string \<Rightarrow> 'w world
       \<Rightarrow> 'w world \<times> (rec_error, ctrl_result) res" where
  "Reconcile P K Q cfg name w =
     (case kc_get_tenant K name (wd_kube w) of
        Err e \<Rightarrow> if e = NotFound then done_result w else (w, Err (ApiErr e))
      | Panic x \<Rightarrow> (w, Panic x)
      | Ok t \<Rightarrow>
          if om_deletionTimestamp (t_meta t) \<noteq> None then reconcileDelete P K t w
          else if tenantFinalizer \<notin> set (om_finalizers (t_meta t)) then addFinalizer K t w
          else reconcileCreateOrUpdate P K Q cfg t w)"

end
