(* ===== verification/Reconciler_Props.thy ===== *)
theory Reconciler_Props
  imports Reconciler Store_Contract
begin

text \<open>
  What a run of the controller reaches: the contract of \<open>createOrUpdate\<close>, the objects of a
  reconciled tenant, what a second run changes, the finalizer, and the errors.
\<close>

section \<open>The drift checks on what the builders produce\<close>

lemma strings_differ_same: "map_of c = map_of d \<Longrightarrow> \<not> strings_differ c d"
  by (auto simp: strings_differ_def gm_exists_iff gm_get_def gm_len_card)

lemma quantities_differ_refl: "quantity_laws Q \<Longrightarrow> \<not> quantities_differ Q d d"
  by (auto simp: quantities_differ_def gm_exists_iff gm_get_def quantity_laws_def)

definition single_owner :: "'q kobj \<Rightarrow> bool" where
  "single_owner o1 \<longleftrightarrow> length (om_ownerReferences (meta_of o1)) = 1"

lemma sent_meta_eqD:
  assumes "sent_meta a = sent_meta b"
  shows "om_labels a = om_labels b" "om_annotations a = om_annotations b"
    "om_ownerReferences a = om_ownerReferences b"
  using sent_meta_fields [OF assms] by auto

lemma owners_differ_refl: "length d = 1 \<Longrightarrow> \<not> owners_differ d d"
  by (auto simp: length_Suc_conv)

lemma meta_update_eqD [dest]:
  "q\<lparr>rq_meta := m\<rparr> = q'\<lparr>rq_meta := m'\<rparr> \<Longrightarrow> rq_hard q = rq_hard q' \<and> m = m'"
  "r\<lparr>ro_meta := m\<rparr> = r'\<lparr>ro_meta := m'\<rparr> \<Longrightarrow> ro_rules r = ro_rules r' \<and> m = m'"
  "b\<lparr>rb_meta := m\<rparr> = b'\<lparr>rb_meta := m'\<rparr> \<Longrightarrow>
     rb_subjects b = rb_subjects b' \<and> rb_roleRef b = rb_roleRef b' \<and> m = m'"
  "p\<lparr>np_meta := m\<rparr> = p'\<lparr>np_meta := m'\<rparr> \<Longrightarrow> np_policyTypes p = np_policyTypes p'
     \<and> np_ingress p = np_ingress p' \<and> np_egress p = np_egress p' \<and> m = m'"
  "l\<lparr>lr_meta := m\<rparr> = l'\<lparr>lr_meta := m'\<rparr> \<Longrightarrow> lr_limits l = lr_limits l' \<and> m = m'"
  subgoal by (cases q; cases q') simp
  subgoal by (cases r; cases r') simp
  subgoal by (cases b; cases b') simp
  subgoal by (cases p; cases p') simp
  subgoal by (cases l; cases l') simp
  done

text \<open>What the server stored for a desired object is no drift, namespaces apart.\<close>

lemma stored_no_drift:
  assumes "quantity_laws Q" "stored_as c d" "single_owner d" "d \<noteq> KNilQuota" "kind_of d \<noteq> NamespaceKind"
  shows "\<not> needsUpdate Q c d"
proof (cases d)
  case (KQuota q)
  then obtain q' where "c = KQuota q'" "rq_hard q' = rq_hard q" "sent_meta (rq_meta q') = sent_meta (rq_meta q)"
    using assms(2) by (cases c) (auto simp: stored_as_def)
  then show ?thesis
    using assms(1,3) sent_meta_eqD [of "rq_meta q'" "rq_meta q"]
    by (simp add: KQuota rqNeedsUpdate_def quantities_differ_refl strings_differ_same owners_differ_refl single_owner_def)
next
  case (KRole r)
  then obtain r' where "c = KRole r'" "ro_rules r' = ro_rules r" "sent_meta (ro_meta r') = sent_meta (ro_meta r)"
    using assms(2) by (cases c) (auto simp: stored_as_def)
  then show ?thesis
    using assms(3) sent_meta_eqD [of "ro_meta r'" "ro_meta r"]
    by (simp add: KRole roleNeedsUpdate_def list_ex_iff strings_differ_same owners_differ_refl single_owner_def)
next
  case (KRoleBinding b)
  then obtain b' where "c = KRoleBinding b'" "rb_subjects b' = rb_subjects b" "rb_roleRef b' = rb_roleRef b"
      "sent_meta (rb_meta b') = sent_meta (rb_meta b)"
    using assms(2) by (cases c) (auto simp: stored_as_def)
  then show ?thesis
    using assms(3) sent_meta_eqD [of "rb_meta b'" "rb_meta b"]
    by (simp add: KRoleBinding rbNeedsUpdate_def list_ex_iff strings_differ_same owners_differ_refl single_owner_def)
next
  case (KNetworkPolicy p)
  then obtain p' where "c = KNetworkPolicy p'" "np_policyTypes p' = np_policyTypes p"
      "np_ingress p' = np_ingress p" "np_egress p' = np_egress p"
    using assms(2) by (cases c) (auto simp: stored_as_def)
  then show ?thesis by (simp add: KNetworkPolicy npNeedsUpdate_def)
next
  case (KLimitRange l)
  then obtain l' where "c = KLimitRange l'" "lr_limits l' = lr_limits l"
    using assms(2) by (cases c) (auto simp: stored_as_def)
  then show ?thesis
    using assms(1) by (simp add: KLimitRange lrNeedsUpdate_def list_ex_iff quantities_differ_refl)
qed (use assms(4,5) in auto)


section \<open>The contract of \<open>createOrUpdate\<close>\<close>

lemma sent_meta_resourceVersion [simp]: "sent_meta (m\<lparr>om_resourceVersion := v\<rparr>) = sent_meta m"
  by (simp add: sent_meta_def erase_meta_def)

lemma stored_as_resourceVersion [simp]: "stored_as c (set_resourceVersion v o1) = stored_as c o1"
  by (cases o1) (simp_all add: stored_as_def set_resourceVersion_def)

definition with_finalizers :: "string list \<Rightarrow> tenant \<Rightarrow> tenant" where
  "with_finalizers fs t = t\<lparr>t_meta := (t_meta t)\<lparr>om_finalizers := fs\<rparr>\<rparr>"

lemma tenant_lawsD:
  assumes "tenant_laws K"
  shows "kc_get_tenant K n w = Ok t \<Longrightarrow> tname t = n" "kc_tenant K n w = Some t \<Longrightarrow> tname t = n"
    "kc_get_tenant K n w = Ok t \<Longrightarrow> kc_tenant K n w = Some s \<Longrightarrow> same_version t s \<Longrightarrow> s = t"
    "kc_update_tenant K t w = (w', Ok t') \<Longrightarrow>
       (\<exists>s. kc_tenant K (tname t) w = Some s \<and> same_version t s) \<and> replaced t (kc_tenant K (tname t) w')"
proof -
  have laws: "key_law K" "tenant_reads K" "tenant_lock K" using assms by (simp_all add: tenant_laws_def)
  show "kc_get_tenant K n w = Ok t \<Longrightarrow> tname t = n" using laws(2) by (simp add: tenant_reads_def tname_def)
  show "kc_tenant K n w = Some t \<Longrightarrow> tname t = n" using laws(1) by (simp add: key_law_def tname_def)
  show "kc_get_tenant K n w = Ok t \<Longrightarrow> kc_tenant K n w = Some s \<Longrightarrow> same_version t s \<Longrightarrow> s = t"
    using laws(2) unfolding tenant_reads_def by blast
  show "kc_update_tenant K t w = (w', Ok t') \<Longrightarrow>
      (\<exists>s. kc_tenant K (tname t) w = Some s \<and> same_version t s) \<and> replaced t (kc_tenant K (tname t) w')"
    using laws(3) unfolding tenant_lock_def tname_def by blast
qed

lemma tname_finalizers [simp]: "tname (t\<lparr>t_meta := (t_meta t)\<lparr>om_finalizers := fs\<rparr>\<rparr>) = tname t"
  by (simp add: tname_def)

definition cluster_env :: "('w, 'q) kube_client \<Rightarrow> 'q quantity_api \<Rightarrow> bool" where
  "cluster_env K Q \<longleftrightarrow> api_laws K \<and> cache_law K \<and> quantity_laws Q"

lemma cluster_envD:
  assumes "cluster_env K Q"
  shows "api_laws K" "key_law K" "cache_law K" "quantity_laws Q"
  using assms by (simp_all add: cluster_env_def api_laws_def)

definition in_place :: "'q quantity_api \<Rightarrow> 'q kobj \<Rightarrow> 'q kobj \<Rightarrow> bool" where
  \<comment> \<open>what the server made of the desired object, or an object in which the check finds no drift\<close>
  "in_place Q c o1 \<longleftrightarrow> stored_as c o1 \<or> \<not> needsUpdate Q c o1"

definition calm_obj :: "'q kobj \<Rightarrow> bool" where
  "calm_obj o1 \<longleftrightarrow> single_owner o1 \<and> o1 \<noteq> KNilQuota \<and> kind_of o1 \<noteq> NamespaceKind"

lemma create_Ok:
  assumes "api_laws K" "kc_create K o1 w = (w', Ok c)"
  shows "kc_stored K (obj_key o1) w = None" "kc_stored K (obj_key o1) w' = Some c" "o1 \<noteq> KNilQuota"
    "stored_as c o1" "k \<noteq> obj_key o1 \<Longrightarrow> kc_stored K k w' = kc_stored K k w" "\<not> terminating c"
  using assms unfolding api_laws_def create_law_def same_objects_but_def by blast+

lemma create_exists:
  assumes "api_laws K" "kc_create K o1 w = (w', Err AlreadyExists)"
  shows "kc_stored K k w' = kc_stored K k w"
  using assms unfolding api_laws_def create_law_def same_objects_def by blast

lemma update_Ok:
  assumes "api_laws K" "kc_update K o1 w = (w', Ok c)"
  shows "kc_stored K (obj_key o1) w' = Some c" "stored_as c o1"
    "k \<noteq> obj_key o1 \<Longrightarrow> kc_stored K k w' = kc_stored K k w"
    "terminating c \<longleftrightarrow> (\<exists>d. kc_stored K (obj_key o1) w = Some d \<and> terminating d)"
  using assms unfolding api_laws_def update_law_def same_objects_but_def by blast+

lemma update_status_Ok:
  assumes "api_laws K" "kc_update_status K t w = (w', Ok t')"
  shows "kc_stored K k w' = kc_stored K k w" "kc_tenant K (om_name (t_meta t)) w' = Some t'"
    "kc_tenant K (om_name (t_meta t)) w = Some s \<Longrightarrow>
       \<exists>rv. t' = s\<lparr>t_status := t_status t, t_meta := (t_meta s)\<lparr>om_resourceVersion := rv\<rparr>\<rparr>"
proof -
  have law: "same_objects K w w' \<and> (\<exists>s rv. kc_tenant K (om_name (t_meta t)) w = Some s \<and> om_uid (t_meta s) = om_uid (t_meta t)
      \<and> t' = s\<lparr>t_status := t_status t, t_meta := (t_meta s)\<lparr>om_resourceVersion := rv\<rparr>\<rparr>)
      \<and> kc_tenant K (om_name (t_meta t)) w' = Some t'"
    using assms unfolding api_laws_def status_law_def by blast
  then show "kc_stored K k w' = kc_stored K k w" unfolding same_objects_def by blast
  from law show "kc_tenant K (om_name (t_meta t)) w' = Some t'" by blast
  from law show "\<exists>rv. t' = s\<lparr>t_status := t_status t, t_meta := (t_meta s)\<lparr>om_resourceVersion := rv\<rparr>\<rparr>"
    if "kc_tenant K (om_name (t_meta t)) w = Some s"
    using that by fastforce
qed

lemma cache_steps:
  assumes "cache_law K"
  shows "kc_create K o1 w = (w', r) \<Longrightarrow> cache_step K w w'" "kc_update K o1 w = (w', r) \<Longrightarrow> cache_step K w w'"
    "kc_update_status K t w = (w', r') \<Longrightarrow> cache_step K w w'"
  using assms unfolding cache_law_def by (metis fst_conv)+

text \<open>The three ways in which \<open>createOrUpdate\<close> succeeds.\<close>

lemma createOrUpdate_Ok_cases:
  assumes "createOrUpdate K Q o1 w = (w', Ok ())"
  obtains (created) c where "kc_create K o1 w = (w', Ok c)"
  | (kept) current where "kc_create K o1 w = (w', Err AlreadyExists)"
      "kc_get K (obj_key o1) w' = Ok current" "\<not> needsUpdate Q current o1"
  | (updated) w1 current c where "kc_create K o1 w = (w1, Err AlreadyExists)"
      "kc_get K (obj_key o1) w1 = Ok current" "needsUpdate Q current o1"
      "kc_update K (set_resourceVersion (om_resourceVersion (meta_of current)) o1) w1 = (w', Ok c)"
  using assms
  by (auto simp: createOrUpdate_def res_simps split: prod.splits res.splits if_splits)

lemma createOrUpdate_frame:
  assumes "api_laws K" "createOrUpdate K Q o1 w = (w', Ok ())" "k \<noteq> obj_key o1"
  shows "kc_stored K k w' = kc_stored K k w"
  using assms(2)
proof (cases rule: createOrUpdate_Ok_cases)
  case (created c)
  then show ?thesis using create_Ok(5) [OF assms(1) created assms(3)] by simp
next
  case (kept current)
  then show ?thesis using create_exists [OF assms(1) kept(1)] by simp
next
  case (updated w1 current c)
  then show ?thesis
    using create_exists [OF assms(1) updated(1), of k] update_Ok(3) [OF assms(1) updated(4), of k] assms(3) by simp
qed

text \<open>What is read after a creation that found the object is what was stored, if reads were in step before.\<close>

lemma read_existing:
  assumes "api_laws K" "cache_law K" "synced_at K (obj_key o1) w" "kc_create K o1 w = (w1, Err AlreadyExists)"
  shows "synced_at K (obj_key o1) w1"
    and "kc_get K (obj_key o1) w1 = Ok c \<longleftrightarrow> kc_stored K (obj_key o1) w = Some c"
proof -
  note same = create_exists [OF assms(1,4), of "obj_key o1"]
  show s: "synced_at K (obj_key o1) w1"
    by (rule synced_at_frame [OF cache_steps(1) [OF assms(2,4)] same assms(3)])
  show "kc_get K (obj_key o1) w1 = Ok c \<longleftrightarrow> kc_stored K (obj_key o1) w = Some c"
    using synced_at_Ok [OF s] same by simp
qed

lemma createOrUpdate_Ok:
  assumes "cluster_env K Q" "synced_at K (obj_key o1) w" "createOrUpdate K Q o1 w = (w', Ok ())"
  shows "\<exists>c. kc_stored K (obj_key o1) w' = Some c \<and> in_place Q c o1"
proof -
  note laws = cluster_envD [OF assms(1)]
  from assms(3) show ?thesis
  proof (cases rule: createOrUpdate_Ok_cases)
    case (created c)
    then show ?thesis using create_Ok(2,4) [OF laws(1) created] by (auto simp: in_place_def)
  next
    case (kept current)
    then show ?thesis
      using synced_at_Ok [OF read_existing(1) [OF laws(1,3) assms(2) kept(1)]] by (auto simp: in_place_def)
  next
    case (updated w1 current c)
    then show ?thesis using update_Ok(1,2) [OF laws(1) updated(4)] by (auto simp: in_place_def)
  qed
qed

lemma createOrUpdate_calm:
  assumes "cluster_env K Q" "synced_at K (obj_key o1) w" "calm_obj o1" "kc_stored K (obj_key o1) w = Some c"
    "in_place Q c o1" "createOrUpdate K Q o1 w = (w', Ok ())"
  shows "kc_stored K (obj_key o1) w' = Some c"
proof -
  note laws = cluster_envD [OF assms(1)]
  have nodrift: "\<not> needsUpdate Q c o1"
    using assms(3,5) stored_no_drift [OF laws(4)] by (auto simp: in_place_def calm_obj_def)
  from assms(6) show ?thesis
  proof (cases rule: createOrUpdate_Ok_cases)
    case (created d)
    then show ?thesis using create_Ok(1) [OF laws(1) created] assms(4) by simp
  next
    case (kept current)
    then show ?thesis using create_exists [OF laws(1) kept(1), of "obj_key o1"] assms(4) by simp
  next
    case (updated w1 current d)
    then have "current = c" using read_existing(2) [OF laws(1,3) assms(2) updated(1)] assms(4) by simp
    with updated(3) nodrift show ?thesis by simp
  qed
qed

lemma createOrUpdate_synced:
  assumes "cluster_env K Q" "createOrUpdate K Q o1 w = (w', Ok ())" "k \<noteq> obj_key o1" "synced_at K k w"
  shows "synced_at K k w'"
proof -
  note laws = cluster_envD [OF assms(1)] and steps = cache_steps [OF cluster_envD(3) [OF assms(1)]]
  from assms(2) show ?thesis
  proof (cases rule: createOrUpdate_Ok_cases)
    case (created c)
    show ?thesis by (rule synced_at_frame [OF steps(1) [OF created] create_Ok(5) [OF laws(1) created assms(3)] assms(4)])
  next
    case (kept current)
    then show ?thesis by (intro synced_at_frame [OF steps(1) create_exists [OF laws(1)] assms(4)])
  next
    case (updated w1 current c)
    have "synced_at K k w1"
      by (rule synced_at_frame [OF steps(1) [OF updated(1)] create_exists [OF laws(1) updated(1)] assms(4)])
    then show ?thesis
      using assms(3) by (intro synced_at_frame [OF steps(2) [OF updated(4)] update_Ok(3) [OF laws(1) updated(4)]]) simp_all
  qed
qed

interpretation cu: ensurer "cluster_env K Q" "createOrUpdate K Q" obj_key "kc_stored K" "in_place Q" calm_obj "synced_at K"
  for K Q
  by unfold_locales
    (blast intro: createOrUpdate_Ok createOrUpdate_calm createOrUpdate_synced createOrUpdate_frame cluster_envD(1))+


section \<open>The objects of a tenant\<close>

definition same_identity :: "tenant \<Rightarrow> tenant \<Rightarrow> bool" where
  "same_identity t t' \<longleftrightarrow> tname t' = tname t \<and> om_uid (t_meta t') = om_uid (t_meta t) \<and> t_spec t' = t_spec t"

lemma same_identity_builders:
  assumes "same_identity t t'"
  shows "namespace_name t' = namespace_name t" "buildNamespace t' = buildNamespace t"
    "buildResourceQuota Q t' = buildResourceQuota Q t"
    "buildAdminRole t' = buildAdminRole t" "buildOperatorRole t' = buildOperatorRole t"
    "buildAdminRoleBinding t' = buildAdminRoleBinding t"
    "buildOperatorRoleBinding t' = buildOperatorRoleBinding t"
    "buildNetworkPolicy cfg t' = buildNetworkPolicy cfg t" "buildLimitRange Q cfg t' = buildLimitRange Q cfg t"
proof -
  have ns: "namespace_name t' = namespace_name t" and own: "\<And>n m. owned_meta t' n m = owned_meta t n m"
    and name: "tname t' = tname t" and spec: "t_spec t' = t_spec t"
    using assms by (simp_all add: same_identity_def namespace_name_def owned_meta_def tenant_owner_def)
  note eqs = ns own name spec
  show "namespace_name t' = namespace_name t" by (rule ns)
  show "buildNamespace t' = buildNamespace t" by (simp add: buildNamespace_def eqs)
  show "buildResourceQuota Q t' = buildResourceQuota Q t"
    by (simp add: buildResourceQuota_def buildFreeTier_def buildProTier_def buildEnterpriseTier_def
        build_quota_def eqs cong: if_cong)
  show "buildAdminRole t' = buildAdminRole t" "buildOperatorRole t' = buildOperatorRole t"
    by (simp_all add: buildAdminRole_def buildOperatorRole_def eqs)
  show "buildAdminRoleBinding t' = buildAdminRoleBinding t"
    "buildOperatorRoleBinding t' = buildOperatorRoleBinding t"
    by (simp_all add: buildAdminRoleBinding_def buildOperatorRoleBinding_def build_binding_def eqs)
  show "buildNetworkPolicy cfg t' = buildNetworkPolicy cfg t" by (simp add: buildNetworkPolicy_def eqs)
  show "buildLimitRange Q cfg t' = buildLimitRange Q cfg t"
    by (simp add: buildLimitRange_def tier_limits_def eqs)
qed

lemma same_identity_desired:
  "same_identity t t' \<Longrightarrow> desired_before t' quota = desired_before t quota"
  by (simp add: desired_before_def same_identity_builders)

lemma buildResourceQuota_Ok:
  assumes "buildResourceQuota Q t = Ok o1"
  shows "kind_of o1 = QuotaKind" "o1 \<noteq> KNilQuota \<Longrightarrow> single_owner o1"
    "o1 = KNilQuota \<longleftrightarrow> ts_tier (t_spec t) \<notin> {TierFree, TierPro, TierEnterprise}"
    "o1 \<noteq> KNilQuota \<Longrightarrow> om_namespace (meta_of o1) = namespace_name t"
  using assms
  by (auto simp: buildResourceQuota_def buildFreeTier_def buildProTier_def buildEnterpriseTier_def
      build_quota_def res_simps Let_def single_owner_def split: if_splits)

definition desired_objects :: "'q kobj \<Rightarrow> 'q limit_range \<Rightarrow> config \<Rightarrow> tenant \<Rightarrow> 'q kobj list" where
  "desired_objects quota limits cfg t =
     desired_before t quota @ [KNetworkPolicy (buildNetworkPolicy cfg t), KLimitRange limits]"

lemma buildLimitRange_Ok:
  assumes "buildLimitRange Q cfg t = Ok l"
  shows "lr_meta l = owned_meta t ''tenant-defaults'' (namespace_name t)"
  using assms by (auto simp: buildLimitRange_def res_simps split: prod.splits)

lemma desired_objects_distinct:
  assumes "kind_of quota = QuotaKind"
  shows "distinct (map obj_key (desired_objects quota limits cfg t))"
  using assms
  by (simp add: desired_objects_def desired_before_def obj_key_def buildAdminRole_def buildOperatorRole_def
      buildAdminRoleBinding_def buildOperatorRoleBinding_def build_binding_def)

lemma desired_objects_calm:
  assumes "buildResourceQuota Q t = Ok quota" "buildLimitRange Q cfg t = Ok limits" "quota \<noteq> KNilQuota"
    "o1 \<in> set (desired_objects quota limits cfg t)"
  shows "calm_obj o1 \<or> obj_key o1 = (NamespaceKind, [], namespace_name t)"
proof -
  have q: "kind_of quota = QuotaKind" "single_owner quota" "lr_meta limits = owned_meta t ''tenant-defaults'' (namespace_name t)"
    using buildResourceQuota_Ok(1,2) [OF assms(1)] buildLimitRange_Ok [OF assms(2)] assms(3) by auto
  have "list_all (\<lambda>o1. calm_obj o1 \<or> obj_key o1 = (NamespaceKind, [], namespace_name t)) (desired_objects quota limits cfg t)"
    using q assms(3)
    by (simp add: desired_objects_def desired_before_def calm_obj_def single_owner_def obj_key_def
        buildNamespace_def buildAdminRole_def buildOperatorRole_def buildAdminRoleBinding_def
        buildOperatorRoleBinding_def build_binding_def buildNetworkPolicy_def Let_def)
  then show ?thesis using assms(4) by (simp add: list_all_iff)
qed


section \<open>A successful run\<close>

lemma on_kube_Ok_iff [res_simps]:
  "on_kube f w = (w', Ok a) \<longleftrightarrow> (\<exists>k. f (wd_kube w) = (k, Ok a) \<and> w' = w\<lparr>wd_kube := k\<rparr>)"
  by (auto simp: on_kube_def Let_def split: prod.splits)

lemma on_db_Ok_iff [res_simps]:
  "on_db f w = (w', Ok a) \<longleftrightarrow> (\<exists>d. f (wd_db w) = (d, Ok a) \<and> w' = w\<lparr>wd_db := d\<rparr>)"
  by (auto simp: on_db_def Let_def split: prod.splits)

lemma same_identity_refl [simp]: "same_identity t t"
  by (simp add: same_identity_def)

lemma CreateTenant_identity:
  assumes "CreateTenant P t d = (d', Ok t')"
  shows "same_identity t t'" "t_status t' = t_status t"
  using assms by (auto simp: CreateTenant_Ok_iff same_identity_def tname_def)

lemma record_tenant_OkE:
  assumes "record_tenant P t w = (w', Ok t')"
  obtains (created) d1 d2 where "GetTenantByID P (om_uid (t_meta t)) (wd_db w) = (d1, Ok None)"
      "CreateTenant P t d1 = (d2, Ok t')" "w' = w\<lparr>wd_db := d2\<rparr>"
  | (updated) d1 x d2 where "GetTenantByID P (om_uid (t_meta t)) (wd_db w) = (d1, Ok (Some x))"
      "UpdateTenant P t d1 = (d2, Ok ())" "w' = w\<lparr>wd_db := d2\<rparr>" "t' = t"
proof -
  obtain w1 e where g: "on_db (GetTenantByID P (om_uid (t_meta t))) w = (w1, Ok e)"
    and r: "(case e of None \<Rightarrow> then_try (on_db (CreateTenant P t) w1) (\<lambda>w2 t1. (w2, Ok t1)) DbErr
       | Some _ \<Rightarrow> then_try (on_db (UpdateTenant P t) w1) (\<lambda>w2 _. (w2, Ok t)) DbErr) = (w', Ok t')"
    using assms unfolding record_tenant_def then_try_Ok_iff by blast
  obtain d1 where d1: "GetTenantByID P (om_uid (t_meta t)) (wd_db w) = (d1, Ok e)" and w1: "w1 = w\<lparr>wd_db := d1\<rparr>"
    using g by (auto simp: on_db_Ok_iff)
  show ?thesis
  proof (cases e)
    case None
    with r w1 have "\<exists>d2. CreateTenant P t d1 = (d2, Ok t') \<and> w' = w\<lparr>wd_db := d2\<rparr>"
      by (auto simp: then_try_Ok_iff on_db_Ok_iff)
    with created d1 None show ?thesis by blast
  next
    case (Some x)
    with r w1 have "\<exists>d2. UpdateTenant P t d1 = (d2, Ok ()) \<and> w' = w\<lparr>wd_db := d2\<rparr> \<and> t' = t"
      by (auto simp: then_try_Ok_iff on_db_Ok_iff)
    with updated d1 Some show ?thesis by blast
  qed
qed

lemma record_tenant_Ok:
  assumes "record_tenant P t w = (w', Ok t')"
  shows "same_identity t t'" "t_status t' = t_status t" "wd_kube w' = wd_kube w"
  using assms by (cases rule: record_tenant_OkE; auto dest: CreateTenant_identity)+

lemma reconcileCreateOrUpdate_steps:
  fixes t :: tenant
  defines "tt \<equiv> \<lambda>t1. t1\<lparr>t_status := (t_status t1)\<lparr>tst_phase := TenantPhaseActive,
    tst_namespace := om_name (buildNamespace t1)\<rparr>\<rparr>"
  assumes "reconcileCreateOrUpdate P K Q cfg t w = (w', Ok r)"
  obtains w1 t1 quota k1 k2 t2 k3 limits where "record_tenant P t w = (w1, Ok t1)"
    "buildResourceQuota Q t1 = (Ok quota :: (rec_error, _) res)"
    "ensure_all (createOrUpdate K Q) (desired_before t1 quota) (wd_kube w1) = (k1, Ok ())"
    "kc_update_status K (tt t1) k1 = (k2, Ok t2)"
    "ensure_all (createOrUpdate K Q) [KNetworkPolicy (buildNetworkPolicy cfg t2)] k2 = (k3, Ok ())"
    "buildLimitRange Q cfg t2 = (Ok limits :: (rec_error, _) res)"
    "ensure_all (createOrUpdate K Q) [KLimitRange limits] k3 = (wd_kube w', Ok ())"
    "wd_db w' = wd_db w1" "r = \<lparr>cr_Requeue = False\<rparr>"
proof -
  have "\<exists>w1 t1 quota k1 k2 t2 k3 limits. record_tenant P t w = (w1, Ok t1) \<and> buildResourceQuota Q t1 = (Ok quota :: (rec_error, _) res)
    \<and> ensure_all (createOrUpdate K Q) (desired_before t1 quota) (wd_kube w1) = (k1, Ok ())
    \<and> kc_update_status K (tt t1) k1 = (k2, Ok t2)
    \<and> ensure_all (createOrUpdate K Q) [KNetworkPolicy (buildNetworkPolicy cfg t2)] k2 = (k3, Ok ())
    \<and> buildLimitRange Q cfg t2 = (Ok limits :: (rec_error, _) res)
    \<and> ensure_all (createOrUpdate K Q) [KLimitRange limits] k3 = (wd_kube w', Ok ())
    \<and> wd_db w' = wd_db w1 \<and> r = \<lparr>cr_Requeue = False\<rparr>"
    using assms(2) unfolding reconcileCreateOrUpdate_def tt_def
    by (auto simp: then_try_Ok_iff on_kube_Ok_iff done_result_def simp del: ensure_all.simps)
  then show thesis by (elim exE conjE) (rule that)
qed

lemma createOrUpdate_tenant:
  assumes "api_laws K" "createOrUpdate K Q o1 w = (w', Ok ())"
  shows "kc_tenant K n w' = kc_tenant K n w"
proof -
  have create: "kc_create K p v = (v', Ok c) \<Longrightarrow> kc_tenant K n v' = kc_tenant K n v"
    "kc_create K p v = (v', Err AlreadyExists) \<Longrightarrow> kc_tenant K n v' = kc_tenant K n v"
    "kc_update K p v = (v', Ok c) \<Longrightarrow> kc_tenant K n v' = kc_tenant K n v" for p v v' c
    using assms(1) unfolding api_laws_def create_law_def update_law_def same_objects_but_def by blast+
  from assms(2) show ?thesis
  proof (cases rule: createOrUpdate_Ok_cases)
    case (updated w1 current c)
    then show ?thesis using create(2) [OF updated(1)] create(3) [OF updated(4)] by simp
  qed (auto dest: create)
qed

lemma ensure_all_tenant:
  "api_laws K \<Longrightarrow> ensure_all (createOrUpdate K Q) os w = (w', Ok ()) \<Longrightarrow> kc_tenant K n w' = kc_tenant K n w"
  by (induction os arbitrary: w) (auto simp: then_try_Ok_iff dest: createOrUpdate_tenant)

lemma ensure_all_same_keys:
  "api_laws K \<Longrightarrow> ensure_all (createOrUpdate K Q) os w = (w', Ok ()) \<Longrightarrow> k \<notin> obj_key ` set os \<Longrightarrow>
     kc_stored K k w' = kc_stored K k w"
  by (induction os arbitrary: w) (auto simp: then_try_Ok_iff dest: createOrUpdate_frame)

lemma update_status_synced:
  assumes "api_laws K" "cache_law K" "kc_update_status K t w = (w', r)" "r = Ok t'" "synced_at K k w"
  shows "synced_at K k w'"
  using synced_at_frame [OF cache_steps(3) [OF assms(2,3)] update_status_Ok(1) [OF assms(1) assms(3) [unfolded assms(4)]] assms(5)] .

text \<open>The steps of a successful run, where the tenant read is the one the server holds.\<close>

lemma reconcileCreateOrUpdate_Ok:
  assumes "reconcileCreateOrUpdate P K Q cfg t w = (w', Ok r)" "api_laws K" "kc_tenant K (tname t) (wd_kube w) = Some t"
  obtains w1 t1 quota limits k1 tt k2 t2 rv where
    "record_tenant P t w = (w1, Ok t1)" "buildResourceQuota Q t = (Ok quota :: (rec_error, _) res)" "buildLimitRange Q cfg t = (Ok limits :: (rec_error, _) res)"
    "ensure_all (createOrUpdate K Q) (desired_before t quota) (wd_kube w) = (k1, Ok ())"
    "kc_update_status K tt k1 = (k2, Ok t2)"
    "t2 = t\<lparr>t_status := (t_status t)\<lparr>tst_phase := TenantPhaseActive, tst_namespace := namespace_name t\<rparr>,
            t_meta := (t_meta t)\<lparr>om_resourceVersion := rv\<rparr>\<rparr>"
    "kc_tenant K (tname t) (wd_kube w') = Some t2"
    "ensure_all (createOrUpdate K Q) [KNetworkPolicy (buildNetworkPolicy cfg t), KLimitRange limits] k2
       = (wd_kube w', Ok ())"
    "wd_db w' = wd_db w1" "r = \<lparr>cr_Requeue = False\<rparr>"
proof -
  let ?tt = "\<lambda>t1. t1\<lparr>t_status := (t_status t1)\<lparr>tst_phase := TenantPhaseActive,
    tst_namespace := om_name (buildNamespace t1)\<rparr>\<rparr>"
  obtain w1 t1 quota k1 k2 t2 k3 limits where rec: "record_tenant P t w = (w1, Ok t1)"
    and q: "buildResourceQuota Q t1 = (Ok quota :: (rec_error, _) res)"
    and k1: "ensure_all (createOrUpdate K Q) (desired_before t1 quota) (wd_kube w1) = (k1, Ok ())"
    and k2: "kc_update_status K (?tt t1) k1 = (k2, Ok t2)"
    and k3: "ensure_all (createOrUpdate K Q) [KNetworkPolicy (buildNetworkPolicy cfg t2)] k2 = (k3, Ok ())"
    and l: "buildLimitRange Q cfg t2 = (Ok limits :: (rec_error, _) res)"
    and k4: "ensure_all (createOrUpdate K Q) [KLimitRange limits] k3 = (wd_kube w', Ok ())"
    and w': "wd_db w' = wd_db w1" "r = \<lparr>cr_Requeue = False\<rparr>"
    by (rule reconcileCreateOrUpdate_steps [OF assms(1)])
  have id1: "same_identity t t1" and st1: "t_status t1 = t_status t" and wk: "wd_kube w1 = wd_kube w"
    using record_tenant_Ok [OF rec] by auto
  have name: "om_name (t_meta (?tt t1)) = tname t" using id1 by (simp add: same_identity_def tname_def)
  have k1': "ensure_all (createOrUpdate K Q) (desired_before t quota) (wd_kube w) = (k1, Ok ())"
    using k1 by (simp only: same_identity_desired [OF id1] wk)
  have "kc_tenant K (om_name (t_meta (?tt t1))) k1 = Some t"
    using ensure_all_tenant [OF assms(2) k1', of "tname t"] assms(3) by (simp only: name)
  from update_status_Ok(3) [OF assms(2) k2 this] obtain rv where t2: "t2 = t\<lparr>t_status := (t_status t)\<lparr>tst_phase := TenantPhaseActive,
      tst_namespace := namespace_name t\<rparr>, t_meta := (t_meta t)\<lparr>om_resourceVersion := rv\<rparr>\<rparr>"
    by (auto simp: st1 same_identity_builders(1) [OF id1] buildNamespace_def)
  then have id2: "same_identity t t2" by (simp add: same_identity_def tname_def)
  have k34: "ensure_all (createOrUpdate K Q) [KNetworkPolicy (buildNetworkPolicy cfg t), KLimitRange limits] k2
      = (wd_kube w', Ok ())"
    using k3 k4 same_identity_builders(8) [OF id2] ensure_all_append_Ok
      [of "createOrUpdate K Q" "[KNetworkPolicy (buildNetworkPolicy cfg t)]" "[KLimitRange limits]" k2 "wd_kube w'"]
    by (simp del: ensure_all.simps)
  show ?thesis
  proof (rule that [OF rec _ _ k1' k2 t2 _ k34])
    show "buildResourceQuota Q t = (Ok quota :: (rec_error, _) res)" using q by (simp add: same_identity_builders(3) [OF id1])
    show "buildLimitRange Q cfg t = (Ok limits :: (rec_error, _) res)" using l by (simp add: same_identity_builders(9) [OF id2])
    show "kc_tenant K (tname t) (wd_kube w') = Some t2"
      using ensure_all_tenant [OF assms(2) k34, of "tname t"] update_status_Ok(2) [OF assms(2) k2] by (simp only: name)
  qed (simp_all add: w')
qed

text \<open>The branch of \<open>Reconcile\<close> that builds the objects.\<close>

definition to_build :: "('w, 'q) kube_client \<Rightarrow> string \<Rightarrow> 'w world \<Rightarrow> tenant \<Rightarrow> bool" where
  "to_build K name w t \<longleftrightarrow> kc_get_tenant K name (wd_kube w) = Ok t
     \<and> om_deletionTimestamp (t_meta t) = None \<and> tenantFinalizer \<in> set (om_finalizers (t_meta t))"

lemma Reconcile_build:
  "to_build K name w t \<Longrightarrow> Reconcile P K Q cfg name w = reconcileCreateOrUpdate P K Q cfg t w"
  by (simp add: Reconcile_def to_build_def)

lemma createOrUpdate_nil:
  "api_laws K \<Longrightarrow> createOrUpdate K Q KNilQuota w \<noteq> (w', Ok ())"
  using create_Ok(3) [of K KNilQuota w] by (auto simp: createOrUpdate_def split: prod.splits res.splits)

lemma desired_before_keys: "kind_of quota = QuotaKind \<Longrightarrow> distinct (map obj_key (desired_before t quota))"
  using desired_objects_distinct [of quota] by (auto simp: desired_objects_def)

lemma to_build_held:
  assumes "key_law K" "synced K (wd_kube w)" "to_build K name w t"
  shows "kc_tenant K (tname t) (wd_kube w) = Some t" "tname t = name"
proof -
  have held: "kc_tenant K name (wd_kube w) = Some t"
    using syncedD(4) [OF assms(2)] assms(3) by (simp add: to_build_def)
  then show "tname t = name" using assms(1) unfolding key_law_def tname_def by blast
  with held show "kc_tenant K (tname t) (wd_kube w) = Some t" by simp
qed

lemma reconcile_placed:
  assumes "cluster_env K Q" "synced K (wd_kube w)" "to_build K name w t" "Reconcile P K Q cfg name w = (w', Ok r)"
  obtains quota limits rv where "buildResourceQuota Q t = (Ok quota :: (rec_error, _) res)"
    "buildLimitRange Q cfg t = (Ok limits :: (rec_error, _) res)" "quota \<noteq> KNilQuota"
    "\<And>o1. o1 \<in> set (desired_objects quota limits cfg t) \<Longrightarrow> cu.placed K Q o1 (wd_kube w')"
    "kc_tenant K (tname t) (wd_kube w') = Some (t\<lparr>t_status := (t_status t)\<lparr>tst_phase := TenantPhaseActive,
       tst_namespace := namespace_name t\<rparr>, t_meta := (t_meta t)\<lparr>om_resourceVersion := rv\<rparr>\<rparr>)"
    "r = \<lparr>cr_Requeue = False\<rparr>"
proof -
  note laws = cluster_envD [OF assms(1)]
  have "reconcileCreateOrUpdate P K Q cfg t w = (w', Ok r)"
    using assms(4) by (simp add: Reconcile_build [OF assms(3)])
  then obtain w1 t1 quota limits k1 tt k2 t2 rv where q: "buildResourceQuota Q t = (Ok quota :: (rec_error, _) res)"
    and l: "buildLimitRange Q cfg t = (Ok limits :: (rec_error, _) res)"
    and k1: "ensure_all (createOrUpdate K Q) (desired_before t quota) (wd_kube w) = (k1, Ok ())"
    and k2: "kc_update_status K tt k1 = (k2, Ok t2)"
    and t2: "t2 = t\<lparr>t_status := (t_status t)\<lparr>tst_phase := TenantPhaseActive, tst_namespace := namespace_name t\<rparr>,
       t_meta := (t_meta t)\<lparr>om_resourceVersion := rv\<rparr>\<rparr>" "kc_tenant K (tname t) (wd_kube w') = Some t2"
    and k3: "ensure_all (createOrUpdate K Q) [KNetworkPolicy (buildNetworkPolicy cfg t), KLimitRange limits] k2
        = (wd_kube w', Ok ())" and r: "r = \<lparr>cr_Requeue = False\<rparr>"
    using laws(1) to_build_held(1) [OF laws(2) assms(2,3)] by (rule reconcileCreateOrUpdate_Ok)
  have qk: "kind_of quota = QuotaKind" using buildResourceQuota_Ok [OF q] by blast
  let ?last = "[KNetworkPolicy (buildNetworkPolicy cfg t), KLimitRange limits]"
  have keys: "distinct (map obj_key (desired_objects quota limits cfg t))"
    by (rule desired_objects_distinct [OF qk])
  note read = syncedD(1) [OF assms(2)]
  show ?thesis
  proof (rule that [OF q l _ _ t2(2) [unfolded t2(1)] r])
    show "quota \<noteq> KNilQuota"
      using k1 createOrUpdate_nil [OF laws(1)] by (auto simp: desired_before_def res_simps)
    show "cu.placed K Q o1 (wd_kube w')" if o1: "o1 \<in> set (desired_objects quota limits cfg t)" for o1
    proof (cases "o1 \<in> set (desired_before t quota)")
      case True
      have "cu.placed K Q o1 k1" by (rule cu.all_placed [OF assms(1) k1 desired_before_keys [OF qk] read True])
      moreover have "obj_key o1 \<notin> obj_key ` set ?last"
        using keys imageI [OF True, of obj_key] unfolding desired_objects_def by auto
      then have "kc_stored K (obj_key o1) (wd_kube w') = kc_stored K (obj_key o1) k2"
        by (rule cu.all_frame [OF assms(1) k3])
      ultimately show ?thesis
        using update_status_Ok(1) [OF laws(1) k2, of "obj_key o1"] by (simp add: cu.placed_def)
    next
      case False
      with o1 have mem: "o1 \<in> set ?last" by (simp add: desired_objects_def)
      have "synced_at K (obj_key p) k2" if "p \<in> set ?last" for p
      proof (rule update_status_synced [OF laws(1,3) k2 refl])
        have "obj_key p \<notin> obj_key ` set (desired_before t quota)"
          using keys imageI [OF that, of obj_key] unfolding desired_objects_def by auto
        then show "synced_at K (obj_key p) k1" by (rule cu.all_ready [OF assms(1) k1 _ read])
      qed
      moreover have "distinct (map obj_key ?last)"
        using keys by (simp add: desired_objects_def)
      ultimately show ?thesis using cu.all_placed [OF assms(1) k3] mem by blast
    qed
  qed
qed

text \<open>
  C3: when \<open>Reconcile\<close> of a tenant that carries the finalizer and is not being deleted starts with a
  cache in step with the server and succeeds, each of the eight objects of the tenant is in the
  cluster under its own key, either as the server stores what the controller built or as an object
  in which the drift check finds nothing to change, and the tenant's status is Active with the
  name of its namespace.
\<close>

theorem reconcile_settles:
  assumes "cluster_env K Q" "synced K (wd_kube w)" "to_build K name w t" "Reconcile P K Q cfg name w = (w', Ok r)"
  shows "\<exists>quota limits. buildResourceQuota Q t = (Ok quota :: (rec_error, _) res)
    \<and> buildLimitRange Q cfg t = (Ok limits :: (rec_error, _) res)
    \<and> (let os = desired_objects quota limits cfg t in
         length os = 8 \<and> distinct (map obj_key os)
         \<and> (\<forall>o1\<in>set os. \<exists>c. kc_stored K (obj_key o1) (wd_kube w') = Some c \<and> in_place Q c o1))
    \<and> (\<exists>t'. kc_tenant K (tname t) (wd_kube w') = Some t' \<and> tst_phase (t_status t') = TenantPhaseActive
         \<and> tst_namespace (t_status t') = om_name (buildNamespace t))"
proof -
  obtain quota limits rv where q: "buildResourceQuota Q t = (Ok quota :: (rec_error, _) res)"
    and l: "buildLimitRange Q cfg t = (Ok limits :: (rec_error, _) res)"
    and placed: "\<And>o1. o1 \<in> set (desired_objects quota limits cfg t) \<Longrightarrow> cu.placed K Q o1 (wd_kube w')"
    and t': "kc_tenant K (tname t) (wd_kube w') = Some (t\<lparr>t_status := (t_status t)\<lparr>tst_phase := TenantPhaseActive,
       tst_namespace := namespace_name t\<rparr>, t_meta := (t_meta t)\<lparr>om_resourceVersion := rv\<rparr>\<rparr>)"
    by (rule reconcile_placed [OF assms]) blast
  have "kind_of quota = QuotaKind" using buildResourceQuota_Ok [OF q] by blast
  then have "distinct (map obj_key (desired_objects quota limits cfg t))" by (rule desired_objects_distinct)
  moreover have "length (desired_objects quota limits cfg t) = 8"
    by (simp add: desired_objects_def desired_before_def)
  ultimately show ?thesis
    using q l placed t' by (auto simp: Let_def cu.placed_def buildNamespace_def)
qed

text \<open>A tenant with the finalizer on a cluster in memory, for the witnesses.\<close>

definition demo_config :: config where
  "demo_config = empty_config\<lparr>cfg_Free := \<lparr>td_cpu = ''100m'', td_memory = ''128Mi''\<rparr>\<rparr>"

definition demo_tenant :: tenant where
  "demo_tenant = empty_tenant\<lparr>
     t_meta := empty_meta\<lparr>om_name := ''acme'', om_uid := ''u1'', om_resourceVersion := ''v'', om_finalizers := [tenantFinalizer]\<rparr>,
     t_spec := (t_spec empty_tenant)\<lparr>ts_name := ''web'', ts_tier := TierFree, ts_ownerEmail := ''a@x''\<rparr>\<rparr>"

definition mem_with :: "tenant list \<Rightarrow> string mem_cluster" where
  "mem_with ts = \<lparr>mc_objects = [], mc_tenants = map (\<lambda>t. (tname t, t)) ts, mc_rev = 1\<rparr>"

lemma mem_with_empty: "kc_stored mem_client k (mem_with ts) = None"
  by (simp add: mem_client_def mem_look_def mem_with_def)

definition demo_world :: "string mem_cluster world" where
  "demo_world = \<lparr>wd_kube = mem_with [demo_tenant], wd_db = empty_db\<rparr>"

definition demo_run ::
    "string mem_cluster world \<Rightarrow> string mem_cluster world \<times> (rec_error, ctrl_result) res" where
  "demo_run = Reconcile plain_pg mem_client text_quantities demo_config ''acme''"

lemma demo_env: "cluster_env mem_client text_quantities"
  by (simp add: cluster_env_def mem_client_laws mem_client_cache text_quantities_laws)

lemma demo_build: "to_build mem_client ''acme'' demo_world demo_tenant"
  by code_simp

lemma demo_first: "snd (demo_run demo_world) = Ok \<lparr>cr_Requeue = False\<rparr>"
  by code_simp

theorem reconcile_settles_witness:
  "\<exists>t'. kc_tenant mem_client ''acme'' (wd_kube (fst (demo_run demo_world))) = Some t'
     \<and> tst_phase (t_status t') = TenantPhaseActive"
  using reconcile_settles [OF demo_env mem_client_synced demo_build answered [OF demo_first, unfolded demo_run_def]]
  by (auto simp: demo_run_def demo_tenant_def tname_def empty_tenant_def empty_meta_def)

text \<open>
  C25: a second run changes nothing. Let a run of a tenant that carries the finalizer and is not being
  deleted start with a cache in step and succeed, and the cache catch up while no one else
  writes; if the next run succeeds too, it changes no object of the cluster except the tenant's
  namespace.
\<close>

theorem reconcile_idempotent:
  assumes "cluster_env K Q" "synced K (wd_kube w)" "to_build K name w t" "Reconcile P K Q cfg name w = (w1, Ok r)"
    and "catches_up K (wd_kube w1) k1" "Reconcile P K Q cfg name (w1\<lparr>wd_kube := k1\<rparr>) = (w2, Ok r1)"
    and "k \<noteq> (NamespaceKind, [], namespace_name t)"
  shows "kc_stored K k (wd_kube w2) = kc_stored K k (wd_kube w1)"
proof -
  note laws = cluster_envD [OF assms(1)] and up = catches_upD [OF assms(5)]
  let ?w = "w1\<lparr>wd_kube := k1\<rparr>"
  obtain quota limits rv where q: "buildResourceQuota Q t = (Ok quota :: (rec_error, _) res)"
    and l: "buildLimitRange Q cfg t = (Ok limits :: (rec_error, _) res)" and nil: "quota \<noteq> KNilQuota"
    and placed: "\<And>o1. o1 \<in> set (desired_objects quota limits cfg t) \<Longrightarrow> cu.placed K Q o1 (wd_kube w1)"
    and t': "kc_tenant K (tname t) (wd_kube w1) = Some (t\<lparr>t_status := (t_status t)\<lparr>tst_phase := TenantPhaseActive,
       tst_namespace := namespace_name t\<rparr>, t_meta := (t_meta t)\<lparr>om_resourceVersion := rv\<rparr>\<rparr>)" (is "_ = Some ?t")
    by (rule reconcile_placed [OF assms(1-4)]) blast
  have name: "tname t = name" by (rule to_build_held(2) [OF laws(2) assms(2,3)])
  have id1: "same_identity t ?t" by (simp add: same_identity_def tname_def)
  have held: "kc_tenant K (tname ?t) (wd_kube ?w) = Some ?t"
    using up(2) [of "tname t"] t' by (simp add: tname_def)
  have build: "to_build K name ?w ?t"
    using syncedD(2) [OF up(3)] held assms(3) name by (simp add: to_build_def tname_def)
  have "reconcileCreateOrUpdate P K Q cfg ?t ?w = (w2, Ok r1)"
    using assms(6) by (simp add: Reconcile_build [OF build])
  then obtain v t3 quota' limits' j1 tt j2 t2 rv' where q': "buildResourceQuota Q ?t = (Ok quota' :: (rec_error, _) res)"
    and l': "buildLimitRange Q cfg ?t = (Ok limits' :: (rec_error, _) res)"
    and k1: "ensure_all (createOrUpdate K Q) (desired_before ?t quota') (wd_kube ?w) = (j1, Ok ())"
    and k2: "kc_update_status K tt j1 = (j2, Ok t2)"
    and k3: "ensure_all (createOrUpdate K Q) [KNetworkPolicy (buildNetworkPolicy cfg ?t), KLimitRange limits'] j2
        = (wd_kube w2, Ok ())"
    using laws(1) held by (rule reconcileCreateOrUpdate_Ok)
  have eqs: "quota' = quota" "limits' = limits" "desired_before ?t quota' = desired_before t quota"
      "buildNetworkPolicy cfg ?t = buildNetworkPolicy cfg t"
    using q' q l' l by (simp_all only: same_identity_builders [OF id1] same_identity_desired [OF id1] res.inject)
  have qk: "kind_of quota = QuotaKind" using buildResourceQuota_Ok [OF q] by blast
  have keys: "distinct (map obj_key (desired_objects quota limits cfg t))" by (rule desired_objects_distinct [OF qk])
  note calm = desired_objects_calm [OF q l nil] and read = syncedD(1) [OF up(3)]
  let ?ns = "(NamespaceKind, [], namespace_name t)" and ?last = "[KNetworkPolicy (buildNetworkPolicy cfg t), KLimitRange limits]"
  have there: "cu.placed K Q o1 k1" if "o1 \<in> set (desired_objects quota limits cfg t)" for o1
    using placed [OF that] by (simp add: cu.placed_def up(1))
  have first: "kc_stored K j j1 = kc_stored K j k1" if j: "j \<noteq> ?ns" for j
  proof (rule cu.all_calm [OF assms(1) k1 [unfolded eqs(3), simplified] _ _ desired_before_keys [OF qk] j])
    fix o1 assume "o1 \<in> set (desired_before t quota)"
    then have mem: "o1 \<in> set (desired_objects quota limits cfg t)" by (simp add: desired_objects_def)
    then show "calm_obj o1 \<or> obj_key o1 = ?ns" by (rule calm)
    show "cu.placed K Q o1 k1 \<and> synced_at K (obj_key o1) k1" using there [OF mem] read by blast
  qed
  have second: "kc_stored K k (wd_kube w2) = kc_stored K k j2"
  proof (rule cu.all_calm [OF assms(1) k3 [unfolded eqs(2,4)] _ _ _ assms(7)])
    fix o1 assume o1: "o1 \<in> set ?last"
    then have mem: "o1 \<in> set (desired_objects quota limits cfg t)" by (auto simp: desired_objects_def)
    then show "calm_obj o1 \<or> obj_key o1 = ?ns" by (rule calm)
    have "obj_key o1 \<noteq> ?ns" using o1 by (auto simp: obj_key_def)
    then have same: "kc_stored K (obj_key o1) j2 = kc_stored K (obj_key o1) k1"
      using first update_status_Ok(1) [OF laws(1) k2, of "obj_key o1"] by simp
    have "obj_key o1 \<notin> obj_key ` set (desired_before t quota)"
      using keys imageI [OF o1, of obj_key] unfolding desired_objects_def by auto
    then have "synced_at K (obj_key o1) j1"
      by (rule cu.all_ready [OF assms(1) k1 [unfolded eqs(3), simplified] _ read])
    then have "synced_at K (obj_key o1) j2" by (rule update_status_synced [OF laws(1,3) k2 refl])
    then show "cu.placed K Q o1 j2 \<and> synced_at K (obj_key o1) j2" using there [OF mem] same by (simp add: cu.placed_def)
  qed (simp add: obj_key_def)
  show ?thesis
    using first [OF assms(7)] second update_status_Ok(1) [OF laws(1) k2, of k] up(1) by simp
qed

lemma mem_catches_up: "catches_up mem_client w w"
  by (simp add: catches_up_def same_objects_def mem_client_synced)

theorem reconcile_idempotent_witness:
  "kc_stored mem_client (RoleKind, ''tenant-acme-web'', ''tenant-acme-admin'') (wd_kube (fst (demo_run (fst (demo_run demo_world)))))
   = kc_stored mem_client (RoleKind, ''tenant-acme-web'', ''tenant-acme-admin'') (wd_kube (fst (demo_run demo_world)))"
proof -
  let ?w1 = "fst (demo_run demo_world)"
  have r2: "snd (demo_run ?w1) = Ok \<lparr>cr_Requeue = False\<rparr>"
    by code_simp
  then have "demo_run (?w1\<lparr>wd_kube := wd_kube ?w1\<rparr>) = (fst (demo_run ?w1), Ok \<lparr>cr_Requeue = False\<rparr>)"
    by (simp add: answered)
  then show ?thesis
    using reconcile_idempotent [OF demo_env mem_client_synced demo_build answered [OF demo_first, unfolded demo_run_def]
        mem_catches_up, folded demo_run_def] by simp
qed

text \<open>
  A tenant whose tier is none of the three never reconciles: the run panics or ends with an
  error, because the quota is a nil pointer that cannot be created.
\<close>

theorem unknown_tier_never_succeeds:
  assumes "api_laws K" "to_build K name w t" "ts_tier (t_spec t) \<notin> {TierFree, TierPro, TierEnterprise}"
  shows "snd (Reconcile P K Q cfg name w) \<noteq> Ok r"
proof
  assume "snd (Reconcile P K Q cfg name w) = Ok r"
  then have "reconcileCreateOrUpdate P K Q cfg t w = (fst (Reconcile P K Q cfg name w), Ok r)"
    using answered Reconcile_build [OF assms(2), of P Q cfg] by metis
  then obtain w1 t1 quota k1 where rec: "record_tenant P t w = (w1, Ok t1)"
    and q: "buildResourceQuota Q t1 = (Ok quota :: (rec_error, _) res)"
    and k1: "ensure_all (createOrUpdate K Q) (desired_before t1 quota) (wd_kube w1) = (k1, Ok ())"
    by (rule reconcileCreateOrUpdate_steps)
  have "t_spec t1 = t_spec t" using record_tenant_Ok(1) [OF rec] by (simp add: same_identity_def)
  then have "quota = KNilQuota" using buildResourceQuota_Ok(3) [OF q] assms(3) by simp
  then show False
    using k1 createOrUpdate_nil [OF assms(1)] by (auto simp: desired_before_def then_try_Ok_iff)
qed

theorem unknown_tier_never_succeeds_witness:
  "\<exists>w. \<not> (\<exists>r. snd (demo_run w) = Ok r)"
proof -
  let ?t = "demo_tenant\<lparr>t_spec := (t_spec demo_tenant)\<lparr>ts_tier := ''gold''\<rparr>\<rparr>"
  let ?w = "demo_world\<lparr>wd_kube := mem_with [?t]\<rparr>"
  have "to_build mem_client ''acme'' ?w ?t" by code_simp
  then have "snd (demo_run ?w) \<noteq> Ok r" for r
    unfolding demo_run_def
    by (rule unknown_tier_never_succeeds [OF mem_client_laws]) (simp add: tier_defs)
  then show ?thesis by blast
qed

end
