(* ===== verification/Watches.thy ===== *)
theory Watches
  imports Reconciler_Props
begin

text \<open>
  What makes the controller run. \<open>SetupWithManager\<close> of \<open>internal/reconciler\<close> names the kinds whose
  changes the controller runtime turns into requests. The runtime itself is modelled by its
  documented behaviour.
\<close>

section \<open>The watches\<close>

record watches =
  wt_For :: string                \<comment> \<open>the kind reconciled, in the group of the scheme\<close>
  wt_Owns :: "obj_kind list"

definition SetupWithManager :: watches where
  "SetupWithManager =
     \<lparr>wt_For = ''Tenant'',
      wt_Owns = [NamespaceKind, RoleKind, RoleBindingKind, NetworkPolicyKind, LimitRangeKind, QuotaKind]\<rparr>"

text \<open>
  A change of a reconciled resource is a request for its name. A change of an owned object is a
  request for the object's controller, the one owner reference with \<open>controller: true\<close>, if it has
  one and it is of the reconciled kind and group: \<open>Owns\<close> without \<open>MatchEveryOwner\<close> looks at no other
  owner.
\<close>

datatype 'q change = TenantChanged string | ObjectChanged "'q kobj"

definition controller_of :: "object_meta \<Rightarrow> owner_reference option" where
  \<comment> \<open>\<open>metav1.GetControllerOf\<close>\<close>
  "controller_of m = find (\<lambda>r. or_controller r = Some True) (om_ownerReferences m)"

definition api_group :: "string \<Rightarrow> string" where
  \<comment> \<open>of an API version, a group and a version\<close>
  "api_group = takeWhile (\<lambda>c. c \<noteq> CHR ''/'')"

definition requests :: "watches \<Rightarrow> 'q change \<Rightarrow> string list" where
  "requests W e =
     (case e of
        TenantChanged n \<Rightarrow> [n]
      | ObjectChanged o1 \<Rightarrow>
          if kind_of o1 \<notin> set (wt_Owns W) then []
          else (case controller_of (meta_of o1) of
                  None \<Rightarrow> []
                | Some r \<Rightarrow> if or_kind r = wt_For W \<and> api_group (or_apiVersion r) = api_group SchemeGroupVersion
                           then [or_name r] else []))"

definition react ::
    "pg \<Rightarrow> ('w, 'q) kube_client \<Rightarrow> 'q quantity_api \<Rightarrow> config \<Rightarrow> 'q change \<Rightarrow> 'w world \<Rightarrow> 'w world" where
  "react P K Q cfg e w = fold (\<lambda>n w. fst (Reconcile P K Q cfg n w)) (requests SetupWithManager e) w"


section \<open>What the controller sees of its own objects\<close>

lemma owners_sent [simp]: "om_ownerReferences (meta_of (map_meta sent_meta c)) = om_ownerReferences (meta_of c)"
  by (cases c) (simp_all add: sent_meta_def erase_meta_def)

lemma stored_as_owners: "stored_as c o1 \<Longrightarrow> om_ownerReferences (meta_of c) = om_ownerReferences (meta_of o1)"
proof (cases "kind_of o1 = NamespaceKind")
  case True
  assume "stored_as c o1"
  moreover obtain m where "o1 = KNamespace m" using True by (cases o1) simp_all
  ultimately obtain m' where c: "o1 = KNamespace m" "c = KNamespace m'"
      "sent_meta (m'\<lparr>om_labels := om_labels m\<rparr>) = sent_meta m"
    by (auto simp: stored_as_def)
  from arg_cong [OF c(3), of om_ownerReferences] show ?thesis by (simp add: c(1,2) sent_meta_def erase_meta_def)
next
  case False
  assume "stored_as c o1"
  with False have "map_meta sent_meta c = map_meta sent_meta o1" by (cases o1) (simp_all add: stored_as_def)
  from arg_cong [OF this, of "\<lambda>x. om_ownerReferences (meta_of x)"] show ?thesis by simp
qed

lemma desired_owners:
  assumes "buildResourceQuota Q t = (Ok quota :: (rec_error, _) res)" "quota \<noteq> KNilQuota"
    and "buildLimitRange Q cfg t = (Ok limits :: (rec_error, _) res)" "o1 \<in> set (desired_objects quota limits cfg t)"
  shows "om_ownerReferences (meta_of o1) = tenant_owner t"
proof -
  have "om_ownerReferences (meta_of quota) = tenant_owner t"
    using assms(1,2) by (auto simp: buildResourceQuota_def buildFreeTier_def buildProTier_def buildEnterpriseTier_def
        build_quota_def res_simps Let_def split: if_splits)
  moreover have "lr_meta limits = owned_meta t ''tenant-defaults'' (namespace_name t)"
    using assms(3) by (auto simp: buildLimitRange_def res_simps split: prod.splits)
  ultimately show ?thesis
    using assms(4) by (auto simp: desired_objects_def desired_before_def buildNamespace_def buildAdminRole_def
        buildOperatorRole_def buildAdminRoleBinding_def buildOperatorRoleBinding_def build_binding_def
        buildNetworkPolicy_def Let_def)
qed

text \<open>
  C12: The watches on the six kinds of objects never start a run. A change of an object, its deletion
  included, which is as the controller wrote it, is no request, because the builders name the tenant
  as an owner but not as the controller; so a network policy that was deleted stays away until a run
  of the tenant starts for another reason, a change of the resource or the resync of the cache.
\<close>

theorem owned_changes_start_no_run:
  assumes "buildResourceQuota Q t = (Ok quota :: (rec_error, _) res)" and "quota \<noteq> KNilQuota"
    and "buildLimitRange Q cfg t = (Ok limits :: (rec_error, _) res)" and "o1 \<in> set (desired_objects quota limits cfg t)"
    and "stored_as c o1"
  shows "kind_of c \<in> set (wt_Owns SetupWithManager) \<and> react P K Q cfg (ObjectChanged c) w = w
    \<and> react P K Q cfg (TenantChanged (tname t)) w = fst (Reconcile P K Q cfg (tname t) w)"
proof -
  have "om_ownerReferences (meta_of c) = tenant_owner t"
    using stored_as_owners [OF assms(5)] desired_owners [OF assms(1-4)] by simp
  then have "controller_of (meta_of c) = None" by (simp add: controller_of_def tenant_owner_def)
  then have "requests SetupWithManager (ObjectChanged c) = []" by (simp add: requests_def)
  moreover have "kind_of c \<in> set (wt_Owns SetupWithManager)" by (cases c) (simp_all add: SetupWithManager_def)
  ultimately show ?thesis by (simp add: react_def requests_def)
qed

lemma demo_quota: "buildResourceQuota text_quantities demo_tenant = (Ok (KQuota \<lparr>rq_meta = owned_meta demo_tenant
    ''tenant-quota-free'' ''tenant-acme-web'', rq_hard = [(''cpu'', ''500m''), (''memory'', ''1Gi''), (''pods'', ''20''),
      (''requests.storage'', ''10Gi'')]\<rparr>) :: (rec_error, _) res)"
  by (simp add: buildResourceQuota_def buildFreeTier_def build_quota_def mustParse_def text_quantities_def
      demo_tenant_def empty_tenant_def empty_meta_def namespace_name_def tname_def tier_defs Let_def)

lemma demo_limits: "\<exists>limits. buildLimitRange text_quantities demo_config demo_tenant = (Ok limits :: (rec_error, _) res)"
  by (simp add: buildLimitRange_def tier_limits_def mustParse_def text_quantities_def demo_config_def demo_tenant_def
      empty_tenant_def tier_defs Let_def)

theorem owned_changes_start_no_run_witness:
  "\<exists>c. kc_stored mem_client (NetworkPolicyKind, ''tenant-acme-web'', ''tenant-isolation'')
         (wd_kube (fst (demo_run demo_world))) = Some c
     \<and> react plain_pg mem_client text_quantities demo_config (ObjectChanged c) demo_world = demo_world"
proof -
  let ?np = "KNetworkPolicy (buildNetworkPolicy demo_config demo_tenant)"
  have "kc_stored mem_client (NetworkPolicyKind, ''tenant-acme-web'', ''tenant-isolation'')
         (wd_kube (fst (demo_run demo_world))) = Some (mem_accept (replicate 9 CHR ''v'') None ?np)" by code_simp
  moreover have "stored_as (mem_accept (replicate 9 CHR ''v'') None ?np) ?np" by (rule mem_accept_stored)
  moreover obtain limits where "buildLimitRange text_quantities demo_config demo_tenant = (Ok limits :: (rec_error, _) res)"
    using demo_limits by blast
  ultimately show ?thesis
    using owned_changes_start_no_run [OF demo_quota _ _ _, of demo_config limits ?np "mem_accept (replicate 9 CHR ''v'') None ?np" plain_pg mem_client demo_world]
    by (auto simp: desired_objects_def)
qed

end
