(* ===== verification/Startup.thy ===== *)
theory Startup
  imports Server_Props Platform Watches
begin

text \<open>
  How the programs start: opening the database and running the migrations (\<open>internal/store\<close>), the
  \<open>main\<close> function of the API server up to the point where it serves, and that of the controller.
  \<open>os.Exit\<close> is an error that holds the exit status. The database driver, the migration library and
  the controller runtime are records of functions.
\<close>

section \<open>The database\<close>

record 'c pool =
  po_conn :: 'c
  po_maxOpen :: int
  po_maxIdle :: int
  po_lifetime :: "int option"

datatype migrate_error = ErrNoChange | MigrateError string

record ('c, 'd) sql_api =
  sq_open :: "string \<Rightarrow> string \<Rightarrow> (string, 'c) res"              \<comment> \<open>\<open>sql.Open\<close> of driver and URL\<close>
  sq_duration :: "string \<Rightarrow> (string, int) res"                    \<comment> \<open>\<open>time.ParseDuration\<close>\<close>
  sq_ping :: "'c pool \<Rightarrow> 'd \<Rightarrow> (string, unit) res"
  sq_driver :: "'c pool \<Rightarrow> (string, unit) res"                    \<comment> \<open>\<open>postgres.WithInstance\<close>\<close>
  sq_source :: "string \<Rightarrow> (string, unit) res"                     \<comment> \<open>\<open>iofs.New\<close> of an embedded directory\<close>
  sq_migrator :: "string \<Rightarrow> (string, unit) res"                   \<comment> \<open>of a source of migrations\<close>
  sq_up :: "string \<Rightarrow> 'c pool \<Rightarrow> 'd \<Rightarrow> 'd \<times> (migrate_error, unit) res"  \<comment> \<open>\<open>Migrate.Up\<close>\<close>

definition store_New :: "('c, 'd) sql_api \<Rightarrow> config \<Rightarrow> 'd \<Rightarrow> (string, 'c pool) res" where
  "store_New S cfg d =
     (case sq_open S ''postgres'' (cfg_DBURL cfg) of
        Err e \<Rightarrow> Err (''error opening database: '' @ e)
      | Panic x \<Rightarrow> Panic x
      | Ok conn \<Rightarrow>
          res_bind
            (if cfg_DBConnMaxLifetime cfg \<noteq> [] then
               (case sq_duration S (cfg_DBConnMaxLifetime cfg) of
                  Err e \<Rightarrow> Err (''invalid DB connection max lifetime: '' @ e)
                | Panic x \<Rightarrow> Panic x
                | Ok duration \<Rightarrow> Ok (Some duration))
             else Ok None)
            (\<lambda>lifetime.
               let db = \<lparr>po_conn = conn, po_maxOpen = cfg_DBMaxOpenConns cfg,
                         po_maxIdle = cfg_DBMaxIdleConns cfg, po_lifetime = lifetime\<rparr> in
               (case sq_ping S db d of
                  Err e \<Rightarrow> Err (''cannot ping database: '' @ e)
                | Panic x \<Rightarrow> Panic x
                | Ok _ \<Rightarrow> Ok db)))"

definition RunMigrationsEmbedded ::
    "('c, 'd) sql_api \<Rightarrow> 'c pool \<Rightarrow> 'd \<Rightarrow> 'd \<times> (migrate_error, unit) res" where
  "RunMigrationsEmbedded S db d =
     then_try (d, sq_driver S db) (\<lambda>d _.
     then_try (d, sq_source S ''migrations'') (\<lambda>d _.
     then_try (d, sq_migrator S ''migrations'') (\<lambda>d _.
       sq_up S ''migrations'' db d)
       (\<lambda>e. MigrateError (''failed to create migrator: '' @ e)))
       (\<lambda>e. MigrateError (''failed to create migrator '' @ e)))
       (\<lambda>e. MigrateError (''failed to create postgres driver: '' @ e))"

definition RunMigrations ::
    "('c, 'd) sql_api \<Rightarrow> string \<Rightarrow> 'c pool \<Rightarrow> 'd \<Rightarrow> 'd \<times> (migrate_error, unit) res" where
  "RunMigrations S migrationPath db d =
     then_try (d, sq_driver S db) (\<lambda>d _.
     then_try (d, sq_migrator S migrationPath) (\<lambda>d _. sq_up S migrationPath db d) MigrateError) MigrateError"

text \<open>The start that both programs share: the database is migrated, or already up to date.\<close>

definition open_database :: "('c, 'd) sql_api \<Rightarrow> config \<Rightarrow> 'd \<Rightarrow> 'd \<times> (nat, 'c pool) res" where
  "open_database S cfg d =
     then_try (d, store_New S cfg d) (\<lambda>d db.
       (case RunMigrationsEmbedded S db d of
          (d1, Ok _) \<Rightarrow> (d1, Ok db)
        | (d1, Err e) \<Rightarrow> if e = ErrNoChange then (d1, Ok db) else (d1, Err 1)
        | (d1, Panic x) \<Rightarrow> (d1, Panic x))) (\<lambda>_. 1)"


section \<open>The API server\<close>

record 'c api_process =
  ap_config :: config
  ap_logger :: slog_handler
  ap_db :: "'c pool"
  ap_auth :: auth
  ap_limiter :: limiter

definition api_main ::
    "host \<Rightarrow> ('c, 'd) sql_api \<Rightarrow> auth_env \<Rightarrow> (real \<Rightarrow> real) \<Rightarrow> string \<Rightarrow> 'd \<Rightarrow> 'd \<times> (nat, 'c api_process) res" where
  \<comment> \<open>until the server is started; the constructors of the handlers cannot return nil\<close>
  "api_main H S X rnd configFile d =
     then_try (d, Load H configFile) (\<lambda>d cfg.
     then_try (open_database S cfg d) (\<lambda>d db.
     case NewAuthMiddleware X cfg of
       None \<Rightarrow> (d, Err 1)
     | Some auth \<Rightarrow>
         (d, Ok \<lparr>ap_config = cfg, ap_logger = Handler cfg, ap_db = db, ap_auth = auth,
                ap_limiter = NewRateLimiter rnd (cfg_RateRequestsPerMinute cfg) (cfg_RateBurst cfg)\<rparr>))
       id) (\<lambda>_. 1)"

lemma api_main_Ok:
  assumes "api_main H S X rnd f d = (d', Ok p)"
  shows "Load H f = Ok (ap_config p)" "NewAuthMiddleware X (ap_config p) = Some (ap_auth p)"
    "ap_limiter p = NewRateLimiter rnd (cfg_RateRequestsPerMinute (ap_config p)) (cfg_RateBurst (ap_config p))"
  using assms by (auto simp: api_main_def res_simps split: option.splits)

lemma NewAuthMiddleware_fields:
  assumes "NewAuthMiddleware X cfg = Some a"
  shows "au_IssuerURL a = cfg_DexIssuerURL cfg" "au_ClientID a = cfg_DexClientID cfg" "au_Enabled a = cfg_AuthEnabled cfg"
    "ae_get X (cfg_DexIssuerURL cfg @ ''/.well-known/jwks.json'') \<noteq> None"
  using assms by (auto simp: NewAuthMiddleware_def split: option.splits if_splits)

text \<open>
  The API server does not start without the issuer's keys, even with authentication off; once
  started with authentication on, a request whose token is not one of the configured issuer for
  the configured client, under the keys fetched, leaves the database as it is.
\<close>

theorem started_api_is_protected:
  assumes "api_main H S X rnd f d = (d', Ok p)" and "cfg_AuthEnabled (ap_config p)" and "se_auth Y = X"
    and "ae_parse X (au_keySet (ap_auth p)) (cfg_DexIssuerURL (ap_config p)) (cfg_DexClientID (ap_config p))
           (cut_bearer (hr_authorization r)) = None"
  shows "ae_get X (cfg_DexIssuerURL (ap_config p) @ ''/.well-known/jwks.json'') \<noteq> None
    \<and> valid_config (ap_config p)
    \<and> sv_db (fst (serve Y (ap_limiter p) (ap_auth p) clock r s)) = sv_db s"
proof -
  note start = api_main_Ok [OF assms(1)] and auth = NewAuthMiddleware_fields [OF api_main_Ok(2) [OF assms(1)]]
  have "sv_db (fst (serve Y (ap_limiter p) (ap_auth p) clock r s)) = sv_db s"
  proof (cases rule: serve_cases [of Y "ap_limiter p" "ap_auth p" clock r s])
    case (served e vs)
    have "authenticate (se_auth Y) (ap_auth p) r = None"
      using assms(2-4) auth by (simp add: authenticate_def)
    with served show ?thesis by simp
  qed simp
  then show ?thesis using start(1) auth(4) Load_valid by blast
qed


section \<open>The controller\<close>

text \<open>
  A scheme knows the kinds of groups: those the package \<open>pkg/api/v1\<close> registers when it is
  initialised, and all of a group of \<open>k8s.io/api\<close> (\<open>None\<close>).
\<close>

type_synonym scheme = "(string \<times> string list option) list"

definition SchemeBuilder :: scheme where
  "SchemeBuilder = [(api_group SchemeGroupVersion, Some [''Tenant'', ''TenantList''])]"

definition main_scheme :: scheme where
  "main_scheme = SchemeBuilder @ map (\<lambda>g. (g, None))
     [[], ''rbac.authorization.k8s.io'', ''apps'', ''admissionregistration.k8s.io'', ''networking.k8s.io'']"

record ctrl_flags =
  fl_metrics_bind_addr :: string
  fl_health_probe_bind_addr :: string
  fl_leader_elect :: bool
  fl_config :: string

definition default_flags :: ctrl_flags where
  "default_flags = \<lparr>fl_metrics_bind_addr = '':8080'', fl_health_probe_bind_addr = '':8081'',
     fl_leader_elect = False, fl_config = ''config.json''\<rparr>"

record ctrl_options =
  co_Scheme :: scheme
  co_MetricsBindAddress :: string
  co_HealthProbeBindAddress :: string
  co_LeaderElection :: bool
  co_LeaderElectionID :: string

definition main_options :: "ctrl_flags \<Rightarrow> ctrl_options" where
  "main_options fl = \<lparr>co_Scheme = main_scheme, co_MetricsBindAddress = fl_metrics_bind_addr fl,
     co_HealthProbeBindAddress = fl_health_probe_bind_addr fl, co_LeaderElection = fl_leader_elect fl,
     co_LeaderElectionID = ''k8s-mtp-controller-leader''\<rparr>"

record ('x, 'w, 'b) ctrl_runtime =
  cm_GetConfig :: bool                                          \<comment> \<open>\<open>GetConfigOrDie\<close> does not exit\<close>
  cm_NewManager :: "ctrl_options \<Rightarrow> (string, unit) res"
  cm_Setup :: "watches \<Rightarrow> (string, unit) res"                   \<comment> \<open>the builder's \<open>Complete\<close>\<close>
  cm_NewClient :: "scheme \<Rightarrow> (string, ('w, 'b) direct_client) res"
  cm_Start :: "'x \<Rightarrow> 'x \<times> (string, unit) res"                  \<comment> \<open>the manager runs until a signal\<close>

record ('d, 'w, 's) start_world =
  sw_db :: 'd
  sw_install :: "('w, 's) install_world"

record ('c, 'w, 'b) controller_process =
  cp_config :: config
  cp_db :: "'c pool"
  cp_client :: "('w, 'b) direct_client"

definition main_manager :: "config \<Rightarrow> webhook_manager" where
  "main_manager cfg = \<lparr>wm_Namespace = ''k8s-mtp'', wm_Image = cfg_WebhookImage cfg\<rparr>"

definition on_start_db :: "('d \<Rightarrow> 'd \<times> ('e, 'a) res) \<Rightarrow> ('d, 'w, 's) start_world \<Rightarrow> ('d, 'w, 's) start_world \<times> ('e, 'a) res" where
  "on_start_db f w = (let (d, r) = f (sw_db w) in (w\<lparr>sw_db := d\<rparr>, r))"

definition on_install :: "('w, 's) install_call \<Rightarrow> ('d, 'w, 's) start_world \<Rightarrow> ('d, 'w, 's) start_world \<times> (install_error, unit) res" where
  "on_install f w = (let (i, r) = f (sw_install w) in (w\<lparr>sw_install := i\<rparr>, r))"

lemma on_start_Ok [res_simps]:
  "on_start_db f w = (w', Ok a) \<longleftrightarrow> (\<exists>d. f (sw_db w) = (d, Ok a) \<and> w' = w\<lparr>sw_db := d\<rparr>)"
  "on_install g w = (w', Ok ()) \<longleftrightarrow> (\<exists>i. g (sw_install w) = (i, Ok ()) \<and> w' = w\<lparr>sw_install := i\<rparr>)"
  by (auto simp: on_start_db_def on_install_def split: prod.splits)

definition manager_or_panic :: "('x, 'w, 'b) ctrl_runtime \<Rightarrow> ctrl_flags \<Rightarrow> (nat, unit) res" where
  \<comment> \<open>an error of \<open>NewManager\<close> is only logged; the first call on the nil manager panics\<close>
  "manager_or_panic M fl =
     (if \<not> cm_GetConfig M then Err 1
      else case cm_NewManager M (main_options fl) of
        Err e \<Rightarrow> Panic NilDeref | Panic x \<Rightarrow> Panic x | Ok _ \<Rightarrow> Ok ())"

definition controller_main ::
    "host \<Rightarrow> ('c, 'd) sql_api \<Rightarrow> (('d, 'w, 's) start_world, 'w, 'b) ctrl_runtime \<Rightarrow> ('s, 'k, 'p, 'b) crypto
       \<Rightarrow> install_clock \<Rightarrow> ctrl_flags \<Rightarrow> ('d, 'w, 's) start_world
       \<Rightarrow> ('d, 'w, 's) start_world \<times> (nat, ('c, 'w, 'b) controller_process) res" where
  \<comment> \<open>until the manager is started\<close>
  "controller_main H S M C clock fl w =
     then_try (w, Load H (fl_config fl)) (\<lambda>w cfg.
     then_try (on_start_db (open_database S cfg) w) (\<lambda>w db.
     then_try (w, manager_or_panic M fl) (\<lambda>w _.
     then_try (w, cm_Setup M SetupWithManager) (\<lambda>w _.
     then_try (w, cm_NewClient M main_scheme) (\<lambda>w directClient.
     then_try (on_install (EnsureAll directClient C clock (main_manager cfg)) w) (\<lambda>w _.
       (w, Ok \<lparr>cp_config = cfg, cp_db = db, cp_client = directClient\<rparr>))
       (\<lambda>_. 1)) (\<lambda>_. 1)) (\<lambda>_. 1)) id) id) (\<lambda>_. 1)"

definition controller_exit ::
    "host \<Rightarrow> ('c, 'd) sql_api \<Rightarrow> (('d, 'w, 's) start_world, 'w, 'b) ctrl_runtime \<Rightarrow> ('s, 'k, 'p, 'b) crypto
       \<Rightarrow> install_clock \<Rightarrow> ctrl_flags \<Rightarrow> ('d, 'w, 's) start_world \<Rightarrow> ('d, 'w, 's) start_world \<times> nat" where
  \<comment> \<open>the exit status of the process; it is 2 after a panic\<close>
  "controller_exit H S M C clock fl w =
     (case then_try (controller_main H S M C clock fl w) (\<lambda>w _.
             then_try (cm_Start M w) (\<lambda>w _. (w, Ok ())) (\<lambda>_. 1)) id of
        (w1, Ok _) \<Rightarrow> (w1, 0)
      | (w1, Err n) \<Rightarrow> (w1, n)
      | (w1, Panic x) \<Rightarrow> (w1, 2))"

lemma controller_main_Ok:
  assumes "controller_main H S M C clock fl w = (w', Ok p)"
  shows "Load H (fl_config fl) = Ok (cp_config p)" "cm_NewClient M main_scheme = Ok (cp_client p)"
    "EnsureAll (cp_client p) C clock (main_manager (cp_config p)) (sw_install w) = (sw_install w', Ok ())"
  using assms by (auto simp: controller_main_def res_simps)

text \<open>
  C40: the controller does not begin to reconcile before the webhooks are there: when \<open>main\<close> comes to
  start the manager, the configuration is valid, the five objects of the webhook exist, and if
  none of them did before, every pod that is then created or updated in a namespace the controller
  labels is sent to the validating and the mutating handler.
\<close>

theorem controller_starts_guarded:
  assumes "controller_main H S M C clock fl w = (w', Ok p)" and "direct_laws (cp_client p)"
  shows "valid_config (cp_config p)
    \<and> (\<forall>st. \<exists>c. ilook (cp_client p) (step_key (main_manager (cp_config p)) st) (sw_install w') = Some c)
    \<and> (uninstalled (cp_client p) (main_manager (cp_config p)) (sw_install w) \<longrightarrow>
         (\<forall>t labels op1. map_of (om_labels (buildNamespace t)) \<subseteq>\<^sub>m labels \<longrightarrow> op1 \<in> {''CREATE'', ''UPDATE''} \<longrightarrow>
            reviewers (cp_client p) (main_manager (cp_config p)) (sw_install w') ValidatingConfig labels op1 ''pods''
              = [Some ValidatePod]
            \<and> reviewers (cp_client p) (main_manager (cp_config p)) (sw_install w') MutatingConfig labels op1 ''pods''
              = [Some MutatePod]))"
proof -
  note start = controller_main_Ok [OF assms(1)]
  have "valid_config (cp_config p)" using start(1) by (rule Load_valid)
  moreover have "\<exists>c. ilook (cp_client p) (step_key (main_manager (cp_config p)) st) (sw_install w') = Some c" for st
    by (rule EnsureAll_there [OF assms(2) start(3)])
  moreover have "reviewers (cp_client p) (main_manager (cp_config p)) (sw_install w') ValidatingConfig labels op1 ''pods''
        = [Some ValidatePod]
      \<and> reviewers (cp_client p) (main_manager (cp_config p)) (sw_install w') MutatingConfig labels op1 ''pods''
        = [Some MutatePod]"
    if "uninstalled (cp_client p) (main_manager (cp_config p)) (sw_install w)"
      and "map_of (om_labels (buildNamespace t)) \<subseteq>\<^sub>m labels" "op1 \<in> {''CREATE'', ''UPDATE''}" for t labels op1
    using reviewers_installed [OF assms(2) start(3) that, of "''pods''"] by simp
  ultimately show ?thesis by blast
qed

text \<open>
  An error of \<open>NewManager\<close> does not end the controller with an exit status: the next call on
  the nil manager panics.
\<close>

theorem manager_error_panics:
  assumes "Load H (fl_config fl) = Ok cfg" and "open_database S cfg (sw_db w) = (d, Ok db)" and "cm_GetConfig M"
    and "cm_NewManager M (main_options fl) = Err e"
  shows "controller_main H S M C clock fl w = (w\<lparr>sw_db := d\<rparr>, Panic NilDeref)"
  by (simp add: controller_main_def on_start_db_def manager_or_panic_def assms)


text \<open>
  The exit status tells: it is 0 exactly if the start came to its end and the manager, started
  then, returned without an error.
\<close>

lemma then_try_not_Err:
  assumes "\<And>e. snd p = Err e \<Longrightarrow> wrap e \<noteq> x" "\<And>w a. snd (k w a) \<noteq> Err x"
  shows "snd (then_try p k wrap) \<noteq> Err x"
  using assms by (cases "(p, k, wrap)" rule: then_try.cases) auto

lemma open_database_not_0: "snd (open_database S cfg d) \<noteq> Err 0"
  unfolding open_database_def by (intro then_try_not_Err) (auto split: prod.split res.split)

lemma positive_status:
  "snd (on_start_db (open_database S cfg) w) = Err e \<Longrightarrow> 0 < e" "manager_or_panic M fl = Err e \<Longrightarrow> 0 < e"
  using open_database_not_0 [of S cfg "sw_db w"]
  by (cases "open_database S cfg (sw_db w)"; auto simp: on_start_db_def intro: Suc_leI gr0I)
    (auto simp: manager_or_panic_def split: if_splits res.splits)

lemma controller_main_not_0: "snd (controller_main H S M C clock fl w) \<noteq> Err 0"
  unfolding controller_main_def
  by (intro then_try_not_Err) (auto dest: positive_status)

theorem controller_exit_0_iff:
  "controller_exit H S M C clock fl w = (w2, 0) \<longleftrightarrow>
     (\<exists>w1 p. controller_main H S M C clock fl w = (w1, Ok p) \<and> cm_Start M w1 = (w2, Ok ()))"
proof (cases "controller_main H S M C clock fl w")
  case (Pair w1 r)
  then have "r \<noteq> Err 0" using controller_main_not_0 [of H S M C clock fl w] by simp
  then show ?thesis
    by (cases r; cases "cm_Start M w1"; cases "snd (cm_Start M w1)") (auto simp: controller_exit_def Pair)
qed

text \<open>
  The scheme knows every kind that the controller and the webhook manager read or write.
\<close>

definition recognizes :: "scheme \<Rightarrow> string \<times> string \<Rightarrow> bool" where
  "recognizes s gk = list_ex (\<lambda>(g, kinds). g = fst gk \<and> (case kinds of None \<Rightarrow> True | Some ks \<Rightarrow> snd gk \<in> set ks)) s"

fun object_type :: "obj_kind \<Rightarrow> string \<times> string" where
  "object_type NamespaceKind = ([], ''Namespace'')"
| "object_type QuotaKind = ([], ''ResourceQuota'')"
| "object_type LimitRangeKind = ([], ''LimitRange'')"
| "object_type RoleKind = (''rbac.authorization.k8s.io'', ''Role'')"
| "object_type RoleBindingKind = (''rbac.authorization.k8s.io'', ''RoleBinding'')"
| "object_type NetworkPolicyKind = (''networking.k8s.io'', ''NetworkPolicy'')"

fun install_type :: "install_kind \<Rightarrow> string \<times> string" where
  "install_type SecretKind = ([], ''Secret'')"
| "install_type ServiceKind = ([], ''Service'')"
| "install_type DeploymentKind = (''apps'', ''Deployment'')"
| "install_type ValidatingKind = (''admissionregistration.k8s.io'', ''ValidatingWebhookConfiguration'')"
| "install_type MutatingKind = (''admissionregistration.k8s.io'', ''MutatingWebhookConfiguration'')"

theorem main_scheme_complete:
  "recognizes main_scheme (api_group SchemeGroupVersion, wt_For SetupWithManager)
   \<and> recognizes main_scheme (object_type k) \<and> recognizes main_scheme (install_type i)"
  by (cases k; cases i) (simp_all add: recognizes_def main_scheme_def SchemeBuilder_def SetupWithManager_def)


section \<open>A start\<close>

definition demo_sql :: "(unit, nat) sql_api" where
  "demo_sql = \<lparr>sq_open = (\<lambda>drv url. Ok ()), sq_duration = (\<lambda>s. Ok 3600000000000), sq_ping = (\<lambda>db d. Ok ()),
     sq_driver = (\<lambda>db. Ok ()), sq_source = (\<lambda>src. Ok ()), sq_migrator = (\<lambda>src. Ok ()),
     sq_up = (\<lambda>src db d. if d = 0 then (1, Ok ()) else (d, Err ErrNoChange))\<rparr>"

definition demo_runtime :: "((nat, blob mem_store, nat) start_world, blob mem_store, blob) ctrl_runtime" where
  "demo_runtime = \<lparr>cm_GetConfig = True, cm_NewManager = (\<lambda>_. Ok ()), cm_Setup = (\<lambda>_. Ok ()),
     cm_NewClient = (\<lambda>_. Ok mem_direct), cm_Start = (\<lambda>w. (w, Ok ()))\<rparr>"

lemma demo_open: "\<exists>db. open_database demo_sql cfg 0 = (1, Ok db)"
  by (simp add: open_database_def store_New_def RunMigrationsEmbedded_def demo_sql_def)

definition demo_start :: "(nat, blob mem_store, nat) start_world" where
  "demo_start = \<lparr>sw_db = 0, sw_install = fresh_cluster\<rparr>"

definition no_flags :: ctrl_flags where
  \<comment> \<open>an empty file name, so that the configuration is searched for\<close>
  "no_flags = default_flags\<lparr>fl_config := []\<rparr>"

lemma demo_controller:
  "\<exists>w' p. controller_main sample_host demo_sql demo_runtime demo_crypto demo_clock no_flags demo_start = (w', Ok p)
     \<and> cp_client p = mem_direct"
proof -
  obtain cfg where cfg: "Load sample_host [] = Ok cfg" using sample_Load by blast
  obtain db where "open_database demo_sql cfg 0 = (1, Ok db)" using demo_open by blast
  moreover obtain i where "EnsureAll mem_direct demo_crypto demo_clock (main_manager cfg) fresh_cluster = (i, Ok ())"
    using EnsureAll_works [OF mem_direct_laws mem_direct_responsive demo_crypto_laws demo_crypto_works] by blast
  ultimately show ?thesis
    by (simp add: controller_main_def cfg on_start_db_def on_install_def manager_or_panic_def demo_start_def demo_runtime_def no_flags_def)
qed

theorem controller_starts_guarded_witness:
  "\<exists>w' p. controller_main sample_host demo_sql demo_runtime demo_crypto demo_clock no_flags demo_start = (w', Ok p)
     \<and> reviewers mem_direct (main_manager (cp_config p)) (sw_install w') ValidatingConfig
         [''tenant.k8s-mtp.io/managed'' \<mapsto> ''true''] ''CREATE'' ''pods'' = [Some ValidatePod]"
proof -
  obtain w' p where p: "controller_main sample_host demo_sql demo_runtime demo_crypto demo_clock no_flags demo_start = (w', Ok p)"
    "cp_client p = mem_direct" using demo_controller by blast
  have un: "uninstalled mem_direct (main_manager (cp_config p)) (sw_install demo_start)"
    by (simp add: uninstalled_def demo_start_def)
  have "\<forall>t labels op1. map_of (om_labels (buildNamespace t)) \<subseteq>\<^sub>m labels \<longrightarrow> op1 \<in> {''CREATE'', ''UPDATE''} \<longrightarrow>
      reviewers mem_direct (main_manager (cp_config p)) (sw_install w') ValidatingConfig labels op1 ''pods'' = [Some ValidatePod]"
    using controller_starts_guarded [OF p(1), unfolded p(2), OF mem_direct_laws] un by blast
  from this [rule_format, of "named_tenant ''acme'' ''u1'' ''web''" "[''tenant.k8s-mtp.io/managed'' \<mapsto> ''true'']" "''CREATE''"]
  show ?thesis using p(1) by (auto simp: buildNamespace_def)
qed

theorem manager_error_panics_witness:
  "\<exists>w'. controller_main sample_host demo_sql (demo_runtime\<lparr>cm_NewManager := (\<lambda>_. Err ''no cluster'')\<rparr>) demo_crypto demo_clock no_flags
     demo_start = (w', Panic NilDeref)"
proof -
  obtain cfg where cfg: "Load sample_host [] = Ok cfg" using sample_Load by blast
  obtain db where db: "open_database demo_sql cfg (sw_db demo_start) = (1, Ok db)"
    using demo_open by (auto simp: demo_start_def)
  show ?thesis
    using manager_error_panics [of sample_host no_flags cfg demo_sql demo_start 1 db
        "demo_runtime\<lparr>cm_NewManager := (\<lambda>_. Err ''no cluster'')\<rparr>" "''no cluster''" demo_crypto demo_clock] cfg db
    by (simp add: demo_runtime_def no_flags_def)
qed

definition auth_host :: host where
  "auth_host = sample_host\<lparr>h_json := (\<lambda>_. Some (empty_config\<lparr>cfg_ListenAddr := '':8080'', cfg_DBURL := ''db'',
     cfg_LogLevel := ''debug'', cfg_AuthEnabled := True, cfg_DexIssuerURL := ''https://dex''\<rparr>))\<rparr>"

definition demo_issuer :: auth_env where
  "demo_issuer = \<lparr>ae_get = (\<lambda>url. if url = ''https://dex/.well-known/jwks.json'' then Some (200, ''keys'') else None),
     ae_jwks = (\<lambda>data. Some []), ae_parse = (\<lambda>ks iss aud tok. None)\<rparr>"

lemma auth_Load: "\<exists>cfg. Load auth_host [] = Ok cfg \<and> cfg_AuthEnabled cfg \<and> cfg_DexIssuerURL cfg = ''https://dex''"
  by (simp add: Load_def pick_source_def stat_err_def fileParse_def auth_host_def overrideCfg_def overrides_def
      sample_host_def set_int_def atoi_def parse_digits_def digit_value_def digits_def validateCfg_def valid_levels_def
      gm_get_def default_str_def fill_defaults_def empty_config_def Let_def)

theorem started_api_is_protected_witness:
  "\<exists>d p. api_main auth_host demo_sql demo_issuer exact [] 0 = (d, Ok p)
     \<and> sv_db (fst (serve (demo_env_api\<lparr>se_auth := demo_issuer\<rparr>) (ap_limiter p) (ap_auth p) (0, 0)
                 (demo_request ''DELETE'' ''Bearer forged'') demo_server)) = sv_db demo_server"
proof -
  obtain cfg where cfg: "Load auth_host [] = Ok cfg" "cfg_AuthEnabled cfg" "cfg_DexIssuerURL cfg = ''https://dex''"
    using auth_Load by blast
  obtain db where "open_database demo_sql cfg 0 = (1, Ok db)" using demo_open by blast
  then obtain d p where p: "api_main auth_host demo_sql demo_issuer exact [] 0 = (d, Ok p)" "ap_config p = cfg"
    by (simp add: api_main_def cfg NewAuthMiddleware_def demo_issuer_def)
  show ?thesis
    using started_api_is_protected [OF p(1), of "demo_env_api\<lparr>se_auth := demo_issuer\<rparr>"
        "demo_request ''DELETE'' ''Bearer forged''" "(0, 0)" demo_server] p cfg
    by (auto simp: demo_issuer_def)
qed

end
