(* ===== verification/Lifecycle.thy ===== *)
theory Lifecycle
  imports Startup
begin

text \<open>
  The life of the API server after its start: \<open>NewServer\<close>, \<open>Start\<close> and \<open>Shutdown\<close> of
  \<open>internal/server/server.go\<close>, and the rest of \<open>cmd/api/main.go\<close>, a goroutine that serves and the main
  one that waits for a signal, as a state machine over the events that reach the process.
\<close>

section \<open>The server\<close>

record http_server =
  hsv_Addr :: string
  hsv_ReadTimeout :: int        \<comment> \<open>in nanoseconds, as a \<open>time.Duration\<close>\<close>
  hsv_WriteTimeout :: int
  hsv_IdleTimeout :: int
  hsv_Handler :: "(string option \<times> segment list \<times> endpoint) list option"

definition second :: int where "second = 1000000000"

definition NewServer :: "config \<Rightarrow> http_server" where
  "NewServer cfg = \<lparr>hsv_Addr = cfg_ListenAddr cfg, hsv_ReadTimeout = 10 * second,
     hsv_WriteTimeout = 10 * second, hsv_IdleTimeout = 60 * second, hsv_Handler = None\<rparr>"

datatype serve_error = ErrServerClosed | ServeError string

definition Start :: "(http_server \<Rightarrow> serve_error) \<Rightarrow> http_server \<Rightarrow> http_server \<times> serve_error" where
  \<comment> \<open>\<open>listen\<close> is \<open>ListenAndServe\<close>, which returns only with an error\<close>
  "Start listen s = (let s1 = s\<lparr>hsv_Handler := Some routes\<rparr> in (s1, listen s1))"


section \<open>The process\<close>

datatype api_state =
    Serving
  | ShuttingDown
  | Exited nat bool             \<comment> \<open>the status, and whether the deferred \<open>db.Close\<close> ran\<close>

datatype api_event =
    Served serve_error          \<comment> \<open>\<open>Start\<close> returned\<close>
  | Interrupt                   \<comment> \<open>an interrupt or \<open>SIGTERM\<close>\<close>
  | ShutdownDone "string option"

fun api_step :: "api_state \<Rightarrow> api_event \<Rightarrow> api_state" where
  \<comment> \<open>the channel takes one signal; no shutdown returns that was not begun\<close>
  "api_step (Exited n c) e = Exited n c"
| "api_step st (Served e) = (if e \<noteq> ErrServerClosed then Exited 1 False else st)"
| "api_step st Interrupt = ShuttingDown"
| "api_step ShuttingDown (ShutdownDone r) = (case r of None \<Rightarrow> Exited 0 True | Some e \<Rightarrow> Exited 1 False)"
| "api_step Serving (ShutdownDone r) = Serving"

definition api_life :: "api_event list \<Rightarrow> api_state" where
  "api_life es = foldl api_step Serving es"

lemma exited_stays [simp]: "foldl api_step (Exited n c) es = Exited n c"
  by (induction es) simp_all

definition harmless :: "api_event \<Rightarrow> bool" where
  "harmless e \<longleftrightarrow> (case e of Served x \<Rightarrow> x = ErrServerClosed | Interrupt \<Rightarrow> True | ShutdownDone r \<Rightarrow> False)"

lemma first_event_Cons:
  "(\<exists>a s. e # es = a @ x # s \<and> list_all P a \<and> Q s)
     \<longleftrightarrow> e = x \<and> Q es \<or> P e \<and> (\<exists>a s. es = a @ x # s \<and> list_all P a \<and> Q s)" (is "?l \<longleftrightarrow> ?r")
proof
  assume ?l
  then obtain a s where "e # es = a @ x # s" "list_all P a" "Q s" by blast
  then show ?r by (cases a) auto
next
  assume ?r
  then show ?l
  proof
    assume "e = x \<and> Q es"
    then show ?l by (intro exI [of _ "[]"] exI [of _ es]) simp
  next
    assume "P e \<and> (\<exists>a s. es = a @ x # s \<and> list_all P a \<and> Q s)"
    then obtain a s where "P e" "es = a @ x # s" "list_all P a" "Q s" by blast
    then show ?l by (intro exI [of _ "e # a"] exI [of _ s]) simp
  qed
qed

lemma shutting_down_exit:
  "foldl api_step ShuttingDown es = Exited 0 c \<longleftrightarrow>
     (\<exists>a s. es = a @ ShutdownDone None # s \<and> list_all harmless a \<and> c)"
proof (induction es)
  case (Cons e es)
  show ?case
    unfolding first_event_Cons Cons.IH [symmetric]
    by (cases e) (auto simp: harmless_def split: option.split)
qed simp

definition idle :: "api_event \<Rightarrow> bool" where
  "idle e \<longleftrightarrow> (case e of Served x \<Rightarrow> x = ErrServerClosed | Interrupt \<Rightarrow> False | ShutdownDone r \<Rightarrow> True)"

lemma serving_exit:
  "foldl api_step Serving es = Exited 0 c \<longleftrightarrow>
     (\<exists>a s. es = a @ Interrupt # s \<and> list_all idle a \<and> foldl api_step ShuttingDown s = Exited 0 c)"
proof (induction es)
  case (Cons e es)
  show ?case
    unfolding first_event_Cons Cons.IH [symmetric] by (cases e) (simp_all add: idle_def)
qed simp

text \<open>
  The process ends with status 0 exactly if a signal came before the server failed, and the
  shutdown that the first signal began returned without an error, again before a failure; only
  then the database is closed.
\<close>

theorem graceful_exit_iff:
  "api_life es = Exited 0 c \<longleftrightarrow>
     c \<and> (\<exists>a b d. es = a @ Interrupt # b @ ShutdownDone None # d \<and> list_all idle a \<and> list_all harmless b)"
  unfolding api_life_def serving_exit shutting_down_exit by fastforce

text \<open>Every exit is with status 0 or 1, and a failure of the server ends any run that has not ended.\<close>

lemma exit_status: "api_life es = Exited n c \<Longrightarrow> n = (if c then 0 else 1)"
proof -
  have "foldl api_step st es = Exited n c \<Longrightarrow> st = Exited n c \<or> n = (if c then 0 else 1)" for st
  proof (induction es arbitrary: st)
    case (Cons e es)
    then have "api_step st e = Exited n c \<or> n = (if c then 0 else 1)" by simp
    then show ?case by (cases "(st, e)" rule: api_step.cases) (auto split: if_splits option.splits)
  qed simp
  then show "api_life es = Exited n c \<Longrightarrow> n = (if c then 0 else 1)" by (fastforce simp: api_life_def)
qed

lemma failure_exits: "\<not> (\<exists>n c. api_life es = Exited n c) \<Longrightarrow> api_life (es @ [Served (ServeError e)]) = Exited 1 False"
  by (cases "api_life es") (simp_all add: api_life_def)

end
