(* ===== verification/Cli.thy ===== *)
theory Cli
  imports Auth
begin

text \<open>
  The command line client, \<open>cmd/cli\<close>: its configuration file, the calls of the API, the commands
  and \<open>main\<close>. A command runs over a world of the configuration file, the network \<open>'w\<close> and what was
  printed; \<open>os.Exit(1)\<close> ends it with an error, which is the text on the standard error stream. JSON,
  the terminal and the HTTP transport are a record of functions.
\<close>

section \<open>State and environment\<close>

record cli_config =
  cl_DexURL :: string
  cl_APIURL :: string
  cl_ClientID :: string
  cl_Token :: string

record http_message =
  hm_method :: string
  hm_url :: string
  hm_authorization :: string
  hm_contentType :: string
  hm_body :: string

text \<open>
  A response whose body has been closed cannot be read: \<open>net/http\<close> answers a later read with an
  error (\<open>http: read on closed response body\<close>).
\<close>

record cli_response =
  rp_status :: nat
  rp_body :: string
  rp_closed :: bool

record 'w cli_world =
  cw_file :: "string option"       \<comment> \<open>the configuration file, if it exists\<close>
  cw_net :: 'w
  cw_stdout :: "string list"       \<comment> \<open>the pieces printed\<close>

record 'w cli_env =
  ce_home :: "string option"                                    \<comment> \<open>\<open>os.UserHomeDir\<close>\<close>
  ce_readable :: bool
  ce_mkdir :: bool                                              \<comment> \<open>\<open>os.MkdirAll\<close> succeeds\<close>
  ce_write :: "string \<Rightarrow> string option \<Rightarrow> string option \<times> bool"  \<comment> \<open>\<open>os.WriteFile\<close>: the file after it, and success\<close>
  ce_decode_config :: "string \<Rightarrow> cli_config option"
  ce_encode_config :: "cli_config \<Rightarrow> string option"
  ce_username :: "string option"
  ce_password :: "string option"
  ce_valid_url :: "string \<Rightarrow> bool"                              \<comment> \<open>\<open>http.NewRequest\<close> accepts it\<close>
  ce_do :: "http_message \<Rightarrow> 'w \<Rightarrow> 'w \<times> (string, cli_response) res"
  ce_pretty_object :: "string \<Rightarrow> string option"                \<comment> \<open>decoded and indented again\<close>
  ce_pretty_list :: "string \<Rightarrow> string option"
  ce_error_field :: "string \<Rightarrow> string"                          \<comment> \<open>the field \<open>error\<close>, empty if there is none\<close>
  ce_id_token :: "string \<Rightarrow> string option"

type_synonym 'w cli_call = "'w cli_world \<Rightarrow> 'w cli_world \<times> (string, unit) res"

definition exit1 :: "string \<Rightarrow> 'w cli_world \<Rightarrow> 'w cli_world \<times> (string, 'a) res" where
  "exit1 msg w = (w, Err msg)"

definition printed :: "string \<Rightarrow> 'w cli_world \<Rightarrow> 'w cli_world" where
  "printed s w = w\<lparr>cw_stdout := cw_stdout w @ [s]\<rparr>"

lemma printed_fields [simp]: "cw_file (printed s w) = cw_file w" "cw_net (printed s w) = cw_net w"
  by (simp_all add: printed_def)

definition print_line :: "string \<Rightarrow> 'w cli_call" where
  "print_line s w = (printed s w, Ok ())"


section \<open>The configuration file\<close>

definition saveConfig :: "'w cli_env \<Rightarrow> cli_config \<Rightarrow> 'w cli_call" where
  "saveConfig E cfg w =
     (if \<not> ce_mkdir E then (w, Err ''mkdir failed'')
      else case ce_encode_config E cfg of
             None \<Rightarrow> (w, Err ''marshal failed'')
           | Some marshaled \<Rightarrow>
               (let (file, ok) = ce_write E marshaled (cw_file w) in
                (w\<lparr>cw_file := file\<rparr>, if ok then Ok () else Err ''write failed'')))"

definition first_config :: cli_config where
  "first_config = \<lparr>cl_DexURL = [], cl_APIURL = [], cl_ClientID = ''k8s-mtp-cli'', cl_Token = []\<rparr>"

definition loadConfig :: "'w cli_env \<Rightarrow> string \<Rightarrow> 'w cli_world \<Rightarrow> 'w cli_world \<times> (string, cli_config) res" where
  "loadConfig E path w =
     (case cw_file w of
        None \<Rightarrow> then_try (saveConfig E first_config w) (\<lambda>w1 _.
          (w1, Err (''config created at '' @ path @ '', edit the file and set api_url and dex_url''))) id
      | Some file \<Rightarrow>
          if \<not> ce_readable E then (w, Err ''read failed'')
          else (case ce_decode_config E file of
                 None \<Rightarrow> (w, Err ''unmarshal failed'')
               | Some cfg \<Rightarrow>
                   if cl_APIURL cfg = [] \<or> cl_DexURL cfg = [] then
                     (w, Err ''issue with the imported configuration, check the fields'')
                   else (w, Ok cfg)))"


section \<open>Calling the API\<close>

definition send :: "'w cli_env \<Rightarrow> http_message \<Rightarrow> 'w cli_world \<Rightarrow> 'w cli_world \<times> (string, cli_response) res" where
  \<comment> \<open>\<open>http.NewRequest\<close> and \<open>http.DefaultClient.Do\<close>\<close>
  "send E m w =
     (if \<not> ce_valid_url E (hm_url m) then (w, Err ''invalid URL'')
      else let (net, r) = ce_do E m (cw_net w) in (w\<lparr>cw_net := net\<rparr>, r))"

definition api_message :: "string \<Rightarrow> cli_config \<Rightarrow> string \<Rightarrow> http_message" where
  "api_message method cfg path =
     \<lparr>hm_method = method, hm_url = cl_APIURL cfg @ path,
      hm_authorization = ''Bearer '' @ cl_Token cfg, hm_contentType = [], hm_body = []\<rparr>"

definition apiGet :: "'w cli_env \<Rightarrow> cli_config \<Rightarrow> string \<Rightarrow> 'w cli_world \<Rightarrow> 'w cli_world \<times> (string, cli_response) res" where
  "apiGet E cfg path = send E (api_message ''GET'' cfg path)"

definition apiPost :: "'w cli_env \<Rightarrow> cli_config \<Rightarrow> string \<Rightarrow> string \<Rightarrow> 'w cli_world \<Rightarrow> 'w cli_world \<times> (string, cli_response) res" where
  "apiPost E cfg path data =
     send E ((api_message ''POST'' cfg path)\<lparr>hm_contentType := ''application/json'', hm_body := data\<rparr>)"

definition apiPut :: "'w cli_env \<Rightarrow> cli_config \<Rightarrow> string \<Rightarrow> string \<Rightarrow> 'w cli_world \<Rightarrow> 'w cli_world \<times> (string, cli_response) res" where
  "apiPut E cfg path data =
     send E ((api_message ''PUT'' cfg path)\<lparr>hm_contentType := ''application/json'', hm_body := data\<rparr>)"

definition apiDelete :: "'w cli_env \<Rightarrow> cli_config \<Rightarrow> string \<Rightarrow> 'w cli_world \<Rightarrow> 'w cli_world \<times> (string, cli_response) res" where
  "apiDelete E cfg path = send E (api_message ''DELETE'' cfg path)"

definition handleResponse :: "'w cli_env \<Rightarrow> cli_response \<Rightarrow> (string, cli_response) res" where
  \<comment> \<open>the deferred \<open>Close\<close> runs when the function returns\<close>
  "handleResponse E resp =
     (if rp_status resp = 401 then Err ''Token expired. Run: k8s-mtp login''
      else if rp_status resp < 200 \<or> 300 \<le> rp_status resp then
        (let e = ce_error_field E (rp_body resp) in
         Err (if e \<noteq> [] then ''Error: '' @ e else ''Request failed: '' @ nat_text (rp_status resp)))
      else Ok (resp\<lparr>rp_closed := True\<rparr>))"

definition print_json :: "string \<Rightarrow> (string \<Rightarrow> string option) \<Rightarrow> cli_response \<Rightarrow> 'w cli_call" where
  \<comment> \<open>decode, indent and print\<close>
  "print_json failed pretty resp w =
     (if rp_closed resp then exit1 (failed @ '': http: read on closed response body'') w
      else case pretty (rp_body resp) of
             None \<Rightarrow> exit1 failed w
           | Some text \<Rightarrow> print_line text w)"

definition request_failed :: "string \<Rightarrow> string" where
  "request_failed e = ''Request failed: '' @ e"

definition answer :: "'w cli_env \<Rightarrow> ('w cli_world \<Rightarrow> 'w cli_world \<times> (string, cli_response) res)
    \<Rightarrow> (cli_response \<Rightarrow> 'w cli_call) \<Rightarrow> 'w cli_call" where
  \<comment> \<open>the start every command shares: the call, and \<open>handleResponse\<close>\<close>
  "answer E call k w =
     then_try (call w) (\<lambda>w1 resp.
     then_try (w1, handleResponse E resp) (\<lambda>w1 resp1. k resp1 w1) id) request_failed"


section \<open>Commands\<close>

definition tenants_url :: string where "tenants_url = ''/api/v1/tenants''"

definition listTenants :: "'w cli_env \<Rightarrow> cli_config \<Rightarrow> 'w cli_call" where
  "listTenants E cfg = answer E (apiGet E cfg tenants_url) (print_json ''Decode failed'' (ce_pretty_list E))"

definition createTenant :: "'w cli_env \<Rightarrow> cli_config \<Rightarrow> string \<Rightarrow> 'w cli_call" where
  "createTenant E cfg arg = answer E (apiPost E cfg tenants_url arg) (print_json ''Decode failed'' (ce_pretty_object E))"

definition getTenant :: "'w cli_env \<Rightarrow> cli_config \<Rightarrow> string \<Rightarrow> 'w cli_call" where
  "getTenant E cfg arg =
     answer E (apiGet E cfg (tenants_url @ ''/'' @ arg)) (print_json ''Decode failed'' (ce_pretty_object E))"

definition updateTenant :: "'w cli_env \<Rightarrow> cli_config \<Rightarrow> string \<Rightarrow> string \<Rightarrow> 'w cli_call" where
  "updateTenant E cfg arg1 arg2 =
     answer E (apiPut E cfg (tenants_url @ ''/'' @ arg1) arg2) (print_json ''Decode failed'' (ce_pretty_object E))"

definition deleteTenant :: "'w cli_env \<Rightarrow> cli_config \<Rightarrow> string \<Rightarrow> 'w cli_call" where
  "deleteTenant E cfg arg =
     answer E (apiDelete E cfg (tenants_url @ ''/'' @ arg)) (\<lambda>_. print_line ''Deleted'')"

definition member_json :: "string \<Rightarrow> string \<Rightarrow> string" where
  \<comment> \<open>\<open>fmt.Sprintf\<close>; nothing is escaped\<close>
  "member_json uid role =
     [CHR ''{'', CHR 0x22] @ ''user_id'' @ [CHR 0x22, CHR '':'', CHR 0x22] @ uid
     @ [CHR 0x22, CHR '','', CHR 0x22] @ ''role'' @ [CHR 0x22, CHR '':'', CHR 0x22] @ role
     @ [CHR 0x22, CHR ''}'']"

definition addMember :: "'w cli_env \<Rightarrow> cli_config \<Rightarrow> string \<Rightarrow> string \<Rightarrow> string \<Rightarrow> 'w cli_call" where
  "addMember E cfg tid uid role =
     answer E (apiPost E cfg (tenants_url @ ''/'' @ tid @ ''/members'') (member_json uid role))
       (print_json ''Decoding failed'' (ce_pretty_object E))"

definition listMembers :: "'w cli_env \<Rightarrow> cli_config \<Rightarrow> string \<Rightarrow> 'w cli_call" where
  "listMembers E cfg tid =
     answer E (apiGet E cfg (tenants_url @ ''/'' @ tid @ ''/members'')) (print_json ''Decoding failed'' (ce_pretty_list E))"

definition removeMember :: "'w cli_env \<Rightarrow> cli_config \<Rightarrow> string \<Rightarrow> string \<Rightarrow> 'w cli_call" where
  "removeMember E cfg tid uid =
     answer E (apiDelete E cfg (tenants_url @ ''/'' @ tid @ ''/members/'' @ uid)) (\<lambda>_. print_line ''Removed'')"

definition tenant_usage :: string where
  "tenant_usage = ''Usage: k8s-mtp tenant <list|create|get|update|delete>''"

definition tenantCmd :: "'w cli_env \<Rightarrow> string \<Rightarrow> string list \<Rightarrow> 'w cli_call" where
  "tenantCmd E path args w =
     then_try (loadConfig E path w) (\<lambda>w1 cfg.
       case args of
         [] \<Rightarrow> exit1 tenant_usage w1
       | c # rest \<Rightarrow>
           if c = ''list'' then listTenants E cfg w1
           else if c = ''create'' then
             (case rest of x # _ \<Rightarrow> createTenant E cfg x w1 | _ \<Rightarrow> exit1 tenant_usage w1)
           else if c = ''get'' then
             (case rest of x # _ \<Rightarrow> getTenant E cfg x w1 | _ \<Rightarrow> exit1 tenant_usage w1)
           else if c = ''update'' then
             (case rest of x # y # _ \<Rightarrow> updateTenant E cfg x y w1 | _ \<Rightarrow> exit1 tenant_usage w1)
           else if c = ''delete'' then
             (case rest of x # _ \<Rightarrow> deleteTenant E cfg x w1 | _ \<Rightarrow> exit1 tenant_usage w1)
           else exit1 (''Unknown subcommand: '' @ c) w1) (\<lambda>e. ''Error: '' @ e)"

definition member_usage :: string where
  "member_usage = ''Usage: k8s-mtp member <add|list|remove>''"

definition memberCmd :: "'w cli_env \<Rightarrow> string \<Rightarrow> string list \<Rightarrow> 'w cli_call" where
  "memberCmd E path args w =
     then_try (loadConfig E path w) (\<lambda>w1 cfg.
       case args of
         [] \<Rightarrow> exit1 member_usage w1
       | c # rest \<Rightarrow>
           if c = ''add'' then
             (case rest of [tid, uid, role] \<Rightarrow> addMember E cfg tid uid role w1 | _ \<Rightarrow> exit1 member_usage w1)
           else if c = ''list'' then
             (case rest of [tid] \<Rightarrow> listMembers E cfg tid w1 | _ \<Rightarrow> exit1 member_usage w1)
           else if c = ''remove'' then
             (case rest of [tid, uid] \<Rightarrow> removeMember E cfg tid uid w1 | _ \<Rightarrow> exit1 member_usage w1)
           else exit1 (''Unknown subcommand: '' @ c) w1) (\<lambda>e. ''Error: '' @ e)"


section \<open>Logging in\<close>

text \<open>\<open>url.QueryEscape\<close> and \<open>url.Values.Encode\<close>: the keys in order, here already sorted.\<close>

definition hex_digit :: "nat \<Rightarrow> char" where
  "hex_digit n = char_of (if n < 10 then n + 48 else n + 55)"

definition unreserved :: "char \<Rightarrow> bool" where
  "unreserved c \<longleftrightarrow> (let n = (of_char c :: nat) in
     65 \<le> n \<and> n \<le> 90 \<or> 97 \<le> n \<and> n \<le> 122 \<or> 48 \<le> n \<and> n \<le> 57 \<or> n \<in> {45, 46, 95, 126})"

fun queryEscape :: "string \<Rightarrow> string" where
  "queryEscape [] = []"
| "queryEscape (c # cs) =
     (if unreserved c then [c]
      else if c = CHR '' '' then ''+''
      else [CHR ''%'', hex_digit (of_char c div 16), hex_digit (of_char c mod 16)]) @ queryEscape cs"

definition form_encode :: "(string \<times> string) list \<Rightarrow> string" where
  "form_encode kvs = join ''&'' (map (\<lambda>(k, v). queryEscape k @ ''='' @ queryEscape v) kvs)"

definition login_form :: "string \<Rightarrow> string \<Rightarrow> (string \<times> string) list" where
  "login_form username password =
     [(''grant_type'', ''password''), (''password'', password), (''scope'', ''openid''), (''username'', username)]"

text \<open>\<open>base64.StdEncoding\<close>: the standard alphabet, padded to groups of four.\<close>

definition std_char :: "nat \<Rightarrow> char" where
  "std_char v = (if v = 62 then CHR ''+'' else if v = 63 then CHR ''/'' else b64_char v)"

definition StdEncoding_EncodeToString :: "string \<Rightarrow> string" where
  "StdEncoding_EncodeToString s =
     (let vs = b64_sextets (map of_char s) in
      map std_char vs @ replicate ((4 - length vs mod 4) mod 4) (CHR ''=''))"

definition login_message :: "cli_config \<Rightarrow> string \<Rightarrow> string \<Rightarrow> http_message" where
  "login_message cfg username password =
     \<lparr>hm_method = ''POST'', hm_url = cl_DexURL cfg @ ''/token'',
      hm_authorization = ''Basic '' @ StdEncoding_EncodeToString (cl_ClientID cfg @ '':''),
      hm_contentType = ''application/x-www-form-urlencoded'',
      hm_body = form_encode (login_form username password)\<rparr>"

definition loginCmd :: "'w cli_env \<Rightarrow> string \<Rightarrow> 'w cli_call" where
  "loginCmd E path w =
     then_try (loadConfig E path w) (\<lambda>w1 cfg.
     let w1 = printed ''Username: '' w1 in
     case ce_username E of
       None \<Rightarrow> exit1 ''Error reading the username'' w1
     | Some username \<Rightarrow>
     (let w1 = printed ''Password: '' w1 in
      case ce_password E of
        None \<Rightarrow> exit1 ''Error reading password'' w1
      | Some password \<Rightarrow>
     then_try (send E (login_message cfg username password) (printed [] w1)) (\<lambda>w2 resp.
       if rp_status resp \<noteq> 200 then
         exit1 (''Expected status 200, instead got '' @ nat_text (rp_status resp)) w2
       else (case ce_id_token E (rp_body resp) of
              None \<Rightarrow> exit1 ''Error decoding the json response'' w2
            | Some token \<Rightarrow>
                then_try (saveConfig E (cfg\<lparr>cl_Token := token\<rparr>) w2) (\<lambda>w3 _.
                  print_line (''Configuration saved to '' @ path) w3) (\<lambda>_. ''Error saving config'')))
       (\<lambda>e. ''Error requesting auth: '' @ e))) (\<lambda>_. ''Error loading config'')"


section \<open>Main\<close>

definition usage :: string where
  "usage = ''Usage: k8s-mtp login Authenticate with Dex''"

definition config_path :: "string \<Rightarrow> string" where
  \<comment> \<open>\<open>filepath.Join\<close> of a clean home directory\<close>
  "config_path home = home @ ''/.k8s-mtp'' @ ''/config''"

definition cli_main :: "'w cli_env \<Rightarrow> string list \<Rightarrow> 'w cli_call" where
  \<comment> \<open>an unknown command prints the usage and is a success\<close>
  "cli_main E args w =
     (case args of
        [] \<Rightarrow> exit1 usage w
      | c # rest \<Rightarrow>
     (case ce_home E of
        None \<Rightarrow> exit1 ''failed to ascertain home dir'' w
      | Some home \<Rightarrow>
          let path = config_path home in
          if c = ''login'' then loginCmd E path w
          else if c = ''tenant'' then tenantCmd E path rest w
          else if c = ''member'' then memberCmd E path rest w
          else (w, Ok ())))"

end
