(* ===== verification/Cli_Props.thy ===== *)
theory Cli_Props
  imports Cli Server_Props
begin

text \<open>
  What the command line client sends, what of it reaches the API server, and when a command
  succeeds.
\<close>

section \<open>Commands\<close>

datatype cli_command =
    CmdList | CmdCreate string | CmdGet string | CmdUpdate string string | CmdDelete string
  | CmdAdd string string string | CmdMembers string | CmdRemove string string

fun args_of :: "cli_command \<Rightarrow> string list" where
  "args_of CmdList = [''tenant'', ''list'']"
| "args_of (CmdCreate x) = [''tenant'', ''create'', x]"
| "args_of (CmdGet t) = [''tenant'', ''get'', t]"
| "args_of (CmdUpdate t x) = [''tenant'', ''update'', t, x]"
| "args_of (CmdDelete t) = [''tenant'', ''delete'', t]"
| "args_of (CmdAdd t u r) = [''member'', ''add'', t, u, r]"
| "args_of (CmdMembers t) = [''member'', ''list'', t]"
| "args_of (CmdRemove t u) = [''member'', ''remove'', t, u]"

fun cmd_endpoint :: "cli_command \<Rightarrow> endpoint" where
  "cmd_endpoint CmdList = ListTenantsE"
| "cmd_endpoint (CmdCreate x) = CreateTenantE"
| "cmd_endpoint (CmdGet t) = GetTenantE"
| "cmd_endpoint (CmdUpdate t x) = UpdateTenantE"
| "cmd_endpoint (CmdDelete t) = DeleteTenantE"
| "cmd_endpoint (CmdAdd t u r) = AddMemberE"
| "cmd_endpoint (CmdMembers t) = ListMembersE"
| "cmd_endpoint (CmdRemove t u) = RemoveMemberE"

fun cmd_ids :: "cli_command \<Rightarrow> string list" where
  "cmd_ids CmdList = []"
| "cmd_ids (CmdCreate x) = []"
| "cmd_ids (CmdGet t) = [t]"
| "cmd_ids (CmdUpdate t x) = [t]"
| "cmd_ids (CmdDelete t) = [t]"
| "cmd_ids (CmdAdd t u r) = [t]"
| "cmd_ids (CmdMembers t) = [t]"
| "cmd_ids (CmdRemove t u) = [t, u]"

fun cmd_body :: "cli_command \<Rightarrow> string" where
  "cmd_body (CmdCreate x) = x"
| "cmd_body (CmdUpdate t x) = x"
| "cmd_body (CmdAdd t u r) = member_json u r"
| "cmd_body c = []"

fun is_delete :: "cli_command \<Rightarrow> bool" where
  "is_delete (CmdDelete t) = True"
| "is_delete (CmdRemove t u) = True"
| "is_delete c = False"

fun cmd_message :: "cli_config \<Rightarrow> cli_command \<Rightarrow> http_message" where
  "cmd_message cfg CmdList = api_message ''GET'' cfg tenants_url"
| "cmd_message cfg (CmdCreate x) =
     (api_message ''POST'' cfg tenants_url)\<lparr>hm_contentType := ''application/json'', hm_body := x\<rparr>"
| "cmd_message cfg (CmdGet t) = api_message ''GET'' cfg (tenants_url @ ''/'' @ t)"
| "cmd_message cfg (CmdUpdate t x) =
     (api_message ''PUT'' cfg (tenants_url @ ''/'' @ t))\<lparr>hm_contentType := ''application/json'', hm_body := x\<rparr>"
| "cmd_message cfg (CmdDelete t) = api_message ''DELETE'' cfg (tenants_url @ ''/'' @ t)"
| "cmd_message cfg (CmdAdd t u r) = (api_message ''POST'' cfg (tenants_url @ ''/'' @ t @ ''/members''))
     \<lparr>hm_contentType := ''application/json'', hm_body := member_json u r\<rparr>"
| "cmd_message cfg (CmdMembers t) = api_message ''GET'' cfg (tenants_url @ ''/'' @ t @ ''/members'')"
| "cmd_message cfg (CmdRemove t u) = api_message ''DELETE'' cfg (tenants_url @ ''/'' @ t @ ''/members/'' @ u)"

fun cmd_print :: "'w cli_env \<Rightarrow> cli_command \<Rightarrow> cli_response \<Rightarrow> 'w cli_call" where
  "cmd_print E (CmdDelete t) = (\<lambda>_. print_line ''Deleted'')"
| "cmd_print E (CmdRemove t u) = (\<lambda>_. print_line ''Removed'')"
| "cmd_print E CmdList = print_json ''Decode failed'' (ce_pretty_list E)"
| "cmd_print E (CmdMembers t) = print_json ''Decoding failed'' (ce_pretty_list E)"
| "cmd_print E (CmdAdd t u r) = print_json ''Decoding failed'' (ce_pretty_object E)"
| "cmd_print E c = print_json ''Decode failed'' (ce_pretty_object E)"

text \<open>Every command loads the configuration, sends one message and looks at the answer.\<close>

lemma cli_main_command:
  assumes "ce_home E = Some home"
  shows "cli_main E (args_of cmd) w =
    then_try (loadConfig E (config_path home) w)
      (\<lambda>w1 cfg. answer E (send E (cmd_message cfg cmd)) (cmd_print E cmd) w1) (\<lambda>e. ''Error: '' @ e)"
  by (cases cmd)
    (simp_all add: cli_main_def assms tenantCmd_def memberCmd_def listTenants_def createTenant_def getTenant_def
      updateTenant_def deleteTenant_def addMember_def listMembers_def removeMember_def apiGet_def apiPost_def
      apiPut_def apiDelete_def Let_def)

lemma handleResponse_Ok_iff:
  "handleResponse E resp = Ok r \<longleftrightarrow> 200 \<le> rp_status resp \<and> rp_status resp < 300 \<and> r = resp\<lparr>rp_closed := True\<rparr>"
  by (auto simp: handleResponse_def Let_def)

lemma cmd_print_closed:
  assumes "rp_closed resp"
  shows "snd (cmd_print E cmd resp w) = Ok () \<longleftrightarrow> is_delete cmd"
    and "cw_net (fst (cmd_print E cmd resp w)) = cw_net w"
  using assms by (cases cmd; simp add: print_json_def print_line_def exit1_def)+

lemma loadConfig_Ok:
  assumes "loadConfig E path w = (w', Ok cfg)"
  shows "w' = w \<and> cl_APIURL cfg \<noteq> [] \<and> cl_DexURL cfg \<noteq> []"
proof (cases "cw_file w")
  case None
  then show ?thesis using assms by (auto simp: loadConfig_def res_simps)
qed (use assms in \<open>auto simp: loadConfig_def split: if_splits option.splits\<close>)

lemma snd_send_printed [simp]: "snd (send E m (printed s w)) = snd (send E m w)"
  by (simp add: send_def split: prod.split)

lemma send_printed: "send E m (printed s w) = (w', r) \<Longrightarrow> snd (send E m w) = r"
  by (metis snd_conv snd_send_printed)

lemma command_success_iff:
  assumes "ce_home E = Some home" and "loadConfig E (config_path home) w = (w1, Ok cfg)"
  shows "snd (cli_main E (args_of cmd) w) = Ok () \<longleftrightarrow>
    is_delete cmd \<and> (\<exists>resp. snd (send E (cmd_message cfg cmd) w1) = Ok resp
                        \<and> 200 \<le> rp_status resp \<and> rp_status resp < 300)"
proof -
  obtain w2 r where s: "send E (cmd_message cfg cmd) w1 = (w2, r)" by fastforce
  show ?thesis
  proof (cases r)
    case (Ok resp)
    show ?thesis
    proof (cases "handleResponse E resp")
      case h: (Ok resp1)
      then have "rp_closed resp1" "200 \<le> rp_status resp" "rp_status resp < 300"
        by (auto simp: handleResponse_Ok_iff)
      then show ?thesis
        by (simp add: cli_main_command [OF assms(1)] assms(2) answer_def s Ok h cmd_print_closed)
    next
      case (Err e)
      then have "\<not> (200 \<le> rp_status resp \<and> rp_status resp < 300)"
        using handleResponse_Ok_iff [of E resp "resp\<lparr>rp_closed := True\<rparr>"] by auto
      then show ?thesis
        by (simp add: cli_main_command [OF assms(1)] assms(2) answer_def s Ok Err)
    qed (auto simp: handleResponse_def Let_def split: if_splits)
  qed (simp_all add: cli_main_command [OF assms(1)] assms(2) answer_def s)
qed


text \<open>The arguments that name a command; \<open>tenant\<close> ignores further arguments, \<open>member\<close> does not.\<close>

definition spells :: "string list \<Rightarrow> cli_command \<Rightarrow> bool" where
  "spells args cmd \<longleftrightarrow> (\<exists>more. args = args_of cmd @ more \<and> (more = [] \<or> hd (args_of cmd) = ''tenant''))"

lemma spells_extra:
  "spells (''tenant'' # s # rest) CmdList \<longleftrightarrow> s = ''list''"
  "spells (''tenant'' # s # rest) (CmdCreate x) \<longleftrightarrow> s = ''create'' \<and> rest \<noteq> [] \<and> hd rest = x"
  "spells (''tenant'' # s # rest) (CmdGet x) \<longleftrightarrow> s = ''get'' \<and> rest \<noteq> [] \<and> hd rest = x"
  "spells (''tenant'' # s # rest) (CmdDelete x) \<longleftrightarrow> s = ''delete'' \<and> rest \<noteq> [] \<and> hd rest = x"
  "spells (''tenant'' # s # rest) (CmdUpdate x y) \<longleftrightarrow> s = ''update'' \<and> (\<exists>more. rest = x # y # more)"
  by (cases rest; auto simp: spells_def)+

lemma spells_exact:
  "spells (''member'' # args) cmd \<longleftrightarrow> ''member'' # args = args_of cmd"
  by (cases cmd) (auto simp: spells_def)

lemma cli_main_spelled:
  assumes "spells args cmd" "ce_home E = Some home"
  shows "cli_main E args w = cli_main E (args_of cmd) w"
proof -
  obtain more where "args = args_of cmd @ more" "more = [] \<or> hd (args_of cmd) = ''tenant''"
    using assms(1) by (auto simp: spells_def)
  then show ?thesis
    by (cases cmd) (auto simp: cli_main_def assms(2) tenantCmd_def Let_def)
qed

lemma tenantCmd_unspelled:
  assumes "\<And>cmd. \<not> spells (''tenant'' # args) cmd"
  shows "snd (tenantCmd E path args w) \<noteq> Ok ()"
proof (cases "loadConfig E path w" rule: res_call_cases)
  case load: (Ok w1 cfg)
  show ?thesis
  proof (cases args)
    case (Cons s rest)
    note no = assms [unfolded Cons]
    have "s \<noteq> ''list''" using no [of CmdList] by (simp add: spells_extra)
    moreover have "s \<in> {''create'', ''get'', ''delete''} \<Longrightarrow> rest = []"
      using no [of "CmdCreate (hd rest)"] no [of "CmdGet (hd rest)"] no [of "CmdDelete (hd rest)"]
      by (auto simp: spells_extra)
    moreover have "rest = [] \<or> (\<exists>x. rest = [x])" if "s = ''update''"
      using no [of "CmdUpdate (hd rest) (hd (tl rest))"] that
      by (cases rest; cases "tl rest") (simp_all add: spells_extra)
    ultimately show ?thesis
      by (cases "s \<in> {''create'', ''get'', ''delete''}"; cases "s = ''update''")
        (auto simp: tenantCmd_def Cons load exit1_def)
  qed (simp add: tenantCmd_def load exit1_def)
qed (simp_all add: tenantCmd_def)

lemma memberCmd_unspelled:
  assumes "\<And>cmd. \<not> spells (''member'' # args) cmd"
  shows "snd (memberCmd E path args w) \<noteq> Ok ()"
proof (cases "loadConfig E path w" rule: res_call_cases)
  case load: (Ok w1 cfg)
  show ?thesis
  proof (cases args)
    case (Cons s rest)
    note no = assms [unfolded Cons spells_exact]
    have bad: "s = ''add'' \<Longrightarrow> rest \<noteq> [t, u, r]" "s = ''list'' \<Longrightarrow> rest \<noteq> [t]" "s = ''remove'' \<Longrightarrow> rest \<noteq> [t, u]" for t u r
      using no [of "CmdAdd t u r"] no [of "CmdMembers t"] no [of "CmdRemove t u"] by simp_all
    consider "s = ''add''" | "s = ''list''" | "s = ''remove''" | "s \<notin> {''add'', ''list'', ''remove''}" by blast
    then show ?thesis
      by cases (use bad in \<open>simp_all add: memberCmd_def Cons load exit1_def split: list.split\<close>)
  qed (simp add: memberCmd_def load exit1_def)
qed (simp_all add: memberCmd_def)

lemma spells_delete_iff:
  "spells args cmd \<and> is_delete cmd \<longleftrightarrow>
     (\<exists>t more. args = ''tenant'' # ''delete'' # t # more \<and> cmd = CmdDelete t)
     \<or> (\<exists>t u. args = [''member'', ''remove'', t, u] \<and> cmd = CmdRemove t u)"
  by (cases cmd) (auto simp: spells_def)

lemma loadConfig_same:
  assumes "snd (loadConfig E path w) = Ok cfg"
  shows "loadConfig E path w = (w, Ok cfg)"
  using loadConfig_Ok answered [OF assms] by metis

lemma command_line_success:
  assumes "ce_home E = Some home" "c \<in> {''tenant'', ''member''}"
  shows "snd (cli_main E (c # rest) w) = Ok () \<longleftrightarrow>
    (\<exists>cmd cfg resp. (spells (c # rest) cmd \<and> is_delete cmd) \<and> snd (loadConfig E (config_path home) w) = Ok cfg
      \<and> snd (send E (cmd_message cfg cmd) w) = Ok resp \<and> 200 \<le> rp_status resp \<and> rp_status resp < 300)"
proof (cases "\<exists>cmd. spells (c # rest) cmd")
  case False
  then show ?thesis
    using assms tenantCmd_unspelled [of rest E "config_path home" w] memberCmd_unspelled [of rest E "config_path home" w]
    by (auto simp: cli_main_def)
next
  case True
  show ?thesis
  proof (cases "\<exists>cfg. snd (loadConfig E (config_path home) w) = Ok cfg")
    case loaded: True
    then obtain cfg where l: "snd (loadConfig E (config_path home) w) = Ok cfg" by blast
    have "snd (cli_main E (c # rest) w) = Ok () \<longleftrightarrow> is_delete cmd \<and> (\<exists>resp. snd (send E (cmd_message cfg cmd) w) = Ok resp
        \<and> 200 \<le> rp_status resp \<and> rp_status resp < 300)" if "spells (c # rest) cmd" for cmd
      using command_success_iff [OF assms(1) loadConfig_same [OF l], of cmd]
      by (simp add: cli_main_spelled [OF that assms(1)])
    then show ?thesis using True l by (metis res.inject(1))
  next
    case False
    obtain cmd where cmd: "spells (c # rest) cmd" using True by blast
    have "snd (cli_main E (args_of cmd) w) \<noteq> Ok ()"
      using False
      by (cases "loadConfig E (config_path home) w" rule: res_call_cases) (auto simp: cli_main_command [OF assms(1)])
    then show ?thesis using False by (simp add: cli_main_spelled [OF cmd assms(1)])
  qed
qed

definition login_succeeds :: "'w cli_env \<Rightarrow> string \<Rightarrow> 'w cli_world \<Rightarrow> bool" where
  \<comment> \<open>the answer to the password request carries a token, which can be saved\<close>
  "login_succeeds E path w \<longleftrightarrow>
     (\<exists>cfg user pw resp token. snd (loadConfig E path w) = Ok cfg \<and> ce_username E = Some user \<and> ce_password E = Some pw
        \<and> snd (send E (login_message cfg user pw) w) = Ok resp \<and> rp_status resp = 200
        \<and> ce_id_token E (rp_body resp) = Some token \<and> snd (saveConfig E (cfg\<lparr>cl_Token := token\<rparr>) w) = Ok ())"

lemma saveConfig_same_file:
  "cw_file w1 = cw_file w \<Longrightarrow> snd (saveConfig E cfg w1) = snd (saveConfig E cfg w)"
  by (simp add: saveConfig_def split: option.splits prod.splits)

lemma send_file: "cw_file (fst (send E m w)) = cw_file w"
  by (simp add: send_def split: prod.splits)

lemma login_success_iff: "snd (loginCmd E path w) = Ok () \<longleftrightarrow> login_succeeds E path w"
proof (cases "\<exists>cfg user pw. snd (loadConfig E path w) = Ok cfg \<and> ce_username E = Some user \<and> ce_password E = Some pw")
  case True
  then obtain cfg user pw where l: "snd (loadConfig E path w) = Ok cfg" "ce_username E = Some user" "ce_password E = Some pw"
    by blast
  define u where "u = printed [] (printed ''Password: '' (printed ''Username: '' w))"
  obtain w2 r where s: "send E (login_message cfg user pw) u = (w2, r)" by fastforce
  have r: "snd (send E (login_message cfg user pw) w) = r" using send_printed s unfolding u_def by (metis snd_send_printed)
  have kept: "cw_file w2 = cw_file w"
    using send_file [of E "login_message cfg user pw" u] s by (simp add: u_def)
  have run: "loginCmd E path w = then_try (w2, r) (\<lambda>w2 resp.
       if rp_status resp \<noteq> 200 then exit1 (''Expected status 200, instead got '' @ nat_text (rp_status resp)) w2
       else (case ce_id_token E (rp_body resp) of
              None \<Rightarrow> exit1 ''Error decoding the json response'' w2
            | Some token \<Rightarrow> then_try (saveConfig E (cfg\<lparr>cl_Token := token\<rparr>) w2) (\<lambda>w3 _.
                  print_line (''Configuration saved to '' @ path) w3) (\<lambda>_. ''Error saving config'')))
       (\<lambda>e. ''Error requesting auth: '' @ e)"
    using loadConfig_same [OF l(1)] l(2,3) s by (simp add: loginCmd_def Let_def u_def del: append.simps)
  have save: "snd (then_try (saveConfig E c w2) (\<lambda>w3 _. print_line m w3) f) = Ok () \<longleftrightarrow> snd (saveConfig E c w) = Ok ()" for c m f
    unfolding saveConfig_same_file [OF kept, symmetric]
    by (cases "saveConfig E c w2" rule: res_call_cases) (simp_all add: print_line_def)
  show ?thesis unfolding run login_succeeds_def using l r save by (cases r) (auto simp: exit1_def split: option.splits)
next
  case False
  then have "snd (loginCmd E path w) \<noteq> Ok ()"
    by (cases "loadConfig E path w" rule: res_call_cases) (auto simp: loginCmd_def Let_def exit1_def split: option.splits)
  with False show ?thesis by (auto simp: login_succeeds_def)
qed

text \<open>
  C33: which runs of the client end with success: \<open>login\<close>, if the configuration loads, the issuer
  answers the typed name and password with status 200 and a token, and the token is saved;
  \<open>tenant delete\<close> and \<open>member remove\<close> with their arguments, if the configuration loads and the
  server answers with a status from 200 to 299; and every unknown command, as soon as there is a home
  directory. No other run does. In particular every command that prints an answer fails, whatever the
  server says and does: \<open>handleResponse\<close> has closed the body that the command then decodes.
\<close>

theorem cli_success_iff:
  "snd (cli_main E args w) = Ok () \<longleftrightarrow>
     (\<exists>home c rest. ce_home E = Some home \<and> args = c # rest
       \<and> (if c = ''login'' then login_succeeds E (config_path home) w
          else if c = ''tenant'' \<or> c = ''member'' then
            (\<exists>cmd cfg resp.
               ((\<exists>t more. args = ''tenant'' # ''delete'' # t # more \<and> cmd = CmdDelete t)
                \<or> (\<exists>t u. args = [''member'', ''remove'', t, u] \<and> cmd = CmdRemove t u))
               \<and> snd (loadConfig E (config_path home) w) = Ok cfg
               \<and> snd (send E (cmd_message cfg cmd) w) = Ok resp \<and> 200 \<le> rp_status resp \<and> rp_status resp < 300)
          else True))"
proof (cases args)
  case (Cons c rest)
  show ?thesis
  proof (cases "ce_home E")
    case (Some home)
    show ?thesis
    proof (cases "c \<in> {''tenant'', ''member''}")
      case True
      then have "c \<noteq> ''login''" by auto
      then show ?thesis
        unfolding Cons command_line_success [OF Some True] spells_delete_iff using True by (simp add: Some)
    next
      case False
      then show ?thesis using login_success_iff [of E "config_path home" w] by (simp add: Cons Some cli_main_def)
    qed
  qed (simp add: Cons cli_main_def exit1_def)
qed (simp add: cli_main_def exit1_def)


section \<open>From the command to the handler\<close>

text \<open>
  The transport: the server receives the method, the path split at slashes, the body and the
  authorization header, of which trailing blanks are dropped. The answer is printed by \<open>render\<close>,
  and a handler that panics ends the connection.
\<close>

definition trim_header :: "string \<Rightarrow> string" where
  "trim_header s = rev (dropWhile (\<lambda>c. c \<in> {CHR '' '', CHR 0x09}) (rev s))"

definition received :: "string \<Rightarrow> http_message \<Rightarrow> http_request" where
  \<comment> \<open>the pieces of an absolute URL: the scheme with its colon, nothing, the host, and then the path\<close>
  "received addr m = \<lparr>hr_method = hm_method m,
     hr_path = drop 3 (split_on CHR ''/'' (hm_url m)), hr_body = hm_body m,
     hr_authorization = trim_header (hm_authorization m), hr_remoteAddr = addr\<rparr>"

definition is_origin :: "string \<Rightarrow> bool" where
  \<comment> \<open>a URL that is scheme and host alone, as \<open>https://api.example\<close>\<close>
  "is_origin u \<longleftrightarrow> length (split_on CHR ''/'' u) = 3 \<and> split_on CHR ''/'' u ! 1 = []
     \<and> last (split_on CHR ''/'' u) \<noteq> [] \<and> list_all (\<lambda>c. c \<notin> {CHR ''?'', CHR ''#''}) u"

definition api_transport ::
    "(body \<Rightarrow> string) \<Rightarrow> string \<Rightarrow> server_env \<Rightarrow> limiter \<Rightarrow> auth \<Rightarrow> int \<times> int
       \<Rightarrow> http_message \<Rightarrow> server \<Rightarrow> server \<times> (string, cli_response) res" where
  "api_transport render addr X L A clock m s =
     (let (s1, r) = serve X L A clock (received addr m) s in
      (s1, case r of
             Reply rs \<Rightarrow> Ok \<lparr>rp_status = rs_status rs, rp_body = render (rs_body rs), rp_closed = False\<rparr>
           | Aborted x \<Rightarrow> Err ''EOF''))"

definition plain_segment :: "string \<Rightarrow> bool" where
  \<comment> \<open>an identifier that a URL carries as it is, as one segment\<close>
  "plain_segment s \<longleftrightarrow> s \<noteq> [] \<and> s \<noteq> ''.'' \<and> s \<noteq> ''..''
     \<and> list_all (\<lambda>c. c \<notin> {CHR ''/'', CHR ''?'', CHR ''#'', CHR ''%''}) s"

lemma plain_segmentD: "plain_segment s \<Longrightarrow> s \<noteq> [] \<and> CHR ''/'' \<notin> set s"
  by (auto simp: plain_segment_def list_all_iff)

lemma api_path:
  assumes "is_origin u"
  shows "drop 3 (split_on CHR ''/'' (u @ tenants_url)) = [''api'', ''v1'', ''tenants'']"
    and "drop 3 (split_on CHR ''/'' (u @ tenants_url @ ''/'' @ rest)) = [''api'', ''v1'', ''tenants''] @ split_on CHR ''/'' rest"
proof -
  have len: "length (split_on CHR ''/'' u) = 3" using assms by (simp add: is_origin_def)
  have "split_on CHR ''/'' (u @ tenants_url) = split_on CHR ''/'' u @ [''api'', ''v1'', ''tenants'']"
    using split_on_sep [of "CHR ''/''" u "''api/v1/tenants''"] by (simp add: tenants_url_def)
  then show "drop 3 (split_on CHR ''/'' (u @ tenants_url)) = [''api'', ''v1'', ''tenants'']" by (simp add: len)
  have "split_on CHR ''/'' (u @ tenants_url @ ''/'' @ rest)
      = split_on CHR ''/'' u @ [''api'', ''v1'', ''tenants''] @ split_on CHR ''/'' rest"
    using split_on_sep [of "CHR ''/''" u "''api/v1/tenants/'' @ rest"] by (simp add: tenants_url_def)
  then show "drop 3 (split_on CHR ''/'' (u @ tenants_url @ ''/'' @ rest)) = [''api'', ''v1'', ''tenants''] @ split_on CHR ''/'' rest"
    by (simp add: len)
qed

lemma split_members:
  assumes "CHR ''/'' \<notin> set t"
  shows "split_on CHR ''/'' (t @ ''/members'') = [t, ''members'']"
    "CHR ''/'' \<notin> set u \<Longrightarrow> split_on CHR ''/'' (t @ ''/members/'' @ u) = [t, ''members'', u]"
proof -
  show "split_on CHR ''/'' (t @ ''/members'') = [t, ''members'']"
    using split_on_append [OF assms, of "''members''"] by simp
  show "split_on CHR ''/'' (t @ ''/members/'' @ u) = [t, ''members'', u]" if "CHR ''/'' \<notin> set u"
    using split_on_append [OF assms, of "''members'' @ CHR ''/'' # u"] split_on_append [of "CHR ''/''" "''members''" u]
      split_on_no_sep [OF that] by simp
qed

lemma cmd_routed:
  assumes "is_origin (cl_APIURL cfg)" "list_all plain_segment (cmd_ids cmd)"
  shows "find_route (received addr (cmd_message cfg cmd)) = Found (cmd_endpoint cmd) (cmd_ids cmd)"
    and "hr_body (received addr (cmd_message cfg cmd)) = cmd_body cmd"
    and "hr_authorization (received addr (cmd_message cfg cmd)) = trim_header (''Bearer '' @ cl_Token cfg)"
proof -
  note paths = api_path [OF assms(1)]
  have path: "hr_path (received addr (cmd_message cfg cmd)) =
      [''api'', ''v1'', ''tenants''] @ (case cmd of CmdList \<Rightarrow> [] | CmdCreate x \<Rightarrow> [] | CmdGet t \<Rightarrow> [t] | CmdUpdate t x \<Rightarrow> [t]
         | CmdDelete t \<Rightarrow> [t] | CmdAdd t u r \<Rightarrow> [t, ''members''] | CmdMembers t \<Rightarrow> [t, ''members'']
         | CmdRemove t u \<Rightarrow> [t, ''members'', u])"
    using assms(2)
    by (cases cmd)
      (auto simp: received_def api_message_def paths paths(2) [simplified]
        split_members [simplified] split_on_no_sep dest!: plain_segmentD)
  show "find_route (received addr (cmd_message cfg cmd)) = Found (cmd_endpoint cmd) (cmd_ids cmd)"
    unfolding find_route_def path
    using assms(2)
    by (cases cmd)
      (auto simp: received_def api_message_def routes_def tenants_path_def match_method_def dest!: plain_segmentD)
qed (cases cmd; simp add: received_def api_message_def)+

text \<open>
  C34: a command with plain identifiers, once a configuration is loaded whose API URL is scheme and
  host, is one request to the server, which the multiplexer sends to the endpoint of the command with its identifiers, with
  the body given, and whose token is the one of the configuration.
\<close>

theorem cli_reaches_endpoint:
  assumes "ce_home E = Some home" and "loadConfig E (config_path home) w = (w1, Ok cfg)"
    and "ce_do E = api_transport render addr X L A clock" and "is_origin (cl_APIURL cfg)"
    and "ce_valid_url E (hm_url (cmd_message cfg cmd))" and "list_all plain_segment (cmd_ids cmd)"
    and "cl_Token cfg \<noteq> []" and "last (cl_Token cfg) \<notin> {CHR '' '', CHR 0x09}"
  shows "\<exists>r. find_route r = Found (cmd_endpoint cmd) (cmd_ids cmd) \<and> hr_body r = cmd_body cmd
    \<and> cut_bearer (hr_authorization r) = cl_Token cfg
    \<and> cw_net (fst (cli_main E (args_of cmd) w)) = fst (serve X L A clock r (cw_net w1))"
proof -
  let ?r = "received addr (cmd_message cfg cmd)"
  have "cut_bearer (hr_authorization ?r) = cl_Token cfg"
  proof -
    have "dropWhile (\<lambda>c. c \<in> {CHR '' '', CHR 0x09}) (rev (''Bearer '' @ cl_Token cfg)) = rev (''Bearer '' @ cl_Token cfg)"
      using assms(7,8) by (cases "cl_Token cfg" rule: rev_cases) simp_all
    then have "trim_header (''Bearer '' @ cl_Token cfg) = ''Bearer '' @ cl_Token cfg"
      unfolding trim_header_def by (metis rev_rev_ident)
    then show ?thesis using cmd_routed(3) [OF assms(4,6)] by (simp add: cut_bearer_def hasPrefix_def)
  qed
  moreover have "cw_net (fst (cli_main E (args_of cmd) w)) = fst (serve X L A clock ?r (cw_net w1))"
  proof -
    obtain s1 res where s: "serve X L A clock ?r (cw_net w1) = (s1, res)" by fastforce
    obtain rs where snd: "send E (cmd_message cfg cmd) w1 = (w1\<lparr>cw_net := s1\<rparr>, rs)" "rs \<noteq> Panic NilDeref"
      using assms(3,5) s by (cases res) (simp_all add: send_def api_transport_def)
    show ?thesis
    proof (cases rs)
      case (Ok resp)
      show ?thesis
      proof (cases "handleResponse E resp")
        case h: (Ok resp1)
        then have "rp_closed resp1" by (simp add: handleResponse_Ok_iff)
        then show ?thesis
          by (simp add: cli_main_command [OF assms(1)] assms(2) answer_def snd(1) Ok h cmd_print_closed s)
      qed (simp_all add: cli_main_command [OF assms(1)] assms(2) answer_def snd(1) Ok s)
    qed (simp_all add: cli_main_command [OF assms(1)] assms(2) answer_def snd(1) s)
  qed
  ultimately show ?thesis using cmd_routed(1,2) [OF assms(4,6)] by blast
qed

definition demo_cli :: "server cli_env" where
  "demo_cli = \<lparr>ce_home = Some ''/root'', ce_readable = True, ce_mkdir = True,
     ce_write = (\<lambda>data file. (Some data, True)),
     ce_decode_config = (\<lambda>data. Some \<lparr>cl_DexURL = ''https://dex'', cl_APIURL = ''http://api'',
        cl_ClientID = ''k8s-mtp-cli'', cl_Token = data\<rparr>),
     ce_encode_config = (\<lambda>cfg. Some (cl_Token cfg)), ce_username = Some ''alice'', ce_password = Some ''secret'',
     ce_valid_url = (\<lambda>u. True),
     ce_do = api_transport (\<lambda>b. ''body'') ''10.0.0.1:4711'' demo_env_api demo_limiter demo_auth (0, 0),
     ce_pretty_object = Some, ce_pretty_list = Some, ce_error_field = (\<lambda>b. []), ce_id_token = Some\<rparr>"

definition demo_cli_config :: cli_config where
  "demo_cli_config = \<lparr>cl_DexURL = ''https://dex'', cl_APIURL = ''http://api'', cl_ClientID = ''k8s-mtp-cli'',
     cl_Token = ''good''\<rparr>"

definition demo_cli_world :: "server cli_world" where
  "demo_cli_world = \<lparr>cw_file = Some ''good'', cw_net = demo_server, cw_stdout = []\<rparr>"

lemma demo_load: "loadConfig demo_cli path demo_cli_world = (demo_cli_world, Ok demo_cli_config)"
  by (simp add: loadConfig_def demo_cli_def demo_cli_world_def demo_cli_config_def)

lemma demo_home: "ce_home demo_cli = Some ''/root''"
  by (simp add: demo_cli_def)

lemma demo_sent:
  "received ''10.0.0.1:4711'' (cmd_message demo_cli_config (CmdDelete ''u1'')) = demo_request ''DELETE'' ''Bearer good''"
  by (simp add: received_def api_message_def demo_cli_config_def demo_request_def tenants_url_def trim_header_def)

theorem cli_success_iff_witness:
  "snd (cli_main demo_cli [''tenant'', ''delete'', ''u1''] demo_cli_world) = Ok ()
   \<and> snd (cli_main demo_cli [''tenant'', ''get'', ''u1''] demo_cli_world) \<noteq> Ok ()"
proof -
  obtain s r where s: "serve demo_env_api demo_limiter demo_auth (0, 0) (demo_request ''DELETE'' ''Bearer good'') demo_server = (s, r)"
    by fastforce
  then obtain rs where "r = Reply rs" "rs_status rs = 204"
    using demo_delete_204 by (cases r) (simp_all add: status_of_def)
  then have "\<exists>resp. snd (send demo_cli (cmd_message demo_cli_config (CmdDelete ''u1'')) demo_cli_world) = Ok resp
      \<and> 200 \<le> rp_status resp \<and> rp_status resp < 300"
    using s by (simp add: send_def demo_cli_def api_transport_def demo_sent demo_cli_world_def del: cmd_message.simps)
  then show ?thesis
    using cli_success_iff [of demo_cli "[''tenant'', ''delete'', ''u1'']" demo_cli_world]
      cli_success_iff [of demo_cli "[''tenant'', ''get'', ''u1'']" demo_cli_world] by (simp add: demo_home demo_load)
qed

theorem cli_reaches_endpoint_witness:
  "\<exists>r. find_route r = Found DeleteTenantE [''u1''] \<and> cut_bearer (hr_authorization r) = ''good''
    \<and> cw_net (fst (cli_main demo_cli [''tenant'', ''delete'', ''u1''] demo_cli_world))
        = fst (serve demo_env_api demo_limiter demo_auth (0, 0) r demo_server)"
  using cli_reaches_endpoint [OF demo_home demo_load, of "\<lambda>b. ''body''" "''10.0.0.1:4711''" demo_env_api demo_limiter
      demo_auth "(0, 0)" "CmdDelete ''u1''"]
  by (auto simp: demo_cli_def demo_cli_config_def demo_cli_world_def plain_segment_def is_origin_def)


section \<open>Logging in\<close>

text \<open>
  A file written by \<open>saveConfig\<close> is read back: what JSON and the file system promise.
\<close>

definition file_laws :: "'w cli_env \<Rightarrow> bool" where
  "file_laws E \<longleftrightarrow> ce_readable E
     \<and> (\<forall>cfg text. ce_encode_config E cfg = Some text \<longrightarrow> ce_decode_config E text = Some cfg)
     \<and> (\<forall>text old file. ce_write E text old = (file, True) \<longrightarrow> file = Some text)"

lemma saveConfig_Ok:
  assumes "file_laws E" "saveConfig E cfg w = (w', Ok ())" "cl_APIURL cfg \<noteq> []" "cl_DexURL cfg \<noteq> []"
  shows "loadConfig E path w' = (w', Ok cfg)"
proof -
  obtain data stored where t: "ce_encode_config E cfg = Some data" "ce_write E data (cw_file w) = (stored, True)"
      "w' = w\<lparr>cw_file := stored\<rparr>"
    using assms(2) by (auto simp: saveConfig_def split: if_splits option.splits prod.splits)
  have "stored = Some data" "ce_decode_config E data = Some cfg" "ce_readable E"
    using assms(1) t(1,2) unfolding file_laws_def by blast+
  then show ?thesis using assms(3,4) t(3) by (simp add: loadConfig_def)
qed

lemma print_line_file: "loadConfig E path w = (w, Ok cfg) \<Longrightarrow> print_line s w = (w', r) \<Longrightarrow> loadConfig E path w' = (w', Ok cfg)"
  by (auto simp: print_line_def loadConfig_def res_simps split: option.splits if_splits)

text \<open>
  A successful login keeps everything of the configuration but the token, which is the one the
  issuer answered with status 200, and every later command sends exactly this token.
\<close>

theorem login_then_commands:
  assumes "file_laws E" and "loginCmd E path w = (w', Ok ())"
  shows "\<exists>cfg tok resp user pw. loadConfig E path w = (w, Ok cfg)
    \<and> snd (send E (login_message cfg user pw) w) = Ok resp \<and> rp_status resp = 200
    \<and> ce_id_token E (rp_body resp) = Some tok
    \<and> loadConfig E path w' = (w', Ok (cfg\<lparr>cl_Token := tok\<rparr>))
    \<and> (\<forall>cmd. hm_authorization (cmd_message (cfg\<lparr>cl_Token := tok\<rparr>) cmd) = ''Bearer '' @ tok)"
proof -
  obtain w1 cfg where load: "loadConfig E path w = (w1, Ok cfg)"
    using assms(2) by (auto simp: loginCmd_def res_simps)
  note same = loadConfig_Ok [OF load]
  obtain user pw w2 resp tok w3 where send: "snd (send E (login_message cfg user pw) w) = Ok resp"
    and tok: "rp_status resp = 200" "ce_id_token E (rp_body resp) = Some tok"
    and save: "saveConfig E (cfg\<lparr>cl_Token := tok\<rparr>) w2 = (w3, Ok ())"
    and print: "print_line (''Configuration saved to '' @ path) w3 = (w', Ok ())"
    using assms(2) load same
    by (auto simp: loginCmd_def res_simps exit1_def Let_def simp del: append.simps dest!: send_printed split: option.splits if_splits)
  have "loadConfig E path w3 = (w3, Ok (cfg\<lparr>cl_Token := tok\<rparr>))"
    using saveConfig_Ok [OF assms(1) save] same by simp
  then have "loadConfig E path w' = (w', Ok (cfg\<lparr>cl_Token := tok\<rparr>))" using print by (rule print_line_file)
  moreover have "hm_authorization (cmd_message (cfg\<lparr>cl_Token := tok\<rparr>) cmd) = ''Bearer '' @ tok" for cmd
    by (cases cmd) (simp_all add: api_message_def)
  ultimately show ?thesis
    using load same send tok
    by (intro exI [of _ cfg] exI [of _ tok] exI [of _ resp] exI [of _ user] exI [of _ pw]) simp
qed

definition demo_login :: "server cli_env" where
  "demo_login = demo_cli\<lparr>ce_do := (\<lambda>m s. (s, Ok \<lparr>rp_status = 200, rp_body = ''fresh'', rp_closed = False\<rparr>)),
     ce_encode_config := (\<lambda>cfg. if cfg = demo_cli_config\<lparr>cl_Token := cl_Token cfg\<rparr> then Some (cl_Token cfg) else None)\<rparr>"

theorem login_then_commands_witness:
  "cw_file (fst (loginCmd demo_login ''config'' demo_cli_world)) = Some ''fresh''
   \<and> (\<exists>cfg. loadConfig demo_login ''config'' (fst (loginCmd demo_login ''config'' demo_cli_world))
         = (fst (loginCmd demo_login ''config'' demo_cli_world), Ok cfg) \<and> cl_Token cfg = ''fresh'')"
proof -
  have laws: "file_laws demo_login"
    unfolding file_laws_def
    by (simp add: demo_login_def demo_cli_def demo_cli_config_def)
  have run: "loginCmd demo_login ''config'' demo_cli_world
      = (demo_cli_world\<lparr>cw_file := Some ''fresh'', cw_stdout := [''Username: '', ''Password: '', [], ''Configuration saved to config'']\<rparr>, Ok ())"
    by (simp add: loginCmd_def loadConfig_def send_def saveConfig_def print_line_def printed_def demo_login_def demo_cli_def
        demo_cli_world_def demo_cli_config_def)
  from login_then_commands [OF laws run] show ?thesis
    unfolding run by (auto simp: loadConfig_def demo_login_def demo_cli_def)
qed


section \<open>The login form\<close>

text \<open>The reader of forms: pairs split at \<open>&\<close> and \<open>=\<close>, and unescaped.\<close>

definition hex_value :: "char \<Rightarrow> nat" where
  "hex_value c = (let n = of_char c in if n < 58 then n - 48 else n - 55)"

fun queryUnescape :: "string \<Rightarrow> string" where
  "queryUnescape [] = []"
| "queryUnescape (c # cs) =
     (if c = CHR ''%'' then
        (case cs of a # b # r \<Rightarrow> char_of (16 * hex_value a + hex_value b) # queryUnescape r | _ \<Rightarrow> [])
      else (if c = CHR ''+'' then CHR '' '' else c) # queryUnescape cs)"

definition form_decode :: "string \<Rightarrow> (string \<times> string) list" where
  "form_decode s = map (\<lambda>p. (queryUnescape (takeWhile (\<lambda>c. c \<noteq> CHR ''='') p),
     queryUnescape (tl (dropWhile (\<lambda>c. c \<noteq> CHR ''='') p)))) (split_on CHR ''&'' s)"

lemma unreserved_not_special:
  "unreserved c \<Longrightarrow> c \<noteq> CHR ''%'' \<and> c \<noteq> CHR ''+'' \<and> c \<noteq> CHR ''&'' \<and> c \<noteq> CHR ''=''"
  by (auto simp: unreserved_def Let_def)

lemma of_char_hex_digit: "n < 16 \<Longrightarrow> of_char (hex_digit n) = (if n < 10 then n + 48 else n + 55)"
  by (simp add: hex_digit_def)

lemma hex_digit_value: "n < 16 \<Longrightarrow> hex_value (hex_digit n) = n"
  by (simp add: hex_value_def of_char_hex_digit)

lemma hex_digit_not_special:
  assumes "n < 16"
  shows "hex_digit n \<noteq> CHR ''&'' \<and> hex_digit n \<noteq> CHR ''=''"
proof -
  have "of_char (hex_digit n) \<noteq> (38 :: nat)" "of_char (hex_digit n) \<noteq> (61 :: nat)"
    using assms by (simp_all add: of_char_hex_digit)
  then show ?thesis by auto
qed

lemma of_char_div_16: "(of_char c :: nat) div 16 < 16"
  by (rule less_mult_imp_div_less) (use nat_of_char_less_256 [of c] in simp)

lemma queryUnescape_Escape: "queryUnescape (queryEscape s) = s"
proof (induction s)
  case (Cons c cs)
  have "16 * ((of_char c :: nat) div 16) + of_char c mod 16 = of_char c" by simp
  then show ?case
    using Cons unreserved_not_special [of c] of_char_div_16 [of c] by (simp add: hex_digit_value)
qed simp

lemma queryEscape_clean: "c \<in> set (queryEscape s) \<Longrightarrow> c \<noteq> CHR ''&'' \<and> c \<noteq> CHR ''=''"
proof (induction s)
  case (Cons d ds)
  show ?case
    using Cons of_char_div_16 [of d] hex_digit_not_special [of "of_char d div 16"] hex_digit_not_special [of "of_char d mod 16"]
      unreserved_not_special [of d] by (auto split: if_splits)
qed simp

lemma form_decode_encode:
  assumes "kvs \<noteq> []"
  shows "form_decode (form_encode kvs) = kvs"
proof -
  define pair where "pair = (\<lambda>(k, v). queryEscape k @ ''='' @ queryEscape v)"
  have eq: "takeWhile (\<lambda>c. c \<noteq> CHR ''='') (queryEscape k @ CHR ''='' # r) = queryEscape k"
    "dropWhile (\<lambda>c. c \<noteq> CHR ''='') (queryEscape k @ CHR ''='' # r) = CHR ''='' # r" for k r
    using queryEscape_clean [of _ k] by (auto simp: takeWhile_append dropWhile_append)
  have split: "split_on CHR ''&'' (join ''&'' (map pair kvs)) = map pair kvs"
  proof (rule split_on_join)
    fix x assume "x \<in> set (map pair kvs)"
    then obtain k v where "x = queryEscape k @ ''='' @ queryEscape v" by (auto simp: pair_def)
    then show "CHR ''&'' \<notin> set x" using queryEscape_clean by auto
  qed (use assms in simp)
  have "form_decode (form_encode kvs) = map (\<lambda>p. (queryUnescape (takeWhile (\<lambda>c. c \<noteq> CHR ''='') p),
      queryUnescape (tl (dropWhile (\<lambda>c. c \<noteq> CHR ''='') p)))) (map pair kvs)"
    using split by (simp only: form_encode_def form_decode_def pair_def)
  also have "\<dots> = kvs"
    by (simp add: pair_def comp_def eq queryUnescape_Escape case_prod_beta)
  finally show ?thesis .
qed

text \<open>
  The form of the login carries the username and the password as they were typed: read as a
  form, its body has the four fields and nothing else, whatever characters the two contain.
\<close>

theorem login_form_roundtrip:
  "form_decode (hm_body (login_message cfg username password)) = login_form username password"
  by (simp add: login_message_def form_decode_encode login_form_def)

end
