(* ===== verification/Deep_Copy.thy ===== *)
theory Deep_Copy
  imports K8s_Types
begin

text \<open>
  The deep copies of \<open>pkg/api/v1/types.go\<close>, over an explicit heap: a slice is the address of its
  array, or nil, and a copied struct shares the arrays of its slices. Pointers to the structs
  themselves are values here; the metadata, which the module \<open>k8s.io/apimachinery\<close> copies, is a
  value too, and its copy a parameter.
\<close>

section \<open>The heap\<close>

type_synonym addr = nat

record heap_spec =
  hs_name :: string
  hs_tier :: string
  hs_ownerEmail :: string
  hs_admins :: "addr option"
  hs_operators :: "addr option"

record heap_status =
  hst_phase :: string
  hst_namespace :: string
  hst_conditions :: "addr option"

record heap_tenant =
  ht_meta :: object_meta
  ht_spec :: heap_spec
  ht_status :: heap_status

record tenant_list =
  tl_resourceVersion :: string
  tl_items :: "addr option"

record heap =
  hp_strings :: "addr \<rightharpoonup> string list"
  hp_conditions :: "addr \<rightharpoonup> condition list"
  hp_tenants :: "addr \<rightharpoonup> heap_tenant list"
  hp_next :: addr

definition heap_ok :: "heap \<Rightarrow> bool" where
  "heap_ok h \<longleftrightarrow> (\<forall>a. hp_next h \<le> a \<longrightarrow>
     hp_strings h a = None \<and> hp_conditions h a = None \<and> hp_tenants h a = None)"

definition make_strings :: "string list \<Rightarrow> heap \<Rightarrow> heap \<times> addr" where
  "make_strings xs h = (h\<lparr>hp_strings := (hp_strings h)(hp_next h \<mapsto> xs), hp_next := Suc (hp_next h)\<rparr>, hp_next h)"

definition make_conditions :: "condition list \<Rightarrow> heap \<Rightarrow> heap \<times> addr" where
  "make_conditions xs h =
     (h\<lparr>hp_conditions := (hp_conditions h)(hp_next h \<mapsto> xs), hp_next := Suc (hp_next h)\<rparr>, hp_next h)"

definition make_tenants :: "heap_tenant list \<Rightarrow> heap \<Rightarrow> heap \<times> addr" where
  "make_tenants xs h =
     (h\<lparr>hp_tenants := (hp_tenants h)(hp_next h \<mapsto> xs), hp_next := Suc (hp_next h)\<rparr>, hp_next h)"

definition elems :: "(addr \<rightharpoonup> 'a list) \<Rightarrow> addr option \<Rightarrow> 'a list" where
  \<comment> \<open>the elements of a slice; the nil slice has none\<close>
  "elems m s = (case s of None \<Rightarrow> [] | Some a \<Rightarrow> (case m a of None \<Rightarrow> [] | Some xs \<Rightarrow> xs))"


section \<open>The copies\<close>

definition copy_strings :: "addr option \<Rightarrow> heap \<Rightarrow> heap \<times> addr option" where
  \<comment> \<open>\<open>if s != nil { out = make(...); copy(out, s) }\<close>\<close>
  "copy_strings s h =
     (if s \<noteq> None then (let (h1, a) = make_strings (elems (hp_strings h) s) h in (h1, Some a)) else (h, s))"

definition spec_DeepCopyInto :: "heap_spec \<Rightarrow> heap \<Rightarrow> heap \<times> heap_spec" where
  "spec_DeepCopyInto s h =
     (let (h1, admins) = copy_strings (hs_admins s) h;
          (h2, operators) = copy_strings (hs_operators s) h1 in
      (h2, s\<lparr>hs_admins := admins, hs_operators := operators\<rparr>))"

definition spec_DeepCopy :: "heap_spec option \<Rightarrow> heap \<Rightarrow> heap \<times> heap_spec option" where
  "spec_DeepCopy s h = (case s of None \<Rightarrow> (h, None) | Some s \<Rightarrow> map_prod id Some (spec_DeepCopyInto s h))"

definition status_DeepCopyInto :: "heap_status \<Rightarrow> heap \<Rightarrow> heap \<times> heap_status" where
  \<comment> \<open>copying a condition is copying its fields\<close>
  "status_DeepCopyInto s h =
     (if hst_conditions s \<noteq> None then
        (let (h1, a) = make_conditions (elems (hp_conditions h) (hst_conditions s)) h in
         (h1, s\<lparr>hst_conditions := Some a\<rparr>))
      else (h, s))"

definition status_DeepCopy :: "heap_status option \<Rightarrow> heap \<Rightarrow> heap \<times> heap_status option" where
  "status_DeepCopy s h = (case s of None \<Rightarrow> (h, None) | Some s \<Rightarrow> map_prod id Some (status_DeepCopyInto s h))"

definition tenant_DeepCopyInto ::
    "(object_meta \<Rightarrow> object_meta) \<Rightarrow> heap_tenant \<Rightarrow> heap \<Rightarrow> heap \<times> heap_tenant" where
  \<comment> \<open>the spec is assigned, not copied\<close>
  "tenant_DeepCopyInto copy_meta t h =
     (let out = t\<lparr>ht_meta := copy_meta (ht_meta t)\<rparr>;
          out = out\<lparr>ht_spec := ht_spec t\<rparr>;
          (h1, status) = status_DeepCopyInto (ht_status t) h in
      (h1, out\<lparr>ht_status := status\<rparr>))"

definition tenant_DeepCopy ::
    "(object_meta \<Rightarrow> object_meta) \<Rightarrow> heap_tenant option \<Rightarrow> heap \<Rightarrow> heap \<times> heap_tenant option" where
  "tenant_DeepCopy copy_meta t h =
     (case t of None \<Rightarrow> (h, None) | Some t \<Rightarrow> map_prod id Some (tenant_DeepCopyInto copy_meta t h))"

definition tenant_DeepCopyObject ::
    "(object_meta \<Rightarrow> object_meta) \<Rightarrow> heap_tenant option \<Rightarrow> heap \<Rightarrow> heap \<times> heap_tenant option" where
  \<comment> \<open>a nil pointer becomes a nil interface\<close>
  "tenant_DeepCopyObject copy_meta t h =
     (case tenant_DeepCopy copy_meta t h of (h1, Some c) \<Rightarrow> (h1, Some c) | (h1, None) \<Rightarrow> (h1, None))"

fun copy_items ::
    "(object_meta \<Rightarrow> object_meta) \<Rightarrow> heap_tenant list \<Rightarrow> heap \<Rightarrow> heap \<times> heap_tenant list" where
  "copy_items copy_meta [] h = (h, [])"
| "copy_items copy_meta (t # ts) h =
     (let (h1, t1) = tenant_DeepCopyInto copy_meta t h; (h2, ts1) = copy_items copy_meta ts h1 in (h2, t1 # ts1))"

definition list_DeepCopyInto ::
    "(object_meta \<Rightarrow> object_meta) \<Rightarrow> tenant_list \<Rightarrow> heap \<Rightarrow> heap \<times> tenant_list" where
  "list_DeepCopyInto copy_meta l h =
     (if tl_items l \<noteq> None then
        (let (h1, ts) = copy_items copy_meta (elems (hp_tenants h) (tl_items l)) h;
             (h2, a) = make_tenants ts h1 in
         (h2, l\<lparr>tl_items := Some a\<rparr>))
      else (h, l))"

definition list_DeepCopy ::
    "(object_meta \<Rightarrow> object_meta) \<Rightarrow> tenant_list option \<Rightarrow> heap \<Rightarrow> heap \<times> tenant_list option" where
  "list_DeepCopy copy_meta l h =
     (case l of None \<Rightarrow> (h, None) | Some l \<Rightarrow> map_prod id Some (list_DeepCopyInto copy_meta l h))"

definition list_DeepCopyObject ::
    "(object_meta \<Rightarrow> object_meta) \<Rightarrow> tenant_list option \<Rightarrow> heap \<Rightarrow> heap \<times> tenant_list option" where
  "list_DeepCopyObject copy_meta l h =
     (case list_DeepCopy copy_meta l h of (h1, Some c) \<Rightarrow> (h1, Some c) | (h1, None) \<Rightarrow> (h1, None))"


section \<open>What a struct says\<close>

definition read_spec :: "heap \<Rightarrow> heap_spec \<Rightarrow> tenant_spec" where
  "read_spec h s = \<lparr>ts_name = hs_name s, ts_tier = hs_tier s, ts_ownerEmail = hs_ownerEmail s,
     ts_admins = elems (hp_strings h) (hs_admins s), ts_operators = elems (hp_strings h) (hs_operators s)\<rparr>"

definition read_status :: "heap \<Rightarrow> heap_status \<Rightarrow> tenant_status" where
  "read_status h s = \<lparr>tst_phase = hst_phase s, tst_namespace = hst_namespace s,
     tst_conditions = elems (hp_conditions h) (hst_conditions s)\<rparr>"

definition read_tenant :: "heap \<Rightarrow> heap_tenant \<Rightarrow> tenant" where
  "read_tenant h t = \<lparr>t_meta = ht_meta t, t_spec = read_spec h (ht_spec t), t_status = read_status h (ht_status t)\<rparr>"

definition read_list :: "heap \<Rightarrow> tenant_list \<Rightarrow> tenant list" where
  "read_list h l = map (read_tenant h) (elems (hp_tenants h) (tl_items l))"

text \<open>Assigning to an element of a slice of strings.\<close>

definition assign :: "addr \<Rightarrow> nat \<Rightarrow> string \<Rightarrow> heap \<Rightarrow> heap" where
  "assign a i v h = h\<lparr>hp_strings := (hp_strings h)(a := map_option (\<lambda>xs. xs[i := v]) (hp_strings h a))\<rparr>"

text \<open>The addresses of a struct's slices; those of a reachable struct are allocated.\<close>

definition spec_addrs :: "heap_spec \<Rightarrow> addr set" where
  "spec_addrs s = set_option (hs_admins s) \<union> set_option (hs_operators s)"

definition tenant_ok :: "heap \<Rightarrow> heap_tenant \<Rightarrow> bool" where
  "tenant_ok h t \<longleftrightarrow> (\<forall>a\<in>spec_addrs (ht_spec t) \<union> set_option (hst_conditions (ht_status t)). a < hp_next h)"

definition list_ok :: "heap \<Rightarrow> tenant_list \<Rightarrow> bool" where
  "list_ok h l \<longleftrightarrow> (\<forall>a\<in>set_option (tl_items l). a < hp_next h)
     \<and> (\<forall>t\<in>set (elems (hp_tenants h) (tl_items l)). tenant_ok h t)"

definition extends :: "heap \<Rightarrow> heap \<Rightarrow> bool" where
  \<comment> \<open>arrays were added, none was changed\<close>
  "extends h h' \<longleftrightarrow> hp_next h \<le> hp_next h'
     \<and> (\<forall>a<hp_next h. hp_strings h' a = hp_strings h a \<and> hp_conditions h' a = hp_conditions h a
                     \<and> hp_tenants h' a = hp_tenants h a)"

lemma extends_refl [simp]: "extends h h"
  by (simp add: extends_def)

lemma extends_trans: "extends h h1 \<Longrightarrow> extends h1 h2 \<Longrightarrow> extends h h2"
  by (simp add: extends_def)

lemma make_extends:
  "extends h (fst (make_strings xs h))" "extends h (fst (make_conditions cs h))" "extends h (fst (make_tenants ts h))"
  by (auto simp: extends_def make_strings_def make_conditions_def make_tenants_def)

lemma read_tenant_extends: "extends h h' \<Longrightarrow> tenant_ok h t \<Longrightarrow> read_tenant h' t = read_tenant h t"
  by (auto simp: extends_def tenant_ok_def spec_addrs_def read_tenant_def read_spec_def read_status_def elems_def
      split: option.splits)

lemma tenant_ok_extends: "extends h h' \<Longrightarrow> tenant_ok h t \<Longrightarrow> tenant_ok h' t"
  unfolding extends_def tenant_ok_def by (meson less_le_trans)


section \<open>A copy says the same\<close>

lemma elems_update [simp]: "elems (m(a \<mapsto> xs)) (Some a) = xs"
  by (simp add: elems_def)

lemma status_copy:
  assumes "status_DeepCopyInto s h = (h', s')" "set_option (hst_conditions s) \<subseteq> {..<hp_next h}"
  shows "extends h h'" "read_status h' s' = read_status h s" "set_option (hst_conditions s') \<subseteq> {..<hp_next h'}"
    "hp_strings h' = hp_strings h"
  using assms
  by (auto simp: status_DeepCopyInto_def make_conditions_def read_status_def extends_def split: if_splits)

lemma tenant_copy:
  assumes "tenant_DeepCopyInto copy_meta t h = (h', t')" "tenant_ok h t" "\<And>m. copy_meta m = m"
  shows "extends h h'" "read_tenant h' t' = read_tenant h t" "tenant_ok h' t'" "ht_spec t' = ht_spec t"
    "hp_strings h' = hp_strings h"
proof -
  obtain s1 where s1: "status_DeepCopyInto (ht_status t) h = (h', s1)" "t' = t\<lparr>ht_status := s1\<rparr>"
    using assms(1,3) by (auto simp: tenant_DeepCopyInto_def split: prod.splits)
  have "set_option (hst_conditions (ht_status t)) \<subseteq> {..<hp_next h}"
    using assms(2) by (auto simp: tenant_ok_def)
  note copy = status_copy [OF s1(1) this]
  show "extends h h'" "ht_spec t' = ht_spec t" "hp_strings h' = hp_strings h" using copy s1(2) by simp_all
  show "read_tenant h' t' = read_tenant h t"
    using copy(2,4) s1(2) by (simp add: read_tenant_def read_spec_def)
  have "hp_next h \<le> hp_next h'" using copy(1) by (simp add: extends_def)
  then have "a < hp_next h'" if "a \<in> spec_addrs (ht_spec t)" for a
    using assms(2) that unfolding tenant_ok_def by (meson UnI1 less_le_trans)
  then show "tenant_ok h' t'"
    using copy(3) s1(2) by (auto simp: tenant_ok_def)
qed

lemma items_copy:
  assumes "copy_items copy_meta ts h = (h', ts')" "\<forall>t\<in>set ts. tenant_ok h t" "\<And>m. copy_meta m = m"
  shows "extends h h' \<and> map (read_tenant h') ts' = map (read_tenant h) ts \<and> (\<forall>t\<in>set ts'. tenant_ok h' t)
    \<and> map ht_spec ts' = map ht_spec ts"
  using assms(1,2)
proof (induction ts arbitrary: h ts')
  case (Cons t ts)
  obtain h1 t1 where t1: "tenant_DeepCopyInto copy_meta t h = (h1, t1)" by fastforce
  obtain ts1 where ts1: "copy_items copy_meta ts h1 = (h', ts1)" "ts' = t1 # ts1"
    using Cons.prems(1) t1 by (auto split: prod.splits)
  note one = tenant_copy [OF t1 _ assms(3)]
  have ok: "\<forall>t\<in>set ts. tenant_ok h1 t" using Cons.prems(2) one(1) tenant_ok_extends by auto
  note rest = Cons.IH [OF ts1(1) ok]
  have "map (read_tenant h1) ts = map (read_tenant h) ts"
    using Cons.prems(2) one(1) read_tenant_extends by auto
  moreover have "read_tenant h' t1 = read_tenant h t"
    using read_tenant_extends [of h1 h' t1] rest one(2,3) Cons.prems(2) by simp
  ultimately show ?case
    using rest one extends_trans [of h h1 h'] tenant_ok_extends [of h1 h' t1] Cons.prems(2) ts1(2) by auto
qed simp

text \<open>
  The deep copy of a list of tenants says the same as the list, and leaves the list as it was.
\<close>

theorem list_DeepCopy_equal:
  assumes "list_ok h l" and "\<And>m. copy_meta m = m"
  shows "read_list (fst (list_DeepCopyInto copy_meta l h)) (snd (list_DeepCopyInto copy_meta l h)) = read_list h l
    \<and> read_list (fst (list_DeepCopyInto copy_meta l h)) l = read_list h l"
proof (cases "tl_items l")
  case (Some a)
  obtain h1 ts where ts: "copy_items copy_meta (elems (hp_tenants h) (tl_items l)) h = (h1, ts)" by fastforce
  have ok: "\<forall>t\<in>set (elems (hp_tenants h) (tl_items l)). tenant_ok h t" "a < hp_next h"
    using assms(1) by (auto simp: list_ok_def Some)
  note copy = items_copy [OF ts ok(1) assms(2)]
  obtain h2 b where h2: "make_tenants ts h1 = (h2, b)" by fastforce
  have e: "extends h1 h2" using make_extends(3) [of h1 ts] h2 by simp
  then have e2: "extends h h2" using copy extends_trans by blast
  have "map (read_tenant h2) ts = map (read_tenant h1) ts"
    using copy read_tenant_extends [OF e] by (intro map_cong refl) blast
  moreover have "elems (hp_tenants h2) (Some b) = ts" using h2 by (auto simp: make_tenants_def)
  moreover have "elems (hp_tenants h2) (Some a) = elems (hp_tenants h) (Some a)"
    using e2 ok(2) by (simp add: extends_def elems_def)
  moreover have "map (read_tenant h2) (elems (hp_tenants h) (Some a)) = map (read_tenant h) (elems (hp_tenants h) (Some a))"
    using ok(1) e2 read_tenant_extends by (auto simp: Some)
  ultimately show ?thesis
    using copy ts h2 by (simp add: list_DeepCopyInto_def read_list_def Some)
qed (simp add: list_DeepCopyInto_def)


section \<open>Sharing\<close>

lemma copy_strings_fresh:
  assumes "copy_strings s h = (h', s')" "heap_ok h"
  shows "heap_ok h'" "extends h h'" "set_option s' \<inter> {..<hp_next h} = {}" "elems (hp_strings h') s' = elems (hp_strings h) s"
    "set_option s' \<subseteq> {..<hp_next h'}"
  using assms
  by (auto simp: copy_strings_def make_strings_def heap_ok_def extends_def split: if_splits)

text \<open>
  \<open>TenantSpec.DeepCopy\<close> copies: an assignment to an element of a slice of the copy is not seen
  through the original.
\<close>

theorem spec_DeepCopy_independent:
  assumes "heap_ok h" and "spec_addrs s \<subseteq> {..<hp_next h}" and "spec_DeepCopyInto s h = (h', s')"
  shows "read_spec h' s' = read_spec h s
    \<and> (\<forall>a\<in>spec_addrs s'. read_spec (assign a i v h') s = read_spec h s)"
proof -
  obtain h1 a1 where 1: "copy_strings (hs_admins s) h = (h1, a1)" by fastforce
  obtain a2 where 2: "copy_strings (hs_operators s) h1 = (h', a2)" and s': "s' = s\<lparr>hs_admins := a1, hs_operators := a2\<rparr>"
    using assms(3) 1 by (auto simp: spec_DeepCopyInto_def split: prod.splits)
  note c1 = copy_strings_fresh [OF 1 assms(1)] and c2 = copy_strings_fresh [OF 2 copy_strings_fresh(1) [OF 1 assms(1)]]
  have le: "hp_next h \<le> hp_next h1" using c1(2) by (simp add: extends_def)
  have old: "hp_strings h' a = hp_strings h a" if "a < hp_next h" for a
    using c1(2) c2(2) that le by (simp add: extends_def)
  have keep: "elems (hp_strings h') x = elems (hp_strings h) x" if "set_option x \<subseteq> {..<hp_next h}" for x
    using that old by (auto simp: elems_def split: option.split)
  have addrs: "set_option (hs_admins s) \<subseteq> {..<hp_next h}" "set_option (hs_operators s) \<subseteq> {..<hp_next h}"
    using assms(2) by (auto simp: spec_addrs_def)
  have "elems (hp_strings h') a1 = elems (hp_strings h1) a1"
    using c1(5) c2(2) by (cases a1) (auto simp: elems_def extends_def)
  moreover have "elems (hp_strings h1) (hs_operators s) = elems (hp_strings h) (hs_operators s)"
    using addrs(2) c1(2) by (cases "hs_operators s") (auto simp: elems_def extends_def)
  ultimately have same: "read_spec h' s' = read_spec h s"
    using c1(4) c2(4) by (simp add: read_spec_def s')
  have "read_spec (assign a i v h') s = read_spec h s" if "a \<in> spec_addrs s'" for a
  proof -
    have "a \<notin> {..<hp_next h}" using that c1(3) c2(3) le by (auto simp: spec_addrs_def s')
    then have "elems (hp_strings (assign a i v h')) x = elems (hp_strings h) x" if "set_option x \<subseteq> {..<hp_next h}" for x
      using keep [OF that] that by (auto simp: assign_def elems_def split: option.splits)
    then show ?thesis using addrs by (simp add: read_spec_def)
  qed
  with same show ?thesis by blast
qed

text \<open>
  C39: \<open>Tenant.DeepCopy\<close> does not: the copy says the same, but its administrators are the array of
  the original, and an assignment through the copy changes the tenant that was copied.
\<close>

theorem tenant_DeepCopy_shares:
  assumes "tenant_ok h t" and "\<And>m. copy_meta m = m" and "tenant_DeepCopyInto copy_meta t h = (h', t')"
    and "hs_admins (ht_spec t) = Some a" and "hp_strings h a = Some xs"
  shows "read_tenant h' t' = read_tenant h t \<and> hs_admins (ht_spec t') = Some a
    \<and> ts_admins (t_spec (read_tenant (assign a i v h') t)) = xs[i := v]"
  using tenant_copy [OF assms(3,1,2)] assms(4,5)
  by (simp add: read_tenant_def read_spec_def assign_def elems_def)

definition demo_heap :: heap where
  "demo_heap = \<lparr>hp_strings = [0 \<mapsto> [''alice'', ''bob'']], hp_conditions = Map.empty,
     hp_tenants = Map.empty, hp_next = 1\<rparr>"

definition demo_spec :: heap_spec where
  "demo_spec = \<lparr>hs_name = ''web'', hs_tier = ''pro'', hs_ownerEmail = ''o@x'', hs_admins = Some 0, hs_operators = None\<rparr>"

definition demo_heap_tenant :: heap_tenant where
  "demo_heap_tenant = \<lparr>ht_meta = empty_meta, ht_spec = demo_spec,
     ht_status = \<lparr>hst_phase = ''Active'', hst_namespace = [], hst_conditions = None\<rparr>\<rparr>"

theorem list_DeepCopy_equal_witness:
  "read_list (fst (list_DeepCopyInto id \<lparr>tl_resourceVersion = [], tl_items = Some 1\<rparr>
       (demo_heap\<lparr>hp_tenants := [1 \<mapsto> [demo_heap_tenant]], hp_next := 2\<rparr>)))
     (snd (list_DeepCopyInto id \<lparr>tl_resourceVersion = [], tl_items = Some 1\<rparr>
       (demo_heap\<lparr>hp_tenants := [1 \<mapsto> [demo_heap_tenant]], hp_next := 2\<rparr>)))
   = [read_tenant demo_heap demo_heap_tenant]"
  using list_DeepCopy_equal [of "demo_heap\<lparr>hp_tenants := [1 \<mapsto> [demo_heap_tenant]], hp_next := 2\<rparr>"
      "\<lparr>tl_resourceVersion = [], tl_items = Some 1\<rparr>" id]
  by (auto simp: list_ok_def tenant_ok_def spec_addrs_def elems_def demo_heap_tenant_def demo_spec_def read_list_def
      read_tenant_def read_spec_def read_status_def demo_heap_def)

theorem spec_DeepCopy_independent_witness:
  "ts_admins (read_spec (assign 1 0 ''mallory'' (fst (spec_DeepCopyInto demo_spec demo_heap))) demo_spec) = [''alice'', ''bob'']"
proof -
  have run: "spec_DeepCopyInto demo_spec demo_heap
      = (demo_heap\<lparr>hp_strings := [0 \<mapsto> [''alice'', ''bob''], 1 \<mapsto> [''alice'', ''bob'']], hp_next := 2\<rparr>, demo_spec\<lparr>hs_admins := Some 1\<rparr>)"
    by (simp add: spec_DeepCopyInto_def copy_strings_def make_strings_def demo_spec_def demo_heap_def elems_def)
  have "heap_ok demo_heap" "spec_addrs demo_spec \<subseteq> {..<hp_next demo_heap}"
    by (simp_all add: heap_ok_def demo_heap_def spec_addrs_def demo_spec_def)
  from spec_DeepCopy_independent [OF this run, of 0 "''mallory''"]
  show ?thesis unfolding run by (simp add: spec_addrs_def demo_spec_def read_spec_def demo_heap_def elems_def)
qed

theorem tenant_DeepCopy_shares_witness:
  "ts_admins (t_spec (read_tenant (assign 0 1 ''mallory'' (fst (tenant_DeepCopyInto id demo_heap_tenant demo_heap)))
     demo_heap_tenant)) = [''alice'', ''mallory'']"
proof -
  have run: "tenant_DeepCopyInto id demo_heap_tenant demo_heap = (demo_heap, demo_heap_tenant)"
    by (simp add: tenant_DeepCopyInto_def status_DeepCopyInto_def demo_heap_tenant_def Let_def)
  show ?thesis
    using tenant_DeepCopy_shares [OF _ _ run, of 0 "[''alice'', ''bob'']" 1 "''mallory''"]
    unfolding run
    by (simp add: tenant_ok_def spec_addrs_def demo_heap_tenant_def demo_spec_def demo_heap_def)
qed

end
