(* ===== verification/Server_Types.thy ===== *)
theory Server_Types
  imports Server_Props
begin

text \<open>
  The type of the API: which statuses, content types and bodies the routes of \<open>internal/server\<close> and
  the handlers of \<open>internal/handlers\<close> answer with, whatever the request, the database and its faults.
\<close>

section \<open>The store does not panic\<close>

named_theorems no_panic "calls that return a value or an error"

lemma exec_no_panic [no_panic]:
  "(\<And>k d. snd (stmt k d) \<noteq> Panic x) \<Longrightarrow> snd (exec P stmt d) \<noteq> Panic x"
  by (simp add: exec_def Let_def split: option.split fault.split)

lemma with_params_no_panic [no_panic]:
  "r \<noteq> Panic x \<Longrightarrow> (\<And>p. snd (f p w) \<noteq> Panic x) \<Longrightarrow> snd (with_params r f w) \<noteq> Panic x"
  by (cases r) (simp_all add: with_params_def)

lemma params_no_panic [no_panic]:
  "uuid_param P s \<noteq> Panic x" "tenant_params P t \<noteq> Panic x" "update_params P t \<noteq> Panic x"
  "member_params P i u r \<noteq> Panic x"
  by (auto simp: uuid_param_def varchar_param_def tenant_params_def update_params_def member_params_def
      res_simps split: option.splits)

lemma rows_no_panic [no_panic]:
  "snd (insert_tenant now p d) \<noteq> Panic x" "snd (select_tenant S d) \<noteq> Panic x"
  "snd (upsert_member now q d) \<noteq> Panic x"
  by (simp_all add: insert_tenant_def select_tenant_def upsert_member_def split: prod.split option.split)

lemma answer_no_panic:
  "snd q \<noteq> Panic x \<Longrightarrow> snd (case q of (d', Ok t) \<Rightarrow> (d', Ok (f t)) | (d', Err NoRows) \<Rightarrow> (d', Ok c)
     | (d', Err e) \<Rightarrow> (d', Err e) | (d', Panic x) \<Rightarrow> (d', Panic x)) \<noteq> Panic x"
  by (cases q) (auto split: res.split db_error.split)

lemma methods_no_panic:
  "snd (CreateTenant P t d) \<noteq> Panic x" "snd (GetTenantByID P i d) \<noteq> Panic x"
  "snd (ListTenants P d) \<noteq> Panic x" "snd (UpdateTenant P t d) \<noteq> Panic x"
  "snd (DeleteTenant P i d) \<noteq> Panic x" "snd (AddMember P i u r d) \<noteq> Panic x"
  "snd (RemoveMember P i u d) \<noteq> Panic x" "snd (ListMembers P i d) \<noteq> Panic x"
  unfolding CreateTenant_def GetTenantByID_def ListTenants_def UpdateTenant_def DeleteTenant_def
    AddMember_def RemoveMember_def ListMembers_def
  by (intro answer_no_panic no_panic; simp add: no_panic split: prod.split)+


section \<open>Typed replies\<close>

fun success_status :: "endpoint \<Rightarrow> nat" where
  "success_status CreateTenantE = 201"
| "success_status AddMemberE = 201"
| "success_status DeleteTenantE = 204"
| "success_status RemoveMemberE = 204"
| "success_status e = 200"

definition body_fits :: "endpoint \<Rightarrow> body \<Rightarrow> bool" where
  "body_fits e b =
     (case b of
        NoBody \<Rightarrow> e \<in> {DeleteTenantE, RemoveMemberE}
      | TenantBody t \<Rightarrow> e \<in> {CreateTenantE, GetTenantE, UpdateTenantE}
      | TenantsBody ts \<Rightarrow> e = ListTenantsE
      | MemberBody m \<Rightarrow> e = AddMemberE \<and> mp_Role m \<in> {''admin'', ''operator''}
      | MembersBody ms \<Rightarrow> e = ListMembersE
      | HealthBody s \<Rightarrow> e = Health
      | _ \<Rightarrow> False)"

fun is_error_text :: "body \<Rightarrow> bool" where
  "is_error_text (ErrorJson s) = True"
| "is_error_text (ErrorText s) = True"
| "is_error_text b = False"

definition success_reply :: "endpoint \<Rightarrow> response \<Rightarrow> bool" where
  "success_reply e r \<longleftrightarrow> rs_status r = success_status e \<and> body_fits e (rs_body r)
     \<and> rs_contentType r = ''application/json'' \<and> rs_retryAfter r = None"

definition error_reply :: "nat list \<Rightarrow> response \<Rightarrow> bool" where
  \<comment> \<open>only a denied request is told when to come back\<close>
  "error_reply statuses r \<longleftrightarrow> rs_status r \<in> set statuses \<and> is_error_text (rs_body r)
     \<and> rs_contentType r = ''text/plain; charset=utf-8'' \<and> (rs_retryAfter r \<noteq> None \<longleftrightarrow> rs_status r = 429)"

definition errors_of :: "endpoint \<Rightarrow> nat list" where
  "errors_of e =
     (if e \<in> {CreateTenantE} then [400, 500]
      else if e \<in> {GetTenantE} then [404, 500]
      else if e \<in> {UpdateTenantE, AddMemberE} then [400, 404, 500]
      else if e = Health then [] else [500])"

definition well_typed :: "routed \<Rightarrow> http_result \<Rightarrow> bool" where
  "well_typed rt h =
     (case h of
        Aborted x \<Rightarrow> False
      | Reply r \<Rightarrow>
          (case rt of
             PathNotFound \<Rightarrow> error_reply [404] r
           | MethodNotAllowed \<Rightarrow> error_reply [405] r
           | Found e vs \<Rightarrow> success_reply e r
               \<or> error_reply ((if e = Health then [] else [401, 429]) @ errors_of e) r))"

lemma error_typed:
  "well_typed (Found e vs) (http_error msg n) \<longleftrightarrow> n \<in> set (if e = Health then [] else [401, 429]) \<union> set (errors_of e) \<and> n \<noteq> 429
     \<or> success_reply e \<lparr>rs_status = n, rs_contentType = ''text/plain; charset=utf-8'', rs_retryAfter = None,
            rs_body = ErrorJson msg\<rparr>"
  by (auto simp: well_typed_def http_error_def error_reply_def)

lemma success_typed:
  "n = success_status e \<Longrightarrow> body_fits e b \<Longrightarrow> well_typed (Found e vs) (json_reply n b)"
  by (simp add: well_typed_def json_reply_def success_reply_def)

lemma or_500_typed:
  assumes "\<And>x. snd p \<noteq> Panic x" and "500 \<in> set (errors_of e)"
    and "\<And>d a. well_typed (Found e vs) (snd (k d a))"
  shows "well_typed (Found e vs) (snd (or_500 p msg k))"
  using assms by (cases p; cases "snd p") (auto simp: or_500_def error_typed)

lemma run_endpoint_typed: "well_typed (Found e vs) (snd (run_endpoint E P e vs r d))"
proof -
  note defs = handleListTenants_def handleCreateTenant_def handleGetTenant_def handleUpdateTenant_def
    handleDeleteTenant_def handleAddMember_def handleRemoveMember_def handleListMembers_def
  show ?thesis
    by (cases e) (auto simp: defs intro!: or_500_typed methods_no_panic simp: errors_of_def body_fits_def success_typed error_typed split: option.split)
qed

text \<open>
  C20: the API is typed and does not crash: every request is answered, with one of the statuses of
  its route; a success has the route's status, the route's JSON body and its content type, an error
  is plain text, and exactly the answers 429 carry a \<open>Retry-After\<close>.
\<close>

theorem serve_well_typed: "well_typed (find_route r) (snd (serve X L A clock r s))"
proof (cases "find_route r")
  case (Found e vs)
  then have run: "well_typed (find_route r) (snd (run_endpoint (se_http X) (se_pg X) e vs r d))" for d
    by (simp only: run_endpoint_typed)
  have denied: "well_typed (find_route r) (http_error ''unauthorized'' 401)"
      "well_typed (find_route r) (too_many rnd sh L)" if "e \<noteq> Health" for rnd sh
    using that by (simp_all add: Found error_typed) (simp add: well_typed_def too_many_def error_reply_def)
  show ?thesis
  proof (cases "e = Health")
    case True
    then show ?thesis using run by (simp add: serve_def Found del: run_endpoint.simps)
  next
    case False
    then have "serve X L A clock r s = Limit (se_rnd X) (se_show X) L (fst clock) (snd clock)
        (Auth (se_auth X) A (\<lambda>ctx r. on_store (run_endpoint (se_http X) (se_pg X) e vs r))) None r s"
      by (cases e) (simp_all add: serve_def Found)
    then show ?thesis
      using run denied [OF False] by (simp add: Limit_def Auth_def Let_def split: prod.split option.split)
  qed
qed (simp_all add: serve_def well_typed_def plain_reply_def error_reply_def)

end
