(* ===== verification/Registry.thy ===== *)
theory Registry
  imports Server_Types
begin

text \<open>
  What the API server is to its clients: a registry of tenants and of the roles of their members,
  without tables, rows, statements or their order. The handlers over the database refine it,
  whatever statements fail, and so does the server behind its middlewares.
\<close>

section \<open>Refinement of a step function by a relation\<close>

fun runs :: "('i \<Rightarrow> 'c \<Rightarrow> 'c \<times> 'o) \<Rightarrow> 'i list \<Rightarrow> 'c \<Rightarrow> 'c \<times> 'o list" where
  "runs step [] c = (c, [])"
| "runs step (i # is) c =
     (let (c1, out) = step i c; (c2, outs) = runs step is c1 in (c2, out # outs))"

inductive spec_runs :: "('i \<Rightarrow> 'a \<Rightarrow> 'a \<Rightarrow> 'p \<Rightarrow> bool) \<Rightarrow> 'i list \<Rightarrow> 'a \<Rightarrow> 'p list \<Rightarrow> 'a \<Rightarrow> bool"
  for spec where
  stop: "spec_runs spec [] a [] a"
| step: "spec i a a1 p \<Longrightarrow> spec_runs spec is a1 ps a2 \<Longrightarrow> spec_runs spec (i # is) a (p # ps) a2"

locale simulation =
  fixes inv :: "'c \<Rightarrow> bool"
    and abs :: "'c \<Rightarrow> 'a"
    and step :: "'i \<Rightarrow> 'c \<Rightarrow> 'c \<times> 'o"
    and obs :: "'o \<Rightarrow> 'p"
    and spec :: "'i \<Rightarrow> 'a \<Rightarrow> 'a \<Rightarrow> 'p \<Rightarrow> bool"
  assumes inv_step: "inv c \<Longrightarrow> inv (fst (step i c))"
    and sim: "inv c \<Longrightarrow> spec i (abs c) (abs (fst (step i c))) (obs (snd (step i c)))"
begin

lemma runs_refine:
  assumes "inv c" "runs step is c = (c', outs)"
  shows "spec_runs spec is (abs c) (map obs outs) (abs c')"
  using assms
proof (induction "is" arbitrary: c outs)
  case Nil
  then show ?case by (simp add: spec_runs.stop)
next
  case (Cons i "is")
  obtain c1 out where s: "step i c = (c1, out)" by fastforce
  obtain outs' where r: "runs step is c1 = (c', outs')" "outs = out # outs'"
    using Cons.prems(2) by (auto simp: s Let_def split: prod.splits)
  have "inv c1" "spec i (abs c) (abs c1) (obs out)"
    using inv_step [OF Cons.prems(1), of i] sim [OF Cons.prems(1), of i] by (simp_all add: s)
  then show ?case using Cons.IH [OF _ r(1)] by (simp add: r(2) spec_runs.step)
qed

end


section \<open>The registry\<close>

record registry =
  rg_tenants :: "string \<rightharpoonup> tenant"
  rg_ids :: "string set"             \<comment> \<open>ever used, as are the next two\<close>
  rg_names :: "string set"
  rg_namespaces :: "string set"
  rg_roles :: "string \<Rightarrow> string \<rightharpoonup> string"

datatype answer_body =
    Nothing | Failure | OneTenant tenant_response | SomeTenants "tenant_response set"
  | OneMember string string | SomeMembers "string \<rightharpoonup> string" | Healthy string

datatype answer = Answer nat answer_body | Crash

definition failed :: "nat \<Rightarrow> answer" where
  "failed n = Answer n Failure"

definition stored_tenant :: "string \<Rightarrow> string \<Rightarrow> string \<Rightarrow> string \<Rightarrow> string \<Rightarrow> tenant" where
  "stored_tenant u name namespace tier email = empty_tenant\<lparr>
     t_meta := empty_meta\<lparr>om_uid := u\<rparr>,
     t_spec := (t_spec empty_tenant)\<lparr>ts_name := name, ts_tier := tier, ts_ownerEmail := email\<rparr>,
     t_status := (t_status empty_tenant)\<lparr>tst_namespace := namespace\<rparr>\<rparr>"

definition reg_insert :: "pg \<Rightarrow> tenant \<Rightarrow> registry \<Rightarrow> registry option" where
  \<comment> \<open>a name that was ever used is no error and changes nothing\<close>
  "reg_insert P t S =
     (case tenant_params P t of
        Ok (u, name, namespace, tier, email) \<Rightarrow>
          if name \<in> rg_names S then Some S
          else if u \<in> rg_ids S \<or> namespace \<in> rg_namespaces S then None
          else Some (S\<lparr>rg_tenants := (rg_tenants S)(u \<mapsto> stored_tenant u name namespace tier email),
                       rg_ids := insert u (rg_ids S), rg_names := insert name (rg_names S),
                       rg_namespaces := insert namespace (rg_namespaces S)\<rparr>)
      | _ \<Rightarrow> None)"

definition with_id :: "pg \<Rightarrow> string \<Rightarrow> registry \<Rightarrow> (string \<Rightarrow> registry \<times> answer) \<Rightarrow> registry \<times> answer" where
  "with_id P i S k = (case pg_uuid P i of None \<Rightarrow> (S, failed 500) | Some u \<Rightarrow> k u)"

definition with_tenant ::
    "pg \<Rightarrow> string \<Rightarrow> registry \<Rightarrow> (string \<Rightarrow> tenant \<Rightarrow> registry \<times> answer) \<Rightarrow> registry \<times> answer" where
  "with_tenant P i S k =
     with_id P i S (\<lambda>u. case rg_tenants S u of None \<Rightarrow> (S, failed 404) | Some t \<Rightarrow> k u t)"

definition good_request :: "create_tenant_request \<Rightarrow> bool" where
  "good_request req \<longleftrightarrow> ct_Name req \<noteq> [] \<and> ct_Tier req \<in> {TierFree, TierPro, TierEnterprise} \<and> ct_OwnerEmail req \<noteq> []"

fun reg_call ::
    "pg \<Rightarrow> http_env \<Rightarrow> string \<Rightarrow> endpoint \<Rightarrow> string list \<Rightarrow> string \<Rightarrow> registry \<Rightarrow> registry \<times> answer" where
  \<comment> \<open>the outcome of a call with a fresh identifier, the wildcards of its route and its body\<close>
  "reg_call P E fresh Health vs body S = (S, Answer 200 (Healthy ''healthy''))"
| "reg_call P E fresh ListTenantsE vs body S =
     (S, Answer 200 (SomeTenants (tenant_response_of ` ran (rg_tenants S))))"
| "reg_call P E fresh CreateTenantE vs body S =
     (case he_create E body of
        None \<Rightarrow> (S, failed 400)
      | Some req \<Rightarrow>
          if \<not> good_request req then (S, failed 400)
          else (case reg_insert P (new_tenant req fresh) S of
                  None \<Rightarrow> (S, failed 500)
                | Some S' \<Rightarrow> (S', Answer 201 (OneTenant (tenant_response_of (new_tenant req fresh))))))"
| "reg_call P E fresh GetTenantE vs body S =
     with_tenant P (vs ! 0) S (\<lambda>u t. (S, Answer 200 (OneTenant (tenant_response_of t))))"
| "reg_call P E fresh UpdateTenantE vs body S =
     with_tenant P (vs ! 0) S (\<lambda>u t.
       case he_update E body of
         None \<Rightarrow> (S, failed 400)
       | Some req \<Rightarrow>
           (let t' = apply_update req t in
            if pg_varchar P 20 (ts_tier (t_spec t')) = None \<or> pg_varchar P 255 (ts_ownerEmail (t_spec t')) = None
            then (S, failed 500)
            else (S\<lparr>rg_tenants := (rg_tenants S)(u \<mapsto> updated P t' t)\<rparr>,
                  Answer 200 (OneTenant (tenant_response_of t')))))"
| "reg_call P E fresh DeleteTenantE vs body S =
     with_id P (vs ! 0) S (\<lambda>u. (S\<lparr>rg_tenants := (rg_tenants S)(u := None)\<rparr>, Answer 204 Nothing))"
| "reg_call P E fresh AddMemberE vs body S =
     with_tenant P (vs ! 0) S (\<lambda>u t.
       case he_addMember E body of
         None \<Rightarrow> (S, failed 400)
       | Some req \<Rightarrow>
           if am_Role req \<notin> {''admin'', ''operator''} then (S, failed 400)
           else (case (pg_varchar P 255 (am_UserID req), pg_varchar P 20 (am_Role req)) of
                   (Some user, Some role) \<Rightarrow>
                     (S\<lparr>rg_roles := (rg_roles S)(u := (rg_roles S u)(user \<mapsto> role))\<rparr>,
                      Answer 201 (OneMember (am_UserID req) (am_Role req)))
                 | _ \<Rightarrow> (S, failed 500)))"
| "reg_call P E fresh RemoveMemberE vs body S =
     with_id P (vs ! 0) S (\<lambda>u.
       (S\<lparr>rg_roles := (rg_roles S)(u := (rg_roles S u)(vs ! 1 := None))\<rparr>, Answer 204 Nothing))"
| "reg_call P E fresh ListMembersE vs body S =
     with_id P (vs ! 0) S (\<lambda>u. (S, Answer 200 (SomeMembers (rg_roles S u))))"

text \<open>
  A call has its outcome, or the database fails it: then the answer is 500 and the registry is as
  it was or as after the call.
\<close>

definition reg_step ::
    "pg \<Rightarrow> http_env \<Rightarrow> endpoint \<Rightarrow> string list \<Rightarrow> string \<Rightarrow> registry \<Rightarrow> registry \<Rightarrow> answer \<Rightarrow> bool" where
  "reg_step P E e vs body S S' a \<longleftrightarrow>
     (\<exists>fresh. (S', a) = reg_call P E fresh e vs body S
        \<or> e \<noteq> Health \<and> a = failed 500 \<and> S' \<in> {S, fst (reg_call P E fresh e vs body S)})"

definition reg_serve :: "server_env \<Rightarrow> auth \<Rightarrow> http_request \<Rightarrow> registry \<Rightarrow> registry \<Rightarrow> answer \<Rightarrow> bool" where
  \<comment> \<open>a request is turned away or is a call of its endpoint, for authenticated clients\<close>
  "reg_serve X A r S S' a \<longleftrightarrow>
     S' = S \<and> a \<in> failed ` {401, 404, 405, 429}
     \<or> (\<exists>e vs. find_route r = Found e vs \<and> (e = Health \<or> authenticate (se_auth X) A r \<noteq> None)
          \<and> reg_step (se_pg X) (se_http X) e vs (hr_body r) S S' a)"


section \<open>The registry of a database\<close>

definition registry_of :: "db \<Rightarrow> registry" where
  "registry_of d =
     \<lparr>rg_tenants = live d, rg_ids = tr_id ` set (db_tenants d), rg_names = tr_name ` set (db_tenants d),
      rg_namespaces = tr_namespace ` set (db_tenants d), rg_roles = role_of d\<rparr>"

fun observe_body :: "body \<Rightarrow> answer_body" where
  "observe_body NoBody = Nothing"
| "observe_body (ErrorJson s) = Failure"
| "observe_body (ErrorText s) = Failure"
| "observe_body (TenantBody t) = OneTenant t"
| "observe_body (TenantsBody ts) = SomeTenants (set ts)"
| "observe_body (MemberBody m) = OneMember (mp_UserID m) (mp_Role m)"
| "observe_body (MembersBody ms) = SomeMembers (map_of (map (\<lambda>m. (mp_UserID m, mp_Role m)) ms))"
| "observe_body (HealthBody s) = Healthy s"

fun observe :: "http_result \<Rightarrow> answer" where
  "observe (Reply r) = Answer (rs_status r) (observe_body (rs_body r))"
| "observe (Aborted x) = Crash"


lemma registry_of_seq [simp]: "registry_of (d\<lparr>db_seq := k\<rparr>) = registry_of d"
  by (simp add: registry_of_def)

lemma registry_of_fields [simp]:
  "rg_tenants (registry_of d) = live d" "rg_roles (registry_of d) = role_of d"
  "rg_ids (registry_of d) = tr_id ` set (db_tenants d)" "rg_names (registry_of d) = tr_name ` set (db_tenants d)"
  "rg_namespaces (registry_of d) = tr_namespace ` set (db_tenants d)"
  by (simp_all add: registry_of_def)

lemma observe_simps [simp]:
  "observe (http_error msg n) = failed n" "observe (json_reply n b) = Answer n (observe_body b)"
  "observe (plain_reply msg n) = failed n" "observe (too_many rnd sh L) = failed 429"
  by (simp_all add: http_error_def json_reply_def plain_reply_def too_many_def failed_def)


section \<open>Calls of the store on the registry\<close>

lemma exec_cases:
  obtains (ran) "exec P stmt d = stmt (db_seq d) (d\<lparr>db_seq := Suc (db_seq d)\<rparr>)"
  | (fault) e d' where "exec P stmt d = (d', Err (DriverError e))"
      "d' = d\<lparr>db_seq := Suc (db_seq d)\<rparr> \<or> d' = fst (stmt (db_seq d) (d\<lparr>db_seq := Suc (db_seq d)\<rparr>))"
  by (cases "pg_fault P (db_seq d)"; cases "the (pg_fault P (db_seq d))") (auto simp: exec_def Let_def)

text \<open>
  \<open>performs d p S1 good\<close>: the call that gave \<open>p\<close> on the database \<open>d\<close> ended in the registry \<open>S1\<close> with
  a good value, or failed with the registry as it was or \<open>S1\<close>.
\<close>

definition performs :: "db \<Rightarrow> db \<times> (db_error, 'a) res \<Rightarrow> registry \<Rightarrow> ('a \<Rightarrow> bool) \<Rightarrow> bool" where
  "performs d p S1 good \<longleftrightarrow>
     (case snd p of
        Ok a \<Rightarrow> registry_of (fst p) = S1 \<and> good a
      | Err e \<Rightarrow> registry_of (fst p) \<in> {registry_of d, S1}
      | Panic x \<Rightarrow> False)"

lemma exec_performs:
  assumes "performs d (stmt (db_seq d) (d\<lparr>db_seq := Suc (db_seq d)\<rparr>)) S1 good"
  shows "performs d (exec P stmt d) S1 good"
  using assms by (cases rule: exec_cases [of P stmt d]) (auto simp: performs_def split: res.splits)

text \<open>A call that cannot succeed leaves the registry alone.\<close>

lemma performs_never:
  assumes "performs d p (registry_of d) (\<lambda>a. False)"
  shows "\<exists>e. snd p = Err e" "registry_of (fst p) = registry_of d"
  using assms by (auto simp: performs_def split: res.splits)

lemma or_500_performs:
  assumes "performs d p S1 good"
    and "\<And>d' a. registry_of d' = S1 \<Longrightarrow> good a \<Longrightarrow> R (k d' a)"
    and "\<And>d' h. registry_of d' \<in> {registry_of d, S1} \<Longrightarrow> observe h = failed 500 \<Longrightarrow> R (d', h)"
  shows "R (or_500 p msg k)"
  using assms by (cases p; cases "snd p") (auto simp: performs_def or_500_def)

lemma GetTenantByID_performs:
  "performs d (GetTenantByID P i d) (registry_of d) (\<lambda>r. \<exists>u. pg_uuid P i = Some u \<and> r = live d u)"
proof -
  obtain d' g where g: "GetTenantByID P i d = (d', g)" by fastforce
  have "registry_of d' = registry_of d"
    using arg_cong [OF g, of fst]
    by (cases rule: exec_cases [of P "\<lambda>k. with_params (uuid_param P i) (\<lambda>u. select_tenant (\<lambda>r. tr_id r = u))" d])
      (auto simp: with_params_def select_tenant_def split: res.splits)
  moreover have "g \<noteq> Panic x" for x
    using methods_no_panic(2) [of P i d x] by (simp add: g)
  ultimately show ?thesis using GetTenantByID_Ok [of P i d d'] g by (cases g) (auto simp: performs_def)
qed

lemma set_scan:
  assumes "pg_laws P"
  shows "set (pg_scan P k rs) = set rs" "set (pg_scan_members P k ms) = set ms"
  using assms by (auto simp: pg_laws_def intro!: mset_eq_setD)

lemma ListTenants_performs:
  assumes "pg_laws P" "db_ok d"
  shows "performs d (ListTenants P d) (registry_of d) (\<lambda>ts. set ts = ran (live d))"
proof -
  have "row_tenant ` {r \<in> set (db_tenants d). tr_deleted_at r = None} = ran (live d)"
    by (auto simp: ran_def live_Some_iff [OF assms(2)] live_row_def)
  then show ?thesis
    unfolding ListTenants_def by (intro exec_performs) (simp add: performs_def set_scan [OF assms(1)])
qed

lemma registry_of_change_rows:
  assumes "\<And>r. tr_id (f r) = tr_id r" "\<And>r. tr_name (f r) = tr_name r" "\<And>r. tr_namespace (f r) = tr_namespace r"
  shows "registry_of (change_rows Q f d) = (registry_of d)\<lparr>rg_tenants := live (change_rows Q f d)\<rparr>"
proof -
  have "g ` set (db_tenants (change_rows Q f d)) = g ` set (db_tenants d)" if "\<And>r. g (f r) = g r" for g :: "tenant_row \<Rightarrow> string"
  proof -
    have "map g (db_tenants (change_rows Q f d)) = map g (db_tenants d)" using that by (auto simp: change_rows_def)
    then show ?thesis by (metis set_map)
  qed
  then show ?thesis by (simp add: registry_of_def assms role_of_def fun_eq_iff) (simp add: change_rows_def)
qed

lemma registry_of_members:
  "registry_of (d\<lparr>db_members := ms\<rparr>) = (registry_of d)\<lparr>rg_roles := role_of (d\<lparr>db_members := ms\<rparr>)\<rparr>"
  by (simp add: registry_of_def live_def fun_eq_iff)

lemma DeleteTenant_performs:
  "performs d (DeleteTenant P i d)
     (case pg_uuid P i of None \<Rightarrow> registry_of d | Some u \<Rightarrow> (registry_of d)\<lparr>rg_tenants := (live d)(u := None)\<rparr>)
     (\<lambda>_. pg_uuid P i \<noteq> None)"
  unfolding DeleteTenant_def
  by (intro exec_performs)
    (auto simp: performs_def with_params_def uuid_param_def live_change_delete registry_of_change_rows
      split: option.split)

lemma UpdateTenant_performs:
  assumes "pg_uuid P (om_uid (t_meta t)) = Some u" "live d u = Some x"
  shows "performs d (UpdateTenant P t d)
     (if pg_varchar P 20 (ts_tier (t_spec t)) = None \<or> pg_varchar P 255 (ts_ownerEmail (t_spec t)) = None
      then registry_of d else (registry_of d)\<lparr>rg_tenants := (live d)(u \<mapsto> updated P t x)\<rparr>)
     (\<lambda>_. pg_varchar P 20 (ts_tier (t_spec t)) \<noteq> None \<and> pg_varchar P 255 (ts_ownerEmail (t_spec t)) \<noteq> None)"
proof -
  obtain r where r: "find (live_row u) (db_tenants d) = Some r" "x = row_tenant r"
    using assms(2) by (auto simp: live_def)
  show ?thesis
    unfolding UpdateTenant_def
    by (intro exec_performs)
      (use assms(1) r in \<open>auto simp: performs_def with_params_def update_params_def uuid_param_def varchar_param_def
         live_change_keep registry_of_change_rows row_tenant_update split: option.split\<close>)
qed

lemma row_tenant_stored: "row_tenant r = stored_tenant (tr_id r) (tr_name r) (tr_namespace r) (tr_tier r) (tr_owner_email r)"
  by (simp add: row_tenant_def stored_tenant_def)

lemma registry_of_insert:
  assumes "tr_id r \<notin> tr_id ` set (db_tenants d)" "tr_deleted_at r = None"
  shows "registry_of (d\<lparr>db_seq := k, db_tenants := db_tenants d @ [r]\<rparr>) = (registry_of d)\<lparr>
     rg_tenants := (live d)(tr_id r \<mapsto> row_tenant r), rg_ids := insert (tr_id r) (rg_ids (registry_of d)),
     rg_names := insert (tr_name r) (rg_names (registry_of d)),
     rg_namespaces := insert (tr_namespace r) (rg_namespaces (registry_of d))\<rparr>"
proof -
  have "find (live_row (tr_id r)) (db_tenants d) = None"
    using assms(1) unfolding find_None_iff by (metis imageI live_row_def)
  then have "live (d\<lparr>db_seq := k, db_tenants := db_tenants d @ [r]\<rparr>) = (live d)(tr_id r \<mapsto> row_tenant r)"
    using assms(2) by (auto simp: live_def fun_eq_iff find_append live_row_def split: option.splits)
  then show ?thesis by (simp add: registry_of_def role_of_def fun_eq_iff)
qed

lemma CreateTenant_performs:
  "performs d (CreateTenant P t d)
     (case reg_insert P t (registry_of d) of None \<Rightarrow> registry_of d | Some S \<Rightarrow> S)
     (\<lambda>t'. reg_insert P t (registry_of d) \<noteq> None \<and> tenant_response_of t' = tenant_response_of t)"
proof -
  let ?stmt = "\<lambda>k. with_params (tenant_params P t) (insert_tenant (pg_now P k))"
  let ?p = "?stmt (db_seq d) (d\<lparr>db_seq := Suc (db_seq d)\<rparr>)"
  let ?S = "case reg_insert P t (registry_of d) of None \<Rightarrow> registry_of d | Some S \<Rightarrow> S"
  have out: "registry_of (fst ?p) = ?S \<and> (snd ?p = Err NoRows \<or> (\<exists>k. snd ?p = Ok k) \<longleftrightarrow> reg_insert P t (registry_of d) \<noteq> None)"
  proof (cases "tenant_params P t")
    case (Ok p)
    obtain u n ns tier email where p: "p = (u, n, ns, tier, email)" by (cases p)
    have "registry_of (fst ?p) = ?S"
      by (simp add: Ok p with_params_def insert_tenant_def reg_insert_def registry_of_insert row_tenant_stored)
    moreover have "snd ?p = Err NoRows \<or> (\<exists>k. snd ?p = Ok k) \<longleftrightarrow> reg_insert P t (registry_of d) \<noteq> None"
      by (simp add: Ok p with_params_def insert_tenant_def reg_insert_def)
    ultimately show ?thesis by (rule conjI)
  next
    case (Err e)
    then have "e \<noteq> NoRows" using params_not_NoRows(3) [of P t] by auto
    then show ?thesis by (simp add: Err with_params_def reg_insert_def)
  qed (simp add: with_params_def reg_insert_def)
  have np: "snd ?p \<noteq> Panic x" for x by (intro no_panic; simp add: no_panic)
  show ?thesis
  proof (cases rule: exec_cases [of P ?stmt d])
    case ran
    obtain d' r where p: "?p = (d', r)" by (cases ?p)
    then show ?thesis
      using out np by (cases r) (auto simp: performs_def CreateTenant_def ran tenant_response_of_def split: db_error.split)
  next
    case (fault e d')
    then show ?thesis using out by (auto simp: performs_def CreateTenant_def)
  qed
qed

lemma upsert_registry:
  assumes "u \<in> tr_id ` set (db_tenants d)"
  obtains d' where "upsert_member now (u, n, r) d = (d', Ok ())"
    "registry_of d' = (registry_of d)\<lparr>rg_roles := (role_of d)(u := (role_of d u)(n \<mapsto> r))\<rparr>"
proof -
  obtain ms where ms: "upsert_member now (u, n, r) d = (d\<lparr>db_members := ms\<rparr>, Ok ())"
    using assms that unfolding upsert_member_def by (cases "(u, n) \<in> set (map (\<lambda>m. (mr_tenant_id m, mr_user_id m)) (db_members d))") simp_all
  then show ?thesis using that role_of_upsert [OF ms] by (simp add: registry_of_members)
qed

lemma AddMember_performs:
  assumes "pg_uuid P i = Some u" "u \<in> tr_id ` set (db_tenants d)"
  shows "performs d (AddMember P i n r d)
     (case (pg_varchar P 255 n, pg_varchar P 20 r) of
        (Some user, Some role) \<Rightarrow> (registry_of d)\<lparr>rg_roles := (role_of d)(u := (role_of d u)(user \<mapsto> role))\<rparr>
      | _ \<Rightarrow> registry_of d)
     (\<lambda>_. pg_varchar P 255 n \<noteq> None \<and> pg_varchar P 20 r \<noteq> None)"
  unfolding AddMember_def
proof (intro exec_performs)
  let ?d = "d\<lparr>db_seq := Suc (db_seq d)\<rparr>" and ?now = "pg_now P (db_seq d)"
  show "performs d (with_params (member_params P i n r) (upsert_member ?now) ?d)
     (case (pg_varchar P 255 n, pg_varchar P 20 r) of
        (Some user, Some role) \<Rightarrow> (registry_of d)\<lparr>rg_roles := (role_of d)(u := (role_of d u)(user \<mapsto> role))\<rparr>
      | _ \<Rightarrow> registry_of d)
     (\<lambda>_. pg_varchar P 255 n \<noteq> None \<and> pg_varchar P 20 r \<noteq> None)"
  proof (cases "pg_varchar P 255 n = None \<or> pg_varchar P 20 r = None")
    case True
    then show ?thesis
      using assms(1) by (auto simp: performs_def with_params_def member_params_def uuid_param_def varchar_param_def split: option.split)
  next
    case False
    then obtain user role where v: "pg_varchar P 255 n = Some user" "pg_varchar P 20 r = Some role" by auto
    obtain d' where "upsert_member ?now (u, user, role) ?d = (d', Ok ())"
        "registry_of d' = (registry_of d)\<lparr>rg_roles := (role_of d)(u := (role_of d u)(user \<mapsto> role))\<rparr>"
      using upsert_registry [of u ?d ?now user role] assms(2) by auto
    then show ?thesis
      using assms(1) by (simp add: v performs_def with_params_def member_params_def uuid_param_def varchar_param_def)
  qed
qed

lemma RemoveMember_performs:
  "performs d (RemoveMember P i n d)
     (case pg_uuid P i of None \<Rightarrow> registry_of d
      | Some u \<Rightarrow> (registry_of d)\<lparr>rg_roles := (role_of d)(u := (role_of d u)(n := None))\<rparr>)
     (\<lambda>_. pg_uuid P i \<noteq> None)"
proof -
  have "role_of (d\<lparr>db_seq := k, db_members := filter (\<lambda>m. mr_tenant_id m = u \<longrightarrow> mr_user_id m \<noteq> n) (db_members d)\<rparr>)
      = (role_of d)(u := (role_of d u)(n := None))" for k u
    using find_role_remove [of _ _ u n "db_members d"] by (simp add: role_of_def fun_eq_iff)
  then show ?thesis
    unfolding RemoveMember_def
    by (intro exec_performs)
      (auto simp: performs_def with_params_def uuid_param_def registry_of_members split: option.split)
qed

lemma map_of_perm:
  assumes "mset xs = mset ys" "distinct (map fst ys)"
  shows "map_of xs = map_of ys"
proof -
  have "mset (map fst xs) = mset (map fst ys)" using assms(1) by simp
  then have "distinct (map fst xs)" using assms(2) mset_eq_imp_distinct_iff by blast
  then show ?thesis using assms mset_eq_setD [OF assms(1)] map_of_inject_set by blast
qed

lemma map_of_roles:
  "map_of (map (\<lambda>m. (mr_user_id m, mr_role m)) (filter (\<lambda>m. mr_tenant_id m = u) ms)) n =
     map_option mr_role (find (\<lambda>m. mr_tenant_id m = u \<and> mr_user_id m = n) ms)"
  by (induction ms) auto

lemma ListMembers_performs:
  assumes "pg_laws P" "db_ok d"
  shows "performs d (ListMembers P i d) (registry_of d)
     (\<lambda>ms. \<exists>u. pg_uuid P i = Some u \<and> map_of (map (\<lambda>m. (m_UserID m, m_Role m)) ms) = role_of d u)"
proof -
  have roles: "map_of (map (\<lambda>m. (mr_user_id m, mr_role m)) (pg_scan_members P k (filter (\<lambda>m. mr_tenant_id m = u) (db_members d))))
      = role_of d u" for k u
  proof -
    let ?ms = "filter (\<lambda>m. mr_tenant_id m = u) (db_members d)"
    have "distinct (map member_key ?ms)" using assms(2) by (simp add: db_ok_def distinct_map_filter)
    then have "distinct (map (\<lambda>m. mr_user_id m) ?ms)"
      by (auto simp: distinct_map inj_on_def member_key_def)
    moreover have "mset (pg_scan_members P k ?ms) = mset ?ms" using assms(1) by (simp add: pg_laws_def)
    ultimately show ?thesis
      using map_of_perm [of "map (\<lambda>m. (mr_user_id m, mr_role m)) (pg_scan_members P k ?ms)"
          "map (\<lambda>m. (mr_user_id m, mr_role m)) ?ms"]
      by (simp add: o_def fun_eq_iff map_of_roles role_of_def)
  qed
  show ?thesis
    unfolding ListMembers_def
    by (intro exec_performs)
      (auto simp: performs_def with_params_def uuid_param_def o_def roles split: option.split)
qed


section \<open>The server refines the registry\<close>

lemma or_500_step:
  assumes "performs d p S1 good"
    and "\<And>d' a. registry_of d' = S1 \<Longrightarrow> good a \<Longrightarrow>
      (registry_of (fst (k d' a)), observe (snd (k d' a))) = reg_call P E fresh e vs body (registry_of d)"
    and "S1 \<in> {registry_of d, fst (reg_call P E fresh e vs body (registry_of d))}" "e \<noteq> Health"
  shows "reg_step P E e vs body (registry_of d) (registry_of (fst (or_500 p msg k))) (observe (snd (or_500 p msg k)))"
  using assms(1)
proof (rule or_500_performs)
  fix d' a assume "registry_of d' = S1" "good a"
  from assms(2) [OF this] show "reg_step P E e vs body (registry_of d) (registry_of (fst (k d' a))) (observe (snd (k d' a)))"
    unfolding reg_step_def by blast
next
  fix d' h assume "registry_of d' \<in> {registry_of d, S1}" "observe h = failed 500"
  then show "reg_step P E e vs body (registry_of d) (registry_of (fst (d', h))) (observe (snd (d', h)))"
    using assms(3,4) unfolding reg_step_def by auto
qed

text \<open>The handlers that first look the tenant up: a second call on the same registry.\<close>

lemma or_500_then:
  assumes "performs d p (registry_of d) good"
    and "\<And>d' a. registry_of d' = registry_of d \<Longrightarrow> good a \<Longrightarrow> db_ok d' \<Longrightarrow>
      reg_step P E e vs body (registry_of d') (registry_of (fst (k d' a))) (observe (snd (k d' a)))"
    and "db_ok (fst p)" "e \<noteq> Health"
  shows "reg_step P E e vs body (registry_of d) (registry_of (fst (or_500 p msg k))) (observe (snd (or_500 p msg k)))"
proof -
  have "reg_step P E e vs body S S (failed 500)" for S
    using assms(4) unfolding reg_step_def by auto
  then show ?thesis
    using assms(1-3) by (cases p; cases "snd p") (auto simp: performs_def or_500_def)
qed

lemma reg_step_call:
  "(S', a) = reg_call P E fresh e vs body S \<Longrightarrow> reg_step P E e vs body S S' a"
  unfolding reg_step_def by blast

lemma live_uid: "db_ok d \<Longrightarrow> live d u = Some t \<Longrightarrow> om_uid (t_meta t) = u \<and> u \<in> tr_id ` set (db_tenants d)"
  by (auto simp: live_Some_iff live_row_def)

lemma apply_update_uid [simp]: "om_uid (t_meta (apply_update req t)) = om_uid (t_meta t)"
  by (simp add: apply_update_def Let_def split: option.split)

lemma run_endpoint_refines:
  assumes "pg_laws P" "db_ok d"
  shows "reg_step P E e vs (hr_body r) (registry_of d) (registry_of (fst (run_endpoint E P e vs r d)))
    (observe (snd (run_endpoint E P e vs r d)))"
proof (cases e)
  case Health
  then show ?thesis by (auto intro!: reg_step_call)
next
  case ListTenantsE
  then show ?thesis
    by (auto simp: handleListTenants_def intro!: or_500_step [OF ListTenants_performs [OF assms]])
next
  case CreateTenantE
  show ?thesis
  proof (cases "he_create E (hr_body r)")
    case None
    then show ?thesis by (auto simp: CreateTenantE handleCreateTenant_def intro!: reg_step_call)
  next
    case (Some req)
    show ?thesis
    proof (cases "good_request req")
      case True
      then have "run_endpoint E P e vs r d = or_500 (CreateTenant P (new_tenant req (he_uuid E (db_seq d))) d)
          ''error creating tenant'' (\<lambda>d t. (d, json_reply 201 (TenantBody (tenant_response_of t))))"
        using Some by (auto simp: CreateTenantE handleCreateTenant_def good_request_def tier_defs)
      then show ?thesis
        using True Some CreateTenantE
        by (auto intro!: or_500_step [where fresh = "he_uuid E (db_seq d)", OF CreateTenant_performs] split: option.split)
    next
      case False
      then show ?thesis
        using Some by (auto simp: CreateTenantE handleCreateTenant_def good_request_def tier_defs intro!: reg_step_call)
    qed
  qed
next
  case GetTenantE
  then show ?thesis
    by (auto simp: handleGetTenant_def with_tenant_def with_id_def split: option.split
        intro!: or_500_step [OF GetTenantByID_performs])
next
  case DeleteTenantE
  then show ?thesis
    by (auto simp: handleDeleteTenant_def with_id_def split: option.split
        intro!: or_500_step [OF DeleteTenant_performs])
next
  case RemoveMemberE
  then show ?thesis
    by (auto simp: handleRemoveMember_def with_id_def split: option.split
        intro!: or_500_step [OF RemoveMember_performs])
next
  case ListMembersE
  then show ?thesis
    by (auto simp: handleListMembers_def with_id_def o_def split: option.split
        intro!: or_500_step [OF ListMembers_performs [OF assms]])
next
  case UpdateTenantE
  show ?thesis
    unfolding UpdateTenantE run_endpoint.simps handleUpdateTenant_def
  proof (rule or_500_then [OF GetTenantByID_performs])
    fix d' get assume d': "registry_of d' = registry_of d" "db_ok d'"
      and "\<exists>u. pg_uuid P (vs ! 0) = Some u \<and> get = live d u"
    moreover have "live d' = live d" using arg_cong [OF d'(1), of rg_tenants] by (simp only: registry_of_fields)
    ultimately obtain u where u: "pg_uuid P (vs ! 0) = Some u" "get = live d' u" by auto
    let ?k = "case get of None \<Rightarrow> (d', http_error ''tenant is not found'' 404)
       | Some t \<Rightarrow> (case he_update E (hr_body r) of
           None \<Rightarrow> (d', http_error ''error decoding the updating request'' 400)
         | Some req \<Rightarrow> or_500 (UpdateTenant P (apply_update req t) d') ''error updating the tenant'' (\<lambda>d _.
             (d, json_reply 200 (TenantBody (tenant_response_of (apply_update req t))))))"
    show "reg_step P E UpdateTenantE vs (hr_body r) (registry_of d') (registry_of (fst ?k)) (observe (snd ?k))"
    proof (cases "get = None \<or> he_update E (hr_body r) = None")
      case True
      then show ?thesis using u by (auto simp: with_tenant_def with_id_def intro!: reg_step_call split: option.split)
    next
      case False
      then obtain t req where t: "get = Some t" "he_update E (hr_body r) = Some req" by auto
      then have live: "live d' u = Some t" using u(2) by simp
      have "pg_uuid P (om_uid (t_meta (apply_update req t))) = Some u"
        using live_uid [OF d'(2) live] u(1) assms(1) by (auto simp: pg_laws_def)
      note up = UpdateTenant_performs [OF this live]
      show ?thesis
        using u(1) live t by (auto simp: with_tenant_def with_id_def Let_def intro!: or_500_step [OF up])
    qed
  qed (simp_all add: GetTenantByID_ok [OF assms(2)] del: fst_GetTenantByID)
next
  case AddMemberE
  show ?thesis
    unfolding AddMemberE run_endpoint.simps handleAddMember_def
  proof (rule or_500_then [OF GetTenantByID_performs])
    fix d' get assume d': "registry_of d' = registry_of d" "db_ok d'"
      and "\<exists>u. pg_uuid P (vs ! 0) = Some u \<and> get = live d u"
    moreover have "live d' = live d" using arg_cong [OF d'(1), of rg_tenants] by (simp only: registry_of_fields)
    ultimately obtain u where u: "pg_uuid P (vs ! 0) = Some u" "get = live d' u" by auto
    let ?k = "case get of None \<Rightarrow> (d', http_error ''tenant is not found'' 404)
       | Some t \<Rightarrow> (case he_addMember E (hr_body r) of
           None \<Rightarrow> (d', http_error ''error decoding the add member request'' 400)
         | Some req \<Rightarrow>
             if am_Role req \<noteq> ''admin'' \<and> am_Role req \<noteq> ''operator'' then (d', http_error ''member has the wrong role'' 400)
             else or_500 (AddMember P (vs ! 0) (am_UserID req) (am_Role req) d') ''error adding the member'' (\<lambda>d _.
               (d, json_reply 201 (MemberBody \<lparr>mp_UserID = am_UserID req, mp_Role = am_Role req, mp_CreatedAt = []\<rparr>))))"
    show "reg_step P E AddMemberE vs (hr_body r) (registry_of d') (registry_of (fst ?k)) (observe (snd ?k))"
    proof (cases "get = None \<or> he_addMember E (hr_body r) = None \<or> am_Role (the (he_addMember E (hr_body r))) \<notin> {''admin'', ''operator''}")
      case True
      then show ?thesis using u by (auto simp: with_tenant_def with_id_def intro!: reg_step_call split: option.split)
    next
      case False
      then obtain t req where t: "get = Some t" "he_addMember E (hr_body r) = Some req"
          "am_Role req \<in> {''admin'', ''operator''}" by auto
      then have live: "live d' u = Some t" using u(2) by simp
      then have "u \<in> tr_id ` set (db_tenants d')" using live_uid [OF d'(2)] by blast
      note add = AddMember_performs [OF u(1) this]
      show ?thesis
        using u(1) live t by (auto simp: with_tenant_def with_id_def intro!: or_500_step [OF add] split: option.split)
    qed
  qed (simp_all add: GetTenantByID_ok [OF assms(2)] del: fst_GetTenantByID)
qed

lemma serve_ok: "db_ok (sv_db s) \<Longrightarrow> db_ok (sv_db (fst (serve X L A clock r s)))"
  using serve_steps soft_steps_ok by blast

lemma refusal_failed:
  assumes "well_typed rt h" "status_of h \<in> {Some 401, Some 404, Some 405, Some 429}"
  shows "observe h \<in> failed ` {401, 404, 405, 429}"
proof -
  obtain p where h: "h = Reply p" using assms(2) by (cases h) (auto simp: status_of_def)
  have st: "rs_status p \<in> {401, 404, 405, 429}" using assms(2) by (auto simp: h status_of_def)
  have "is_error_text (rs_body p)"
  proof (cases rt)
    case (Found e vs)
    have "success_status e \<notin> {401, 404, 405, 429}" by (cases e) simp_all
    then show ?thesis
      using assms(1) st by (auto simp: h Found well_typed_def success_reply_def error_reply_def)
  qed (use assms(1) in \<open>auto simp: h well_typed_def error_reply_def\<close>)
  then have "observe h = failed (rs_status p)" by (cases "rs_body p") (simp_all add: h failed_def)
  then show ?thesis using st by blast
qed

lemma serve_refines:
  assumes "pg_laws (se_pg X)" "db_ok (sv_db s)"
  shows "reg_serve X A r (registry_of (sv_db s)) (registry_of (sv_db (fst (serve X L A clock r s))))
    (observe (snd (serve X L A clock r s)))"
proof (cases rule: serve_cases [of X L A clock r s])
  case refused
  then show ?thesis
    using refusal_failed [OF serve_well_typed [of r X L A clock s] refused(2)] by (simp add: reg_serve_def)
next
  case (served e vs)
  then show ?thesis
    using run_endpoint_refines [OF assms, of "se_http X" e vs r] unfolding reg_serve_def served(3,4) by blast
qed

interpretation api: simulation "\<lambda>s. pg_laws (se_pg X) \<and> db_ok (sv_db s)" "\<lambda>s. registry_of (sv_db s)"
    "\<lambda>(clock, r). serve X L A clock r" observe "\<lambda>(clock, r). reg_serve X A r" for X L A
  by unfold_locales (auto simp: serve_ok serve_refines split: prod.splits)

text \<open>
  C4: The API server refines the registry. Whatever requests come, at whatever times, from whomever, and
  whatever statements of the database fail, the statuses and contents of the answers are those of
  a run of the registry on the same requests, and the database ends as its state. In such a run a
  request is turned away, or is answered as the registry has it, or is answered 500 with its effect
  taken in full or not at all.
\<close>

theorem server_refines_registry:
  assumes "pg_laws (se_pg X)" "db_ok (sv_db s)"
    and "runs (\<lambda>(clock, r). serve X L A clock r) rs s = (s', answers)"
  shows "spec_runs (\<lambda>(clock, r). reg_serve X A r) rs (registry_of (sv_db s)) (map observe answers)
    (registry_of (sv_db s'))"
  using api.runs_refine [OF _ assms(3)] assms(1,2) by simp

definition demo_session :: "((int \<times> int) \<times> http_request) list" where
  "demo_session =
     [((0, 0), demo_request ''GET'' ''Bearer good''), ((0, 1), demo_request ''DELETE'' ''Bearer good''),
      ((0, 2), demo_request ''GET'' ''Bearer good''), ((0, 3), demo_request ''GET'' ''Bearer bad'')]"

theorem server_refines_registry_witness:
  "\<exists>s' answers. runs (\<lambda>(clock, r). serve demo_env_api demo_limiter demo_auth clock r) demo_session demo_server
        = (s', answers)
     \<and> spec_runs (\<lambda>(clock, r). reg_serve demo_env_api demo_auth r) demo_session (registry_of two_tenants)
        (map observe answers) (registry_of (sv_db s'))"
proof -
  obtain s' answers where r: "runs (\<lambda>(clock, r). serve demo_env_api demo_limiter demo_auth clock r) demo_session demo_server
      = (s', answers)" by fastforce
  have "pg_laws (se_pg demo_env_api)" "db_ok (sv_db demo_server)"
    using plain_pg_laws two_tenants_ok by (simp_all add: demo_env_api_def demo_server_def)
  from server_refines_registry [OF this r] r show ?thesis by (auto simp: demo_server_def)
qed

end
