(* ===== verification/Config_Env.thy ===== *)
theory Config_Env
  imports Config
begin

text \<open>
  Reading back an \<open>.env\<close> file: a printer for the thirteen settings that \<open>envParse\<close> knows,
  and the proof that \<open>envParse\<close> inverts it.
\<close>

section \<open>Text that trimming leaves alone\<close>

lemma space_seq_bytes:
  "p \<in> set space_seqs \<Longrightarrow> p \<noteq> [] \<Longrightarrow> set p \<subseteq> set (concat space_seqs)"
  by auto

lemma not_prefix_clean:
  assumes "set s \<inter> set (concat space_seqs) = {}" and "p \<noteq> []" and "set p \<subseteq> set (concat space_seqs)"
  shows "\<not> prefix p s"
  using assms by (cases p) (auto simp: prefix_def)

lemma trim_clean:
  assumes "set s \<inter> set (concat space_seqs) = {}"
  shows "trimSpace s = s"
proof -
  have "trim_with space_seqs s = s"
    using assms by (intro trim_with_id ballI impI not_prefix_clean) auto
  moreover have "trim_with (map rev space_seqs) (rev s) = rev s"
    using assms by (intro trim_with_id ballI impI not_prefix_clean) auto
  ultimately show ?thesis by (simp add: trimSpace_def)
qed

lemma trimmed_no_cr:
  assumes "trimSpace v = v" and "v \<noteq> []"
  shows "last v \<noteq> CHR 0x0D"
proof
  assume "last v = CHR 0x0D"
  with assms(2) have "prefix [CHR 0x0D] (rev v)"
    by (cases v rule: rev_cases) auto
  moreover have "rev v = trim_with (map rev space_seqs) (rev (trim_with space_seqs v))"
    using assms(1) by (simp add: trimSpace_def rev_swap)
  moreover have "[CHR 0x0D] \<in> set (map rev space_seqs)"
    by (simp add: space_seqs_def)
  ultimately show False
    using trim_with_done [of "[CHR 0x0D]" "map rev space_seqs" "rev (trim_with space_seqs v)"]
    by simp
qed

lemma digits_clean: "list_all (\<lambda>d. digit_char d \<notin> set (concat space_seqs)) [0..<10]"
  by code_simp

lemma digit_clean: "d < 10 \<Longrightarrow> digit_char d \<notin> set (concat space_seqs)"
  using digits_clean by (simp only: list_all_iff set_upt) simp

lemma nat_text_clean: "set (nat_text n) \<inter> set (concat space_seqs) = {}"
  using nat_text_chars digit_clean by blast

lemma int_text_clean: "set (int_text i) \<inter> set (concat space_seqs) = {}"
  using nat_text_clean by (auto simp: int_text_def space_seqs_def)

lemma length_nat_text: "n < 10 ^ Suc k \<Longrightarrow> length (nat_text n) \<le> Suc k"
proof (induction k arbitrary: n)
  case (Suc k)
  then show ?case
    by (subst nat_text.simps) (auto simp: less_mult_imp_div_less)
qed (simp add: nat_text.simps)


section \<open>The printer\<close>

definition bool_text :: "bool \<Rightarrow> string" where
  "bool_text b = (if b then ''true'' else ''false'')"

definition env_entries :: "config \<Rightarrow> (string \<times> string) list" where
  "env_entries c =
     [(''K8S_MTP_LISTEN_ADDR'', cfg_ListenAddr c), (''K8S_MTP_DB_URL'', cfg_DBURL c),
      (''K8S_MTP_LOG_LEVEL'', cfg_LogLevel c),
      (''K8S_MTP_DB_OPEN_CONNS'', int_text (cfg_DBMaxOpenConns c)),
      (''K8S_MTP_DB_IDLE_CONNS'', int_text (cfg_DBMaxIdleConns c)),
      (''K8S_MTP_DB_CONN_MAX_LIFETIME'', cfg_DBConnMaxLifetime c),
      (''K8S_MTP_TENANT_EGRESS_POLICY'', cfg_TenantEgressPolicy c),
      (''K8S_MTP_PLATFORM_ACCESS_LABEL'', cfg_PlatformAccessLabel c),
      (''K8S_MTP_DEX_CLIENT_ID'', cfg_DexClientID c),
      (''K8S_MTP_DEX_ISSUER_URL'', cfg_DexIssuerURL c),
      (''K8S_MTP_AUTH_ENABLED'', bool_text (cfg_AuthEnabled c)),
      (''K8S_MTP_RATE_REQUESTS_PER_MINUTE'', int_text (cfg_RateRequestsPerMinute c)),
      (''K8S_MTP_RATE_BURST'', int_text (cfg_RateBurst c))]"

definition entry_line :: "string \<times> string \<Rightarrow> string" where
  "entry_line e = fst e @ ''='' @ snd e"

definition env_text :: "config \<Rightarrow> string" where
  "env_text c = concat (map (\<lambda>e. entry_line e @ [CHR 0x0A]) (env_entries c))"

definition env_value :: "string \<Rightarrow> bool" where
  \<comment> \<open>a value that a line can carry: no blanks around it, no line feed, not over-long\<close>
  "env_value v \<longleftrightarrow> trimSpace v = v \<and> CHR 0x0A \<notin> set v \<and> length v \<le> 65000"

definition env_key :: "string \<Rightarrow> bool" where
  "env_key k \<longleftrightarrow> k \<noteq> [] \<and> hd k \<noteq> CHR ''#'' \<and> CHR ''='' \<notin> set k \<and> CHR 0x0A \<notin> set k
     \<and> set k \<inter> set (concat space_seqs) = {} \<and> length k \<le> 100"

definition env_config :: "config \<Rightarrow> bool" where
  \<comment> \<open>the settings an \<open>.env\<close> file can express\<close>
  "env_config c \<longleftrightarrow>
     list_all env_value [cfg_ListenAddr c, cfg_DBURL c, cfg_LogLevel c, cfg_DBConnMaxLifetime c,
       cfg_TenantEgressPolicy c, cfg_PlatformAccessLabel c, cfg_DexClientID c, cfg_DexIssuerURL c]
     \<and> list_all (\<lambda>i. - (2 ^ 63) \<le> i \<and> i < 2 ^ 63) [cfg_DBMaxOpenConns c, cfg_DBMaxIdleConns c,
       cfg_RateRequestsPerMinute c, cfg_RateBurst c]
     \<and> cfg_LogFormat c = [] \<and> cfg_WebhookImage c = []
     \<and> cfg_Free c = \<lparr>td_cpu = [], td_memory = []\<rparr> \<and> cfg_Pro c = \<lparr>td_cpu = [], td_memory = []\<rparr>
     \<and> cfg_Enterprise c = \<lparr>td_cpu = [], td_memory = []\<rparr>"

lemma env_value_int:
  assumes "- (2 ^ 63) \<le> i" and "i < 2 ^ 63"
  shows "env_value (int_text i)"
proof -
  have "nat i < 10 ^ Suc 18" "nat (- i) < 10 ^ Suc 18" using assms by auto
  from this [THEN length_nat_text] have "length (int_text i) \<le> 20"
    by (auto simp: int_text_def)
  moreover have "CHR 0x0A \<notin> set (int_text i)"
    using int_text_clean [of i] by (auto simp: space_seqs_def)
  ultimately show ?thesis
    by (simp add: env_value_def trim_clean [OF int_text_clean])
qed

lemma env_value_bool: "env_value (bool_text b)"
  by (auto simp: env_value_def bool_text_def space_seqs_def intro!: trim_clean)

definition env_keys :: "string list" where
  "env_keys =
     [''K8S_MTP_LISTEN_ADDR'', ''K8S_MTP_DB_URL'', ''K8S_MTP_LOG_LEVEL'', ''K8S_MTP_DB_OPEN_CONNS'',
      ''K8S_MTP_DB_IDLE_CONNS'', ''K8S_MTP_DB_CONN_MAX_LIFETIME'', ''K8S_MTP_TENANT_EGRESS_POLICY'',
      ''K8S_MTP_PLATFORM_ACCESS_LABEL'', ''K8S_MTP_DEX_CLIENT_ID'', ''K8S_MTP_DEX_ISSUER_URL'',
      ''K8S_MTP_AUTH_ENABLED'', ''K8S_MTP_RATE_REQUESTS_PER_MINUTE'', ''K8S_MTP_RATE_BURST'']"

lemma env_keys_ok: "list_all env_key env_keys"
  by code_simp

lemma env_entries_keys: "map fst (env_entries c) = env_keys"
  by (simp add: env_entries_def env_keys_def)

lemma env_entries_ok:
  assumes "env_config c"
  shows "list_all (\<lambda>(k, v). env_key k \<and> env_value v) (env_entries c)"
proof -
  have "list_all env_value (map snd (env_entries c))"
    using assms by (simp add: env_entries_def env_config_def env_value_int env_value_bool)
  moreover have "list_all env_key (map fst (env_entries c))"
    unfolding env_entries_keys by (rule env_keys_ok)
  ultimately show ?thesis by (auto simp: list_all_iff)
qed


section \<open>The round trip\<close>

lemma raw_lines_env:
  "list_all (\<lambda>(k, v). env_key k \<and> env_value v) es \<Longrightarrow>
     raw_lines (concat (map (\<lambda>e. entry_line e @ [CHR 0x0A]) es)) = map entry_line es"
proof (induction es)
  case (Cons e es)
  then have "CHR 0x0A \<notin> set (entry_line e)"
    by (auto simp: entry_line_def env_key_def env_value_def)
  with Cons show ?case by simp
qed simp

lemma env_line_entry:
  assumes "env_key k" and "env_value v"
  shows "env_line (drop_cr (entry_line (k, v))) cfg = env_assign k v cfg"
    and "length (entry_line (k, v)) < max_token"
proof -
  have "drop_cr (entry_line (k, v)) = k @ CHR ''='' # v"
    using assms(2) trimmed_no_cr [of v]
    by (cases "v = []") (auto simp: drop_cr_def entry_line_def env_value_def)
  moreover have "\<not> hasPrefix (k @ CHR ''='' # v) ''#''" and "trimSpace k = k"
    using assms(1) by (cases k; auto simp: env_key_def hasPrefix_def intro!: trim_clean)+
  ultimately show "env_line (drop_cr (entry_line (k, v))) cfg = env_assign k v cfg"
    using assms by (simp add: env_line_def env_key_def env_value_def)
  show "length (entry_line (k, v)) < max_token"
    using assms by (simp add: entry_line_def env_key_def env_value_def max_token_def)
qed

fun assign_all :: "(string \<times> string) list \<Rightarrow> config \<Rightarrow> (config_error, config) res" where
  "assign_all [] cfg = Ok cfg"
| "assign_all ((k, v) # es) cfg = res_bind (env_assign k v cfg) (assign_all es)"

lemma env_lines_entries:
  "list_all (\<lambda>(k, v). env_key k \<and> env_value v) es \<Longrightarrow>
     env_lines (map entry_line es) cfg = assign_all es cfg"
proof (induction es arbitrary: cfg)
  case (Cons e es)
  obtain k v where e: "e = (k, v)" by (cases e)
  with Cons.prems have kv: "env_key k" "env_value v"
    and rest: "list_all (\<lambda>(k, v). env_key k \<and> env_value v) es" by auto
  have "env_lines (map entry_line es) = assign_all es"
    using Cons.IH [OF rest] by (rule ext)
  with env_line_entry [OF kv] show ?case by (simp add: e)
qed simp

lemma env_atoi_text:
  "- (2 ^ 63) \<le> i \<Longrightarrow> i < 2 ^ 63 \<Longrightarrow> env_atoi k (int_text i) = Ok i"
  by (simp add: env_atoi_def atoi_int_text)

lemma parseBool_text [simp]: "parseBool (bool_text b) = Some b"
  by (simp add: parseBool_def bool_text_def)

lemma assign_all_entries: "env_config c \<Longrightarrow> assign_all (env_entries c) empty_config = Ok c"
  by (cases c) (simp add: env_entries_def env_config_def env_assign_def env_atoi_text
        empty_config_def)

text \<open>
  C30: writing a configuration as an \<open>.env\<close> file and parsing it gives the configuration
  back, for every setting the file format can express: trimmed values without a line feed,
  integers of 64 bits, and nothing set that \<open>envParse\<close> has no key for (the log format, the
  webhook image, the limit ranges).
\<close>

theorem envParse_env_text:
  assumes "env_config c" and "h_open h ''.env'' = Some (env_text c)"
    and "\<not> h_read_error h" and "\<not> h_close_error h"
  shows "envParse h = Ok c"
  using assms
  by (simp add: envParse_def env_text_def raw_lines_env env_entries_ok env_lines_entries
        assign_all_entries)

definition sample_env :: config where
  "sample_env = empty_config\<lparr>cfg_ListenAddr := '':8080'', cfg_DBURL := ''postgres://h/db?a=b'',
     cfg_DBMaxOpenConns := -3, cfg_AuthEnabled := True, cfg_RateBurst := 20\<rparr>"

theorem envParse_env_text_witness:
  "envParse (sample_host\<lparr>h_open := (\<lambda>_. Some (env_text sample_env))\<rparr>) = Ok sample_env"
proof (rule envParse_env_text)
  have "env_value []" "env_value '':8080''" "env_value ''postgres://h/db?a=b''"
    by (auto simp: env_value_def space_seqs_def intro!: trim_clean)
  then show "env_config sample_env"
    by (simp add: env_config_def sample_env_def empty_config_def)
qed (simp_all add: sample_host_def)

end
