(* ===== verification/Drift_Builders.thy ===== *)
theory Drift_Builders
  imports Drift Resources
begin

text \<open>
  The drift checks applied to what the builders produce: exactly which changes of the cluster
  the controller repairs, and which it does not see.
\<close>

section \<open>Namespaces\<close>

lemma built_namespace_regular: "regular_meta (buildNamespace t)"
  by (auto simp: regular_meta_def buildNamespace_def filled_def)

text \<open>
  The controller rewrites the tenant's namespace exactly if its labels are not the one label
  \<open>tenant.k8s-mtp.io/managed\<close>, it has an annotation, or its owners, up to the field
  \<open>controller\<close>, are not the tenant alone. The
  label \<open>kubernetes.io/metadata.name\<close> that the API server adds to every namespace is such a
  difference, so the namespace is rewritten in every run.
\<close>

theorem nsNeedsUpdate_built:
  "nsNeedsUpdate c (buildNamespace t) \<longleftrightarrow>
     \<not> (map_of (om_labels c) = [''tenant.k8s-mtp.io/managed'' \<mapsto> ''true'']
        \<and> map_of (om_annotations c) = Map.empty \<and> map owner_key (om_ownerReferences c) = map owner_key (tenant_owner t))"
  by (simp add: ns.needs_iff [OF built_namespace_regular] agrees_meta_def)
    (simp add: buildNamespace_def)

lemma server_label_is_drift:
  "map_of (om_labels c) ''kubernetes.io/metadata.name'' = Some v \<Longrightarrow> nsNeedsUpdate c (buildNamespace t)"
  by (simp add: ns.needs_iff [OF built_namespace_regular] agrees_meta_def)
    (auto simp: buildNamespace_def)


section \<open>Roles\<close>

lemma rule_set_allows:
  assumes "same_rule a b"
  shows "set (pr_apiGroups a) = set (pr_apiGroups b)" "set (pr_resources a) = set (pr_resources b)"
    "set (pr_verbs a) = set (pr_verbs b)"
  using assms by (auto simp: same_rule_def dest: mset_eq_setD)

lemma same_rule_allows:
  assumes "same_rule a b" "pr_resourceNames b = []" "rule_allows a g r s n v"
  shows "rule_allows b g r s n v"
  using assms rule_set_allows [OF assms(1)] by (simp add: rule_allows_def list_ex_iff)

lemma normal_forms_allow:
  assumes "list_all plain_rule as" "list_all plain_rule bs" "\<And>b. b \<in> set bs \<Longrightarrow> pr_resourceNames b = []"
    and "normalizeRule ` set as = normalizeRule ` set bs" and "rules_allow as g r s n v"
  shows "rules_allow bs g r s n v"
proof -
  obtain a where a: "a \<in> set as" "rule_allows a g r s n v"
    using assms(5) by (auto simp: rules_allow_def list_ex_iff)
  then obtain b where b: "b \<in> set bs" "normalizeRule b = normalizeRule a"
    using assms(4) by (metis image_iff)
  then have "same_rule a b"
    using normal_form_eq [of a b] a(1) assms(1,2) by (simp add: list_all_iff)
  from same_rule_allows [OF this assms(3) [OF b(1)] a(2)] b(1) show ?thesis
    by (auto simp: rules_allow_def list_ex_iff)
qed

lemma built_admin_plain: "list_all plain_rule (ro_rules (buildAdminRole t))"
  by (simp add: buildAdminRole_def plain_rule_def plain_def rule_def admin_verbs_def)

lemma built_operator_plain: "list_all plain_rule (ro_rules (buildOperatorRole t))"
  by (simp add: buildOperatorRole_def plain_rule_def plain_def rule_def operator_verbs_def)

lemma built_role_regular: "regular_meta (ro_meta (buildAdminRole t))" "regular_meta (ro_meta (buildOperatorRole t))"
  by (simp_all add: regular_meta_def buildAdminRole_def buildOperatorRole_def filled_def)

lemma built_unnamed:
  "r \<in> set (ro_rules (buildAdminRole t)) \<Longrightarrow> pr_resourceNames r = []"
  "r \<in> set (ro_rules (buildOperatorRole t)) \<Longrightarrow> pr_resourceNames r = []"
  by (auto simp: buildAdminRole_def buildOperatorRole_def rule_def)

definition unnamed_rules :: "policy_rule list \<Rightarrow> bool" where
  \<comment> \<open>no rule is limited to resource names\<close>
  "unnamed_rules rs \<longleftrightarrow> list_all (\<lambda>r. pr_resourceNames r = []) rs"

definition allows_at_most :: "policy_rule list \<Rightarrow> policy_rule list \<Rightarrow> bool" where
  "allows_at_most cs ds \<longleftrightarrow> (\<forall>g r s n v. rules_allow cs g r s n v \<longrightarrow> rules_allow ds g r s n v)"

definition allows_exactly :: "policy_rule list \<Rightarrow> policy_rule list \<Rightarrow> bool" where
  "allows_exactly cs ds \<longleftrightarrow> (\<forall>g r s n v. rules_allow cs g r s n v = rules_allow ds g r s n v)"

lemma no_role_drift_allows:
  assumes "\<not> roleNeedsUpdate c d" "regular_meta (ro_meta d)" "list_all plain_rule (ro_rules c)"
    "list_all plain_rule (ro_rules d)" "\<And>r. r \<in> set (ro_rules d) \<Longrightarrow> pr_resourceNames r = []"
  shows "allows_at_most (ro_rules c) (ro_rules d)
    \<and> (unnamed_rules (ro_rules c) \<longrightarrow> allows_exactly (ro_rules c) (ro_rules d))"
proof -
  have n: "normalizeRule ` set (ro_rules c) = normalizeRule ` set (ro_rules d)"
    using ro.detected [OF assms(2,1)] by (simp add: ro_agrees_def)
  show ?thesis
    using normal_forms_allow [OF assms(3,4,5) n] normal_forms_allow [OF assms(4,3) _ n [symmetric]]
    by (auto simp: allows_at_most_def allows_exactly_def unnamed_rules_def list_all_iff)
qed

text \<open>
  C24: a change of a tenant role that grants anything is found: if no update of the admin or the
  operator role is due, the role in the cluster allows at most what the controller built, and
  exactly that if none of its rules is limited to resource names. Its rules are assumed to
  have non-empty lists without separators in their elements.
\<close>

theorem role_drift_found:
  assumes "list_all plain_rule (ro_rules c)"
  shows "(\<not> roleNeedsUpdate c (buildAdminRole t) \<longrightarrow>
      allows_at_most (ro_rules c) (ro_rules (buildAdminRole t))
      \<and> (unnamed_rules (ro_rules c) \<longrightarrow> allows_exactly (ro_rules c) (ro_rules (buildAdminRole t))))
    \<and> (\<not> roleNeedsUpdate c (buildOperatorRole t) \<longrightarrow>
      allows_at_most (ro_rules c) (ro_rules (buildOperatorRole t))
      \<and> (unnamed_rules (ro_rules c) \<longrightarrow> allows_exactly (ro_rules c) (ro_rules (buildOperatorRole t))))"
  using no_role_drift_allows [OF _ built_role_regular(1) assms built_admin_plain built_unnamed(1) [of _ t]]
    no_role_drift_allows [OF _ built_role_regular(2) assms built_operator_plain built_unnamed(2) [of _ t]] by blast

theorem role_drift_found_witness:
  "allows_exactly (rev (ro_rules (buildAdminRole empty_tenant))) (ro_rules (buildAdminRole empty_tenant))"
proof -
  let ?d = "buildAdminRole empty_tenant"
  let ?c = "?d\<lparr>ro_rules := rev (ro_rules ?d)\<rparr>"
  have "list_all plain_rule (ro_rules ?c)" using built_admin_plain by (simp add: list_all_iff)
  moreover have "\<not> roleNeedsUpdate ?c ?d"
    by (rule ro.settled [OF built_role_regular(1)]) (simp add: ro_agrees_def agrees_meta_def)
  moreover have "unnamed_rules (ro_rules ?c)"
    using built_unnamed(1) by (simp add: unnamed_rules_def list_all_iff)
  ultimately show ?thesis using role_drift_found [of ?c empty_tenant] by simp
qed

text \<open>A rule narrowed to one resource name is not found: the role then allows less than what was built.\<close>

lemma narrowed_role_missed:
  "\<not> roleNeedsUpdate (d\<lparr>ro_rules := map (\<lambda>r. r\<lparr>pr_resourceNames := [''only-this'']\<rparr>) (ro_rules d)\<rparr>) d"
  if "regular_meta (ro_meta d)"
proof (rule ro.settled [OF that])
  have "normalizeRule (r\<lparr>pr_resourceNames := [''only-this'']\<rparr>) = normalizeRule r" for r
    by (simp add: normalizeRule_def)
  then have "normalizeRule ` set (map (\<lambda>r. r\<lparr>pr_resourceNames := [''only-this'']\<rparr>) rs) = normalizeRule ` set rs" for rs
    by (simp add: image_image)
  then show "ro_agrees (d\<lparr>ro_rules := map (\<lambda>r. r\<lparr>pr_resourceNames := [''only-this'']\<rparr>) (ro_rules d)\<rparr>) d"
    by (simp add: ro_agrees_def agrees_meta_def)
qed


section \<open>Network policies\<close>

text \<open>
  Of the network policy only the numbers of policy types and rules are compared: every
  policy with two types, two ingress rules and three egress rules (four where the egress setting
  is \<open>internet\<close>) passes as the tenant's, whatever traffic it admits.
\<close>

theorem npNeedsUpdate_built:
  "npNeedsUpdate c (buildNetworkPolicy cfg t) \<longleftrightarrow>
     \<not> (length (np_policyTypes c) = 2 \<and> length (np_ingress c) = 2
        \<and> length (np_egress c) = (if cfg_TenantEgressPolicy cfg = ''internet'' then 4 else 3))"
  by (auto simp: npNeedsUpdate_def buildNetworkPolicy_def Let_def)

end
