(* ===== verification/Controller_System.thy ===== *)
theory Controller_System
  imports Reconciler_Props
begin

text \<open>
  The controller in its environment: runs of \<open>Reconcile\<close> in any order, with any failures and on
  reads that lag, between anything that others do to the cluster and to the database. The safety
  property is that the controller keeps the two stores in step: a row of the database does not
  outlive the resource it was made for, unless someone else has a hand in it.
\<close>

section \<open>What each part of a run does to the rows and to the resources\<close>

definition no_row :: "string \<Rightarrow> db \<Rightarrow> bool" where
  "no_row u d \<longleftrightarrow> live d u = None"

lemma no_row_iff: "no_row u d \<longleftrightarrow> (\<forall>r\<in>set (db_tenants d). \<not> live_row u r)"
  by (auto simp: no_row_def live_def find_None_iff)

lemma no_row_simps [simp]: "no_row u (d\<lparr>db_seq := k\<rparr>) = no_row u d"
  "no_row u (d\<lparr>db_members := ms\<rparr>) = no_row u d"
  by (simp_all add: no_row_iff)

lemmas no_row_exec = exec_invariant [of "no_row u" for u, unfolded no_row_simps]
lemmas no_row_with_params = with_params_invariant [of "no_row u" for u]

lemma no_row_change:
  assumes "no_row u d" "\<And>r. tr_id (f r) = tr_id r"
    "\<And>r. tr_deleted_at r \<noteq> None \<Longrightarrow> tr_deleted_at (f r) \<noteq> None"
  shows "no_row u (change_rows Q f d)"
proof -
  have "\<not> live_row u (if Q r then f r else r)" if "r \<in> set (db_tenants d)" for r
    using assms(1) assms(2,3) [of r] that by (auto simp: no_row_iff live_row_def)
  then have "\<forall>r\<in>(\<lambda>r. if Q r then f r else r) ` set (db_tenants d). \<not> live_row u r" by blast
  then show ?thesis by (simp add: no_row_iff change_rows_def del: ball_simps)
qed

lemma GetTenantByID_no_row: "no_row u d \<Longrightarrow> no_row u (fst (GetTenantByID P i d))"
  unfolding fst_GetTenantByID
  by (intro no_row_exec no_row_with_params) (auto simp: select_tenant_def)

lemma UpdateTenant_no_row: "no_row u d \<Longrightarrow> no_row u (fst (UpdateTenant P t d))"
  unfolding UpdateTenant_def
  by (intro no_row_exec no_row_with_params) (simp_all add: no_row_change split: prod.splits)

lemma DeleteTenant_no_row: "no_row u d \<Longrightarrow> no_row u (fst (DeleteTenant P i d))"
  unfolding DeleteTenant_def
  by (intro no_row_exec no_row_with_params) (simp_all add: no_row_change)

lemma CreateTenant_no_row:
  assumes "no_row u d" "pg_uuid P (om_uid (t_meta t)) \<noteq> Some u"
  shows "no_row u (fst (CreateTenant P t d))"
  unfolding fst_CreateTenant
proof (intro no_row_exec no_row_with_params assms(1))
  fix k d1 p
  assume "tenant_params P t = Ok p" "no_row u d1"
  then show "no_row u (fst (insert_tenant (pg_now P k) p d1))"
    using assms(2)
    by (auto simp: tenant_params_def res_simps insert_tenant_def no_row_iff live_row_def split: if_splits)
qed


text \<open>An anchored row has a resource with its UID and with the finalizer.\<close>

definition anchored :: "pg \<Rightarrow> ('w, 'q) kube_client \<Rightarrow> 'w \<Rightarrow> string \<Rightarrow> bool" where
  "anchored P K k u \<longleftrightarrow> (\<exists>n t. kc_tenant K n k = Some t \<and> pg_uuid P (om_uid (t_meta t)) = Some u
     \<and> tenantFinalizer \<in> set (om_finalizers (t_meta t)))"

lemma same_tenants_refl: "same_tenants K k k"
  by (auto simp: same_tenants_def same_anchor_def option.rel_refl)

lemma same_tenants_trans:
  assumes "same_tenants K k k1" "same_tenants K k1 k2"
  shows "same_tenants K k k2"
proof -
  have "rel_option same_anchor a c" if "rel_option same_anchor a b" "rel_option same_anchor b c" for a b c
    using that by (cases a; cases b; cases c) (auto simp: same_anchor_def)
  then show ?thesis using assms unfolding same_tenants_def by blast
qed

lemma same_tenants_SomeD:
  assumes "same_tenants K k k'"
  shows "kc_tenant K n k = Some t \<Longrightarrow> \<exists>t'. kc_tenant K n k' = Some t' \<and> same_anchor t t'"
    and "kc_tenant K n k' = Some t' \<Longrightarrow> \<exists>t. kc_tenant K n k = Some t \<and> same_anchor t t'"
proof -
  have r: "rel_option same_anchor (kc_tenant K n k) (kc_tenant K n k')"
    using assms unfolding same_tenants_def by blast
  show "kc_tenant K n k = Some t \<Longrightarrow> \<exists>t'. kc_tenant K n k' = Some t' \<and> same_anchor t t'"
    using r by (cases "kc_tenant K n k'") auto
  show "kc_tenant K n k' = Some t' \<Longrightarrow> \<exists>t. kc_tenant K n k = Some t \<and> same_anchor t t'"
    using r by (cases "kc_tenant K n k") auto
qed

lemma same_tenants_anchored:
  assumes "same_tenants K k k'" "anchored P K k u"
  shows "anchored P K k' u"
proof -
  obtain n t where t: "kc_tenant K n k = Some t" "pg_uuid P (om_uid (t_meta t)) = Some u"
      "tenantFinalizer \<in> set (om_finalizers (t_meta t))"
    using assms(2) unfolding anchored_def by blast
  obtain t' where t': "kc_tenant K n k' = Some t'" "same_anchor t t'"
    using same_tenants_SomeD(1) [OF assms(1) t(1)] by blast
  show ?thesis
    unfolding anchored_def by (intro exI [of _ n] exI [of _ t']) (use t t' in \<open>simp add: same_anchor_def\<close>)
qed

text \<open>Every write of an object or of the status keeps the resources, whatever its outcome.\<close>

lemma createOrUpdate_tenants:
  assumes "tenant_laws K"
  shows "same_tenants K k (fst (createOrUpdate K Q o1 k))"
proof -
  have c: "same_tenants K k (fst (kc_create K o1 k))"
    and u: "\<And>p k. same_tenants K k (fst (kc_update K p k))"
    using assms by (auto simp: tenant_laws_def tenant_frames_def)
  obtain k1 r where kr: "kc_create K o1 k = (k1, r)" by fastforce
  have k1: "same_tenants K k k1" using c kr by simp
  have "same_tenants K k (fst (then_try (kc_update K p k1) (\<lambda>w2 _. (w2, Ok ())) f))" for p f
  proof (rule then_try_invariant [of "same_tenants K k"])
    show k2: "same_tenants K k (fst (kc_update K p k1))" by (rule same_tenants_trans [OF k1 u])
    show "same_tenants K k (fst (w2, Ok ()))" if "kc_update K p k1 = (w2, Ok a)" for w2 a
      using k2 that by simp
  qed
  then show ?thesis
    using k1 by (auto simp: createOrUpdate_def kr split: res.splits)
qed

lemma ensure_all_tenants:
  assumes "tenant_laws K"
  shows "same_tenants K k (fst (ensure_all (createOrUpdate K Q) os k))"
proof (induction os arbitrary: k)
  case (Cons o1 os)
  have first: "same_tenants K k (fst (createOrUpdate K Q o1 k))" by (rule createOrUpdate_tenants [OF assms])
  show ?case unfolding ensure_all.simps
  proof (rule then_try_invariant [of "same_tenants K k", OF first])
    fix k1 a assume "createOrUpdate K Q o1 k = (k1, Ok a)"
    with first have "same_tenants K k k1" by simp
    then show "same_tenants K k (fst (ensure_all (createOrUpdate K Q) os k1))"
      by (rule same_tenants_trans) (rule Cons.IH)
  qed
qed (simp add: same_tenants_refl)

section \<open>What a run does\<close>

text \<open>
  A run that records and builds keeps the resources, and makes no row live but that of the tenant it
  has read.
\<close>

definition keeps :: "pg \<Rightarrow> ('w, 'q) kube_client \<Rightarrow> tenant \<Rightarrow> 'w world \<Rightarrow> 'w world \<Rightarrow> bool" where
  "keeps P K t w w' \<longleftrightarrow> same_tenants K (wd_kube w) (wd_kube w')
     \<and> (\<forall>u. no_row u (wd_db w) \<longrightarrow> pg_uuid P (om_uid (t_meta t)) \<noteq> Some u \<longrightarrow> no_row u (wd_db w'))"

lemma keeps_refl: "keeps P K t w w"
  by (simp add: keeps_def same_tenants_refl)

lemma keeps_kube:
  assumes "keeps P K t w w1" "same_tenants K (wd_kube w1) (fst (f (wd_kube w1)))"
  shows "keeps P K t w (fst (on_kube f w1))"
  using assms same_tenants_trans [of K "wd_kube w" "wd_kube w1"]
  by (cases "f (wd_kube w1)") (auto simp: on_kube_def keeps_def)

lemma keeps_db:
  assumes "keeps P K t w w1"
    and "\<And>u. no_row u (wd_db w1) \<Longrightarrow> pg_uuid P (om_uid (t_meta t)) \<noteq> Some u \<Longrightarrow> no_row u (fst (f (wd_db w1)))"
  shows "keeps P K t w (fst (on_db f w1))"
  using assms by (cases "f (wd_db w1)") (auto simp: on_db_def keeps_def)

lemma keeps_then:
  assumes "keeps P K t w (fst p)" "\<And>w1 a. keeps P K t w w1 \<Longrightarrow> p = (w1, Ok a) \<Longrightarrow> keeps P K t w (fst (k w1 a))"
  shows "keeps P K t w (fst (then_try p k wrap))"
  using then_try_invariant [of "keeps P K t w" p k wrap] assms by force

lemma record_tenant_keeps: "keeps P K t w (fst (record_tenant P t w))"
  unfolding record_tenant_def
proof (rule keeps_then)
  show "keeps P K t w (fst (on_db (GetTenantByID P (om_uid (t_meta t))) w))"
    by (rule keeps_db [OF keeps_refl]) (rule GetTenantByID_no_row)
  fix w1 e
  assume w1: "keeps P K t w w1" and "on_db (GetTenantByID P (om_uid (t_meta t))) w = (w1, Ok e)"
  have "keeps P K t w (fst (on_db (CreateTenant P t) w1))" "keeps P K t w (fst (on_db (UpdateTenant P t) w1))"
    by (rule keeps_db [OF w1], simp add: CreateTenant_no_row UpdateTenant_no_row del: fst_CreateTenant)+
  then show "keeps P K t w (fst (case e of
      None \<Rightarrow> then_try (on_db (CreateTenant P t) w1) (\<lambda>w2 t1. (w2, Ok t1)) DbErr
    | Some _ \<Rightarrow> then_try (on_db (UpdateTenant P t) w1) (\<lambda>w2 _. (w2, Ok t)) DbErr))"
    by (cases e) (auto intro!: keeps_then)
qed

lemma reconcileCreateOrUpdate_keeps:
  assumes "tenant_laws K"
  shows "keeps P K t w (fst (reconcileCreateOrUpdate P K Q cfg t w))"
proof -
  have st: "same_tenants K k (fst (kc_update_status K x k))" for x k
    using assms by (simp add: tenant_laws_def tenant_frames_def)
  show ?thesis
    unfolding reconcileCreateOrUpdate_def done_result_def Let_def
    by (intro keeps_then record_tenant_keeps keeps_kube ensure_all_tenants [OF assms] st) (simp_all add: prod_eq_iff)
qed

text \<open>
  An update of the finalizers changes the resource only where the server still holds the version read:
  a resource is let go only by a run that takes the finalizer from it.
\<close>

lemma update_finalizers_anchored:
  assumes laws: "tenant_laws K" and read: "kc_get_tenant K name k = Ok t" and a: "anchored P K k u"
  shows "anchored P K (fst (kc_update_tenant K (with_finalizers fs t) k)) u
    \<or> pg_uuid P (om_uid (t_meta t)) = Some u \<and> tenantFinalizer \<notin> set fs"
proof -
  define k' where "k' = fst (kc_update_tenant K (with_finalizers fs t) k)"
  have wf: "om_name (t_meta (with_finalizers fs t)) = name" "om_finalizers (t_meta (with_finalizers fs t)) = fs"
      "om_uid (t_meta (with_finalizers fs t)) = om_uid (t_meta t)"
    using tenant_lawsD(1) [OF laws read] by (simp_all add: with_finalizers_def tname_def)
  have laws': "tenant_frames K" "tenant_lock K" using laws by (simp_all add: tenant_laws_def)
  have other: "kc_tenant K n k' = kc_tenant K n k" if "n \<noteq> name" for n
    using laws'(1) that wf(1) unfolding tenant_frames_def k'_def by blast
  have own: "kc_tenant K name k' = kc_tenant K name k
      \<or> (\<exists>s. kc_tenant K name k = Some s \<and> same_version (with_finalizers fs t) s)
        \<and> replaced (with_finalizers fs t) (kc_tenant K name k')"
    using laws'(2) wf(1) unfolding tenant_lock_def Let_def k'_def by metis
  obtain n x where x: "kc_tenant K n k = Some x" "pg_uuid P (om_uid (t_meta x)) = Some u"
      "tenantFinalizer \<in> set (om_finalizers (t_meta x))"
    using a unfolding anchored_def by blast
  show ?thesis
  proof (cases "kc_tenant K n k' = kc_tenant K n k")
    case True
    then show ?thesis using x unfolding anchored_def k'_def by metis
  next
    case False
    then have n: "n = name" using other by blast
    then have "same_version (with_finalizers fs t) x" and left: "replaced (with_finalizers fs t) (kc_tenant K name k')"
      using own False x(1) by auto
    then have "x = t"
      using tenant_lawsD(3) [OF laws read, of x] x(1) n by (simp add: same_version_def with_finalizers_def)
    show ?thesis
    proof (cases "tenantFinalizer \<in> set fs")
      case True
      then obtain y where "kc_tenant K name k' = Some y" "same_anchor (with_finalizers fs t) y"
        using left wf(2) by (auto simp: replaced_def)
      then have "anchored P K k' u"
        using x(2) True wf(2,3) \<open>x = t\<close> unfolding anchored_def same_anchor_def by metis
      then show ?thesis by (simp add: k'_def)
    qed (use x(2) \<open>x = t\<close> in simp)
  qed
qed

text \<open>What a run, whatever it reads, makes of the resources and of the rows.\<close>

definition reads :: "('w, 'q) kube_client \<Rightarrow> pg \<Rightarrow> string \<Rightarrow> 'w \<Rightarrow> string \<Rightarrow> tenant \<Rightarrow> bool" where
  "reads K P name k u t \<longleftrightarrow> kc_get_tenant K name k = Ok t \<and> pg_uuid P (om_uid (t_meta t)) = Some u"

lemma reconcileDelete_rows:
  assumes "no_row u (wd_db w)"
  shows "no_row u (wd_db (fst (reconcileDelete P K t w)))"
  unfolding reconcileDelete_def
proof (rule then_try_invariant [of "\<lambda>w. no_row u (wd_db w)"])
  show "no_row u (wd_db (fst (on_db (DeleteTenant P (om_uid (t_meta t))) w)))"
    using assms by (simp add: on_db_def DeleteTenant_no_row split: prod.split) (metis DeleteTenant_no_row fst_conv)
  fix w1 a
  assume "on_db (DeleteTenant P (om_uid (t_meta t))) w = (w1, Ok a)"
  then have w1: "no_row u (wd_db w1)"
    using DeleteTenant_no_row [OF assms, of P "om_uid (t_meta t)"] by (auto simp: on_db_Ok_iff)
  have kube: "wd_db (fst (on_kube f w1)) = wd_db w1" for f :: "'a \<Rightarrow> 'a \<times> (api_error, tenant) res"
    by (simp add: on_kube_def split: prod.split)
  show "no_row u (wd_db (fst (let t1 = t\<lparr>t_meta := (t_meta t)\<lparr>om_finalizers :=
      removeString (om_finalizers (t_meta t)) tenantFinalizer\<rparr>\<rparr> in
      then_try (on_kube (kc_update_tenant K t1) w1) (\<lambda>w2 _. done_result w2) ApiErr)))"
    unfolding Let_def
  proof (rule then_try_invariant [of "\<lambda>w. no_row u (wd_db w)"])
    show "no_row u (wd_db (fst (done_result w2)))" if "on_kube f w1 = (w2, Ok b)"
      for w2 b and f :: "'a \<Rightarrow> 'a \<times> (api_error, tenant) res"
      using kube [of f] that w1 by (simp add: done_result_def)
  qed (simp add: kube w1)
qed

lemma Reconcile_rows:
  assumes "tenant_laws K" "no_row u (wd_db w)"
  shows "no_row u (wd_db (fst (Reconcile P K Q cfg name w)))
    \<or> (\<exists>t. reads K P name (wd_kube w) u t \<and> om_deletionTimestamp (t_meta t) = None
          \<and> tenantFinalizer \<in> set (om_finalizers (t_meta t)))"
proof (cases "kc_get_tenant K name (wd_kube w)")
  case (Ok t)
  have "no_row u (wd_db (fst (addFinalizer K t w)))"
    unfolding addFinalizer_def Let_def
  proof (rule then_try_invariant [of "\<lambda>w. no_row u (wd_db w)"])
    have kube: "wd_db (fst (on_kube f w)) = wd_db w" for f :: "'a \<Rightarrow> 'a \<times> (api_error, tenant) res"
      by (simp add: on_kube_def split: prod.split)
    show "no_row u (wd_db (fst (on_kube f w)))" for f :: "'a \<Rightarrow> 'a \<times> (api_error, tenant) res"
      using assms(2) by (simp add: kube)
    show "no_row u (wd_db (fst (w1, Ok \<lparr>cr_Requeue = True\<rparr>)))" if "on_kube f w = (w1, Ok a)"
      for w1 a and f :: "'a \<Rightarrow> 'a \<times> (api_error, tenant) res"
      using kube [of f] that assms(2) by simp
  qed
  moreover have "no_row u (wd_db (fst (reconcileCreateOrUpdate P K Q cfg t w)))"
    if "pg_uuid P (om_uid (t_meta t)) \<noteq> Some u"
    using reconcileCreateOrUpdate_keeps [OF assms(1), of P t w Q cfg] assms(2) that by (simp add: keeps_def)
  ultimately show ?thesis
    using reconcileDelete_rows [OF assms(2), of P K t] Ok by (auto simp: Reconcile_def reads_def)
qed (use assms(2) in \<open>auto simp: Reconcile_def done_result_def\<close>)

lemma Reconcile_anchored:
  assumes laws: "tenant_laws K" and a: "anchored P K (wd_kube w) u"
  shows "anchored P K (wd_kube (fst (Reconcile P K Q cfg name w))) u
    \<or> no_row u (wd_db (fst (Reconcile P K Q cfg name w)))
      \<and> (\<exists>t. reads K P name (wd_kube w) u t \<and> om_deletionTimestamp (t_meta t) \<noteq> None)"
proof (cases "kc_get_tenant K name (wd_kube w)")
  case (Ok t)
  note upd = update_finalizers_anchored [OF laws Ok a]
  have outcome: "wd_kube (fst (then_try (on_kube f v) (\<lambda>w1 _. (w1, x)) wrap)) = fst (f (wd_kube v))"
    for f :: "'a \<Rightarrow> 'a \<times> (api_error, tenant) res" and v x and wrap :: "api_error \<Rightarrow> rec_error"
    by (cases "snd (f (wd_kube v))"; cases "f (wd_kube v)") (simp_all add: on_kube_def)
  have add: "anchored P K (wd_kube (fst (addFinalizer K t w))) u"
    using upd [of "om_finalizers (t_meta t) @ [tenantFinalizer]"]
    by (simp add: addFinalizer_def outcome with_finalizers_def Let_def)
  have rows: "wd_db (fst (then_try (on_kube f v) (\<lambda>w1 _. (w1, x)) wrap)) = wd_db v"
    for f :: "'a \<Rightarrow> 'a \<times> (api_error, tenant) res" and v x and wrap :: "api_error \<Rightarrow> rec_error"
    by (cases "snd (f (wd_kube v))"; cases "f (wd_kube v)") (simp_all add: on_kube_def)
  have build: "anchored P K (wd_kube (fst (reconcileCreateOrUpdate P K Q cfg t w))) u"
    using reconcileCreateOrUpdate_keeps [OF laws, of P t w Q cfg] same_tenants_anchored [OF _ a] by (simp add: keeps_def)
  have del: "anchored P K (wd_kube (fst (reconcileDelete P K t w))) u
      \<or> pg_uuid P (om_uid (t_meta t)) = Some u \<and> no_row u (wd_db (fst (reconcileDelete P K t w)))"
  proof (cases "DeleteTenant P (om_uid (t_meta t)) (wd_db w)")
    case (Pair d r)
    show ?thesis
    proof (cases r)
      case r: (Ok x)
      have "no_row u d" if "pg_uuid P (om_uid (t_meta t)) = Some u"
        using DeleteTenant_Ok [of P "om_uid (t_meta t)" "wd_db w" d] Pair r that by (auto simp: no_row_def)
      then show ?thesis
        using upd [of "removeString (om_finalizers (t_meta t)) tenantFinalizer"]
        by (auto simp: reconcileDelete_def on_db_def Pair r with_finalizers_def done_result_def outcome Let_def rows)
    qed (use a in \<open>simp_all add: reconcileDelete_def on_db_def Pair\<close>)
  qed
  show ?thesis using add build del by (auto simp: Reconcile_def Ok reads_def)
qed (use a in \<open>auto simp: Reconcile_def done_result_def\<close>)


section \<open>The system\<close>

text \<open>
  The state of the system is the world and a history: the rows that became live by someone else's
  doing (\<open>POST /tenants\<close> of the API server makes such rows), the rows whose resource someone else
  made lose the controller's finalizer, the identifiers that ever had a resource with the finalizer,
  and those the controller has read as being deleted.

  In a step the controller runs for some name, or someone else changes the cluster, or someone else
  changes the database; the last two may do anything. What the controller reads comes through its
  cache and may lag: a resource it reads with the finalizer is one that had it at some time, and
  is not an older version than one it has read before. A run is one step; the steps of others come
  between runs.
\<close>

record 'w system =
  sy_world :: "'w world"
  sy_posted :: "string set"
  sy_freed :: "string set"
  sy_had :: "string set"
  sy_seen :: "string set"

definition anchors :: "pg \<Rightarrow> ('w, 'q) kube_client \<Rightarrow> 'w \<Rightarrow> string set" where
  "anchors P K k = {u. anchored P K k u}"

definition lagging_read :: "pg \<Rightarrow> ('w, 'q) kube_client \<Rightarrow> string \<Rightarrow> 'w system \<Rightarrow> bool" where
  "lagging_read P K name s \<longleftrightarrow> (\<forall>u t. reads K P name (wd_kube (sy_world s)) u t
     \<and> tenantFinalizer \<in> set (om_finalizers (t_meta t)) \<longrightarrow>
       u \<in> sy_had s \<and> (om_deletionTimestamp (t_meta t) = None \<longrightarrow> u \<notin> sy_seen s))"

definition run_step ::
    "pg \<Rightarrow> ('w, 'q) kube_client \<Rightarrow> 'q quantity_api \<Rightarrow> config \<Rightarrow> string \<Rightarrow> 'w system \<Rightarrow> 'w system" where
  "run_step P K Q cfg name s =
     (let w = sy_world s; w' = fst (Reconcile P K Q cfg name w) in
      s\<lparr>sy_world := w', sy_had := sy_had s \<union> anchors P K (wd_kube w'),
        sy_seen := sy_seen s \<union> {u. \<exists>t. reads K P name (wd_kube w) u t \<and> om_deletionTimestamp (t_meta t) \<noteq> None}\<rparr>)"

definition cluster_step :: "pg \<Rightarrow> ('w, 'q) kube_client \<Rightarrow> 'w \<Rightarrow> 'w system \<Rightarrow> 'w system" where
  "cluster_step P K k' s =
     s\<lparr>sy_world := (sy_world s)\<lparr>wd_kube := k'\<rparr>, sy_had := sy_had s \<union> anchors P K k',
       sy_freed := sy_freed s \<union> (anchors P K (wd_kube (sy_world s)) - anchors P K k')\<rparr>"

definition database_step :: "db \<Rightarrow> 'w system \<Rightarrow> 'w system" where
  "database_step d' s =
     s\<lparr>sy_world := (sy_world s)\<lparr>wd_db := d'\<rparr>,
       sy_posted := sy_posted s \<union> {u. no_row u (wd_db (sy_world s)) \<and> \<not> no_row u d'}\<rparr>"

inductive sys_reachable ::
    "pg \<Rightarrow> ('w, 'q) kube_client \<Rightarrow> 'q quantity_api \<Rightarrow> config \<Rightarrow> 'w system \<Rightarrow> bool"
  for P K Q cfg where
  start: "sys_reachable P K Q cfg \<lparr>sy_world = \<lparr>wd_kube = k, wd_db = empty_db\<rparr>, sy_posted = {}, sy_freed = {},
    sy_had = anchors P K k, sy_seen = {}\<rparr>"
| reconcile: "sys_reachable P K Q cfg s \<Longrightarrow> lagging_read P K name s \<Longrightarrow> sys_reachable P K Q cfg (run_step P K Q cfg name s)"
| cluster: "sys_reachable P K Q cfg s \<Longrightarrow> sys_reachable P K Q cfg (cluster_step P K k' s)"
| database: "sys_reachable P K Q cfg s \<Longrightarrow> sys_reachable P K Q cfg (database_step d' s)"

text \<open>
  The invariant: a live row is anchored or someone else's doing; and an identifier that ever was
  anchored is anchored still, or someone else freed it, or the controller has read its deletion.
\<close>

definition in_step :: "pg \<Rightarrow> ('w, 'q) kube_client \<Rightarrow> 'w system \<Rightarrow> bool" where
  "in_step P K s \<longleftrightarrow>
     (\<forall>u. no_row u (wd_db (sy_world s)) \<or> u \<in> anchors P K (wd_kube (sy_world s)) \<or> u \<in> sy_posted s \<or> u \<in> sy_freed s)
     \<and> sy_had s \<subseteq> anchors P K (wd_kube (sy_world s)) \<union> sy_freed s \<union> sy_seen s"

lemma run_step_in_step:
  assumes laws: "tenant_laws K" and s: "in_step P K s" and read: "lagging_read P K name s"
  shows "in_step P K (run_step P K Q cfg name s)"
proof -
  define w' where "w' = fst (Reconcile P K Q cfg name (sy_world s))"
  let ?seen = "{u. \<exists>t. reads K P name (wd_kube (sy_world s)) u t \<and> om_deletionTimestamp (t_meta t) \<noteq> None}"
  have kept: "u \<in> anchors P K (wd_kube w') \<or> no_row u (wd_db w') \<and> u \<in> ?seen"
    if "u \<in> anchors P K (wd_kube (sy_world s))" for u
    using Reconcile_anchored [OF laws, of P "sy_world s" u Q cfg name] that by (simp add: anchors_def w'_def)
  have row: "no_row u (wd_db w') \<or> u \<in> anchors P K (wd_kube w') \<or> u \<in> sy_posted s \<or> u \<in> sy_freed s" for u
  proof (cases "no_row u (wd_db (sy_world s))")
    case True
    show ?thesis
    proof (rule ccontr)
      assume bad: "\<not> ?thesis"
      then obtain t where t: "reads K P name (wd_kube (sy_world s)) u t" "om_deletionTimestamp (t_meta t) = None"
          "tenantFinalizer \<in> set (om_finalizers (t_meta t))"
        using Reconcile_rows [OF laws True, of P Q cfg name] by (auto simp: w'_def)
      then have "u \<in> sy_had s" "u \<notin> sy_seen s" using read unfolding lagging_read_def by blast+
      then have "u \<in> anchors P K (wd_kube (sy_world s))" using s bad unfolding in_step_def by blast
      with kept [of u] bad show False by blast
    qed
  next
    case False
    then have "u \<in> anchors P K (wd_kube (sy_world s)) \<or> u \<in> sy_posted s \<or> u \<in> sy_freed s"
      using s unfolding in_step_def by blast
    with kept [of u] show ?thesis by blast
  qed
  have "sy_had s \<subseteq> anchors P K (wd_kube w') \<union> sy_freed s \<union> (sy_seen s \<union> ?seen)"
    using s kept unfolding in_step_def by blast
  with row show ?thesis by (auto simp: in_step_def run_step_def Let_def w'_def)
qed

lemma reachable_in_step:
  assumes "tenant_laws K" "sys_reachable P K Q cfg s"
  shows "in_step P K s"
  using assms(2)
proof (induction rule: sys_reachable.induct)
  case (start k)
  then show ?case by (simp add: in_step_def no_row_iff empty_db_def)
next
  case (reconcile s name)
  then show ?case using run_step_in_step [OF assms(1)] by blast
next
  case (cluster s k')
  then show ?case by (auto simp: in_step_def cluster_step_def)
next
  case (database s d')
  then show ?case by (auto simp: in_step_def database_step_def)
qed

text \<open>
  C7: from an empty database, after any runs of the controller, with any failures and on reads that
  lag, between any actions of others on the cluster and on the database, a live row has a tenant
  resource with its UID and with the finalizer, unless someone else made the row live or took the
  finalizer away. The controller itself orphans no row: it lets a resource go only once the row is
  deleted, and makes no row live of a resource that it has seen go.
\<close>

theorem no_orphan_rows:
  assumes "tenant_laws K" "sys_reachable P K Q cfg s" "live (wd_db (sy_world s)) u = Some x"
  shows "u \<in> sy_posted s \<or> u \<in> sy_freed s
    \<or> (\<exists>n t. kc_tenant K n (wd_kube (sy_world s)) = Some t \<and> pg_uuid P (om_uid (t_meta t)) = Some u
         \<and> tenantFinalizer \<in> set (om_finalizers (t_meta t)))"
proof -
  have "\<not> no_row u (wd_db (sy_world s))" using assms(3) by (simp add: no_row_def)
  then show ?thesis
    using reachable_in_step [OF assms(1,2)] unfolding in_step_def anchors_def anchored_def by blast
qed

theorem no_orphan_rows_witness:
  "\<exists>n t. kc_tenant mem_client n (wd_kube (fst (demo_run demo_world))) = Some t
     \<and> pg_uuid plain_pg (om_uid (t_meta t)) = Some ''u1'' \<and> tenantFinalizer \<in> set (om_finalizers (t_meta t))"
proof -
  let ?s = "\<lparr>sy_world = demo_world, sy_posted = {}, sy_freed = {},
    sy_had = anchors plain_pg mem_client (wd_kube demo_world), sy_seen = {}\<rparr>"
  have s: "sys_reachable plain_pg mem_client text_quantities demo_config ?s"
    using sys_reachable.start [of plain_pg mem_client text_quantities demo_config "wd_kube demo_world"]
    by (simp add: demo_world_def)
  have held: "kc_tenant mem_client n k = Some t" if "kc_get_tenant mem_client n k = Ok t" for n k t
    using syncedD(4) [OF mem_client_synced that] .
  have "lagging_read plain_pg mem_client ''acme'' ?s"
    using held unfolding lagging_read_def reads_def anchors_def anchored_def by (simp, blast)
  from sys_reachable.reconcile [OF s this]
  have r: "sys_reachable plain_pg mem_client text_quantities demo_config
      (run_step plain_pg mem_client text_quantities demo_config ''acme'' ?s)" .
  have w: "sy_world (run_step plain_pg mem_client text_quantities demo_config ''acme'' ?s) = fst (demo_run demo_world)"
      "sy_posted (run_step plain_pg mem_client text_quantities demo_config ''acme'' ?s) = {}"
      "sy_freed (run_step plain_pg mem_client text_quantities demo_config ''acme'' ?s) = {}"
    by (simp_all add: run_step_def demo_run_def Let_def)
  have "live (wd_db (fst (demo_run demo_world))) ''u1'' \<noteq> None"
    by code_simp
  then obtain x where "live (wd_db (fst (demo_run demo_world))) ''u1'' = Some x" by blast
  then show ?thesis using no_orphan_rows [OF mem_client_tenant_laws r, of "''u1''" x] unfolding w by blast
qed

end
