(* ===== verification/Reconciler_Faults.thy ===== *)
theory Reconciler_Faults
  imports Controller_System
begin

text \<open>
  Runs that do not reach their goal: the database as the gate of a run, and the tenant that the
  database refuses because the status of a new resource names no namespace.
\<close>

lemma on_db_kube [simp]: "wd_kube (fst (on_db f w)) = wd_kube w"
  by (simp add: on_db_def split: prod.splits)

lemma then_try_not_Ok:
  assumes "\<And>a. snd p \<noteq> Ok a"
  shows "fst (then_try p k wrap) = fst p" "snd (then_try p k wrap) \<noteq> Ok b"
  using assms by (cases "(p, k, wrap)" rule: then_try.cases; simp)+

lemma record_tenant_kube: "wd_kube (fst (record_tenant P t w)) = wd_kube w"
  unfolding record_tenant_def
proof (rule then_try_invariant [of "\<lambda>v. wd_kube v = wd_kube w"])
  fix w1 e
  assume "on_db (GetTenantByID P (om_uid (t_meta t))) w = (w1, Ok e)"
  then have w1: "wd_kube w1 = wd_kube w" by (auto simp: on_db_Ok_iff)
  have "wd_kube (fst (then_try (on_db f w1) (\<lambda>w2 x. (w2, Ok (g x))) DbErr)) = wd_kube w" for f g
    using w1 by (intro then_try_invariant [of "\<lambda>v. wd_kube v = wd_kube w"]) (auto simp: on_db_Ok_iff)
  from this [of "CreateTenant P t" id] this [of "UpdateTenant P t" "\<lambda>_. t"]
  show "wd_kube (fst (case e of
      None \<Rightarrow> then_try (on_db (CreateTenant P t) w1) (\<lambda>w2 t1. (w2, Ok t1)) DbErr
    | Some _ \<Rightarrow> then_try (on_db (UpdateTenant P t) w1) (\<lambda>w2 _. (w2, Ok t)) DbErr)) = wd_kube w"
    by (cases e) simp_all
qed simp

lemma refused_run:
  assumes "to_build K name w t" "\<And>t'. snd (record_tenant P t w) \<noteq> Ok t'"
  shows "wd_kube (fst (Reconcile P K Q cfg name w)) = wd_kube w \<and> snd (Reconcile P K Q cfg name w) \<noteq> Ok r"
  unfolding Reconcile_build [OF assms(1)] reconcileCreateOrUpdate_def
  by (simp only: then_try_not_Ok [OF assms(2)] record_tenant_kube simp_thms not_False_eq_True)

text \<open>
  The database is the gate of a run: if the row cannot be recorded, no call to the cluster
  is made and the run does not succeed.
\<close>

theorem no_row_no_objects:
  assumes "to_build K name w t" "\<forall>t'. snd (record_tenant P t w) \<noteq> Ok t'"
  shows "wd_kube (fst (Reconcile P K Q cfg name w)) = wd_kube w
    \<and> (\<forall>r. snd (Reconcile P K Q cfg name w) \<noteq> Ok r)"
  using refused_run [OF assms(1)] assms(2) by blast

lemma record_tenant_refused:
  assumes "pg_laws P" "pg_uuid P (om_uid (t_meta t)) = Some u" "live (wd_db w) u = None"
    "tst_namespace (t_status t) = []" "[] \<in> tr_namespace ` set (db_tenants (wd_db w))"
    "ts_name (t_spec t) \<notin> tr_name ` set (db_tenants (wd_db w))" "length (ts_name (t_spec t)) \<le> 63"
  shows "snd (record_tenant P t w) \<noteq> Ok t'"
proof
  assume "snd (record_tenant P t w) = Ok t'"
  from answered [OF this] obtain d1 d2 where d1: "GetTenantByID P (om_uid (t_meta t)) (wd_db w) = (d1, Ok None)"
    and "CreateTenant P t d1 = (d2, Ok t')"
    by (cases rule: record_tenant_OkE) (use GetTenantByID_Ok assms(2,3) in fastforce)+
  moreover have tab: "db_tenants d1 = db_tenants (wd_db w)" using GetTenantByID_Ok [OF d1] by auto
  moreover have "pg_varchar P 63 (ts_name (t_spec t)) = Some (ts_name (t_spec t))" "pg_varchar P 63 [] = Some []"
    using assms(1,7) by (simp_all add: pg_laws_def)
  ultimately show False
    using assms(4-6) unfolding CreateTenant_Ok_iff tab [symmetric]
    by (auto simp: res_simps exec_NoRows_iff with_params_NoRows_iff tenant_params_def insert_tenant_def
        split: if_splits)
qed

text \<open>
  C38: the row of a new resource is inserted before its status is written, so its namespace column
  is empty; the column is unique. While the database has one such row, deleted or not, no further
  new resource can be reconciled: every run fails before the first object.
\<close>

theorem second_tenant_blocked:
  assumes "pg_laws P" "to_build K name w t" "pg_uuid P (om_uid (t_meta t)) = Some u" "live (wd_db w) u = None"
    "tst_namespace (t_status t) = []" "[] \<in> tr_namespace ` set (db_tenants (wd_db w))"
    "ts_name (t_spec t) \<notin> tr_name ` set (db_tenants (wd_db w))" "length (ts_name (t_spec t)) \<le> 63"
  shows "wd_kube (fst (Reconcile P K Q cfg name w)) = wd_kube w
    \<and> (\<forall>r. snd (Reconcile P K Q cfg name w) \<noteq> Ok r)"
  using refused_run [OF assms(2) record_tenant_refused [OF assms(1,3-8)]] by blast

text \<open>The two cases run: an unreachable database, and a second resource after a first one.\<close>

definition down_pg :: pg where
  "down_pg = plain_pg\<lparr>pg_fault := (\<lambda>k. Some (NotRun ''connection refused''))\<rparr>"

theorem no_row_no_objects_witness:
  "wd_kube (fst (Reconcile down_pg mem_client text_quantities demo_config ''acme'' demo_world)) = wd_kube demo_world"
proof -
  have "\<forall>t'. snd (record_tenant down_pg demo_tenant demo_world) \<noteq> Ok t'"
    by (simp add: record_tenant_def on_db_def GetTenantByID_def exec_def Let_def down_pg_def)
  then show ?thesis using no_row_no_objects [OF demo_build] by blast
qed

definition other_tenant :: tenant where
  "other_tenant = demo_tenant\<lparr>t_meta := (t_meta demo_tenant)\<lparr>om_name := ''globex'', om_uid := ''u2''\<rparr>,
     t_spec := (t_spec demo_tenant)\<lparr>ts_name := ''shop''\<rparr>\<rparr>"

definition two_resources :: "string mem_cluster world" where
  "two_resources = \<lparr>wd_kube = mem_with [demo_tenant, other_tenant], wd_db = empty_db\<rparr>"

theorem second_tenant_blocked_witness:
  "\<forall>r. snd (Reconcile plain_pg mem_client text_quantities demo_config ''globex'' (fst (demo_run two_resources))) \<noteq> Ok r"
proof -
  let ?w = "fst (demo_run two_resources)"
  have b: "to_build mem_client ''globex'' ?w other_tenant"
    and l: "live (wd_db ?w) ''u2'' = None" and n: "[] \<in> tr_namespace ` set (db_tenants (wd_db ?w))"
    and f: "ts_name (t_spec other_tenant) \<notin> tr_name ` set (db_tenants (wd_db ?w))"
    and s: "tst_namespace (t_status other_tenant) = []"
    by code_simp+
  have u: "pg_uuid plain_pg (om_uid (t_meta other_tenant)) = Some ''u2''"
    by (simp add: plain_pg_def other_tenant_def)
  show ?thesis
    using second_tenant_blocked [OF plain_pg_laws b u l s n f] by (simp add: other_tenant_def)
qed

end
