(* ===== verification/Reconciler_Progress.thy ===== *)
theory Reconciler_Progress
  imports Reconciler_Props
begin

text \<open>
  Progress of the controller: against an API server and a database that answer, two runs bring a new
  tenant to its end state, and one run lets a deleted tenant go.
\<close>

section \<open>Servers that answer\<close>

text \<open>
  What a reachable API server does with the requests of one client. It takes an update of the
  finalizers, or of the status, of the version of a tenant it holds (but no new finalizer for a
  resource that is going), and drops a resource that is going with its last finalizer.
\<close>

definition tenants_work :: "('w, 'q) kube_client \<Rightarrow> bool" where
  "tenants_work K \<longleftrightarrow>
     (\<forall>n w s fs. kc_tenant K n w = Some s \<longrightarrow>
        om_deletionTimestamp (t_meta s) = None \<or> set fs \<subseteq> set (om_finalizers (t_meta s)) \<longrightarrow>
        (\<exists>w' t'. kc_update_tenant K (with_finalizers fs s) w = (w', Ok t') \<and> same_objects K w w'
           \<and> (if om_deletionTimestamp (t_meta s) \<noteq> None \<and> fs = [] then kc_tenant K n w' = None
              else \<exists>rv. kc_tenant K n w' =
                Some (s\<lparr>t_meta := (t_meta s)\<lparr>om_finalizers := fs, om_resourceVersion := rv\<rparr>\<rparr>))))
     \<and> (\<forall>t w s. kc_tenant K (tname t) w = Some s \<longrightarrow> same_version t s \<longrightarrow> t_spec t = t_spec s \<longrightarrow>
          tst_phase (t_status t) = TenantPhaseActive \<longrightarrow> (\<exists>w' t'. kc_update_status K t w = (w', Ok t')))"

text \<open>
  Objects: \<open>A\<close> says which objects its validation, admission and authorization accept, which is not
  code of the repository. A creation needs a namespace that is there and not going; an update has
  to carry the version of the object stored, and cannot change the role of a binding.
\<close>

definition open_ns :: "('w, 'q) kube_client \<Rightarrow> string \<Rightarrow> 'w \<Rightarrow> bool" where
  "open_ns K ns w \<longleftrightarrow> ns = [] \<or> (\<exists>c. kc_stored K (NamespaceKind, [], ns) w = Some c \<and> \<not> terminating c)"

definition objects_work :: "('w, 'q) kube_client \<Rightarrow> ('q kobj \<Rightarrow> bool) \<Rightarrow> bool" where
  "objects_work K A \<longleftrightarrow>
     (\<forall>o1 w. o1 \<noteq> KNilQuota \<and> A o1 \<and> open_ns K (om_namespace (meta_of o1)) w \<longrightarrow>
        (case kc_stored K (obj_key o1) w of
           None \<Rightarrow> \<exists>w' c. kc_create K o1 w = (w', Ok c)
         | Some c \<Rightarrow> \<exists>w'. kc_create K o1 w = (w', Err AlreadyExists)))
     \<and> (\<forall>o1 w c. o1 \<noteq> KNilQuota \<and> A o1 \<and> kc_stored K (obj_key o1) w = Some c \<and> immutable_same c o1 \<longrightarrow>
          (\<exists>w' c'. kc_update K (set_resourceVersion (om_resourceVersion (meta_of c)) o1) w = (w', Ok c')))"

definition server_works :: "('w, 'q) kube_client \<Rightarrow> ('q kobj \<Rightarrow> bool) \<Rightarrow> bool" where
  "server_works K A \<longleftrightarrow> tenants_work K \<and> objects_work K A"

lemma tenants_workD:
  assumes "server_works K A"
  shows "kc_tenant K n w = Some s \<Longrightarrow> om_deletionTimestamp (t_meta s) = None \<or> set fs \<subseteq> set (om_finalizers (t_meta s)) \<Longrightarrow>
      \<exists>w' t'. kc_update_tenant K (with_finalizers fs s) w = (w', Ok t') \<and> same_objects K w w'
        \<and> (if om_deletionTimestamp (t_meta s) \<noteq> None \<and> fs = [] then kc_tenant K n w' = None
           else \<exists>rv. kc_tenant K n w' = Some (s\<lparr>t_meta := (t_meta s)\<lparr>om_finalizers := fs, om_resourceVersion := rv\<rparr>\<rparr>))"
    and "kc_tenant K (tname t) w = Some s \<Longrightarrow> same_version t s \<Longrightarrow> t_spec t = t_spec s \<Longrightarrow>
      tst_phase (t_status t) = TenantPhaseActive \<Longrightarrow> \<exists>w' t'. kc_update_status K t w = (w', Ok t')"
  using assms unfolding server_works_def tenants_work_def by blast+

lemma objects_workD:
  assumes "server_works K A" "o1 \<noteq> KNilQuota" "A o1"
  shows "open_ns K (om_namespace (meta_of o1)) w \<Longrightarrow> kc_stored K (obj_key o1) w = None \<Longrightarrow> \<exists>w' c. kc_create K o1 w = (w', Ok c)"
    "open_ns K (om_namespace (meta_of o1)) w \<Longrightarrow> kc_stored K (obj_key o1) w = Some c \<Longrightarrow> \<exists>w'. kc_create K o1 w = (w', Err AlreadyExists)"
    "kc_stored K (obj_key o1) w = Some c \<Longrightarrow> immutable_same c o1 \<Longrightarrow>
       \<exists>w' c'. kc_update K (set_resourceVersion (om_resourceVersion (meta_of c)) o1) w = (w', Ok c')"
proof -
  have create: "case kc_stored K (obj_key o1) w of
      None \<Rightarrow> \<exists>w' c. kc_create K o1 w = (w', Ok c) | Some c \<Rightarrow> \<exists>w'. kc_create K o1 w = (w', Err AlreadyExists)"
    if "open_ns K (om_namespace (meta_of o1)) w"
    using assms that unfolding server_works_def objects_work_def by blast
  show "open_ns K (om_namespace (meta_of o1)) w \<Longrightarrow> kc_stored K (obj_key o1) w = None \<Longrightarrow> \<exists>w' c. kc_create K o1 w = (w', Ok c)"
    "open_ns K (om_namespace (meta_of o1)) w \<Longrightarrow> kc_stored K (obj_key o1) w = Some c \<Longrightarrow> \<exists>w'. kc_create K o1 w = (w', Err AlreadyExists)"
    using create by simp_all
  show "kc_stored K (obj_key o1) w = Some c \<Longrightarrow> immutable_same c o1 \<Longrightarrow>
      \<exists>w' c'. kc_update K (set_resourceVersion (om_resourceVersion (meta_of c)) o1) w = (w', Ok c')"
    using assms unfolding server_works_def objects_work_def by blast
qed

text \<open>What may be in the way of an object: one of its name that cannot be changed into it.\<close>

definition unopposed :: "('w, 'q) kube_client \<Rightarrow> 'w \<Rightarrow> 'q kobj \<Rightarrow> bool" where
  "unopposed K w o1 \<longleftrightarrow> (\<forall>c. kc_stored K (obj_key o1) w = Some c \<longrightarrow> immutable_same c o1)"

definition unobstructed :: "('w, 'q) kube_client \<Rightarrow> tenant \<Rightarrow> 'w \<Rightarrow> bool" where
  \<comment> \<open>the tenant's namespace is not going, and no binding of its names grants another role\<close>
  "unobstructed K t w \<longleftrightarrow>
     (\<forall>c. kc_stored K (NamespaceKind, [], namespace_name t) w = Some c \<longrightarrow> \<not> terminating c)
     \<and> unopposed K w (KRoleBinding (buildAdminRoleBinding t))
     \<and> unopposed K w (KRoleBinding (buildOperatorRoleBinding t))"

lemma immutable_same_other: "kind_of o1 \<noteq> RoleBindingKind \<Longrightarrow> immutable_same c o1"
  by (cases o1; cases c) simp_all

lemma unobstructed_cong:
  assumes "same_objects K w w'" "same_identity t t'" "unobstructed K t w"
  shows "unobstructed K t' w'"
proof -
  have same: "kc_stored K k w' = kc_stored K k w" for k using assms(1) unfolding same_objects_def by blast
  show ?thesis
    using assms(3) by (simp add: unobstructed_def unopposed_def same same_identity_builders [OF assms(2)])
qed

definition putable :: "('w, 'q) kube_client \<Rightarrow> ('q kobj \<Rightarrow> bool) \<Rightarrow> 'w \<Rightarrow> 'q kobj \<Rightarrow> bool" where
  \<comment> \<open>nothing keeps the object from being put in place\<close>
  "putable K A w o1 \<longleftrightarrow> o1 \<noteq> KNilQuota \<and> A o1 \<and> synced_at K (obj_key o1) w \<and> unopposed K w o1"

lemma createOrUpdate_works:
  assumes "cluster_env K Q" "server_works K A" "putable K A w o1" "open_ns K (om_namespace (meta_of o1)) w"
  shows "\<exists>w'. createOrUpdate K Q o1 w = (w', Ok ())"
proof -
  note laws = cluster_envD [OF assms(1)]
  have o1: "o1 \<noteq> KNilQuota" "A o1" and read: "synced_at K (obj_key o1) w" and free: "unopposed K w o1"
    using assms(3) by (simp_all add: putable_def)
  note works = objects_workD [OF assms(2) o1]
  show ?thesis
  proof (cases "kc_stored K (obj_key o1) w")
    case None
    then obtain w1 c where "kc_create K o1 w = (w1, Ok c)" using works(1) assms(4) by blast
    then show ?thesis by (simp add: createOrUpdate_def)
  next
    case (Some c)
    then obtain w1 where w1: "kc_create K o1 w = (w1, Err AlreadyExists)" using works(2) assms(4) by blast
    have "kc_get K (obj_key o1) w1 = Ok c" using read_existing(2) [OF laws(1,3) read w1] Some by simp
    moreover have "kc_stored K (obj_key o1) w1 = Some c" using create_exists [OF laws(1) w1, of "obj_key o1"] Some by simp
    then obtain w2 c2 where "kc_update K (set_resourceVersion (om_resourceVersion (meta_of c)) o1) w1 = (w2, Ok c2)"
      using works(3) free Some unfolding unopposed_def by blast
    ultimately show ?thesis using w1 o1(1) by (simp add: createOrUpdate_def)
  qed
qed

lemma putable_frame:
  assumes "cluster_env K Q" "createOrUpdate K Q p w = (w', Ok ())" "obj_key o1 \<noteq> obj_key p" "putable K A w o1"
  shows "putable K A w' o1"
  using assms(4) createOrUpdate_frame [OF cluster_envD(1) [OF assms(1)] assms(2,3)]
    createOrUpdate_synced [OF assms(1,2,3)] by (simp add: putable_def unopposed_def)

lemma ensure_all_works:
  assumes "cluster_env K Q" "server_works K A" "distinct (map obj_key os)" "\<And>o1. o1 \<in> set os \<Longrightarrow> putable K A w o1"
    and "\<And>o1. o1 \<in> set os \<Longrightarrow> om_namespace (meta_of o1) = ns \<and> kind_of o1 \<noteq> NamespaceKind" "open_ns K ns w"
  shows "\<exists>w'. ensure_all (createOrUpdate K Q) os w = (w', Ok ())"
  using assms(3-6)
proof (induction os arbitrary: w)
  case (Cons p os)
  obtain w1 where w1: "createOrUpdate K Q p w = (w1, Ok ())"
    using createOrUpdate_works [OF assms(1,2), of w p] Cons.prems by auto
  have "\<exists>w'. ensure_all (createOrUpdate K Q) os w1 = (w', Ok ())"
  proof (rule Cons.IH)
    fix o1 assume o1: "o1 \<in> set os"
    have "obj_key o1 \<noteq> obj_key p" using Cons.prems(1) o1 by (metis distinct.simps(2) imageI list.map(2) list.set_map)
    then show "putable K A w1 o1" using putable_frame [OF assms(1) w1] Cons.prems(2) o1 by simp
    show "om_namespace (meta_of o1) = ns \<and> kind_of o1 \<noteq> NamespaceKind" using Cons.prems(3) o1 by simp
  next
    have "(NamespaceKind, [], ns) \<noteq> obj_key p" using Cons.prems(3) [of p] by (auto simp: obj_key_def)
    then show "open_ns K ns w1"
      using Cons.prems(4) createOrUpdate_frame [OF cluster_envD(1) [OF assms(1)] w1] by (simp add: open_ns_def)
  qed (use Cons.prems(1) in simp)
  then show ?case by (simp add: w1)
qed simp

lemma namespace_opens:
  assumes "api_laws K" "createOrUpdate K Q o1 w = (w', Ok ())"
    and "\<And>c. kc_stored K (obj_key o1) w = Some c \<Longrightarrow> \<not> terminating c" "\<exists>c. kc_stored K (obj_key o1) w' = Some c"
  shows "\<exists>c. kc_stored K (obj_key o1) w' = Some c \<and> \<not> terminating c"
  using assms(2)
proof (cases rule: createOrUpdate_Ok_cases)
  case (created c)
  then show ?thesis using create_Ok(2,6) [OF assms(1) created] by blast
next
  case (kept current)
  then show ?thesis using create_exists [OF assms(1) kept(1), of "obj_key o1"] assms(3,4) by auto
next
  case (updated w1 current c)
  then show ?thesis
    using create_exists [OF assms(1) updated(1), of "obj_key o1"] assms(3) update_Ok(1,4) [OF assms(1) updated(4)] by auto
qed

text \<open>
  A tenant whose row can be written: its fields convert, and its row is there, or its name is taken,
  or neither its identifier nor its namespace is; and no statement fails.
\<close>

definition fits :: "pg \<Rightarrow> tenant \<Rightarrow> db \<Rightarrow> bool" where
  "fits P t d \<longleftrightarrow>
     (\<exists>uid name namespace tier email. tenant_params P t = Ok (uid, name, namespace, tier, email)
        \<and> (uid \<notin> set (map tr_id (db_tenants d)) \<and> namespace \<notin> set (map tr_namespace (db_tenants d))
           \<or> name \<in> set (map tr_name (db_tenants d)) \<or> (\<exists>r\<in>set (db_tenants d). live_row uid r)))"

definition recordable :: "pg \<Rightarrow> tenant \<Rightarrow> db \<Rightarrow> bool" where
  "recordable P t d \<longleftrightarrow> (\<forall>k. pg_fault P k = None) \<and> fits P t d"

lemma fits_works:
  assumes "fits P t (wd_db w)" and nofault: "pg_fault P (db_seq (wd_db w)) = None" "pg_fault P (Suc (db_seq (wd_db w))) = None"
  shows "\<exists>w1 t1. record_tenant P t w = (w1, Ok t1)"
proof -
  obtain uid name namespace tier email where p: "tenant_params P t = Ok (uid, name, namespace, tier, email)"
    and free: "uid \<notin> set (map tr_id (db_tenants (wd_db w))) \<and> namespace \<notin> set (map tr_namespace (db_tenants (wd_db w)))
       \<or> name \<in> set (map tr_name (db_tenants (wd_db w))) \<or> (\<exists>r\<in>set (db_tenants (wd_db w)). live_row uid r)"
    using assms(1) unfolding fits_def by blast
  have conv: "pg_uuid P (om_uid (t_meta t)) = Some uid" "update_params P t = Ok (tier, email, uid)"
    using p by (auto simp: tenant_params_def update_params_def uuid_param_def varchar_param_def res_simps
        split: option.splits)
  let ?d = "(wd_db w)\<lparr>db_seq := Suc (db_seq (wd_db w))\<rparr>"
  show ?thesis
  proof (cases "find (\<lambda>r. tr_id r = uid \<and> tr_deleted_at r = None) (db_tenants (wd_db w))")
    case None
    then have "\<not> (\<exists>r\<in>set (db_tenants (wd_db w)). live_row uid r)"
      by (auto simp: find_None_iff live_row_def)
    with free None show ?thesis
      by (auto simp: record_tenant_def on_db_def GetTenantByID_def CreateTenant_def exec_def with_params_def uuid_param_def
          conv(1) p select_tenant_def insert_tenant_def nofault Let_def)
  next
    case (Some r)
    then show ?thesis
      by (simp add: record_tenant_def on_db_def GetTenantByID_def UpdateTenant_def exec_def with_params_def uuid_param_def
          conv select_tenant_def nofault Let_def)
  qed
qed


section \<open>To the end state\<close>

definition buildable :: "('q kobj \<Rightarrow> bool) \<Rightarrow> 'q quantity_api \<Rightarrow> config \<Rightarrow> tenant \<Rightarrow> bool" where
  \<comment> \<open>the tier is known, the quantities parse, and the server accepts the objects\<close>
  "buildable A Q cfg t \<longleftrightarrow> (\<exists>quota limits. buildResourceQuota Q t = (Ok quota :: (rec_error, 'q kobj) res)
     \<and> quota \<noteq> KNilQuota \<and> buildLimitRange Q cfg t = (Ok limits :: (rec_error, 'q limit_range) res)
     \<and> (\<forall>o1\<in>set (desired_objects quota limits cfg t). A o1))"

lemma desired_objects_same:
  "same_identity t u \<Longrightarrow> desired_objects quota limits cfg u = desired_objects quota limits cfg t"
  by (simp add: desired_objects_def same_identity_desired same_identity_builders)

lemma buildable_same: "same_identity t u \<Longrightarrow> buildable A Q cfg u = buildable A Q cfg t"
  by (simp add: buildable_def same_identity_builders(3,9) desired_objects_same)

lemma desired_objects_Cons:
  "desired_objects quota limits cfg t = KNamespace (buildNamespace t) # tl (desired_before t quota)
     @ [KNetworkPolicy (buildNetworkPolicy cfg t), KLimitRange limits]"
  by (simp add: desired_objects_def desired_before_def)

lemma desired_namespaced:
  assumes "buildResourceQuota Q t = Ok quota" "buildLimitRange Q cfg t = Ok limits" "quota \<noteq> KNilQuota"
    and "o1 \<in> set (tl (desired_objects quota limits cfg t))"
  shows "om_namespace (meta_of o1) = namespace_name t \<and> kind_of o1 \<noteq> NamespaceKind"
proof -
  have q: "kind_of quota = QuotaKind" "om_namespace (meta_of quota) = namespace_name t"
      "lr_meta limits = owned_meta t ''tenant-defaults'' (namespace_name t)"
    using buildResourceQuota_Ok(1,4) [OF assms(1)] buildLimitRange_Ok [OF assms(2)] assms(3) by auto
  have "list_all (\<lambda>o1. om_namespace (meta_of o1) = namespace_name t \<and> kind_of o1 \<noteq> NamespaceKind)
      (tl (desired_objects quota limits cfg t))"
    using q by (simp add: desired_objects_def desired_before_def buildAdminRole_def buildOperatorRole_def
        buildAdminRoleBinding_def buildOperatorRoleBinding_def build_binding_def buildNetworkPolicy_def Let_def)
  then show ?thesis using assms(4) by (simp add: list_all_iff)
qed

lemma desired_unopposed:
  assumes "unobstructed K t w" "kind_of quota = QuotaKind" "o1 \<in> set (desired_objects quota limits cfg t)"
  shows "unopposed K w o1"
proof -
  have "list_all (unopposed K w) (desired_objects quota limits cfg t)"
    using assms(1,2) immutable_same_other
    by (simp add: desired_objects_def desired_before_def unobstructed_def) (simp add: unopposed_def immutable_same_other)
  then show ?thesis using assms(3) by (simp add: list_all_iff)
qed

lemma record_tenant_version:
  assumes "record_tenant P t w = (w', Ok t')"
  shows "same_version t' t"
  using assms by (cases rule: record_tenant_OkE) (auto simp: CreateTenant_Ok_iff same_version_def)

text \<open>The objects before the status go in place, and then the two after it.\<close>

lemma objects_before_work:
  fixes K :: "('w, 'q) kube_client"
  assumes "cluster_env K Q" "server_works K A" "synced K k" "unobstructed K t k"
    and "buildResourceQuota Q t = (Ok quota :: (rec_error, _) res)" "quota \<noteq> KNilQuota"
    and "buildLimitRange Q cfg t = (Ok limits :: (rec_error, _) res)" "\<forall>o1\<in>set (desired_objects quota limits cfg t). A o1"
  shows "\<exists>k1. ensure_all (createOrUpdate K Q) (desired_before t quota) k = (k1, Ok ())
    \<and> open_ns K (namespace_name t) k1"
proof -
  note laws = cluster_envD [OF assms(1)] and qk = buildResourceQuota_Ok(1) [OF assms(5)]
  let ?ns = "KNamespace (buildNamespace t) :: 'q kobj"
  have nk: "obj_key ?ns = (NamespaceKind, [], namespace_name t)" by (simp add: obj_key_def buildNamespace_def)
  have before: "desired_before t quota = ?ns # tl (desired_before t quota)" by (simp add: desired_before_def)
  have sub: "o1 \<in> set (tl (desired_before t quota)) \<Longrightarrow> o1 \<in> set (tl (desired_objects quota limits cfg t))" for o1
    by (simp add: desired_objects_Cons)
  have put: "putable K A k o1" if "o1 \<in> set (desired_objects quota limits cfg t)" for o1
  proof -
    have "o1 \<noteq> KNilQuota" using that assms(6) by (auto simp: desired_objects_def desired_before_def)
    then show ?thesis
      using that assms(8) syncedD(1) [OF assms(3)] desired_unopposed [OF assms(4) qk that] by (simp add: putable_def)
  qed
  obtain j where j: "createOrUpdate K Q ?ns k = (j, Ok ())"
    using createOrUpdate_works [OF assms(1,2) put [of ?ns]]
    by (auto simp: desired_objects_Cons open_ns_def buildNamespace_def)
  have "\<exists>c. kc_stored K (obj_key ?ns) j = Some c"
    using createOrUpdate_Ok [OF assms(1) syncedD(1) [OF assms(3)] j] by blast
  then have opened: "open_ns K (namespace_name t) j"
    using namespace_opens [OF laws(1) j] assms(4) unfolding nk open_ns_def unobstructed_def by blast
  have keys: "distinct (map obj_key (desired_before t quota))" by (rule desired_before_keys [OF qk])
  then have fresh: "obj_key o1 \<noteq> obj_key ?ns" if "o1 \<in> set (tl (desired_before t quota))" for o1
    using that before by (metis distinct.simps(2) imageI list.map(2) list.set_map)
  have "\<exists>k1. ensure_all (createOrUpdate K Q) (tl (desired_before t quota)) j = (k1, Ok ())"
  proof (rule ensure_all_works [OF assms(1,2) _ _ _ opened])
    show "distinct (map obj_key (tl (desired_before t quota)))" using keys before by (metis distinct.simps(2) list.map(2))
    fix o1 assume o1: "o1 \<in> set (tl (desired_before t quota))"
    show "putable K A j o1"
      by (rule putable_frame [OF assms(1) j fresh [OF o1] put]) (use o1 in \<open>simp add: desired_objects_Cons\<close>)
    show "om_namespace (meta_of o1) = namespace_name t \<and> kind_of o1 \<noteq> NamespaceKind"
      by (rule desired_namespaced [OF assms(5,7,6) sub [OF o1]])
  qed
  then obtain k1 where k1: "ensure_all (createOrUpdate K Q) (tl (desired_before t quota)) j = (k1, Ok ())" by blast
  have "(NamespaceKind, [], namespace_name t) \<notin> obj_key ` set (tl (desired_before t quota))"
    by (metis fresh image_iff nk)
  then have "open_ns K (namespace_name t) k1"
    using ensure_all_same_keys [OF laws(1) k1] opened by (simp add: open_ns_def)
  moreover have "ensure_all (createOrUpdate K Q) (desired_before t quota) k = (k1, Ok ())"
    by (subst before) (simp add: j k1)
  ultimately show ?thesis by blast
qed

lemma recorded_works:
  assumes "cluster_env K Q" "server_works K A" "synced K (wd_kube w)" "kc_tenant K (tname t) (wd_kube w) = Some t"
    and "buildable A Q cfg t" "unobstructed K t (wd_kube w)" and rec: "record_tenant P t w = (w1, Ok t1)"
  shows "\<exists>w'. reconcileCreateOrUpdate P K Q cfg t w = (w', Ok \<lparr>cr_Requeue = False\<rparr>)"
proof -
  note laws = cluster_envD [OF assms(1)]
  obtain quota limits where q: "buildResourceQuota Q t = (Ok quota :: (rec_error, _) res)" "quota \<noteq> KNilQuota"
    and l: "buildLimitRange Q cfg t = (Ok limits :: (rec_error, _) res)"
    and acc: "\<forall>o1\<in>set (desired_objects quota limits cfg t). A o1"
    using assms(5) by (auto simp: buildable_def)
  note qk = buildResourceQuota_Ok(1) [OF q(1)]
  note r1 = record_tenant_Ok [OF rec]
  note b1 = same_identity_builders [OF r1(1)]
  obtain k1 where k1: "ensure_all (createOrUpdate K Q) (desired_before t quota) (wd_kube w) = (k1, Ok ())"
    and opened: "open_ns K (namespace_name t) k1"
    using objects_before_work [OF assms(1-3,6) q l acc] by blast
  let ?t = "t1\<lparr>t_status := (t_status t1)\<lparr>tst_phase := TenantPhaseActive, tst_namespace := om_name (buildNamespace t1)\<rparr>\<rparr>"
  have id1: "tname ?t = tname t" "t_spec ?t = t_spec t"
    using r1(1) by (auto simp: same_identity_def tname_def)
  have held: "kc_tenant K (tname ?t) k1 = Some t"
    using ensure_all_tenant [OF laws(1) k1, of "tname t"] assms(4) id1(1) by simp
  moreover have "same_version ?t t" using record_tenant_version [OF rec] by (simp add: same_version_def)
  ultimately obtain k2 t2 where k2: "kc_update_status K ?t k1 = (k2, Ok t2)"
    using tenants_workD(2) [OF assms(2), of ?t k1 t] id1(2) by auto
  have id2: "same_identity t t2"
    using update_status_Ok(3) [OF laws(1) k2, of t] held by (auto simp: same_identity_def tname_def)
  have l2: "buildLimitRange Q cfg t2 = (Ok limits :: (rec_error, _) res)"
    using l by (simp add: same_identity_builders(9) [OF id2])
  let ?last = "[KNetworkPolicy (buildNetworkPolicy cfg t), KLimitRange limits]"
  have "\<exists>k4. ensure_all (createOrUpdate K Q) ?last k2 = (k4, Ok ())"
  proof (rule ensure_all_works [OF assms(1,2)])
    have keys: "distinct (map obj_key (desired_objects quota limits cfg t))" by (rule desired_objects_distinct [OF qk])
    then show "distinct (map obj_key ?last)" by (simp add: desired_objects_def)
    show "open_ns K (namespace_name t) k2" using opened update_status_Ok(1) [OF laws(1) k2] by (simp add: open_ns_def)
    fix o1 assume o1: "o1 \<in> set ?last"
    then have mem: "o1 \<in> set (desired_objects quota limits cfg t)" by (auto simp: desired_objects_def)
    show "om_namespace (meta_of o1) = namespace_name t \<and> kind_of o1 \<noteq> NamespaceKind"
      by (rule desired_namespaced [OF q(1) l q(2)]) (use o1 in \<open>auto simp: desired_objects_Cons\<close>)
    have "obj_key o1 \<notin> obj_key ` set (desired_before t quota)"
      using keys imageI [OF o1, of obj_key] unfolding desired_objects_def by auto
    then have "synced_at K (obj_key o1) k1" by (rule cu.all_ready [OF assms(1) k1 _ syncedD(1) [OF assms(3)]])
    then have "synced_at K (obj_key o1) k2" by (rule update_status_synced [OF laws(1,3) k2 refl])
    moreover have "immutable_same c o1" for c using o1 by (intro immutable_same_other) auto
    ultimately show "putable K A k2 o1" using acc mem o1 by (auto simp: putable_def unopposed_def)
  qed
  then obtain k3 k4 where k3: "ensure_all (createOrUpdate K Q) [KNetworkPolicy (buildNetworkPolicy cfg t2)] k2 = (k3, Ok ())"
    and k4: "ensure_all (createOrUpdate K Q) [KLimitRange limits] k3 = (k4, Ok ())"
    unfolding same_identity_builders(8) [OF id2]
    using ensure_all_append_Ok [of "createOrUpdate K Q" "[KNetworkPolicy (buildNetworkPolicy cfg t)]" "[KLimitRange limits]" k2]
    by (auto simp del: ensure_all.simps)
  have q1: "buildResourceQuota Q t1 = (Ok quota :: (rec_error, _) res)" using q(1) by (simp add: b1(3))
  have k1': "ensure_all (createOrUpdate K Q) (desired_before t1 quota) (wd_kube w1) = (k1, Ok ())"
    using k1 by (simp only: same_identity_desired [OF r1(1)] r1(3))
  show ?thesis
    unfolding reconcileCreateOrUpdate_def
    by (simp add: rec q1 on_kube_def k1' k2 k3 l2 k4 done_result_def Let_def del: ensure_all.simps)
qed

lemma first_run:
  assumes "key_law K" "server_works K A" "synced K (wd_kube w)" and "kc_tenant K name (wd_kube w) = Some t"
    and "om_deletionTimestamp (t_meta t) = None" and "tenantFinalizer \<notin> set (om_finalizers (t_meta t))"
  obtains k1 rv where "Reconcile P K Q cfg name w = (w\<lparr>wd_kube := k1\<rparr>, Ok \<lparr>cr_Requeue = True\<rparr>)"
    "kc_tenant K name k1 = Some (t\<lparr>t_meta := (t_meta t)\<lparr>om_finalizers := om_finalizers (t_meta t) @ [tenantFinalizer],
       om_resourceVersion := rv\<rparr>\<rparr>)"
    "same_objects K (wd_kube w) k1"
proof -
  let ?fs = "om_finalizers (t_meta t) @ [tenantFinalizer]"
  obtain k1 t1 rv where upd: "kc_update_tenant K (with_finalizers ?fs t) (wd_kube w) = (k1, Ok t1)"
    and so: "same_objects K (wd_kube w) k1"
    and u: "kc_tenant K name k1 = Some (t\<lparr>t_meta := (t_meta t)\<lparr>om_finalizers := ?fs, om_resourceVersion := rv\<rparr>\<rparr>)"
    using tenants_workD(1) [OF assms(2,4), of ?fs] assms(5) by auto
  have "Reconcile P K Q cfg name w = (w\<lparr>wd_kube := k1\<rparr>, Ok \<lparr>cr_Requeue = True\<rparr>)"
    using syncedD(2) [OF assms(3,4)] assms(5,6) upd
    by (simp add: Reconcile_def addFinalizer_def on_kube_def Let_def with_finalizers_def)
  then show thesis using that u so by blast
qed

text \<open>
  C9: progress. Let an API server and a database answer, and the controller's cache be in step. A new
  tenant of a known tier, whose limits parse, whose objects the server accepts and nothing
  obstructs, and whose row can be written, is Active after two runs: the first only adds the
  finalizer and asks to be run again, and the second, once the cache has caught up, succeeds
  and does not.
\<close>

theorem new_tenant_becomes_active:
  assumes "cluster_env K Q" and "server_works K A" and "synced K (wd_kube w)" and "kc_tenant K name (wd_kube w) = Some t"
    and "om_deletionTimestamp (t_meta t) = None" and "tenantFinalizer \<notin> set (om_finalizers (t_meta t))"
    and "buildable A Q cfg t" and "unobstructed K t (wd_kube w)" and "recordable P t (wd_db w)"
  shows "\<exists>w1. Reconcile P K Q cfg name w = (w1, Ok \<lparr>cr_Requeue = True\<rparr>)
    \<and> (\<forall>k. catches_up K (wd_kube w1) k \<longrightarrow>
         (\<exists>w2 u. Reconcile P K Q cfg name (w1\<lparr>wd_kube := k\<rparr>) = (w2, Ok \<lparr>cr_Requeue = False\<rparr>)
            \<and> kc_tenant K name (wd_kube w2) = Some u \<and> tst_phase (t_status u) = TenantPhaseActive
            \<and> tst_namespace (t_status u) = namespace_name t))"
proof -
  note laws = cluster_envD [OF assms(1)]
  have name: "tname t = name" using assms(4) laws(2) unfolding key_law_def tname_def by blast
  obtain k1 rv where first: "Reconcile P K Q cfg name w = (w\<lparr>wd_kube := k1\<rparr>, Ok \<lparr>cr_Requeue = True\<rparr>)"
    and u: "kc_tenant K name k1 = Some (t\<lparr>t_meta := (t_meta t)\<lparr>om_finalizers := om_finalizers (t_meta t) @ [tenantFinalizer],
       om_resourceVersion := rv\<rparr>\<rparr>)" (is "_ = Some ?u") and so: "same_objects K (wd_kube w) k1"
    by (rule first_run [OF laws(2) assms(2-6), of P Q cfg])
  have id1: "same_identity t ?u" by (simp add: same_identity_def tname_def)
  have un: "tname ?u = name" using name by (simp add: tname_def)
  have "\<exists>w2 v. Reconcile P K Q cfg name (w\<lparr>wd_kube := k\<rparr>) = (w2, Ok \<lparr>cr_Requeue = False\<rparr>)
      \<and> kc_tenant K name (wd_kube w2) = Some v \<and> tst_phase (t_status v) = TenantPhaseActive
      \<and> tst_namespace (t_status v) = namespace_name t" if k: "catches_up K k1 k" for k
  proof -
    note up = catches_upD [OF k]
    let ?w = "w\<lparr>wd_kube := k\<rparr>"
    have held: "kc_tenant K (tname ?u) (wd_kube ?w) = Some ?u" using u up(2) un by simp
    have build: "to_build K name ?w ?u"
      using syncedD(2) [OF up(3), of name ?u] u up(2) assms(5) by (simp add: to_build_def)
    have "same_objects K (wd_kube w) k" using so k unfolding catches_up_def same_objects_def by metis
    then have free: "unobstructed K ?u (wd_kube ?w)" using unobstructed_cong [OF _ id1 assms(8)] by simp
    have rw: "fits P ?u (wd_db w)"
      using assms(9) by (simp add: recordable_def fits_def tenant_params_def)
    obtain w3 t3 where rec: "record_tenant P ?u ?w = (w3, Ok t3)"
      using fits_works [of P ?u ?w] rw assms(9) by (auto simp: recordable_def)
    obtain w2 where "reconcileCreateOrUpdate P K Q cfg ?u ?w = (w2, Ok \<lparr>cr_Requeue = False\<rparr>)"
      using recorded_works [OF assms(1,2) _ held _ free rec, of cfg] up(3) assms(7) buildable_same [OF id1, of A Q cfg] by auto
    then have second: "Reconcile P K Q cfg name ?w = (w2, Ok \<lparr>cr_Requeue = False\<rparr>)"
      by (simp only: Reconcile_build [OF build])
    obtain rv' where "kc_tenant K (tname ?u) (wd_kube w2) = Some (?u\<lparr>t_status := (t_status ?u)\<lparr>tst_phase := TenantPhaseActive,
        tst_namespace := namespace_name ?u\<rparr>, t_meta := (t_meta ?u)\<lparr>om_resourceVersion := rv'\<rparr>\<rparr>)"
      by (rule reconcile_placed [OF assms(1) _ build second]) (use up(3) in simp_all)
    with second show ?thesis by (simp add: un same_identity_builders(1) [OF id1])
  qed
  with first show ?thesis by simp
qed

text \<open>
  The workqueue of the controller runtime runs a key again as long as the result asks for it. It is
  a loop of that library, which need not end in general.
\<close>

partial_function (option) requeue_loop ::
    "('w \<Rightarrow> 'w \<times> ('e, ctrl_result) res) \<Rightarrow> 'w \<Rightarrow> ('w \<times> ('e, ctrl_result) res) option" where
  "requeue_loop f w =
     (case f w of
        (w1, Ok r) \<Rightarrow> if cr_Requeue r then requeue_loop f w1 else Some (w1, Ok r)
      | (w1, Err e) \<Rightarrow> Some (w1, Err e)
      | (w1, Panic x) \<Rightarrow> Some (w1, Panic x))"

lemma only_addFinalizer_requeues:
  "reconcileCreateOrUpdate P K Q cfg t w = (w', Ok r) \<Longrightarrow> \<not> cr_Requeue r"
  "reconcileDelete P K t w = (w', Ok r) \<Longrightarrow> \<not> cr_Requeue r"
  by (auto simp: reconcileCreateOrUpdate_def reconcileDelete_def done_result_def res_simps Let_def)

lemma requeue_iff:
  "Reconcile P K Q cfg name w = (w', Ok r) \<Longrightarrow> cr_Requeue r \<Longrightarrow>
     \<exists>t. kc_get_tenant K name (wd_kube w) = Ok t \<and> om_deletionTimestamp (t_meta t) = None
       \<and> tenantFinalizer \<notin> set (om_finalizers (t_meta t)) \<and> addFinalizer K t w = (w', Ok r)"
  by (auto simp: Reconcile_def done_result_def dest: only_addFinalizer_requeues split: res.splits if_splits)

text \<open>A run that asks to be run again leaves the finalizer, and has read the version the server held.\<close>

lemma requeue_adds:
  assumes "tenant_laws K" "Reconcile P K Q cfg name w = (w', Ok r)" "cr_Requeue r"
  shows "\<exists>u. kc_tenant K name (wd_kube w') = Some u \<and> tenantFinalizer \<in> set (om_finalizers (t_meta u))"
proof -
  obtain t where get: "kc_get_tenant K name (wd_kube w) = Ok t" and add: "addFinalizer K t w = (w', Ok r)"
    using requeue_iff [OF assms(2,3)] by blast
  let ?t = "t\<lparr>t_meta := (t_meta t)\<lparr>om_finalizers := om_finalizers (t_meta t) @ [tenantFinalizer]\<rparr>\<rparr>"
  obtain t' where "kc_update_tenant K ?t (wd_kube w) = (wd_kube w', Ok t')"
    using add by (auto simp: addFinalizer_def on_kube_Ok_iff then_try_Ok_iff)
  from tenant_lawsD(4) [OF assms(1) this] show ?thesis
    using tenant_lawsD(1) [OF assms(1) get] by (auto simp: replaced_def same_anchor_def)
qed

lemma requeue_locked:
  assumes "tenant_laws K" "Reconcile P K Q cfg name w = (w', Ok r)" "cr_Requeue r"
  shows "\<exists>u. kc_tenant K name (wd_kube w) = Some u \<and> tenantFinalizer \<notin> set (om_finalizers (t_meta u))"
proof -
  obtain t where get: "kc_get_tenant K name (wd_kube w) = Ok t" and fin: "tenantFinalizer \<notin> set (om_finalizers (t_meta t))"
    and add: "addFinalizer K t w = (w', Ok r)"
    using requeue_iff [OF assms(2,3)] by blast
  let ?t = "t\<lparr>t_meta := (t_meta t)\<lparr>om_finalizers := om_finalizers (t_meta t) @ [tenantFinalizer]\<rparr>\<rparr>"
  obtain t' where "kc_update_tenant K ?t (wd_kube w) = (wd_kube w', Ok t')"
    using add by (auto simp: addFinalizer_def on_kube_Ok_iff then_try_Ok_iff)
  then obtain s where s: "kc_tenant K name (wd_kube w) = Some s" "same_version ?t s"
    using tenant_lawsD(4) [OF assms(1)] tenant_lawsD(1) [OF assms(1) get] by force
  then have "s = t" using tenant_lawsD(3) [OF assms(1) get] by (simp add: same_version_def)
  with s(1) fin show ?thesis by blast
qed

text \<open>
  C21: the loop of requeues ends, however far the cache lags, whatever the state of the tenant and of
  the database and whichever calls fail: at most one run asks to be run again. A run that asks has
  added the finalizer; one that would add it again has read a version older than that, and the server
  refuses its update.
\<close>

theorem requeues_end:
  assumes "tenant_laws K"
  shows "\<exists>w' r. requeue_loop (Reconcile P K Q cfg name) w = Some (w', r)
    \<and> ((w', r) = Reconcile P K Q cfg name w
       \<or> (w', r) = Reconcile P K Q cfg name (fst (Reconcile P K Q cfg name w)))"
proof (cases "\<exists>w1 r. Reconcile P K Q cfg name w = (w1, Ok r) \<and> cr_Requeue r")
  case False
  then show ?thesis
    by (subst requeue_loop.simps) (auto split: prod.splits res.splits)
next
  case True
  then obtain w1 r where first: "Reconcile P K Q cfg name w = (w1, Ok r)" "cr_Requeue r" by blast
  then obtain u where u: "kc_tenant K name (wd_kube w1) = Some u" "tenantFinalizer \<in> set (om_finalizers (t_meta u))"
    using requeue_adds [OF assms] by blast
  obtain w2 r2 where second: "Reconcile P K Q cfg name w1 = (w2, r2)" by (cases "Reconcile P K Q cfg name w1")
  have last: "\<not> cr_Requeue q" if ok: "r2 = Ok q" for q
    using requeue_locked [OF assms second [unfolded ok]] u by force
  have "requeue_loop (Reconcile P K Q cfg name) w = requeue_loop (Reconcile P K Q cfg name) w1"
    using first by (subst requeue_loop.simps) simp
  also have "\<dots> = Some (w2, r2)"
    using last by (subst requeue_loop.simps) (auto simp: second split: res.split)
  finally show ?thesis using first second by simp
qed

lemma live_deleted: "live (change_rows (live_row uid) (\<lambda>r. r\<lparr>tr_deleted_at := Some x\<rparr>) d) uid = None"
proof -
  have "find (live_row uid) (map (\<lambda>r. if live_row uid r then r\<lparr>tr_deleted_at := Some x\<rparr> else r) rs) = None" for rs
    by (induction rs) (simp_all add: live_row_def)
  then show ?thesis by (simp add: live_def change_rows_def)
qed

lemma deletion_run:
  assumes "server_works K A" and "synced K (wd_kube w)" and "kc_tenant K name (wd_kube w) = Some t"
    and "om_deletionTimestamp (t_meta t) \<noteq> None" and "set (om_finalizers (t_meta t)) \<subseteq> {tenantFinalizer}"
    and "pg_fault P (db_seq (wd_db w)) = None" and "pg_uuid P (om_uid (t_meta t)) = Some uid"
  shows "\<exists>w'. Reconcile P K Q cfg name w = (w', Ok \<lparr>cr_Requeue = False\<rparr>)
    \<and> kc_tenant K name (wd_kube w') = None \<and> live (wd_db w') uid = None"
proof -
  have none: "removeString (om_finalizers (t_meta t)) tenantFinalizer = []"
    using assms(5) by (auto simp: removeString_def filter_empty_conv)
  obtain k1 t1 where upd: "kc_update_tenant K (with_finalizers [] t) (wd_kube w) = (k1, Ok t1)" "kc_tenant K name k1 = None"
    using tenants_workD(1) [OF assms(1,3), of "[]"] assms(4) by auto
  define d1 where "d1 = change_rows (live_row uid) (\<lambda>r. r\<lparr>tr_deleted_at := Some (pg_now P (db_seq (wd_db w)))\<rparr>)
    ((wd_db w)\<lparr>db_seq := Suc (db_seq (wd_db w))\<rparr>)"
  have d1: "DeleteTenant P (om_uid (t_meta t)) (wd_db w) = (d1, Ok ())"
    by (simp add: DeleteTenant_def exec_def with_params_def uuid_param_def assms(6,7) Let_def d1_def)
  have "live d1 uid = None" unfolding d1_def by (rule live_deleted)
  then show ?thesis
    using syncedD(2) [OF assms(2,3)] assms(4) d1 upd none
    by (simp add: Reconcile_def reconcileDelete_def on_db_def on_kube_def done_result_def Let_def with_finalizers_def)
qed

lemma gone_run:
  assumes "kc_tenant K name k = None" "synced K k"
  shows "Reconcile P K Q cfg name (w\<lparr>wd_kube := k\<rparr>) = (w\<lparr>wd_kube := k\<rparr>, Ok \<lparr>cr_Requeue = False\<rparr>)"
  using syncedD(3) [OF assms(2,1)] by (simp add: Reconcile_def done_result_def)

text \<open>
  C10: progress of a deletion. Let an API server and a database answer, and the controller's cache be
  in step. One run of a tenant that is being deleted and has no finalizer but the controller's ends
  with the row deleted and the resource gone; and a further run, once the cache has caught up,
  does nothing.
\<close>

theorem deleted_tenant_goes:
  assumes "server_works K A" and "synced K (wd_kube w)" and "kc_tenant K name (wd_kube w) = Some t"
    and "om_deletionTimestamp (t_meta t) \<noteq> None" and "set (om_finalizers (t_meta t)) \<subseteq> {tenantFinalizer}"
    and "\<And>k. pg_fault P k = None" and "pg_uuid P (om_uid (t_meta t)) = Some uid"
  shows "\<exists>w'. Reconcile P K Q cfg name w = (w', Ok \<lparr>cr_Requeue = False\<rparr>)
    \<and> kc_tenant K name (wd_kube w') = None \<and> live (wd_db w') uid = None
    \<and> (\<forall>k. catches_up K (wd_kube w') k \<longrightarrow>
         Reconcile P K Q cfg name (w'\<lparr>wd_kube := k\<rparr>) = (w'\<lparr>wd_kube := k\<rparr>, Ok \<lparr>cr_Requeue = False\<rparr>))"
proof -
  obtain w' where "Reconcile P K Q cfg name w = (w', Ok \<lparr>cr_Requeue = False\<rparr>)"
    and gone: "kc_tenant K name (wd_kube w') = None" and "live (wd_db w') uid = None"
    using deletion_run [OF assms(1-5) assms(6) assms(7), of Q cfg] by blast
  moreover have "Reconcile P K Q cfg name (w'\<lparr>wd_kube := k\<rparr>) = (w'\<lparr>wd_kube := k\<rparr>, Ok \<lparr>cr_Requeue = False\<rparr>)"
    if "catches_up K (wd_kube w') k" for k
    using gone_run [OF _ catches_upD(3) [OF that]] catches_upD(2) [OF that, of name] gone by simp
  ultimately show ?thesis by blast
qed


section \<open>The cluster in memory answers\<close>

lemma set_resourceVersion_meta [simp]:
  "o1 \<noteq> KNilQuota \<Longrightarrow> om_resourceVersion (meta_of (set_resourceVersion v o1)) = v"
  by (cases o1) (simp_all add: set_resourceVersion_def)

lemma immutable_same_resourceVersion [simp]: "immutable_same c (set_resourceVersion v o1) = immutable_same c o1"
  by (cases o1; cases c) (simp_all add: set_resourceVersion_def)

lemma mem_open_iff: "open_ns mem_client ns w \<longleftrightarrow> mem_open w ns"
proof -
  have "\<exists>m. c = KNamespace m" if "mem_look w (NamespaceKind, [], ns) = Some c" for c
    using that by (cases c) (auto simp: mem_look_Some obj_key_def)
  then show ?thesis
    by (auto simp: open_ns_def mem_open_def mem_client_def terminating_def split: option.splits kobj.splits)
qed

lemma mem_put_Ok: "\<exists>w' c. mem_put o1 g w = (w', Ok c)"
  by (simp add: mem_put_def Let_def)

lemma mem_objects_work: "objects_work mem_client A"
  unfolding objects_work_def mem_open_iff
  by (auto simp: mem_client_def mem_put_Ok split: option.splits)

lemma mem_tenants_work: "tenants_work mem_client"
  unfolding tenants_work_def
proof (intro conjI allI impI)
  fix n w s fs
  assume held: "kc_tenant mem_client n w = Some s"
  then have t: "mem_tenant w n = Some s" "om_name (t_meta s) = n" by (simp_all add: mem_client_def mem_tenant_name)
  show "\<exists>w' t'. kc_update_tenant mem_client (with_finalizers fs s) w = (w', Ok t') \<and> same_objects mem_client w w'
      \<and> (if om_deletionTimestamp (t_meta s) \<noteq> None \<and> fs = [] then kc_tenant mem_client n w' = None
         else \<exists>rv. kc_tenant mem_client n w' =
           Some (s\<lparr>t_meta := (t_meta s)\<lparr>om_finalizers := fs, om_resourceVersion := rv\<rparr>\<rparr>))"
  proof (cases "om_deletionTimestamp (t_meta s) \<noteq> None \<and> fs = []")
    case True
    then show ?thesis
      using t by (auto simp: mem_client_def with_finalizers_def same_version_def same_objects_def mem_tenant_remove mem_look_def)
  next
    case False
    define x where "x = s\<lparr>t_meta := (t_meta s)\<lparr>om_finalizers := fs\<rparr>\<rparr>"
    have x: "(with_finalizers fs s)\<lparr>t_meta := (t_meta (with_finalizers fs s))\<lparr>om_deletionTimestamp := om_deletionTimestamp (t_meta s)\<rparr>,
        t_status := t_status s\<rparr> = x"
      by (cases s) (simp add: with_finalizers_def x_def)
    have "kc_update_tenant mem_client (with_finalizers fs s) w = mem_put_tenant x w"
    proof -
      have "om_name (t_meta (with_finalizers fs s)) = n" "same_version (with_finalizers fs s) s"
          "om_finalizers (t_meta (with_finalizers fs s)) = fs"
        using t(2) by (simp_all add: with_finalizers_def same_version_def)
      then show ?thesis using t(1) False x by (auto simp: mem_client_def)
    qed
    then show ?thesis
      using mem_put_tenant_look [of x w "fst (mem_put_tenant x w)" "snd (mem_put_tenant x w)"] t(2) False
      by (intro exI [of _ "fst (mem_put_tenant x w)"] exI [of _ "x\<lparr>t_meta := (t_meta x)\<lparr>om_resourceVersion := rev_text (mc_rev w)\<rparr>\<rparr>"])
        (auto simp: prod_eq_iff same_objects_def mem_client_def x_def)
  qed
next
  fix t w s
  assume "kc_tenant mem_client (tname t) w = Some s" "same_version t s"
  then show "\<exists>w' t'. kc_update_status mem_client t w = (w', Ok t')"
    by (simp add: mem_client_def tname_def mem_put_tenant_def Let_def)
qed

lemma mem_client_works: "server_works mem_client A"
  by (simp add: server_works_def mem_objects_work mem_tenants_work)

definition demo_new :: tenant where
  \<comment> \<open>a tenant as the user created it\<close>
  "demo_new = demo_tenant\<lparr>t_meta := (t_meta demo_tenant)\<lparr>om_finalizers := []\<rparr>\<rparr>"

definition demo_new_world :: "string mem_cluster world" where
  "demo_new_world = \<lparr>wd_kube = mem_with [demo_new], wd_db = empty_db\<rparr>"

definition demo_going :: tenant where
  "demo_going = demo_tenant\<lparr>t_meta := (t_meta demo_tenant)\<lparr>om_deletionTimestamp := Some 9\<rparr>\<rparr>"

definition demo_going_world :: "string mem_cluster world" where
  "demo_going_world = \<lparr>wd_kube = mem_with [demo_going], wd_db = empty_db\<rparr>"

lemmas demo_tenant_defs = demo_new_def demo_going_def demo_tenant_def empty_tenant_def empty_meta_def tname_def

lemma demo_held:
  "kc_tenant mem_client ''acme'' (wd_kube demo_new_world) = Some demo_new"
  "kc_tenant mem_client ''acme'' (wd_kube demo_going_world) = Some demo_going"
  by (simp_all add: mem_client_def mem_tenant_def mem_with_def demo_new_world_def demo_going_world_def demo_tenant_defs)

lemma demo_fits: "fits plain_pg demo_new (wd_db demo_new_world)"
  by (simp add: fits_def plain_pg_def demo_new_world_def empty_db_def tenant_params_def uuid_param_def
      varchar_param_def tier_defs demo_tenant_defs)

lemma demo_buildable: "buildable (\<lambda>_. True) text_quantities demo_config demo_new"
  by (simp add: buildable_def buildResourceQuota_def buildFreeTier_def build_quota_def mustParse_def text_quantities_def
      buildLimitRange_def tier_limits_def demo_config_def tier_defs demo_tenant_defs Let_def)

lemma demo_unobstructed: "unobstructed mem_client t (wd_kube demo_new_world)"
  by (simp add: unobstructed_def unopposed_def demo_new_world_def mem_with_empty)

theorem new_tenant_becomes_active_witness:
  "\<exists>w1 w2 u. demo_run demo_new_world = (w1, Ok \<lparr>cr_Requeue = True\<rparr>) \<and> demo_run w1 = (w2, Ok \<lparr>cr_Requeue = False\<rparr>)
     \<and> kc_tenant mem_client ''acme'' (wd_kube w2) = Some u \<and> tst_phase (t_status u) = TenantPhaseActive"
proof -
  have rec: "recordable plain_pg demo_new (wd_db demo_new_world)"
    using demo_fits by (simp add: recordable_def plain_pg_def)
  have "om_deletionTimestamp (t_meta demo_new) = None" "tenantFinalizer \<notin> set (om_finalizers (t_meta demo_new))"
    by (simp_all add: demo_tenant_defs)
  from new_tenant_becomes_active [OF demo_env mem_client_works mem_client_synced demo_held(1) this demo_buildable demo_unobstructed rec]
  obtain w1 where "Reconcile plain_pg mem_client text_quantities demo_config ''acme'' demo_new_world = (w1, Ok \<lparr>cr_Requeue = True\<rparr>)"
    and then_on: "\<forall>k. catches_up mem_client (wd_kube w1) k \<longrightarrow>
       (\<exists>w2 u. Reconcile plain_pg mem_client text_quantities demo_config ''acme'' (w1\<lparr>wd_kube := k\<rparr>) = (w2, Ok \<lparr>cr_Requeue = False\<rparr>)
          \<and> kc_tenant mem_client ''acme'' (wd_kube w2) = Some u \<and> tst_phase (t_status u) = TenantPhaseActive
          \<and> tst_namespace (t_status u) = namespace_name demo_new)" by blast
  with mem_catches_up [of "wd_kube w1"] show ?thesis unfolding demo_run_def by fastforce
qed

theorem deleted_tenant_goes_witness:
  "\<exists>w'. demo_run demo_going_world = (w', Ok \<lparr>cr_Requeue = False\<rparr>) \<and> kc_tenant mem_client ''acme'' (wd_kube w') = None"
  using deleted_tenant_goes [OF mem_client_works mem_client_synced demo_held(2), of plain_pg "''u1''" text_quantities demo_config]
  by (auto simp: demo_run_def plain_pg_def demo_tenant_defs)

lemma requeue_loop_result:
  assumes "requeue_loop f w = Some (w', Ok r)"
  shows "\<not> cr_Requeue r"
proof -
  have "\<forall>w' r. p = (w', Ok r) \<longrightarrow> \<not> cr_Requeue r" if "requeue_loop f w = Some p" for p
    using that
    by (rule requeue_loop.raw_induct [rotated]) (auto split: prod.splits res.splits if_splits)
  with assms show ?thesis by blast
qed

theorem requeues_end_witness:
  "\<exists>w' r. requeue_loop demo_run demo_new_world = Some (w', r)
     \<and> (w', r) = demo_run (fst (demo_run demo_new_world))"
proof -
  have run: "demo_run = Reconcile plain_pg mem_client text_quantities demo_config ''acme''"
    by (rule ext) (simp add: demo_run_def)
  have again: "snd (demo_run demo_new_world) = Ok \<lparr>cr_Requeue = True\<rparr>" by code_simp
  obtain w' r where loop: "requeue_loop demo_run demo_new_world = Some (w', r)"
    and or: "(w', r) = demo_run demo_new_world \<or> (w', r) = demo_run (fst (demo_run demo_new_world))"
    using requeues_end [OF mem_client_tenant_laws, where P = plain_pg and Q = text_quantities and cfg = demo_config]
    unfolding run by blast
  have "(w', r) \<noteq> demo_run demo_new_world"
  proof
    assume *: "(w', r) = demo_run demo_new_world"
    then have "r = Ok \<lparr>cr_Requeue = True\<rparr>" using again by (metis snd_conv)
    then show False
      using requeue_loop_result [of demo_run demo_new_world w'] loop by fastforce
  qed
  with loop or show ?thesis by blast
qed

end
