(* ===== verification/Reconciler_Retry.thy ===== *)
theory Reconciler_Retry
  imports Reconciler_Faults Reconciler_Progress
begin

text \<open>
  The controller against a database that fails for a while. The controller runtime runs a key again
  after a requeue and after an error, and after a panic, which it recovers from; a tenant gets to
  its end state all the same.
\<close>

section \<open>Running until a run is done\<close>

text \<open>Between two runs some time passes, \<open>wait\<close>, in which no one writes and the cache catches up.\<close>

partial_function (option) work_off ::
    "('w \<Rightarrow> 'w \<times> ('e, ctrl_result) res) \<Rightarrow> ('w \<Rightarrow> 'w) \<Rightarrow> 'w \<Rightarrow> 'w option" where
  "work_off f wait w =
     (case f w of
        (w1, Ok r) \<Rightarrow> if cr_Requeue r then work_off f wait (wait w1) else Some w1
      | (w1, Err e) \<Rightarrow> work_off f wait (wait w1)
      | (w1, Panic x) \<Rightarrow> work_off f wait (wait w1))"

definition catching :: "('w, 'q) kube_client \<Rightarrow> ('w world \<Rightarrow> 'w world) \<Rightarrow> bool" where
  "catching K wait \<longleftrightarrow> (\<forall>w. catches_up K (wd_kube w) (wd_kube (wait w)) \<and> wd_db (wait w) = wd_db w)"

text \<open>
  The loop ends in a good state if every run from a fair state is done and good, or leads to a state
  that is fair after the wait, with a smaller measure.
\<close>

lemma work_off_ends:
  fixes m :: "'w \<Rightarrow> nat"
  assumes "fair w"
    and "\<And>w. fair w \<Longrightarrow> (\<exists>w1. f w = (w1, Ok \<lparr>cr_Requeue = False\<rparr>) \<and> good w1)
      \<or> fair (wait (fst (f w))) \<and> m (wait (fst (f w))) < m w \<and> snd (f w) \<noteq> Ok \<lparr>cr_Requeue = False\<rparr>"
  shows "\<exists>w1. work_off f wait w = Some w1 \<and> good w1"
  using assms(1)
proof (induction "m w" arbitrary: w rule: less_induct)
  case less
  from assms(2) [OF less.prems] show ?case
  proof (elim disjE exE conjE)
    fix w1 assume "f w = (w1, Ok \<lparr>cr_Requeue = False\<rparr>)" "good w1"
    then show ?thesis by (subst work_off.simps) simp
  next
    assume more: "fair (wait (fst (f w)))" "m (wait (fst (f w))) < m w" "snd (f w) \<noteq> Ok \<lparr>cr_Requeue = False\<rparr>"
    obtain w1 r where fw: "f w = (w1, r)" by (cases "f w")
    have "work_off f wait w = work_off f wait (wait w1)"
      using more(3) by (subst work_off.simps) (auto simp: fw split: res.splits)
    then show ?thesis using less.hyps [OF more(2,1)] by (simp add: fw)
  qed
qed


section \<open>A run that fails at the database\<close>

definition seq_from :: "pg \<Rightarrow> tenant \<Rightarrow> nat \<Rightarrow> 'w world \<Rightarrow> bool" where
  \<comment> \<open>at least \<open>n\<close> statements were sent and the tenant's row can be written\<close>
  "seq_from P t n w \<longleftrightarrow> n \<le> db_seq (wd_db w) \<and> fits P t (wd_db w)"

lemma fits_seq [simp]: "fits P t (d\<lparr>db_seq := k\<rparr>) = fits P t d"
  by (simp add: fits_def)

lemma fits_change_rows:
  assumes "fits P t d" "\<And>r. tr_id (f r) = tr_id r" "\<And>r. tr_name (f r) = tr_name r"
    "\<And>r. tr_namespace (f r) = tr_namespace r" "\<And>r. tr_deleted_at (f r) = tr_deleted_at r"
  shows "fits P t (change_rows S f d)"
proof -
  have same: "map g (db_tenants (change_rows S f d)) = map g (db_tenants d)" if "\<And>r. g (f r) = g r"
    for g :: "tenant_row \<Rightarrow> 'a"
    using that by (auto simp: change_rows_def)
  have live: "(\<exists>r\<in>set rs. live_row u r) \<longleftrightarrow> (u, None) \<in> set (map (\<lambda>r. (tr_id r, tr_deleted_at r)) rs)" for u rs
    by (force simp: live_row_def)
  show ?thesis
    using assms(1) unfolding fits_def live
    by (simp only: same [of tr_id] same [of tr_name] same [of tr_namespace] same [of "\<lambda>r. (tr_id r, tr_deleted_at r)"] assms)
qed

lemma fits_insert: "fits P t d \<Longrightarrow> tenant_params P t = Ok p \<Longrightarrow> fits P t (fst (insert_tenant now p d))"
  by (auto simp: fits_def insert_tenant_def live_row_def split: prod.splits)

lemma exec_seq:
  assumes "\<And>k d1. db_seq (fst (stmt k d1)) = db_seq d1"
  shows "db_seq (fst (exec P stmt d)) = Suc (db_seq d)"
  using assms by (simp add: exec_def Let_def split: option.split fault.split)

lemma with_params_seq: "(\<And>p. db_seq (fst (f p d)) = db_seq d) \<Longrightarrow> db_seq (fst (with_params r f d)) = db_seq d"
  by (cases r) (simp_all add: with_params_def)

lemma insert_seq: "db_seq (fst (insert_tenant now p d)) = db_seq d"
  by (simp add: insert_tenant_def split: prod.split)

lemma statements_seq:
  "db_seq (fst (GetTenantByID P i d)) = Suc (db_seq d)" "db_seq (fst (CreateTenant P t d)) = Suc (db_seq d)"
  "db_seq (fst (UpdateTenant P t d)) = Suc (db_seq d)" "db_seq (fst (DeleteTenant P i d)) = Suc (db_seq d)"
  by (simp_all add: UpdateTenant_def DeleteTenant_def exec_seq with_params_seq insert_seq select_tenant_def
      change_rows_def split: prod.split)

lemma statements_fit:
  assumes "fits P t d"
  shows "fits P t (fst (GetTenantByID P i d))" "fits P t (fst (CreateTenant P t d))" "fits P t (fst (UpdateTenant P t d))"
proof -
  show "fits P t (fst (GetTenantByID P i d))"
    unfolding fst_GetTenantByID
    by (intro exec_invariant [of "fits P t"] with_params_invariant [of "fits P t"]) (auto simp: assms select_tenant_def)
  show "fits P t (fst (CreateTenant P t d))"
    unfolding fst_CreateTenant
    by (intro exec_invariant [of "fits P t"] with_params_invariant [of "fits P t"]) (auto simp: assms fits_insert)
  show "fits P t (fst (UpdateTenant P t d))"
    unfolding UpdateTenant_def
    by (intro exec_invariant [of "fits P t"] with_params_invariant [of "fits P t"])
      (auto simp: assms fits_change_rows split: prod.split)
qed

lemma on_db_fst [simp]: "wd_db (fst (on_db f w)) = fst (f (wd_db w))"
  by (simp add: on_db_def split: prod.split)

lemma record_tenant_advances:
  assumes "fits P t (wd_db w)"
  shows "seq_from P t (Suc (db_seq (wd_db w))) (fst (record_tenant P t w))"
  unfolding record_tenant_def
proof (rule then_try_invariant [of "seq_from P t (Suc (db_seq (wd_db w)))"])
  show get: "seq_from P t (Suc (db_seq (wd_db w))) (fst (on_db (GetTenantByID P (om_uid (t_meta t))) w))"
    using assms statements_seq(1) [of P "om_uid (t_meta t)" "wd_db w"] statements_fit(1) by (simp add: seq_from_def del: fst_GetTenantByID)
  fix w1 e
  assume "on_db (GetTenantByID P (om_uid (t_meta t))) w = (w1, Ok e)"
  with get have w1: "seq_from P t (Suc (db_seq (wd_db w))) w1" by simp
  have "seq_from P t (Suc (db_seq (wd_db w))) (fst (then_try (on_db f w1) (\<lambda>w2 x. (w2, Ok (g x))) DbErr))"
    if "db_seq (fst (f (wd_db w1))) = Suc (db_seq (wd_db w1))" "fits P t (fst (f (wd_db w1)))" for f g
  proof (rule then_try_invariant [of "seq_from P t (Suc (db_seq (wd_db w)))"])
    show f: "seq_from P t (Suc (db_seq (wd_db w))) (fst (on_db f w1))" using w1 that by (simp add: seq_from_def)
    show "seq_from P t (Suc (db_seq (wd_db w))) (fst (w2, Ok (g a)))" if "on_db f w1 = (w2, Ok a)" for w2 a
      using f that by simp
  qed
  from this [of "CreateTenant P t" id] this [of "UpdateTenant P t" "\<lambda>_. t"]
  show "seq_from P t (Suc (db_seq (wd_db w))) (fst (case e of
      None \<Rightarrow> then_try (on_db (CreateTenant P t) w1) (\<lambda>w2 t1. (w2, Ok t1)) DbErr
    | Some _ \<Rightarrow> then_try (on_db (UpdateTenant P t) w1) (\<lambda>w2 _. (w2, Ok t)) DbErr))"
    using w1 statements_seq(2) [of P t] statements_seq(3) [of P t] statements_fit(2,3)
    by (cases e) (simp_all add: seq_from_def del: fst_CreateTenant)
qed


section \<open>Through the failures\<close>

lemma same_tenant_fits:
  assumes "same_identity t u" "t_status u = t_status t"
  shows "fits P u d = fits P t d"
  using assms by (simp add: fits_def tenant_params_def same_identity_def)

lemma same_identity_trans: "same_identity a b \<Longrightarrow> same_identity b c \<Longrightarrow> same_identity a c"
  by (simp add: same_identity_def)

definition underway :: "pg \<Rightarrow> ('w, 'q) kube_client \<Rightarrow> tenant \<Rightarrow> 'w world \<Rightarrow> bool" where
  \<comment> \<open>the resource is as the user wrote it, with or without the finalizer, and nothing is in its way\<close>
  "underway P K t w \<longleftrightarrow>
     (\<exists>u. kc_tenant K (tname t) (wd_kube w) = Some u \<and> same_identity t u \<and> t_status u = t_status t
        \<and> om_deletionTimestamp (t_meta u) = None) \<and> fits P t (wd_db w) \<and> unobstructed K t (wd_kube w)"

definition settled :: "('w, 'q) kube_client \<Rightarrow> 'q quantity_api \<Rightarrow> config \<Rightarrow> tenant \<Rightarrow> 'w world \<Rightarrow> bool" where
  \<comment> \<open>the resource is Active and all its objects are in place\<close>
  "settled K Q cfg t w \<longleftrightarrow>
     (\<exists>u. kc_tenant K (tname t) (wd_kube w) = Some u \<and> same_identity t u
        \<and> tst_phase (t_status u) = TenantPhaseActive \<and> tst_namespace (t_status u) = namespace_name t)
     \<and> (\<exists>quota limits. buildResourceQuota Q t = (Ok quota :: (rec_error, 'q kobj) res)
        \<and> buildLimitRange Q cfg t = (Ok limits :: (rec_error, 'q limit_range) res)
        \<and> (\<forall>o1\<in>set (desired_objects quota limits cfg t).
             \<exists>c. kc_stored K (obj_key o1) (wd_kube w) = Some c \<and> in_place Q c o1))"

definition left_to_do :: "('w, 'q) kube_client \<Rightarrow> string \<Rightarrow> nat \<Rightarrow> 'w world \<Rightarrow> nat" where
  \<comment> \<open>statements that may still fail, and the finalizer\<close>
  "left_to_do K name N w =
     2 * (N - db_seq (wd_db w))
     + (case kc_tenant K name (wd_kube w) of
          Some u \<Rightarrow> if tenantFinalizer \<in> set (om_finalizers (t_meta u)) then 0 else 1 | None \<Rightarrow> 0)"

lemma left_to_do_wait:
  assumes "catching K wait"
  shows "left_to_do K name N (wait w) = left_to_do K name N w" "underway P K t (wait w) = underway P K t w"
    "synced K (wd_kube (wait w))"
proof -
  have up: "catches_up K (wd_kube w) (wd_kube (wait w))" "wd_db (wait w) = wd_db w"
    using assms by (simp_all add: catching_def)
  note same = catches_upD [OF up(1)]
  show "left_to_do K name N (wait w) = left_to_do K name N w" by (simp add: left_to_do_def up(2) same(2))
  show "underway P K t (wait w) = underway P K t w"
    by (simp add: underway_def up(2) same(1,2) unobstructed_def unopposed_def)
  show "synced K (wd_kube (wait w))" by (rule same(3))
qed

lemma run_settles:
  assumes "cluster_env K Q" "synced K (wd_kube w)" "to_build K (tname t) w u" "same_identity t u"
    and "Reconcile P K Q cfg (tname t) w = (w', Ok r)"
  shows "settled K Q cfg t w'"
proof -
  note eqs = same_identity_builders [OF assms(4)] desired_objects_same [OF assms(4)]
  have name: "tname u = tname t" using assms(4) by (simp add: same_identity_def)
  obtain quota limits rv where "buildResourceQuota Q t = (Ok quota :: (rec_error, _) res)"
      "buildLimitRange Q cfg t = (Ok limits :: (rec_error, _) res)"
    and "\<And>o1. o1 \<in> set (desired_objects quota limits cfg t) \<Longrightarrow> cu.placed K Q o1 (wd_kube w')"
    and "kc_tenant K (tname t) (wd_kube w') = Some (u\<lparr>t_status := (t_status u)\<lparr>tst_phase := TenantPhaseActive,
       tst_namespace := namespace_name t\<rparr>, t_meta := (t_meta u)\<lparr>om_resourceVersion := rv\<rparr>\<rparr>)" (is "_ = Some ?v")
    by (rule reconcile_placed [OF assms(1,2,3,5)]) (simp only: eqs name)
  moreover have "same_identity t ?v" using assms(4) by (simp add: same_identity_def tname_def)
  ultimately show ?thesis unfolding settled_def cu.placed_def by auto
qed

lemma one_more_run:
  assumes "cluster_env K Q" "server_works K A" "buildable A Q cfg t" "\<And>k. N \<le> k \<Longrightarrow> pg_fault P k = None"
    and "underway P K t w" "synced K (wd_kube w)"
  defines "run \<equiv> Reconcile P K Q cfg (tname t)"
  shows "(\<exists>w1. run w = (w1, Ok \<lparr>cr_Requeue = False\<rparr>) \<and> settled K Q cfg t w1)
    \<or> underway P K t (fst (run w)) \<and> left_to_do K (tname t) N (fst (run w)) < left_to_do K (tname t) N w
      \<and> snd (run w) \<noteq> Ok \<lparr>cr_Requeue = False\<rparr>"
proof -
  note laws = cluster_envD [OF assms(1)]
  obtain u where u: "kc_tenant K (tname t) (wd_kube w) = Some u" "same_identity t u" "t_status u = t_status t"
      "om_deletionTimestamp (t_meta u) = None" and fit: "fits P t (wd_db w)" and free: "unobstructed K t (wd_kube w)"
    using assms(5) by (auto simp: underway_def)
  have name: "tname u = tname t" using u(2) by (simp add: same_identity_def)
  show ?thesis
  proof (cases "tenantFinalizer \<in> set (om_finalizers (t_meta u))")
    case False
    obtain k1 rv where run: "run w = (w\<lparr>wd_kube := k1\<rparr>, Ok \<lparr>cr_Requeue = True\<rparr>)"
      and v: "kc_tenant K (tname t) k1 = Some (u\<lparr>t_meta := (t_meta u)\<lparr>om_finalizers := om_finalizers (t_meta u) @ [tenantFinalizer],
         om_resourceVersion := rv\<rparr>\<rparr>)" (is "_ = Some ?v") and so: "same_objects K (wd_kube w) k1"
      unfolding run_def by (rule first_run [OF laws(2) assms(2,6) u(1,4) False])
    have "same_identity t ?v" using u(2) by (simp add: same_identity_def tname_def)
    then have "underway P K t (w\<lparr>wd_kube := k1\<rparr>)"
      using v u(3,4) fit unobstructed_cong [OF so same_identity_refl free] by (simp add: underway_def)
    moreover have "left_to_do K (tname t) N (w\<lparr>wd_kube := k1\<rparr>) < left_to_do K (tname t) N w"
      using u(1) v False by (simp add: left_to_do_def)
    ultimately show ?thesis by (simp add: run)
  next
    case True
    then have build: "to_build K (tname t) w u"
      using u(4) syncedD(2) [OF assms(6) u(1)] by (simp add: to_build_def)
    have run: "run w = reconcileCreateOrUpdate P K Q cfg u w" unfolding run_def by (rule Reconcile_build [OF build])
    have fu: "fits P u (wd_db w)" using fit by (simp add: same_tenant_fits [OF u(2,3)])
    obtain w1 r where rec: "record_tenant P u w = (w1, r)" by fastforce
    show ?thesis
    proof (cases "\<exists>t1. r = Ok t1")
      case True
      then obtain t1 where r: "r = Ok t1" by blast
      have "buildable A Q cfg u" using assms(3) by (simp add: buildable_same [OF u(2)])
      moreover have "unobstructed K u (wd_kube w)"
        using unobstructed_cong [OF _ u(2) free] by (simp add: same_objects_def)
      moreover have "kc_tenant K (tname u) (wd_kube w) = Some u" using u(1) name by simp
      ultimately obtain w2 where w2: "run w = (w2, Ok \<lparr>cr_Requeue = False\<rparr>)"
        using recorded_works [OF assms(1,2,6) _ _ _ rec [unfolded r]] unfolding run by blast
      then show ?thesis using run_settles [OF assms(1,6) build u(2)] unfolding run_def by blast
    next
      case False
      then have stop: "\<And>a. snd (record_tenant P u w) \<noteq> Ok a" by (simp add: rec)
      have after: "fst (run w) = fst (record_tenant P u w)" "\<And>b. snd (run w) \<noteq> Ok b"
        unfolding run reconcileCreateOrUpdate_def by (simp_all only: then_try_not_Ok [OF stop] not_False_eq_True)
      have adv: "Suc (db_seq (wd_db w)) \<le> db_seq (wd_db (fst (run w)))" "fits P t (wd_db (fst (run w)))"
        using record_tenant_advances [OF fu] by (simp_all add: after(1) seq_from_def same_tenant_fits [OF u(2,3)])
      have kube: "wd_kube (fst (run w)) = wd_kube w" by (simp only: after(1) record_tenant_kube)
      have "db_seq (wd_db w) < N"
        using fits_works [OF fu] assms(4) stop by (metis le_SucI not_le snd_conv)
      then have "left_to_do K (tname t) N (fst (run w)) < left_to_do K (tname t) N w"
        using adv(1) by (simp add: left_to_do_def kube)
      moreover have "underway P K t (fst (run w))"
        using u adv(2) free by (auto simp: underway_def kube)
      ultimately show ?thesis using after(2) by blast
    qed
  qed
qed

text \<open>
  C5: Progress through failures. Let the API server answer, and from some statement on the database too,
  however many statements before that fail or lose their answer; let the cache be in step when a run
  starts, and no one else write. Then the controller's loop over a tenant that is not being deleted,
  of a known tier, whose limits parse, whose objects the server accepts and nothing obstructs, and whose
  row can be written, returns, with the tenant Active and all its objects in place.
\<close>

theorem tenant_settles_through_failures:
  assumes "cluster_env K Q" and "server_works K A" and "catching K wait" and "synced K (wd_kube w)"
    and "kc_tenant K (tname t) (wd_kube w) = Some t" and "om_deletionTimestamp (t_meta t) = None"
    and "buildable A Q cfg t" and "unobstructed K t (wd_kube w)" and "fits P t (wd_db w)"
    and "\<And>k. N \<le> k \<Longrightarrow> pg_fault P k = None"
  shows "\<exists>w'. work_off (Reconcile P K Q cfg (tname t)) wait w = Some w' \<and> settled K Q cfg t w'"
proof (rule work_off_ends [where fair = "\<lambda>w. underway P K t w \<and> synced K (wd_kube w)" and m = "left_to_do K (tname t) N"])
  show "underway P K t w \<and> synced K (wd_kube w)" using assms(4,5,6,8,9) by (simp add: underway_def)
  show "(\<exists>w1. Reconcile P K Q cfg (tname t) w = (w1, Ok \<lparr>cr_Requeue = False\<rparr>) \<and> settled K Q cfg t w1)
    \<or> (underway P K t (wait (fst (Reconcile P K Q cfg (tname t) w))) \<and> synced K (wd_kube (wait (fst (Reconcile P K Q cfg (tname t) w)))))
      \<and> left_to_do K (tname t) N (wait (fst (Reconcile P K Q cfg (tname t) w))) < left_to_do K (tname t) N w
      \<and> snd (Reconcile P K Q cfg (tname t) w) \<noteq> Ok \<lparr>cr_Requeue = False\<rparr>"
    if "underway P K t w \<and> synced K (wd_kube w)" for w
    using one_more_run [OF assms(1,2,7,10), of N w] that left_to_do_wait(3) [OF assms(3)]
    unfolding left_to_do_wait(1,2) [OF assms(3)] by blast
qed

text \<open>
  C11: A deletion gets through failures as well: under the same conditions on the servers, the cache and
  other writers, the loop over a tenant that is being deleted and has no finalizer but the
  controller's returns, with the row deleted and the resource gone.
\<close>

theorem deletion_through_failures:
  assumes "server_works K A" and "catching K wait" and "synced K (wd_kube w)"
    and "kc_tenant K (tname t) (wd_kube w) = Some t"
    and "om_deletionTimestamp (t_meta t) \<noteq> None" and "set (om_finalizers (t_meta t)) \<subseteq> {tenantFinalizer}"
    and "pg_uuid P (om_uid (t_meta t)) = Some uid" and "\<And>k. N \<le> k \<Longrightarrow> pg_fault P k = None"
  shows "\<exists>w'. work_off (Reconcile P K Q cfg (tname t)) wait w = Some w'
    \<and> kc_tenant K (tname t) (wd_kube w') = None \<and> live (wd_db w') uid = None"
proof (rule work_off_ends [where fair = "\<lambda>w. kc_tenant K (tname t) (wd_kube w) = Some t \<and> synced K (wd_kube w)"
        and m = "\<lambda>w. N - db_seq (wd_db w)"])
  fix w :: "'a world" assume fair: "kc_tenant K (tname t) (wd_kube w) = Some t \<and> synced K (wd_kube w)"
  then have held: "kc_tenant K (tname t) (wd_kube w) = Some t" and read: "synced K (wd_kube w)" by simp_all
  let ?p = "Reconcile P K Q cfg (tname t) w"
  have up: "kc_tenant K (tname t) (wd_kube (wait v)) = kc_tenant K (tname t) (wd_kube v)" "synced K (wd_kube (wait v))"
      "wd_db (wait v) = wd_db v" for v
  proof -
    have c: "catches_up K (wd_kube v) (wd_kube (wait v))" "wd_db (wait v) = wd_db v"
      using assms(2) by (simp_all add: catching_def)
    show "kc_tenant K (tname t) (wd_kube (wait v)) = kc_tenant K (tname t) (wd_kube v)" "synced K (wd_kube (wait v))"
      "wd_db (wait v) = wd_db v"
      using catches_upD(2,3) [OF c(1)] c(2) by auto
  qed
  show "(\<exists>w1. ?p = (w1, Ok \<lparr>cr_Requeue = False\<rparr>) \<and> kc_tenant K (tname t) (wd_kube w1) = None \<and> live (wd_db w1) uid = None)
    \<or> (kc_tenant K (tname t) (wd_kube (wait (fst ?p))) = Some t \<and> synced K (wd_kube (wait (fst ?p))))
      \<and> N - db_seq (wd_db (wait (fst ?p))) < N - db_seq (wd_db w) \<and> snd ?p \<noteq> Ok \<lparr>cr_Requeue = False\<rparr>"
  proof (cases "pg_fault P (db_seq (wd_db w))")
    case None
    then show ?thesis using deletion_run [OF assms(1) read held assms(5,6) None assms(7)] by blast
  next
    case (Some x)
    have stop: "\<And>a. snd (on_db (DeleteTenant P (om_uid (t_meta t))) w) \<noteq> Ok a"
      using Some by (cases x) (simp_all add: on_db_def DeleteTenant_def exec_def Let_def)
    have run: "?p = reconcileDelete P K t w"
      using syncedD(2) [OF read held] assms(5) by (simp add: Reconcile_def)
    have "fst ?p = fst (on_db (DeleteTenant P (om_uid (t_meta t))) w)" "\<And>b. snd ?p \<noteq> Ok b"
      unfolding run reconcileDelete_def by (simp_all only: then_try_not_Ok [OF stop] not_False_eq_True)
    moreover have "db_seq (wd_db w) < N" using assms(8) Some by (metis not_le option.distinct(1))
    ultimately show ?thesis using held up by (simp add: statements_seq(4) diff_less_mono2)
  qed
qed (use assms(3,4) in simp)

text \<open>A database that refuses two statements and loses the answer of two more.\<close>

definition flaky_pg :: pg where
  "flaky_pg = plain_pg\<lparr>pg_fault := (\<lambda>k. if k < 2 then Some (NotRun ''down'')
     else if k < 4 then Some (Unacked ''timeout'') else None)\<rparr>"

lemma mem_catching: "catching mem_client id"
  by (simp add: catching_def mem_catches_up)

theorem tenant_settles_through_failures_witness:
  "\<exists>w'. work_off (Reconcile flaky_pg mem_client text_quantities demo_config ''acme'') id demo_new_world = Some w'
     \<and> settled mem_client text_quantities demo_config demo_new w'"
proof -
  have name: "tname demo_new = ''acme''" by (simp add: demo_tenant_defs)
  have fit: "fits flaky_pg demo_new (wd_db demo_new_world)"
    using demo_fits by (simp add: fits_def flaky_pg_def tenant_params_def uuid_param_def varchar_param_def)
  have "om_deletionTimestamp (t_meta demo_new) = None" by (simp add: demo_tenant_defs)
  from tenant_settles_through_failures [OF demo_env mem_client_works mem_catching mem_client_synced
      demo_held(1) [folded name] this demo_buildable demo_unobstructed fit, of 4]
  show ?thesis by (simp add: flaky_pg_def name)
qed

theorem deletion_through_failures_witness:
  "\<exists>w'. work_off (Reconcile flaky_pg mem_client text_quantities demo_config ''acme'') id demo_going_world = Some w'
     \<and> kc_tenant mem_client ''acme'' (wd_kube w') = None"
proof -
  have name: "tname demo_going = ''acme''" by (simp add: demo_tenant_defs)
  have "om_deletionTimestamp (t_meta demo_going) \<noteq> None" "set (om_finalizers (t_meta demo_going)) \<subseteq> {tenantFinalizer}"
    "pg_uuid flaky_pg (om_uid (t_meta demo_going)) = Some ''u1''"
    by (simp_all add: demo_tenant_defs flaky_pg_def plain_pg_def)
  from deletion_through_failures [OF mem_client_works mem_catching mem_client_synced demo_held(2) [folded name] this,
      of 4 text_quantities demo_config] show ?thesis
    by (auto simp: flaky_pg_def name)
qed

end
