(* ===== verification/Isolation.thy ===== *)
theory Isolation
  imports Watches
begin

text \<open>
  What two tenants can do to each other over the network after the controller has reconciled them. The
  namespaces and policies are those the API server stores; which connections they allow is the
  documented meaning of network policies. Which pods an address block covers is up to the network of
  the cluster, a parameter \<open>B\<close>.
\<close>

section \<open>Connections between pods\<close>

record pod_at =
  pd_namespace :: string
  pd_labels :: "string \<rightharpoonup> string"

definition ns_labels :: "('w, 'q) kube_client \<Rightarrow> 'w \<Rightarrow> string \<Rightarrow> (string \<rightharpoonup> string)" where
  "ns_labels K w ns =
     (case kc_stored K (NamespaceKind, [], ns) w of
        Some (KNamespace m) \<Rightarrow> map_of (om_labels m) | _ \<Rightarrow> Map.empty)"

definition place :: "('w, 'q) kube_client \<Rightarrow> 'w \<Rightarrow> pod_at \<Rightarrow> pod_place" where
  "place K w x = \<lparr>pp_namespace = pd_namespace x, pp_ns_labels = ns_labels K w (pd_namespace x),
                  pp_labels = pd_labels x\<rparr>"

definition policies :: "('w, 'q) kube_client \<Rightarrow> 'w \<Rightarrow> string \<Rightarrow> network_policy set" where
  "policies K w ns = {np. \<exists>n. kc_stored K (NetworkPolicyKind, ns, n) w = Some (KNetworkPolicy np)}"

definition applying :: "('w, 'q) kube_client \<Rightarrow> 'w \<Rightarrow> string \<Rightarrow> pod_at \<Rightarrow> network_policy set" where
  "applying K w direction x =
     {np \<in> policies K w (pd_namespace x).
        direction \<in> set (np_policyTypes np) \<and> matches (np_podSelector np) (pd_labels x)}"

text \<open>
  Policies add up. In a direction in which no policy applies to a pod everything is let through,
  otherwise what one of them admits; a connection needs both of its ends.
\<close>

definition let_out :: "blocks \<Rightarrow> ('w, 'q) kube_client \<Rightarrow> 'w \<Rightarrow> pod_at \<Rightarrow> pod_at \<Rightarrow> string \<Rightarrow> int \<Rightarrow> bool" where
  "let_out B K w x y proto port \<longleftrightarrow> applying K w ''Egress'' x = {}
     \<or> (\<exists>np\<in>applying K w ''Egress'' x. egress_admits B np (place K w y) proto port)"

definition let_in :: "blocks \<Rightarrow> ('w, 'q) kube_client \<Rightarrow> 'w \<Rightarrow> pod_at \<Rightarrow> pod_at \<Rightarrow> string \<Rightarrow> int \<Rightarrow> bool" where
  "let_in B K w x y proto port \<longleftrightarrow> applying K w ''Ingress'' y = {}
     \<or> (\<exists>np\<in>applying K w ''Ingress'' y. ingress_admits B np (place K w x) proto port)"

definition connects :: "blocks \<Rightarrow> ('w, 'q) kube_client \<Rightarrow> 'w \<Rightarrow> pod_at \<Rightarrow> pod_at \<Rightarrow> string \<Rightarrow> int \<Rightarrow> bool" where
  "connects B K w x y proto port \<longleftrightarrow> let_out B K w x y proto port \<and> let_in B K w x y proto port"


section \<open>Tenants under their policies\<close>

definition only_policy :: "('w, 'q) kube_client \<Rightarrow> config \<Rightarrow> tenant \<Rightarrow> 'w \<Rightarrow> bool" where
  \<comment> \<open>the namespace holds the policy of its tenant as the controller wrote it, and no other\<close>
  "only_policy K cfg t w \<longleftrightarrow>
     (\<exists>np. policies K w (namespace_name t) = {np}
        \<and> stored_as (KNetworkPolicy np :: 'q kobj) (KNetworkPolicy (buildNetworkPolicy cfg t)))"
  for K :: "('w, 'q) kube_client"

lemma stored_policy:
  assumes "stored_as (KNetworkPolicy np :: 'q kobj) (KNetworkPolicy b)"
  shows "np_podSelector np = np_podSelector b \<and> np_policyTypes np = np_policyTypes b
    \<and> ingress_admits B np = ingress_admits B b \<and> egress_admits B np = egress_admits B b"
proof -
  have e: "sent_meta (np_meta np) = sent_meta (np_meta b)" and
    same: "np_podSelector np = np_podSelector b" "np_policyTypes np = np_policyTypes b"
      "np_ingress np = np_ingress b" "np_egress np = np_egress b"
    using assms by (cases np; cases b; simp add: stored_as_def)+
  then show ?thesis using sent_meta_fields [OF e] by (simp add: fun_eq_iff ingress_admits_def egress_admits_def)
qed

lemma applying_only:
  assumes "only_policy K cfg t w" "pd_namespace x = namespace_name t" "d \<in> {''Ingress'', ''Egress''}"
  obtains np where "applying K w d x = {np}" "\<And>B. ingress_admits B np = ingress_admits B (buildNetworkPolicy cfg t)"
    "\<And>B. egress_admits B np = egress_admits B (buildNetworkPolicy cfg t)"
proof -
  obtain np where np: "policies K w (namespace_name t) = {np}"
      "stored_as (KNetworkPolicy np :: 'b kobj) (KNetworkPolicy (buildNetworkPolicy cfg t))"
    using assms(1) by (auto simp: only_policy_def)
  note s = stored_policy [OF np(2)]
  have "applying K w d x = {np}"
    using s np(1) assms(2,3)
    by (auto simp: applying_def buildNetworkPolicy_def Let_def matches_def any_pod_def)
  then show ?thesis using s that by blast
qed

lemma tenant_admits:
  "ingress_admits B (buildNetworkPolicy cfg t) x proto port \<longleftrightarrow> pp_namespace x = namespace_name t
      \<or> pp_ns_labels x ''name'' = Some ''k8s-mtp'' \<and> pp_labels x (cfg_PlatformAccessLabel cfg) = Some ''true''"
  "pp_namespace x = namespace_name t \<Longrightarrow> egress_admits B (buildNetworkPolicy cfg t) x proto port"
  by (auto simp: admits_defs)

lemma let_in_only:
  assumes "only_policy K cfg t w" "pd_namespace y = namespace_name t"
    and "ns_labels K w (pd_namespace x) ''name'' \<noteq> Some ''k8s-mtp''"
  shows "let_in B K w x y proto port \<longleftrightarrow> pd_namespace x = namespace_name t"
proof -
  obtain q where "applying K w ''Ingress'' y = {q}" "ingress_admits B q = ingress_admits B (buildNetworkPolicy cfg t)"
    by (rule applying_only [OF assms(1,2), of "''Ingress''"]) simp_all
  then show ?thesis using assms(3) by (simp add: let_in_def tenant_admits place_def)
qed

lemma let_out_own:
  assumes "only_policy K cfg t w" "pd_namespace x = namespace_name t" "pd_namespace y = namespace_name t"
  shows "let_out B K w x y proto port"
proof -
  obtain p where "applying K w ''Egress'' x = {p}" "egress_admits B p = egress_admits B (buildNetworkPolicy cfg t)"
    by (rule applying_only [OF assms(1,2), of "''Egress''"]) simp_all
  then show ?thesis using assms(3) by (simp add: let_out_def tenant_admits place_def)
qed


section \<open>What a run leaves behind\<close>

lemma built_policy_key:
  "obj_key (KNetworkPolicy (buildNetworkPolicy cfg t)) = (NetworkPolicyKind, namespace_name t, ''tenant-isolation'')"
  by (simp add: obj_key_def buildNetworkPolicy_def Let_def)

lemma created_if_missing:
  assumes "cluster_env K Q" "createOrUpdate K Q o1 w = (w', Ok ())" "kc_stored K (obj_key o1) w = None"
    "synced_at K (obj_key o1) w"
  obtains c where "kc_stored K (obj_key o1) w' = Some c" "stored_as c o1"
proof -
  note laws = cluster_envD [OF assms(1)]
  have none: "kc_get K (obj_key o1) v \<noteq> Ok x" if "kc_create K o1 w = (v, Err AlreadyExists)" for v x
    using read_existing [OF laws(1,3) assms(4) that] assms(3) by simp
  from assms(2) show ?thesis
  proof (cases rule: createOrUpdate_Ok_cases)
    case (created c)
    then show ?thesis using create_Ok(2,4) [OF laws(1) created] that by blast
  qed (use none in blast)+
qed

lemma run_policies:
  assumes "cluster_env K Q" "synced K (wd_kube w)" "to_build K name w t" "Reconcile P K Q cfg name w = (w', Ok r)"
  shows "k \<noteq> namespace_name t \<or> n \<noteq> ''tenant-isolation'' \<Longrightarrow>
      kc_stored K (NetworkPolicyKind, k, n) (wd_kube w') = kc_stored K (NetworkPolicyKind, k, n) (wd_kube w)"
    and "kc_stored K (NetworkPolicyKind, namespace_name t, ''tenant-isolation'') (wd_kube w) = None \<Longrightarrow>
      \<exists>c. kc_stored K (NetworkPolicyKind, namespace_name t, ''tenant-isolation'') (wd_kube w') = Some c
        \<and> stored_as c (KNetworkPolicy (buildNetworkPolicy cfg t))"
proof -
  note laws = cluster_envD [OF assms(1)]
  let ?np = "KNetworkPolicy (buildNetworkPolicy cfg t)"
  obtain quota limits k1 tt k2 t2 where q: "buildResourceQuota Q t = (Ok quota :: (rec_error, _) res)"
    and k1: "ensure_all (createOrUpdate K Q) (desired_before t quota) (wd_kube w) = (k1, Ok ())"
    and k2: "kc_update_status K tt k1 = (k2, Ok t2)"
    and k3: "ensure_all (createOrUpdate K Q) [?np, KLimitRange limits] k2 = (wd_kube w', Ok ())"
    by (rule reconcileCreateOrUpdate_Ok [OF assms(4) [unfolded Reconcile_build [OF assms(3)]] laws(1)
          to_build_held(1) [OF laws(2) assms(2,3)]])
  have qk: "kind_of quota = QuotaKind" using buildResourceQuota_Ok [OF q] by blast
  have before: "kc_stored K (NetworkPolicyKind, j, m) k2 = kc_stored K (NetworkPolicyKind, j, m) (wd_kube w)" for j m
  proof -
    have "(NetworkPolicyKind, j, m) \<notin> obj_key ` set (desired_before t quota)"
      using qk by (auto simp: desired_before_def obj_key_def)
    from cu.all_frame [OF assms(1) k1 this] show ?thesis using update_status_Ok(1) [OF laws(1) k2] by simp
  qed
  have "obj_key ?np \<notin> obj_key ` set (desired_before t quota)"
    using qk by (auto simp: desired_before_def obj_key_def)
  from cu.all_ready [OF assms(1) k1 this syncedD(1) [OF assms(2)]]
  have read: "synced_at K (obj_key ?np) k2" by (rule update_status_synced [OF laws(1,3) k2 refl])
  obtain k4 where k4: "createOrUpdate K Q ?np k2 = (k4, Ok ())" "createOrUpdate K Q (KLimitRange limits) k4 = (wd_kube w', Ok ())"
    using k3 by (auto simp: ensure_all_Cons_Ok simp del: ensure_all.simps(2))
  have last: "kc_stored K (NetworkPolicyKind, j, m) (wd_kube w') = kc_stored K (NetworkPolicyKind, j, m) k4" for j m
    by (rule cu.ensure_frame [OF assms(1) k4(2)]) (simp add: obj_key_def)
  show "kc_stored K (NetworkPolicyKind, k, n) (wd_kube w') = kc_stored K (NetworkPolicyKind, k, n) (wd_kube w)"
    if "k \<noteq> namespace_name t \<or> n \<noteq> ''tenant-isolation''"
    using that cu.ensure_frame [OF assms(1) k4(1), of "(NetworkPolicyKind, k, n)"] by (auto simp: last before built_policy_key)
  show "\<exists>c. kc_stored K (NetworkPolicyKind, namespace_name t, ''tenant-isolation'') (wd_kube w') = Some c \<and> stored_as c ?np"
    if "kc_stored K (NetworkPolicyKind, namespace_name t, ''tenant-isolation'') (wd_kube w) = None"
    using created_if_missing [OF assms(1) k4(1) _ read] that by (metis before last built_policy_key)
qed

lemma stored_as_policy: "stored_as c (KNetworkPolicy b) \<Longrightarrow> \<exists>np. c = KNetworkPolicy np"
  by (cases c) (simp_all add: stored_as_def)

lemma run_isolates:
  assumes "cluster_env K Q" "synced K (wd_kube w)" "to_build K name w t" "Reconcile P K Q cfg name w = (w', Ok r)"
    and "\<And>n. kc_stored K (NetworkPolicyKind, namespace_name t, n) (wd_kube w) = None"
  shows "only_policy K cfg t (wd_kube w')"
proof -
  obtain c where c: "kc_stored K (NetworkPolicyKind, namespace_name t, ''tenant-isolation'') (wd_kube w') = Some c"
      "stored_as c (KNetworkPolicy (buildNetworkPolicy cfg t))"
    using run_policies(2) [OF assms(1-4) assms(5)] by blast
  obtain np where np: "c = KNetworkPolicy np" using stored_as_policy [OF c(2)] by blast
  have "policies K (wd_kube w') (namespace_name t) = {np}"
  proof -
    have "n = ''tenant-isolation''" if "kc_stored K (NetworkPolicyKind, namespace_name t, n) (wd_kube w') = Some x" for n x
      using run_policies(1) [OF assms(1-4), of "namespace_name t" n] assms(5) [of n] that by auto
    then show ?thesis using c(1) np by (auto simp: policies_def)
  qed
  then show ?thesis using c(2) np by (auto simp: only_policy_def)
qed

lemma run_keeps_policy:
  assumes "cluster_env K Q" "synced K (wd_kube w)" "to_build K name w t" "Reconcile P K Q cfg name w = (w', Ok r)"
    and "only_policy K cfg t' (wd_kube w)" "namespace_name t' \<noteq> namespace_name t"
  shows "only_policy K cfg t' (wd_kube w')"
  using assms(5) run_policies(1) [OF assms(1-4), of "namespace_name t'"] assms(6)
  by (simp add: only_policy_def policies_def)

text \<open>
  C6: Tenants are isolated. Take two tenants that have the finalizer and are not being deleted, whose own
  names differ and have no dash, in namespaces that hold no policy; let a run for each succeed, each
  from a cache in step with the server, with no other writer between. Unless one of the
  two namespaces is labelled as the platform's, no pod of one then reaches a pod of the other, in either
  direction, on whatever port, whatever labels the pods carry, whatever the egress setting is
  and whatever pods the address blocks cover; pods of one tenant reach each other.
\<close>

theorem reconciled_tenants_isolated:
  assumes "cluster_env K Q"
    and "synced K (wd_kube w)" and "to_build K name w t" and "Reconcile P K Q cfg name w = (w1, Ok r)"
    and "catches_up K (wd_kube w1) k"
    and "to_build K name' (w1\<lparr>wd_kube := k\<rparr>) t'" and "Reconcile P K Q cfg name' (w1\<lparr>wd_kube := k\<rparr>) = (w2, Ok r')"
    and "CHR ''-'' \<notin> set (tname t)" and "CHR ''-'' \<notin> set (tname t')" and "tname t \<noteq> tname t'"
    and "\<And>n. kc_stored K (NetworkPolicyKind, namespace_name t, n) (wd_kube w) = None"
    and "\<And>n. kc_stored K (NetworkPolicyKind, namespace_name t', n) (wd_kube w) = None"
    and "ns_labels K (wd_kube w2) (namespace_name t) ''name'' \<noteq> Some ''k8s-mtp''"
    and "ns_labels K (wd_kube w2) (namespace_name t') ''name'' \<noteq> Some ''k8s-mtp''"
    and "pd_namespace x = namespace_name t" and "pd_namespace x' = namespace_name t" and "pd_namespace y = namespace_name t'"
  shows "\<not> connects B K (wd_kube w2) x y proto port \<and> \<not> connects B K (wd_kube w2) y x proto port
    \<and> connects B K (wd_kube w2) x x' proto port"
proof -
  have ns: "namespace_name t \<noteq> namespace_name t'" using namespace_name_inj [OF _ assms(8,9)] assms(10) by blast
  note up = catches_upD [OF assms(5)]
  have read: "synced K (wd_kube (w1\<lparr>wd_kube := k\<rparr>))" using up(3) by simp
  have same: "policies K k n = policies K (wd_kube w1) n" for n by (simp add: policies_def up(1))
  have "only_policy K cfg t (wd_kube w1)" by (rule run_isolates [OF assms(1-4,11)])
  then have "only_policy K cfg t (wd_kube (w1\<lparr>wd_kube := k\<rparr>))" by (simp add: only_policy_def same)
  then have t: "only_policy K cfg t (wd_kube w2)" by (rule run_keeps_policy [OF assms(1) read assms(6,7) _ ns])
  have "kc_stored K (NetworkPolicyKind, namespace_name t', n) (wd_kube (w1\<lparr>wd_kube := k\<rparr>)) = None" for n
    using run_policies(1) [OF assms(1-4), of "namespace_name t'" n] ns assms(12) by (simp add: up(1))
  then have t': "only_policy K cfg t' (wd_kube w2)" by (rule run_isolates [OF assms(1) read assms(6,7)])
  show ?thesis
    using let_in_only [OF t', of y x B] let_in_only [OF t, of x y B] let_in_only [OF t, of x' x B] let_out_own [OF t, of x x' B]
      assms(13-17) ns by (auto simp: connects_def)
qed

text \<open>Two tenants of a cluster in memory; the second already has its namespace in its status.\<close>

definition second_tenant :: tenant where
  "second_tenant = demo_tenant\<lparr>t_meta := (t_meta demo_tenant)\<lparr>om_name := ''globex'', om_uid := ''u2''\<rparr>,
     t_spec := (t_spec demo_tenant)\<lparr>ts_name := ''shop''\<rparr>,
     t_status := (t_status demo_tenant)\<lparr>tst_namespace := ''tenant-globex-shop''\<rparr>\<rparr>"

definition two_tenant_world :: "string mem_cluster world" where
  "two_tenant_world = \<lparr>wd_kube = mem_with [demo_tenant, second_tenant], wd_db = empty_db\<rparr>"

definition after_both :: "string mem_cluster world" where
  "after_both = fst (Reconcile plain_pg mem_client text_quantities demo_config ''globex'' (fst (demo_run two_tenant_world)))"

lemma both_runs:
  "snd (demo_run two_tenant_world) = Ok \<lparr>cr_Requeue = False\<rparr>"
  "snd (Reconcile plain_pg mem_client text_quantities demo_config ''globex'' (fst (demo_run two_tenant_world)))
     = Ok \<lparr>cr_Requeue = False\<rparr>"
  by code_simp+

lemma both_build:
  "to_build mem_client ''acme'' two_tenant_world demo_tenant"
  "to_build mem_client ''globex'' (fst (demo_run two_tenant_world)) second_tenant"
  by code_simp+

lemma both_names:
  "namespace_name demo_tenant = ''tenant-acme-web''" "namespace_name second_tenant = ''tenant-globex-shop''"
  "tname demo_tenant = ''acme''" "tname second_tenant = ''globex''"
  by code_simp+

lemma both_labels:
  "ns_labels mem_client (wd_kube after_both) ''tenant-acme-web'' ''name'' = None"
  "ns_labels mem_client (wd_kube after_both) ''tenant-globex-shop'' ''name'' = None"
  by code_simp+

theorem reconciled_tenants_isolated_witness:
  "\<not> connects (\<lambda>_ _. True) mem_client (wd_kube after_both) \<lparr>pd_namespace = ''tenant-acme-web'', pd_labels = Map.empty\<rparr>
       \<lparr>pd_namespace = ''tenant-globex-shop'', pd_labels = [''app'' \<mapsto> ''db'']\<rparr> ''TCP'' 5432"
proof -
  have none: "kc_stored mem_client k (wd_kube two_tenant_world) = None" for k
    by (simp add: two_tenant_world_def mem_with_empty)
  let ?x = "\<lparr>pd_namespace = ''tenant-acme-web'', pd_labels = Map.empty\<rparr>"
    and ?y = "\<lparr>pd_namespace = ''tenant-globex-shop'', pd_labels = [''app'' \<mapsto> ''db'']\<rparr>"
  let ?w1 = "fst (demo_run two_tenant_world)"
  let ?run2 = "Reconcile plain_pg mem_client text_quantities demo_config ''globex''"
  have first: "Reconcile plain_pg mem_client text_quantities demo_config ''acme'' two_tenant_world = (?w1, Ok \<lparr>cr_Requeue = False\<rparr>)"
    using answered [OF both_runs(1)] by (simp add: demo_run_def)
  have build: "to_build mem_client ''globex'' (?w1\<lparr>wd_kube := wd_kube ?w1\<rparr>) second_tenant" using both_build(2) by simp
  have second: "?run2 (?w1\<lparr>wd_kube := wd_kube ?w1\<rparr>) = (after_both, Ok \<lparr>cr_Requeue = False\<rparr>)"
    using answered [OF both_runs(2)] by (simp add: after_both_def)
  show ?thesis
    using reconciled_tenants_isolated [where x = ?x and x' = ?x and y = ?y and B = "\<lambda>_ _. True",
        OF demo_env mem_client_synced both_build(1) first mem_catches_up build second _ _ _ none none]
      both_labels
    by (simp add: both_names)
qed

end
