(* ===== verification/Spec2Isabelle.thy ===== *)
theory Spec2Isabelle
  imports Lifecycle Cli_Props Deep_Copy Registry Config_Env Drift_Builders Reconciler_Retry Isolation
begin

text \<open>
  k8s-mtp, a multi-tenant platform for Kubernetes: a development beside its Go code.

  The program. Three servers and a client share a PostgreSQL database and a cluster.
  The controller (\<open>cmd/controller\<close>, \<open>internal/reconciler\<close>) turns every \<open>Tenant\<close> resource into a
  namespace, a quota, two roles with their bindings, a network policy and a limit range, and keeps
  a row for it. Before it starts it puts the webhook in place (\<open>internal/webhook\<close>, \<open>pkg/webhook\<close>).
  The webhook server (\<open>cmd/webhook\<close>) reviews and labels the pods of tenants. The API server
  (\<open>cmd/api\<close>, \<open>internal/server\<close>, \<open>internal/handlers\<close>, \<open>internal/middleware\<close>) edits rows over HTTP,
  for the command line client (\<open>cmd/cli\<close>) among others. \<open>internal/config\<close> and \<open>internal/store\<close> are
  shared.

  Conventions (\<open>MTP_Prelude\<close>, \<open>Go_Text\<close>, \<open>K8s_Types\<close>). A Go call is a value of type \<open>res\<close>: a
  result, an error or a panic, and calls over a state are sequenced by \<open>then_try\<close>. Strings are
  byte lists, maps association lists read by \<open>map_of\<close>, a nil pointer is \<open>None\<close>. Go's \<open>int\<close> is
  \<open>int\<close> where the code only compares it and a 64-bit word where it overflows. Code outside the
  repository is an argument: a record of functions (\<open>kube_client\<close>, \<open>direct_client\<close>, \<open>pg\<close>,
  \<open>quantity_api\<close>, \<open>crypto\<close>, \<open>webhook_codec\<close>, \<open>http_env\<close>, \<open>auth_env\<close>, \<open>cli_env\<close>, \<open>sql_api\<close>,
  \<open>ctrl_runtime\<close>, \<open>host\<close>), and what the code relies on is a law named after it (\<open>api_laws\<close>,
  \<open>cache_law\<close>, \<open>tenant_laws\<close>, \<open>server_works\<close>, \<open>direct_laws\<close>, \<open>pg_laws\<close>, \<open>crypto_laws\<close>,
  \<open>quantity_laws\<close>, \<open>file_laws\<close>), which a concrete instance is proved to satisfy (\<open>mem_client\<close>,
  \<open>mem_direct\<close>, \<open>plain_pg\<close>, \<open>demo_crypto\<close>, \<open>text_quantities\<close>); the witnesses run on these.

  The cluster as the controller sees it (\<open>Kube\<close>). It writes to the API server and reads through a cache,
  which lags: no law says that a read is current. A result that needs a current cache says so of
  the state it starts from (\<open>synced\<close>), and between two runs lets it catch up (\<open>catches_up\<close>). The server
  refuses an update of another version than the one it holds, a creation in a namespace that is
  missing or going, and a change of the role of a binding; which objects its admission accepts is
  a parameter. Results on progress say what must not be in the way (\<open>unobstructed\<close>). Unless a theorem
  models other writers, as \<open>Controller_System\<close> does, no one else writes during the runs it speaks of.

  Theories, in the order of the imports.

  \<^item> \<open>Config\<close>, \<open>Config_Env\<close>: \<open>internal/config/config.go\<close>. \<open>Load\<close> with its sources, \<open>envParse\<close>,
    \<open>overrideCfg\<close>, \<open>validateCfg\<close>. Validation is characterised and idempotent, the environment wins,
    printing and parsing an \<open>.env\<close> file is a round trip.
  \<^item> \<open>Webhook_Server\<close>: the handlers of \<open>cmd/webhook/main.go\<close>. The validating handler decides by
    \<open>hardened_pod\<close>; the locale \<open>container_check\<close> holds the argument once for ordinary and ephemeral
    containers. The patches of the mutating handler are applied by the rules of JSON Patch.
  \<^item> \<open>Resources\<close>, \<open>Drift\<close>, \<open>Drift_Builders\<close>: the builders and the \<open>needsUpdate\<close> functions of
    \<open>internal/reconciler/tenant_reconciler.go\<close>. What the roles and the network policy allow is
    stated over the semantics of RBAC, with its wildcards, subresources and resource names, and of network
    policies, where the pods that an address block covers are a parameter; the locale \<open>drift_check\<close>, with six
    interpretations, says what a comparison sees of an object.
  \<^item> \<open>Store\<close>, \<open>Store_Props\<close>, \<open>Store_Contract\<close>: \<open>internal/store\<close>, one definition for each statement,
    with statements that fail before or after they run. The constraints of the schema are an
    invariant of all reachable databases; the locales \<open>tenant_store\<close> and \<open>role_store\<close> are what
    clients use.
  \<^item> \<open>Kube\<close>, \<open>Ensure\<close>, \<open>Reconciler\<close> and its \<open>_Props\<close>, \<open>_Faults\<close>, \<open>_Progress\<close>: the API server as the
    controller sees it, and \<open>Reconcile\<close> with all it calls. A successful run refines its
    specification (all objects in place, the status Active); a new tenant that nothing obstructs gets
    there in two runs and a deleted one goes in one, if the servers answer; the loop of requeues ends
    whether they do or not, by at most one repetition, because the server refuses to add the
    finalizer twice.
  \<^item> \<open>Reconciler_Retry\<close>: the loop of the controller runtime over runs that fail. If the database answers
    from some statement on, it returns, with the tenant in its end state or, when it is being
    deleted, gone. The measure is the number of statements that may still fail.
  \<^item> \<open>Watches\<close>: \<open>SetupWithManager\<close>, and which changes in the cluster start a run: those of the
    resource itself, and none of the objects the controller owns.
  \<^item> \<open>Isolation\<close>: pods of different tenants that the controller reconciled do not reach each other.
  \<^item> \<open>Controller_System\<close>: the controller in an environment that may change the cluster and the database
    in any way between runs, an inductive relation with a history of who did what. Its invariant is
    that a row outlives its resource only by someone else's doing. A run is one step.
  \<^item> \<open>Handlers\<close>, \<open>Rate_Limit\<close>, \<open>Auth\<close>, \<open>Server\<close>, \<open>Server_Props\<close>, \<open>Server_Types\<close>: the API server, from
    the routes through the limiter and the authentication to the handlers. The type of its answers,
    what unauthenticated requests cannot do, what POST and DELETE mean for later requests, and
    bounds of the limiter, whose floats are reals with an explicit rounding.
  \<^item> \<open>Registry\<close>: the abstract specification of the API server, a registry of tenants and of the roles
    of members. The locale \<open>simulation\<close> is a forward simulation of a step function by a relation; its
    interpretation on \<open>serve\<close> says that every sequence of requests is answered as the registry
    answers, with any statement failing.
  \<^item> \<open>TLS\<close>, \<open>Webhook_Manager\<close>, \<open>Webhook_Install\<close>: \<open>pkg/webhook/tls.go\<close> and
    \<open>internal/webhook/manager.go\<close>. The locale \<open>creator\<close> of \<open>Ensure\<close> is the contract of a step that
    creates what is missing; \<open>EnsureAll\<close> is a sequence of such steps.
  \<^item> \<open>Platform\<close>: the objects of the manager, the routes, port and files of the webhook server and the
    labels of the controller put together: the pods of tenants are reviewed, and the server has the
    certificate that the clients of the configurations trust, on the port their service forwards to.
  \<^item> \<open>Cli\<close>, \<open>Cli_Props\<close>: \<open>cmd/cli\<close>. Which runs succeed, over all arguments, and that a command of
    the API has the effect of one request to its endpoint, with the model of the API server as the network
    and the path as it follows from the URL that is sent.
  \<^item> \<open>Deep_Copy\<close>: the deep copies of \<open>pkg/api/v1/types.go\<close> over an explicit heap, where sharing shows.
  \<^item> \<open>Startup\<close>, \<open>Lifecycle\<close>: opening and migrating the database, the \<open>main\<close> function of \<open>cmd/controller\<close>
    to its exit status, that of \<open>cmd/api\<close> up to the point where it serves, and the life of the API
    server from there to its exit, a state machine over the signals and the returns of its calls.

  Bounds. No definition needs fuel: the recursions of the model are structural, and the loops that
  could run forever, the requeues and the retries of the controller runtime, are partial functions
  that are proved to return.

  Not modelled, and why. Logging and metrics have no effect on the state. The effect of timeouts and the
  transport of HTTP and TLS belong to Go's library, as do redirects of unclean paths. The manager is the
  controller runtime's: its documented behaviour stands for it, that \<open>Owns\<close> follows controller
  references alone, that failed and panicked runs are repeated, and that runs of one tenant are taken
  one after the other. \<open>WithContext\<close> of
  \<open>internal/server/logger.go\<close> and \<open>NewTestDB\<close> are used by no program. \<open>audit_logs\<close> of the schema is
  touched by no code. The mutexes of the limiter and of the key set make their sections atomic, and
  a step of the model is such a section. Images, charts, Terraform and tests are not part of the
  programs.
\<close>

end
